(* ===== verification/Adivento_Prelude.thy ===== *)
theory Adivento_Prelude
  imports Complex_Main "HOL-Library.Log_Nat" "HOL-Library.Multiset"
begin

text \<open>
  What the other theories share: the collections their lemmas are declared into, and list lemmas about
  the JavaScript idioms the code uses over and over (\<open>filter\<close> with \<open>includes\<close>, \<open>indexOf\<close>, \<open>splice\<close>,
  \<open>join\<close>).
\<close>

named_theorems view_defs \<open>the abbreviations that build element trees\<close>

subsection \<open>Array idioms\<close>

text \<open>\<open>xs.indexOf(x)\<close>: the first index of \<open>x\<close>, or \<open>-1\<close>.\<close>

fun index_of :: "'a \<Rightarrow> 'a list \<Rightarrow> int" where
  "index_of x [] = -1"
| "index_of x (y # ys) =
     (if y = x then 0 else if index_of x ys = -1 then -1 else 1 + index_of x ys)"

text \<open>\<open>xs.splice(i, 0, x)\<close> for \<open>0 \<le> i\<close>: insert \<open>x\<close> before index \<open>i\<close> (at the end when \<open>i\<close> is past it).\<close>

definition splice_in :: "nat \<Rightarrow> 'a \<Rightarrow> 'a list \<Rightarrow> 'a list" where
  "splice_in i x xs = take i xs @ x # drop i xs"

text \<open>\<open>xs.join(sep)\<close>.\<close>

fun join_with :: "'a list \<Rightarrow> 'a list list \<Rightarrow> 'a list" where
  "join_with sep [] = []"
| "join_with sep [x] = x"
| "join_with sep (x # y # ys) = x @ sep @ join_with sep (y # ys)"

lemma index_of_bounds: "-1 \<le> index_of x xs \<and> index_of x xs < int (length xs)"
  by (induction xs) auto

lemma index_of_absent [simp]: "index_of x xs = -1 \<longleftrightarrow> x \<notin> set xs"
proof (induction xs)
  case (Cons y ys)
  have "-1 \<le> index_of x ys" using index_of_bounds [of x ys] by simp
  with Cons show ?case by auto
qed simp

lemma index_of_nonneg: "x \<in> set xs \<Longrightarrow> 0 \<le> index_of x xs"
  using index_of_bounds [of x xs] index_of_absent [of x xs] by linarith

lemma nth_index_of: "x \<in> set xs \<Longrightarrow> xs ! nat (index_of x xs) = x"
proof (induction xs)
  case (Cons y ys)
  show ?case
  proof (cases "y = x")
    case False
    with Cons have mem: "x \<in> set ys" and nn: "0 \<le> index_of x ys"
      by (auto intro: index_of_nonneg)
    then have "nat (1 + index_of x ys) = Suc (nat (index_of x ys))" by simp
    with False mem nn Cons.IH show ?thesis by auto
  qed simp
qed simp

lemma index_of_nth: "distinct xs \<Longrightarrow> i < length xs \<Longrightarrow> index_of (xs ! i) xs = int i"
proof (induction xs arbitrary: i)
  case (Cons y ys)
  show ?case
  proof (cases i)
    case (Suc j)
    with Cons have "index_of (ys ! j) ys = int j" and "y \<noteq> ys ! j" by auto
    with Suc show ?thesis by simp
  qed simp
qed simp

lemma mset_splice_in: "mset (splice_in i x xs) = add_mset x (mset xs)"
proof -
  have "mset xs = mset (take i xs) + mset (drop i xs)"
    by (metis append_take_drop_id mset_append)
  then show ?thesis by (simp add: splice_in_def)
qed

lemma set_splice_in [simp]: "set (splice_in i x xs) = insert x (set xs)"
  by (metis mset_splice_in set_mset_add_mset_insert set_mset_mset)

lemma length_splice_in [simp]: "length (splice_in i x xs) = Suc (length xs)"
  by (metis mset_splice_in size_add_mset size_mset)

lemma distinct_splice_in: "distinct (splice_in i x xs) \<longleftrightarrow> x \<notin> set xs \<and> distinct xs"
proof -
  have "mset (splice_in i x xs) = mset (x # xs)" by (simp add: mset_splice_in)
  then have "distinct (splice_in i x xs) \<longleftrightarrow> distinct (x # xs)"
    by (rule mset_eq_imp_distinct_iff)
  then show ?thesis by simp
qed

lemma index_of_splice_in:
  assumes "x \<notin> set xs" and "i \<le> length xs"
  shows "index_of x (splice_in i x xs) = int i"
  using assms
proof (induction xs arbitrary: i)
  case Nil
  then show ?case by (simp add: splice_in_def)
next
  case (Cons y ys)
  show ?case
  proof (cases i)
    case 0
    then show ?thesis by (simp add: splice_in_def)
  next
    case (Suc j)
    with Cons have "index_of x (splice_in j x ys) = int j" and "y \<noteq> x" by auto
    with Suc show ?thesis by (simp add: splice_in_def)
  qed
qed

lemma mset_filter_remove:
  assumes "distinct xs" and "x \<in> set xs"
  shows "add_mset x (mset (filter (\<lambda>k. k \<noteq> x) xs)) = mset xs"
  using assms
proof (induction xs)
  case (Cons y ys)
  show ?case
  proof (cases "y = x")
    case True
    with Cons.prems have "filter (\<lambda>k. k \<noteq> x) ys = ys"
      by (auto simp: filter_id_conv)
    with True show ?thesis by simp
  next
    case False
    with Cons show ?thesis by (auto simp: add_mset_commute)
  qed
qed simp

end
