(* ===== verification/Dom.thy ===== *)
theory Dom
  imports Adivento_Prelude
begin

text \<open>
  The part of the browser's document the scripts touch. A document is a number of elements in
  document order, each with its parent, its tag, classes, attributes, text, \<open>hidden\<close> flag, inner markup, inline
  style and (for a field) value. Inner markup and text are kept as the strings last assigned to
  them; an assignment does not add or remove elements of the document. An
  element's parent comes before it in document order, which makes the walk to the ancestors
  (\<open>closest\<close>) terminate; the walk stops where a number does not obey this.
\<close>

record elem =
  e_parent :: "nat option"
  e_tag :: string
  e_classes :: "string list"
  e_attrs :: "string \<rightharpoonup> string"
  e_text :: string
  e_hidden :: bool
  e_html :: string
  e_style :: "string \<rightharpoonup> string"
  e_value :: string

record dom =
  d_size :: nat
  d_el :: "nat \<Rightarrow> elem"

definition blank_elem :: elem where
  "blank_elem = \<lparr>e_parent = Some 0, e_tag = ''div'', e_classes = [], e_attrs = Map.empty, e_text = [],
     e_hidden = False, e_html = [], e_style = Map.empty, e_value = []\<rparr>"

definition wf_dom :: "dom \<Rightarrow> bool" where
  "wf_dom d \<longleftrightarrow> (\<forall>n < d_size d. \<forall>p. e_parent (d_el d n) = Some p \<longrightarrow> p < n)"

subsection \<open>Reading\<close>

definition has_class :: "dom \<Rightarrow> string \<Rightarrow> nat \<Rightarrow> bool" where
  "has_class d c n \<longleftrightarrow> c \<in> set (e_classes (d_el d n))"

definition get_attr :: "dom \<Rightarrow> string \<Rightarrow> nat \<Rightarrow> string option" where
  "get_attr d a n = e_attrs (d_el d n) a"

definition has_attr :: "dom \<Rightarrow> string \<Rightarrow> nat \<Rightarrow> bool" where
  "has_attr d a n \<longleftrightarrow> get_attr d a n \<noteq> None"

definition parent :: "dom \<Rightarrow> nat \<Rightarrow> nat option" where
  "parent d n = e_parent (d_el d n)"

text \<open>The first of \<open>n\<close> and its ancestors that satisfies \<open>P\<close>: \<open>el.closest(sel)\<close>.\<close>

function closest :: "dom \<Rightarrow> (nat \<Rightarrow> bool) \<Rightarrow> nat \<Rightarrow> nat option" where
  "closest d P n =
     (if P n then Some n
      else case parent d n of
          Some p \<Rightarrow> if p < n then closest d P p else None
        | None \<Rightarrow> None)"
  by pat_completeness auto
termination
  by (relation "measure (\<lambda>(d, P, n). n)") auto

declare closest.simps [simp del]

text \<open>\<open>a.contains(n)\<close>: \<open>n\<close> is \<open>a\<close> or below it.\<close>

definition contains :: "dom \<Rightarrow> nat \<Rightarrow> nat \<Rightarrow> bool" where
  "contains d a n \<longleftrightarrow> closest d (\<lambda>x. x = a) n \<noteq> None"

text \<open>A strict descendant, as \<open>querySelectorAll\<close> on an element selects.\<close>

definition below :: "dom \<Rightarrow> nat \<Rightarrow> nat \<Rightarrow> bool" where
  "below d a n \<longleftrightarrow> n \<noteq> a \<and> contains d a n"

definition query_all :: "dom \<Rightarrow> (nat \<Rightarrow> bool) \<Rightarrow> nat list" where
  "query_all d P = filter P [0..<d_size d]"

definition query_first :: "dom \<Rightarrow> (nat \<Rightarrow> bool) \<Rightarrow> nat option" where
  "query_first d P = (case query_all d P of [] \<Rightarrow> None | n # _ \<Rightarrow> Some n)"

subsection \<open>Writing\<close>

definition upd_el :: "(elem \<Rightarrow> elem) \<Rightarrow> nat \<Rightarrow> dom \<Rightarrow> dom" where
  "upd_el f n d = d\<lparr>d_el := (d_el d)(n := f (d_el d n))\<rparr>"

definition add_class :: "string \<Rightarrow> nat \<Rightarrow> dom \<Rightarrow> dom" where
  "add_class c = upd_el (\<lambda>e. if c \<in> set (e_classes e) then e else e\<lparr>e_classes := e_classes e @ [c]\<rparr>)"

definition remove_class :: "string \<Rightarrow> nat \<Rightarrow> dom \<Rightarrow> dom" where
  "remove_class c = upd_el (\<lambda>e. e\<lparr>e_classes := filter (\<lambda>x. x \<noteq> c) (e_classes e)\<rparr>)"

definition set_attr :: "string \<Rightarrow> string \<Rightarrow> nat \<Rightarrow> dom \<Rightarrow> dom" where
  "set_attr a v = upd_el (\<lambda>e. e\<lparr>e_attrs := (e_attrs e)(a \<mapsto> v)\<rparr>)"

definition set_text :: "string \<Rightarrow> nat \<Rightarrow> dom \<Rightarrow> dom" where
  "set_text s = upd_el (\<lambda>e. e\<lparr>e_text := s\<rparr>)"

definition set_hidden :: "bool \<Rightarrow> nat \<Rightarrow> dom \<Rightarrow> dom" where
  "set_hidden b = upd_el (\<lambda>e. e\<lparr>e_hidden := b\<rparr>)"

definition set_html :: "string \<Rightarrow> nat \<Rightarrow> dom \<Rightarrow> dom" where
  "set_html s = upd_el (\<lambda>e. e\<lparr>e_html := s\<rparr>)"

definition set_style :: "string \<Rightarrow> string \<Rightarrow> nat \<Rightarrow> dom \<Rightarrow> dom" where
  "set_style k v = upd_el (\<lambda>e. e\<lparr>e_style := (e_style e)(k \<mapsto> v)\<rparr>)"

definition set_value :: "string \<Rightarrow> nat \<Rightarrow> dom \<Rightarrow> dom" where
  "set_value s = upd_el (\<lambda>e. e\<lparr>e_value := s\<rparr>)"

text \<open>\<open>nodes.forEach(f)\<close>.\<close>

definition for_each :: "(nat \<Rightarrow> dom \<Rightarrow> dom) \<Rightarrow> nat list \<Rightarrow> dom \<Rightarrow> dom" where
  "for_each f ns d = fold f ns d"

subsection \<open>What an update changes\<close>

lemma d_size_upd_el [simp]: "d_size (upd_el f n d) = d_size d"
  by (simp add: upd_el_def)

lemma d_el_upd_el: "d_el (upd_el f n d) m = (if m = n then f (d_el d n) else d_el d m)"
  by (simp add: upd_el_def)

lemmas dom_upd_defs = add_class_def remove_class_def set_attr_def set_text_def set_hidden_def
  set_html_def set_style_def set_value_def

lemma d_size_upd [simp]:
  "d_size (add_class k n d) = d_size d"
  "d_size (remove_class k n d) = d_size d"
  "d_size (set_attr b v n d) = d_size d"
  "d_size (set_text s n d) = d_size d"
  "d_size (set_hidden h n d) = d_size d"
  "d_size (set_html s n d) = d_size d"
  "d_size (set_style b v n d) = d_size d"
  "d_size (set_value s n d) = d_size d"
  by (simp_all add: dom_upd_defs)

lemma parent_upd [simp]:
  "parent (add_class k n d) m = parent d m"
  "parent (remove_class k n d) m = parent d m"
  "parent (set_attr b v n d) m = parent d m"
  "parent (set_text s n d) m = parent d m"
  "parent (set_hidden h n d) m = parent d m"
  "parent (set_html s n d) m = parent d m"
  "parent (set_style b v n d) m = parent d m"
  "parent (set_value s n d) m = parent d m"
  by (simp_all add: dom_upd_defs parent_def d_el_upd_el)

lemma get_attr_upd [simp]:
  "get_attr (add_class k n d) a m = get_attr d a m"
  "get_attr (remove_class k n d) a m = get_attr d a m"
  "get_attr (set_attr b v n d) a m = (if m = n \<and> a = b then Some v else get_attr d a m)"
  "get_attr (set_text s n d) a m = get_attr d a m"
  "get_attr (set_hidden h n d) a m = get_attr d a m"
  "get_attr (set_html s n d) a m = get_attr d a m"
  "get_attr (set_style b v n d) a m = get_attr d a m"
  "get_attr (set_value s n d) a m = get_attr d a m"
  by (simp_all add: dom_upd_defs get_attr_def d_el_upd_el)

lemma has_class_upd [simp]:
  "has_class (add_class k n d) c m = (m = n \<and> c = k \<or> has_class d c m)"
  "has_class (remove_class k n d) c m = (\<not> (m = n \<and> c = k) \<and> has_class d c m)"
  "has_class (set_attr b v n d) c m = has_class d c m"
  "has_class (set_text s n d) c m = has_class d c m"
  "has_class (set_hidden h n d) c m = has_class d c m"
  "has_class (set_html s n d) c m = has_class d c m"
  "has_class (set_style b v n d) c m = has_class d c m"
  "has_class (set_value s n d) c m = has_class d c m"
  by (auto simp: dom_upd_defs has_class_def d_el_upd_el)

lemma e_tag_upd [simp]:
  "e_tag (d_el (add_class k n d) m) = e_tag (d_el d m)"
  "e_tag (d_el (remove_class k n d) m) = e_tag (d_el d m)"
  "e_tag (d_el (set_attr b v n d) m) = e_tag (d_el d m)"
  "e_tag (d_el (set_text s n d) m) = e_tag (d_el d m)"
  "e_tag (d_el (set_hidden h n d) m) = e_tag (d_el d m)"
  "e_tag (d_el (set_html s n d) m) = e_tag (d_el d m)"
  "e_tag (d_el (set_style b v n d) m) = e_tag (d_el d m)"
  "e_tag (d_el (set_value s n d) m) = e_tag (d_el d m)"
  by (simp_all add: dom_upd_defs d_el_upd_el)

lemma e_text_upd [simp]:
  "e_text (d_el (add_class k n d) m) = e_text (d_el d m)"
  "e_text (d_el (remove_class k n d) m) = e_text (d_el d m)"
  "e_text (d_el (set_attr b v n d) m) = e_text (d_el d m)"
  "e_text (d_el (set_text s n d) m) = (if m = n then s else e_text (d_el d m))"
  "e_text (d_el (set_hidden h n d) m) = e_text (d_el d m)"
  "e_text (d_el (set_html s n d) m) = e_text (d_el d m)"
  "e_text (d_el (set_style b v n d) m) = e_text (d_el d m)"
  "e_text (d_el (set_value s n d) m) = e_text (d_el d m)"
  by (simp_all add: dom_upd_defs d_el_upd_el)

lemma e_hidden_upd [simp]:
  "e_hidden (d_el (add_class k n d) m) = e_hidden (d_el d m)"
  "e_hidden (d_el (remove_class k n d) m) = e_hidden (d_el d m)"
  "e_hidden (d_el (set_attr b v n d) m) = e_hidden (d_el d m)"
  "e_hidden (d_el (set_text s n d) m) = e_hidden (d_el d m)"
  "e_hidden (d_el (set_hidden h n d) m) = (if m = n then h else e_hidden (d_el d m))"
  "e_hidden (d_el (set_html s n d) m) = e_hidden (d_el d m)"
  "e_hidden (d_el (set_style b v n d) m) = e_hidden (d_el d m)"
  "e_hidden (d_el (set_value s n d) m) = e_hidden (d_el d m)"
  by (simp_all add: dom_upd_defs d_el_upd_el)

lemma e_html_upd [simp]:
  "e_html (d_el (add_class k n d) m) = e_html (d_el d m)"
  "e_html (d_el (remove_class k n d) m) = e_html (d_el d m)"
  "e_html (d_el (set_attr b v n d) m) = e_html (d_el d m)"
  "e_html (d_el (set_text s n d) m) = e_html (d_el d m)"
  "e_html (d_el (set_hidden h n d) m) = e_html (d_el d m)"
  "e_html (d_el (set_html s n d) m) = (if m = n then s else e_html (d_el d m))"
  "e_html (d_el (set_style b v n d) m) = e_html (d_el d m)"
  "e_html (d_el (set_value s n d) m) = e_html (d_el d m)"
  by (simp_all add: dom_upd_defs d_el_upd_el)

lemma e_value_upd [simp]:
  "e_value (d_el (add_class k n d) m) = e_value (d_el d m)"
  "e_value (d_el (remove_class k n d) m) = e_value (d_el d m)"
  "e_value (d_el (set_attr b v n d) m) = e_value (d_el d m)"
  "e_value (d_el (set_text s n d) m) = e_value (d_el d m)"
  "e_value (d_el (set_hidden h n d) m) = e_value (d_el d m)"
  "e_value (d_el (set_html s n d) m) = e_value (d_el d m)"
  "e_value (d_el (set_style b v n d) m) = e_value (d_el d m)"
  "e_value (d_el (set_value s n d) m) = (if m = n then s else e_value (d_el d m))"
  by (simp_all add: dom_upd_defs d_el_upd_el)

subsection \<open>The shape of the tree\<close>

text \<open>Two documents with the same parents have the same ancestors.\<close>

lemma closest_cong:
  assumes "\<And>m. parent d' m = parent d m" and "\<And>m. P' m = P m"
  shows "closest d' P' n = closest d P n"
proof -
  have P: "P' = P" using assms(2) by (rule ext)
  show ?thesis unfolding P
  proof (induction n rule: less_induct)
    case (less n)
    show ?case
      by (subst (1 2) closest.simps) (use less assms(1) in \<open>auto split: option.splits\<close>)
  qed
qed

lemma contains_cong: "(\<And>m. parent d' m = parent d m) \<Longrightarrow> contains d' a n = contains d a n"
  unfolding contains_def by (simp cong: closest_cong [of d' d])

lemma closest_sat: "closest d P n = Some m \<Longrightarrow> P m"
proof (induction n rule: less_induct)
  case (less n)
  from less.prems show ?case
    by (subst (asm) closest.simps) (auto split: if_splits option.splits intro: less.IH)
qed

text \<open>One step of the walk, as an elimination.\<close>

lemma closest_SomeE:
  assumes "closest d P n = Some m"
  obtains "P n" "m = n"
  | p where "\<not> P n" "parent d n = Some p" "p < n" "closest d P p = Some m"
  using assms by (subst (asm) closest.simps) (auto split: option.splits if_splits)

lemma closest_le: "closest d P n = Some m \<Longrightarrow> m \<le> n"
proof (induction n rule: less_induct)
  case (less n)
  from less.prems show ?case
    by (cases rule: closest_SomeE) (use less.IH in \<open>force+\<close>)
qed

lemma closest_contains: "closest d P n = Some m \<Longrightarrow> contains d m n"
proof (induction n rule: less_induct)
  case (less n)
  from less.prems show ?case
  proof (cases rule: closest_SomeE)
    case 1
    then show ?thesis by (simp add: contains_def closest.simps [of d _ n])
  next
    case (2 p)
    then have "contains d m p" by (blast intro: less.IH)
    with 2 show ?thesis by (simp add: contains_def closest.simps [of d _ n])
  qed
qed

lemma contains_refl [simp]: "contains d n n"
  by (simp add: contains_def closest.simps)

lemma query_all_mem [simp]: "n \<in> set (query_all d P) \<longleftrightarrow> n < d_size d \<and> P n"
  by (auto simp: query_all_def)

lemma distinct_query_all [simp]: "distinct (query_all d P)"
  by (simp add: query_all_def)

lemma query_first_Some: "query_first d P = Some n \<Longrightarrow> n < d_size d \<and> P n"
proof -
  assume "query_first d P = Some n"
  then have "n \<in> set (query_all d P)"
    by (auto simp: query_first_def simp del: query_all_mem split: list.splits)
  then show ?thesis by simp
qed

subsection \<open>Loops over elements\<close>

text \<open>
  A loop whose body writes only the element it visits, in a way that does not look at the other
  elements, acts on each visited element once.
\<close>

lemma for_each_upd_el:
  assumes "distinct ns"
  shows "d_el (for_each (\<lambda>n. upd_el (f n) n) ns d) m =
    (if m \<in> set ns then f m (d_el d m) else d_el d m)"
  using assms unfolding for_each_def
  by (induction ns arbitrary: d) (auto simp: d_el_upd_el)

lemma d_size_for_each_upd [simp]: "d_size (for_each (\<lambda>n. upd_el (f n) n) ns d) = d_size d"
  unfolding for_each_def by (induction ns arbitrary: d) auto

end
