(* ===== verification/Dom_Frame.thy ===== *)
theory Dom_Frame
  imports Dom
begin

text \<open>
  What an operation may write and what an observation reads, so that a fact about one part of the
  page survives the operations of the others. A cell is a kind of content of an element; a frame is
  a set of cells outside of which two documents agree. An observer is a reading of the document
  with the cells it looks at; it does not change when other cells are written.
\<close>

datatype cell = CClass string | CAttr string | CText | CHidden | CHtml | CStyle string | CValue

fun same_cell :: "cell \<Rightarrow> nat \<Rightarrow> dom \<Rightarrow> dom \<Rightarrow> bool" where
  "same_cell (CClass k) n d d' = (has_class d' k n = has_class d k n)"
| "same_cell (CAttr a) n d d' = (get_attr d' a n = get_attr d a n)"
| "same_cell CText n d d' = (e_text (d_el d' n) = e_text (d_el d n))"
| "same_cell CHidden n d d' = (e_hidden (d_el d' n) = e_hidden (d_el d n))"
| "same_cell CHtml n d d' = (e_html (d_el d' n) = e_html (d_el d n))"
| "same_cell (CStyle k) n d d' = (e_style (d_el d' n) k = e_style (d_el d n) k)"
| "same_cell CValue n d d' = (e_value (d_el d' n) = e_value (d_el d n))"

definition frame :: "(cell \<Rightarrow> nat \<Rightarrow> bool) \<Rightarrow> dom \<Rightarrow> dom \<Rightarrow> bool" where
  "frame W d d' \<longleftrightarrow> d_size d' = d_size d \<and>
     (\<forall>n. parent d' n = parent d n \<and> e_tag (d_el d' n) = e_tag (d_el d n)) \<and>
     (\<forall>c n. W c n \<or> same_cell c n d d')"

lemma same_cell_refl [simp]: "same_cell c n d d"
  by (cases c) simp_all

lemma same_cell_trans: "same_cell c n a b \<Longrightarrow> same_cell c n b e \<Longrightarrow> same_cell c n a e"
  by (cases c) simp_all

lemma frame_refl [simp, intro]: "frame W d d"
  by (simp add: frame_def)

lemma frame_trans: "frame W a b \<Longrightarrow> frame W b c \<Longrightarrow> frame W a c"
  unfolding frame_def by (metis same_cell_trans)

lemma frame_mono: "frame W a b \<Longrightarrow> (\<And>c n. W c n \<Longrightarrow> V c n) \<Longrightarrow> frame V a b"
  unfolding frame_def by blast

lemma frame_size: "frame W d d' \<Longrightarrow> d_size d' = d_size d"
  and frame_parent: "frame W d d' \<Longrightarrow> parent d' n = parent d n"
  and frame_tag: "frame W d d' \<Longrightarrow> e_tag (d_el d' n) = e_tag (d_el d n)"
  by (simp_all add: frame_def)

lemma frame_attr: "frame W d d' \<Longrightarrow> \<not> W (CAttr a) n \<Longrightarrow> get_attr d' a n = get_attr d a n"
  and frame_class: "frame W d d' \<Longrightarrow> \<not> W (CClass k) n \<Longrightarrow> has_class d' k n = has_class d k n"
  and frame_text: "frame W d d' \<Longrightarrow> \<not> W CText n \<Longrightarrow> e_text (d_el d' n) = e_text (d_el d n)"
  and frame_value: "frame W d d' \<Longrightarrow> \<not> W CValue n \<Longrightarrow> e_value (d_el d' n) = e_value (d_el d n)"
  unfolding frame_def by (metis same_cell.simps)+

lemma frame_has_attr: "frame W d d' \<Longrightarrow> \<not> W (CAttr a) n \<Longrightarrow> has_attr d' a n = has_attr d a n"
  by (simp add: has_attr_def frame_attr)

lemma frame_contains: "frame W d d' \<Longrightarrow> contains d' a n = contains d a n"
  by (rule contains_cong) (rule frame_parent)

lemma frame_below: "frame W d d' \<Longrightarrow> below d' a n = below d a n"
  by (simp add: below_def frame_contains)

lemma frame_query_all:
  assumes "frame W d d'" "\<And>n. Q n = P n"
  shows "query_all d' Q = query_all d P"
  using frame_size [OF assms(1)] assms(2) by (simp add: query_all_def cong: filter_cong)

lemma frame_query_first:
  assumes "frame W d d'" "\<And>n. Q n = P n"
  shows "query_first d' Q = query_first d P"
  using frame_query_all [OF assms] by (simp add: query_first_def)

lemma style_upd [simp]:
  "e_style (d_el (add_class k n d) m) = e_style (d_el d m)"
  "e_style (d_el (remove_class k n d) m) = e_style (d_el d m)"
  "e_style (d_el (set_attr b v n d) m) = e_style (d_el d m)"
  "e_style (d_el (set_text s n d) m) = e_style (d_el d m)"
  "e_style (d_el (set_hidden h n d) m) = e_style (d_el d m)"
  "e_style (d_el (set_html s n d) m) = e_style (d_el d m)"
  "e_style (d_el (set_value s n d) m) = e_style (d_el d m)"
  "e_style (d_el (set_style b v n d) m) b' = (if m = n \<and> b' = b then Some v else e_style (d_el d m) b')"
  by (simp_all add: dom_upd_defs d_el_upd_el)

lemma frame_upd [intro]:
  "W (CClass k) n \<Longrightarrow> frame W d (add_class k n d)"
  "W (CClass k) n \<Longrightarrow> frame W d (remove_class k n d)"
  "W (CAttr a) n \<Longrightarrow> frame W d (set_attr a v n d)"
  "W CText n \<Longrightarrow> frame W d (set_text v n d)"
  "W CHidden n \<Longrightarrow> frame W d (set_hidden h n d)"
  "W CHtml n \<Longrightarrow> frame W d (set_html v n d)"
  "W (CStyle a) n \<Longrightarrow> frame W d (set_style a v n d)"
  "W CValue n \<Longrightarrow> frame W d (set_value v n d)"
proof -
  have "frame W d d'" if "\<forall>c m. c \<noteq> c0 \<or> m \<noteq> n \<longrightarrow> same_cell c m d d'" "W c0 n"
      "d_size d' = d_size d" "\<forall>m. parent d' m = parent d m \<and> e_tag (d_el d' m) = e_tag (d_el d m)" for c0 d'
    using that unfolding frame_def by metis
  note w = this
  have c: "(\<forall>c m. c \<noteq> c0 \<or> m \<noteq> n \<longrightarrow> same_cell c m d d')" if "\<And>c m. c \<noteq> c0 \<or> m \<noteq> n \<Longrightarrow> same_cell c m d d'" for c0 d'
    using that by blast
  show "W (CClass k) n \<Longrightarrow> frame W d (add_class k n d)"
    "W (CClass k) n \<Longrightarrow> frame W d (remove_class k n d)"
    "W (CAttr a) n \<Longrightarrow> frame W d (set_attr a v n d)"
    "W CText n \<Longrightarrow> frame W d (set_text v n d)"
    "W CHidden n \<Longrightarrow> frame W d (set_hidden h n d)"
    "W CHtml n \<Longrightarrow> frame W d (set_html v n d)"
    "W (CStyle a) n \<Longrightarrow> frame W d (set_style a v n d)"
    "W CValue n \<Longrightarrow> frame W d (set_value v n d)"
    by (rule w [rotated], assumption, simp, simp, rule c, case_tac c, auto)+
qed

lemma frame_after:
  assumes "frame W d d'"
  shows "W (CClass k) n \<Longrightarrow> frame W d (add_class k n d')"
  "W (CClass k) n \<Longrightarrow> frame W d (remove_class k n d')"
  "W (CAttr a) n \<Longrightarrow> frame W d (set_attr a v n d')"
  "W CText n \<Longrightarrow> frame W d (set_text v n d')"
  "W CHidden n \<Longrightarrow> frame W d (set_hidden h n d')"
  "W CHtml n \<Longrightarrow> frame W d (set_html v n d')"
  "W (CStyle a) n \<Longrightarrow> frame W d (set_style a v n d')"
  "W CValue n \<Longrightarrow> frame W d (set_value v n d')"
  by (rule frame_trans [OF assms], rule frame_upd, assumption)+

lemma frame_for_each:
  assumes "\<And>n d. n \<in> set ns \<Longrightarrow> frame W d (f n d)"
  shows "frame W d (for_each f ns d)"
  unfolding for_each_def using assms
  by (induction ns arbitrary: d) (auto intro: frame_trans)

lemma frame_fold:
  assumes "\<And>x d. x \<in> set xs \<Longrightarrow> frame W d (f x d)"
  shows "frame W d (fold f xs d)"
  using assms by (induction xs arbitrary: d) (auto intro: frame_trans)

subsection \<open>Observers\<close>

locale observer =
  fixes obs :: "dom \<Rightarrow> 'a" and reads :: "dom \<Rightarrow> cell \<Rightarrow> nat \<Rightarrow> bool"
  assumes obs_cong: "frame (\<lambda>c n. \<not> reads d c n) d d' \<Longrightarrow> obs d' = obs d"
begin

lemma obs_frame:
  assumes "frame W d d'" "\<And>c n. W c n \<Longrightarrow> \<not> reads d c n"
  shows "obs d' = obs d"
  by (rule obs_cong) (rule frame_mono [OF assms])

end

text \<open>An observer that looks at the same cells after writes it does not see: it may be used again.\<close>

locale stable_observer = observer +
  assumes reads_cong: "frame (\<lambda>c n. \<not> reads d c n) d d' \<Longrightarrow> reads d' = reads d"
begin

lemma obs_fold:
  assumes "\<And>x e. x \<in> set xs \<Longrightarrow> frame (W x) e (f x e)"
    and "\<And>x c n. x \<in> set xs \<Longrightarrow> W x c n \<Longrightarrow> \<not> reads d c n"
  shows "obs (fold f xs d) = obs d \<and> reads (fold f xs d) = reads d"
  using assms
proof (induction xs arbitrary: d)
  case (Cons x xs)
  have fr: "frame (\<lambda>c n. \<not> reads d c n) d (f x d)"
    by (rule frame_mono [OF Cons.prems(1)]) (use Cons.prems(2) in auto)
  have r: "reads (f x d) = reads d" by (rule reads_cong [OF fr])
  have o1: "obs (f x d) = obs d" by (rule obs_cong [OF fr])
  have "obs (fold f xs (f x d)) = obs (f x d) \<and> reads (fold f xs (f x d)) = reads (f x d)"
  proof (rule Cons.IH)
    fix y e
    assume y: "y \<in> set xs"
    show "frame (W y) e (f y e)" using Cons.prems(1) y by simp
    show "\<not> reads (f x d) c n" if "W y c n" for c n
      unfolding r using Cons.prems(2) [of y] y that by simp
  qed
  then show ?case using o1 r by simp
qed simp

end

subsection \<open>The ancestors of an element\<close>

lemma contains_unfold:
  "contains d a n \<longleftrightarrow> n = a \<or> (\<exists>p. parent d n = Some p \<and> p < n \<and> contains d a p)"
  unfolding contains_def by (subst closest.simps) (auto split: option.split)

lemma contains_trans: "contains d a b \<Longrightarrow> contains d b n \<Longrightarrow> contains d a n"
proof (induction n rule: less_induct)
  case (less n)
  from less.prems(2) consider "n = b" | p where "parent d n = Some p" "p < n" "contains d b p"
    by (auto simp: contains_unfold [of d b n])
  then show ?case
  proof cases
    case 2
    then show ?thesis using less.IH [of p] less.prems(1) by (subst contains_unfold) auto
  qed (use less.prems in simp)
qed

text \<open>Of two ancestors of an element one contains the other.\<close>

lemma contains_comparable:
  "contains d a n \<Longrightarrow> contains d b n \<Longrightarrow> contains d a b \<or> contains d b a"
proof (induction n rule: less_induct)
  case (less n)
  show ?case
  proof (cases "n = a \<or> n = b")
    case False
    then obtain p where "parent d n = Some p" "p < n" "contains d a p" "contains d b p"
      using less.prems by (auto simp: contains_unfold [of d _ n])
    then show ?thesis using less.IH by blast
  qed (use less.prems in auto)
qed

lemma below_two:
  assumes "below d a n" "below d b n" "a \<noteq> b"
  shows "below d a b \<or> below d b a"
  using contains_comparable [of d a n b] assms by (auto simp: below_def)

lemma below_through: "below d a m \<Longrightarrow> contains d m b \<Longrightarrow> a \<noteq> b \<Longrightarrow> below d a b"
  by (auto simp: below_def intro: contains_trans)

end
