(* ===== verification/Binary64.thy ===== *)
theory Binary64
  imports Adivento_Prelude
begin

text \<open>
  The arithmetic of JavaScript's \<open>Number\<close> before its special values: rounding of an exact rational
  result to the nearest IEEE 754 binary64 value, ties to even. The interface \<open>rounding\<close> states
  what a client may use of a rounding function (the result is representable, and no representable
  number is nearer), and derives from it exactness on representable numbers, monotonicity and
  bounds. \<open>fl\<close> is the rounding of binary64 and interprets the interface.
\<close>

subsection \<open>The interface: rounding to nearest\<close>

locale rounding =
  fixes rep :: "rat \<Rightarrow> bool"
    and rnd :: "rat \<Rightarrow> rat"
  assumes rep_rnd: "rep (rnd x)"
    and nearest: "rep r \<Longrightarrow> \<bar>rnd x - x\<bar> \<le> \<bar>r - x\<bar>"
    and rnd_minus: "rnd (- x) = - rnd x"
    and rep_zero: "rep 0"
begin

lemma rnd_exact: "rep r \<Longrightarrow> rnd r = r"
  using nearest [of r r] by simp

lemma rnd_rnd: "rnd (rnd x) = rnd x"
  by (rule rnd_exact) (rule rep_rnd)

lemma rnd_zero: "rnd 0 = 0"
  by (rule rnd_exact) (rule rep_zero)

text \<open>Two inputs cannot round to swapped results: each result is at least as near as the other.\<close>

lemma rnd_mono: "x \<le> y \<Longrightarrow> rnd x \<le> rnd y"
proof (rule ccontr)
  assume le: "x \<le> y" and "\<not> rnd x \<le> rnd y"
  then have gt: "rnd y < rnd x" by simp
  have "\<bar>rnd x - x\<bar> \<le> \<bar>rnd y - x\<bar>" and "\<bar>rnd y - y\<bar> \<le> \<bar>rnd x - y\<bar>"
    by (simp_all add: nearest rep_rnd)
  with le gt have "x = y" by linarith
  with gt show False by simp
qed

lemma rnd_le: "rep r \<Longrightarrow> x \<le> r \<Longrightarrow> rnd x \<le> r"
  using rnd_mono [of x r] rnd_exact [of r] by simp

lemma rnd_ge: "rep r \<Longrightarrow> r \<le> x \<Longrightarrow> r \<le> rnd x"
  using rnd_mono [of r x] rnd_exact [of r] by simp

lemma rnd_nonneg: "0 \<le> x \<Longrightarrow> 0 \<le> rnd x"
  using rnd_ge [OF rep_zero] by simp

lemma rnd_nonpos: "x \<le> 0 \<Longrightarrow> rnd x \<le> 0"
  using rnd_le [OF rep_zero] by simp

end

subsection \<open>Rounding to an integer, ties to even\<close>

definition rnd_even :: "rat \<Rightarrow> int" where
  "rnd_even x =
     (let f = \<lfloor>x\<rfloor>; d = x - of_int f
      in if d < 1/2 then f else if d > 1/2 then f + 1 else if even f then f else f + 1)"

lemma rnd_even_half: "\<bar>of_int (rnd_even x) - x\<bar> \<le> 1/2"
proof -
  define f where "f = \<lfloor>x\<rfloor>"
  have "of_int f \<le> x" and "x < of_int f + 1" unfolding f_def by linarith+
  then show ?thesis
    unfolding rnd_even_def f_def [symmetric] Let_def by auto
qed

lemma rnd_even_nearest: "\<bar>of_int (rnd_even x) - x\<bar> \<le> \<bar>of_int n - x\<bar>"
proof (cases "n = rnd_even x")
  case False
  then have "1 \<le> \<bar>of_int n - (of_int (rnd_even x) :: rat)\<bar>"
    by (simp flip: of_int_diff of_int_abs)
  with rnd_even_half [of x] show ?thesis by linarith
qed simp

lemma rnd_even_minus: "rnd_even (- x) = - rnd_even x"
proof (cases "x = of_int \<lfloor>x\<rfloor>")
  case True
  then obtain n where "x = of_int n" by blast
  then show ?thesis by (simp add: rnd_even_def)
next
  case False
  define f where "f = \<lfloor>x\<rfloor>"
  have b: "of_int f < x" "x < of_int f + 1"
    using False unfolding f_def by linarith+
  then have "\<lfloor>- x\<rfloor> = - f - 1" by linarith
  with b show ?thesis
    unfolding rnd_even_def f_def [symmetric] Let_def by auto
qed

lemma rnd_even_mono: "x \<le> y \<Longrightarrow> rnd_even x \<le> rnd_even y"
proof (rule ccontr)
  assume le: "x \<le> y" and "\<not> rnd_even x \<le> rnd_even y"
  then have "of_int (rnd_even y) + 1 \<le> (of_int (rnd_even x) :: rat)"
    by (metis linorder_not_le of_int_1 of_int_add of_int_le_iff zless_imp_add1_zle)
  with rnd_even_half [of x] rnd_even_half [of y] le
  have "x = y" by linarith
  with \<open>\<not> rnd_even x \<le> rnd_even y\<close> show False by simp
qed

lemma rnd_even_of_int [simp]: "rnd_even (of_int n) = n"
  by (simp add: rnd_even_def)

subsection \<open>The exponent of a positive rational\<close>

definition ilog2 :: "rat \<Rightarrow> int" where
  "ilog2 x =
     (case quotient_of x of (p, q) \<Rightarrow>
        let k = bitlen p - bitlen q in if 2 powi k \<le> x then k else k - 1)"

lemma bitlen_pos_bounds: "0 < n \<Longrightarrow> 2 powi (bitlen n - 1) \<le> (of_int n :: rat) \<and> of_int n < (2 powi bitlen n :: rat)"
proof -
  assume n: "0 < n"
  then have b: "2 ^ nat (bitlen n - 1) \<le> n \<and> n < 2 ^ nat (bitlen n)"
    by (rule bitlen_bounds)
  have "1 \<le> bitlen n" using n bitlen_eq_zero_iff [of n] bitlen_nonneg [of n] by linarith
  then have "(2 powi (bitlen n - 1) :: rat) = of_int (2 ^ nat (bitlen n - 1))"
    and "(2 powi (bitlen n) :: rat) = of_int (2 ^ nat (bitlen n))"
    by (simp_all add: power_int_def)
  with b show ?thesis by (metis of_int_le_iff of_int_less_iff)
qed

lemma ilog2_bounds:
  assumes "0 < x"
  shows "2 powi ilog2 x \<le> x" and "x < 2 powi (ilog2 x + 1)"
proof -
  obtain p q where pq: "quotient_of x = (p, q)" by fastforce
  then have q: "0 < q" and x: "x = of_int p / of_int q"
    by (simp_all add: quotient_of_denom_pos quotient_of_div)
  with assms have p: "0 < p" by (simp add: zero_less_divide_iff)
  define k where "k = bitlen p - bitlen q"
  note bp = bitlen_pos_bounds [OF p] and bq = bitlen_pos_bounds [OF q]
  have "x * of_int q = of_int p" using x q by simp
  have pow: "(2 powi (k - 1) :: rat) = 2 powi (bitlen p - 1) / 2 powi bitlen q"
      "(2 powi (k + 1) :: rat) = 2 powi bitlen p / 2 powi (bitlen q - 1)"
    by (simp_all add: k_def power_int_diff power_int_add)
  have "2 powi (k - 1) \<le> x"
    unfolding pow x using bp bq q p by (intro frac_le) auto
  moreover have "x < 2 powi (k + 1)"
    unfolding pow x using bp bq q p
    by (intro frac_less) auto
  ultimately show "2 powi ilog2 x \<le> x" and "x < 2 powi (ilog2 x + 1)"
    by (auto simp: ilog2_def pq k_def [symmetric] Let_def)
qed

subsection \<open>binary64\<close>

text \<open>
  A binary64 number is \<open>m * 2 ^ e\<close> with a 53-bit significand and an exponent of at least -1074
  (the subnormal numbers share the least exponent). The upper end of the range is not part of
  this predicate: overflow to infinity is decided by \<open>Js_Number\<close>.
\<close>

definition is_dbl :: "rat \<Rightarrow> bool" where
  "is_dbl x \<longleftrightarrow> (\<exists>m e. x = of_int m * 2 powi e \<and> \<bar>m\<bar> \<le> 2 ^ 53 \<and> -1074 \<le> e)"

definition fl_exp :: "rat \<Rightarrow> int" where
  "fl_exp x = max (ilog2 \<bar>x\<bar> - 52) (-1074)"

definition fl :: "rat \<Rightarrow> rat" where
  "fl x = (if x = 0 then 0
           else let u = 2 powi fl_exp x in of_int (rnd_even (x / u)) * u)"

lemma fl_minus: "fl (- x) = - fl x"
  by (simp add: fl_def fl_exp_def rnd_even_minus Let_def)

lemma fl_zero: "fl 0 = 0"
  by (simp add: fl_def)

lemma is_dbl_zero: "is_dbl 0"
  unfolding is_dbl_def by (rule exI [of _ 0], rule exI [of _ 0]) simp

lemma is_dbl_minus: "is_dbl x \<Longrightarrow> is_dbl (- x)"
proof -
  assume "is_dbl x"
  then obtain m e where "x = of_int m * 2 powi e" "\<bar>m\<bar> \<le> 2 ^ 53" "-1074 \<le> e"
    unfolding is_dbl_def by blast
  then have "- x = of_int (- m) * 2 powi e \<and> \<bar>- m\<bar> \<le> 2 ^ 53 \<and> -1074 \<le> e" by simp
  then show ?thesis unfolding is_dbl_def by blast
qed

lemma fl_quotient_bound:
  assumes "0 < x"
  shows "x / 2 powi fl_exp x < 2 ^ 53"
proof -
  have "x < 2 powi (ilog2 x + 1)" using assms by (rule ilog2_bounds)
  also have "\<dots> \<le> 2 powi (fl_exp x + 53)"
    using assms by (intro power_int_increasing) (auto simp: fl_exp_def)
  also have "\<dots> = 2 powi fl_exp x * 2 ^ 53" by (simp add: power_int_add)
  finally show ?thesis by (simp add: field_simps)
qed

lemma is_dbl_fl_pos: "0 < x \<Longrightarrow> is_dbl (fl x)"
proof -
  assume x: "0 < x"
  define u :: rat where "u = 2 powi fl_exp x"
  define m where "m = rnd_even (x / u)"
  have u: "0 < u" by (simp add: u_def)
  have "x / u \<le> of_int (2 ^ 53)" using fl_quotient_bound [OF x] by (simp add: u_def)
  then have "m \<le> rnd_even (of_int (2 ^ 53))"
    unfolding m_def by (rule rnd_even_mono)
  then have "m \<le> 2 ^ 53" by (simp only: rnd_even_of_int)
  moreover have "rnd_even (of_int 0) \<le> m"
    unfolding m_def using x u by (intro rnd_even_mono) simp
  then have "0 \<le> m" by (simp only: rnd_even_of_int)
  ultimately have "\<bar>m\<bar> \<le> 2 ^ 53" by simp
  moreover have "fl x = of_int m * 2 powi fl_exp x"
    using x by (simp add: fl_def m_def u_def Let_def)
  moreover have "-1074 \<le> fl_exp x" by (simp add: fl_exp_def)
  ultimately show ?thesis unfolding is_dbl_def by blast
qed

lemma is_dbl_fl: "is_dbl (fl x)"
proof (cases x "0 :: rat" rule: linorder_cases)
  case less
  then have "is_dbl (- fl (- x))" by (intro is_dbl_minus is_dbl_fl_pos) simp
  then show ?thesis by (simp add: fl_minus)
next
  case equal
  then show ?thesis by (simp add: fl_zero is_dbl_zero)
qed (rule is_dbl_fl_pos)

lemma fl_nearest_pos:
  assumes x: "0 < x" and r: "is_dbl r"
  shows "\<bar>fl x - x\<bar> \<le> \<bar>r - x\<bar>"
proof -
  define u :: rat where "u = 2 powi fl_exp x"
  have u: "0 < u" by (simp add: u_def)
  have fl: "fl x = of_int (rnd_even (x / u)) * u"
    using x by (simp add: fl_def u_def Let_def)
  have scale: "\<bar>a * u - x\<bar> = \<bar>a - x / u\<bar> * u" for a
    using u by (simp add: abs_mult_pos' [symmetric] field_simps flip: abs_mult_pos)
  obtain m e where me: "r = of_int m * 2 powi e" "\<bar>m\<bar> \<le> 2 ^ 53" "-1074 \<le> e"
    using r unfolding is_dbl_def by blast
  have "\<bar>of_int (rnd_even (x / u)) - x / u\<bar> \<le> \<bar>r / u - x / u\<bar>"
  proof (cases "fl_exp x \<le> e")
    case True
    have "r = of_int m * (2 powi (e - fl_exp x) * u)"
      unfolding me(1) u_def by (simp flip: power_int_add)
    with True u have "r / u = of_int (m * 2 ^ nat (e - fl_exp x))"
      by (simp add: power_int_def)
    then show ?thesis using rnd_even_nearest by metis
  next
    case False
    then have norm: "fl_exp x = ilog2 x - 52"
      using me(3) x by (simp add: fl_exp_def max_def split: if_splits)
    have "(2 powi (fl_exp x + 52) :: rat) \<le> x"
      using ilog2_bounds(1) [OF x] by (simp add: norm)
    then have lo: "2 ^ 52 \<le> x / u"
      using u by (simp add: u_def power_int_add field_simps)
    have "r \<le> 2 ^ 53 * 2 powi e"
      using me(1,2) by (auto intro!: mult_right_mono simp: abs_le_iff)
    also have "\<dots> \<le> 2 ^ 53 * 2 powi (fl_exp x - 1)"
      using False by (intro mult_left_mono power_int_increasing) auto
    also have "\<dots> = 2 ^ 52 * u" by (simp add: u_def power_int_diff)
    finally have "r / u \<le> 2 ^ 52" using u by (simp add: field_simps)
    moreover have "\<bar>of_int (rnd_even (x / u)) - x / u\<bar> \<le> \<bar>of_int (2 ^ 52) - x / u\<bar>"
      by (rule rnd_even_nearest)
    ultimately show ?thesis using lo by simp
  qed
  then have "\<bar>of_int (rnd_even (x / u)) - x / u\<bar> * u \<le> \<bar>r / u - x / u\<bar> * u"
    using u by simp
  then show ?thesis using u by (simp add: fl scale [symmetric])
qed

lemma fl_nearest:
  assumes "is_dbl r"
  shows "\<bar>fl x - x\<bar> \<le> \<bar>r - x\<bar>"
proof (cases x "0 :: rat" rule: linorder_cases)
  case less
  then have "\<bar>fl (- x) - (- x)\<bar> \<le> \<bar>- r - (- x)\<bar>"
    using assms by (intro fl_nearest_pos is_dbl_minus) auto
  then show ?thesis by (simp add: fl_minus abs_if split: if_splits)
next
  case equal
  then show ?thesis by (simp add: fl_zero)
next
  case greater
  then show ?thesis using assms by (rule fl_nearest_pos)
qed

interpretation b64: rounding is_dbl fl
  by unfold_locales (simp_all add: is_dbl_fl fl_nearest fl_minus is_dbl_zero)

subsection \<open>Exact results and error bounds\<close>

lemma is_dbl_of_int: "\<bar>n\<bar> \<le> 2 ^ 53 \<Longrightarrow> is_dbl (of_int n)"
  unfolding is_dbl_def by (rule exI [of _ n], rule exI [of _ 0]) simp

lemma is_dbl_of_nat: "n \<le> 2 ^ 53 \<Longrightarrow> is_dbl (of_nat n)"
proof -
  assume "n \<le> 2 ^ 53"
  then have "int n \<le> int (2 ^ 53)" by (simp only: zle_int)
  then have "is_dbl (of_int (int n))" by (intro is_dbl_of_int) simp
  then show ?thesis by simp
qed

lemma is_dbl_numeral: "(numeral k :: int) \<le> 2 ^ 53 \<Longrightarrow> is_dbl (numeral k)"
  using is_dbl_of_int [of "numeral k"] by simp

lemma fl_of_int [simp]: "\<bar>n\<bar> \<le> 2 ^ 53 \<Longrightarrow> fl (of_int n) = of_int n"
  by (rule b64.rnd_exact) (rule is_dbl_of_int)

lemma fl_of_nat [simp]: "n \<le> 2 ^ 53 \<Longrightarrow> fl (of_nat n) = of_nat n"
  by (rule b64.rnd_exact) (rule is_dbl_of_nat)

lemma fl_one [simp]: "fl 1 = 1"
  using fl_of_int [of 1] by simp

lemma fl_numeral: "(numeral k :: int) \<le> 2 ^ 53 \<Longrightarrow> fl (numeral k) = numeral k"
  using fl_of_int [of "numeral k"] by simp

text \<open>The relative error of one rounding, above the subnormal range.\<close>

lemma fl_error:
  assumes "2 powi (-1022) \<le> \<bar>x\<bar>"
  shows "\<bar>fl x - x\<bar> \<le> \<bar>x\<bar> / 2 ^ 53"
proof -
  have "(0 :: rat) < 2 powi (-1022)" by (rule zero_less_power_int) simp
  with assms have x: "0 < \<bar>x\<bar>" by linarith
  define u :: rat where "u = 2 powi fl_exp x"
  have u: "0 < u" by (simp add: u_def)
  have "(2 powi (-1022) :: rat) < 2 powi (ilog2 \<bar>x\<bar> + 1)"
    using assms ilog2_bounds(2) [OF x] by linarith
  then have "-1022 < ilog2 \<bar>x\<bar> + 1"
    by (metis linorder_not_le numeral_le_one_iff one_le_numeral order_less_imp_not_less power_int_increasing)
  then have norm: "fl_exp x = ilog2 \<bar>x\<bar> - 52" by (simp add: fl_exp_def)
  have "u * 2 ^ 52 = 2 powi (fl_exp x + 52)"
    by (simp add: u_def power_int_add)
  also have "\<dots> \<le> \<bar>x\<bar>"
    using ilog2_bounds(1) [OF x] by (simp add: norm)
  finally have "u / 2 \<le> \<bar>x\<bar> / 2 ^ 53" by simp
  moreover have "\<bar>fl x - x\<bar> = \<bar>of_int (rnd_even (x / u)) - x / u\<bar> * u"
    using x u by (simp add: fl_def u_def [symmetric] Let_def field_simps flip: abs_mult_pos)
  moreover have "\<dots> \<le> 1/2 * u"
    using u rnd_even_half by (intro mult_right_mono) auto
  ultimately show ?thesis by simp
qed

end
