(* ===== verification/Js_Number.thy ===== *)
theory Js_Number
  imports Binary64
begin

text \<open>
  JavaScript's \<open>Number\<close> type: the finite binary64 values, the two infinities, \<open>NaN\<close> and the
  negative zero, with the operators and \<open>Math\<close> functions the code uses. A finite result is the
  exact rational result rounded by \<open>fl\<close>; a magnitude of \<open>2 ^ 1024\<close> or more overflows.
\<close>

datatype jsnum = NaN | Inf | NegInf | NegZero | Fin rat

subsection \<open>Values\<close>

text \<open>The end of the finite range, and half of it, below which no operation overflows.\<close>

definition dbl_top :: rat where
  "dbl_top = 2 ^ 1024"

definition dbl_safe :: rat where
  "dbl_safe = 2 ^ 1023"

text \<open>The bound as a literal, so that evaluation does not compute the power.\<close>

lemma dbl_top_code [code]: "dbl_top = 179769313486231590772930519078902473361797697894230657273430081157732675805500963132708477322407536021120113879871393357658789768814416622492847430639474124377767893424865485276302219601246094119453082952085005768838150682342462881473913110540827237163350510684586298239947245938479716304835356329624224137216"
  by (simp add: dbl_top_def)

fun wf_num :: "jsnum \<Rightarrow> bool" where
  "wf_num (Fin q) \<longleftrightarrow> is_dbl q \<and> \<bar>q\<bar> < dbl_top"
| "wf_num _ \<longleftrightarrow> True"

lemma dbl_safe_pos [simp]: "0 < dbl_safe" "0 \<le> dbl_safe" "0 < dbl_top"
  by (simp_all add: dbl_safe_def dbl_top_def)

text \<open>The sign bit.\<close>

fun neg_sign :: "jsnum \<Rightarrow> bool" where
  "neg_sign NegInf = True"
| "neg_sign NegZero = True"
| "neg_sign (Fin q) = (q < 0)"
| "neg_sign _ = False"

text \<open>The value of a finite number; both zeros are 0.\<close>

fun val :: "jsnum \<Rightarrow> rat" where
  "val (Fin q) = q"
| "val _ = 0"

fun is_finite :: "jsnum \<Rightarrow> bool" where
  "is_finite (Fin q) = True"
| "is_finite NegZero = True"
| "is_finite _ = False"

text \<open>A finite result: rounded, overflowing to infinity, a zero taking the given sign.\<close>

definition of_exact :: "bool \<Rightarrow> rat \<Rightarrow> jsnum" where
  "of_exact neg q =
     (let r = fl q
      in if dbl_top \<le> r then Inf
         else if r \<le> - dbl_top then NegInf
         else if r = 0 then (if neg then NegZero else Fin 0)
         else Fin r)"

definition num_of_int :: "int \<Rightarrow> jsnum" where
  "num_of_int n = Fin (of_int n)"

subsection \<open>Arithmetic\<close>

fun js_neg :: "jsnum \<Rightarrow> jsnum" where
  "js_neg NaN = NaN"
| "js_neg Inf = NegInf"
| "js_neg NegInf = Inf"
| "js_neg NegZero = Fin 0"
| "js_neg (Fin q) = (if q = 0 then NegZero else Fin (- q))"

fun js_add :: "jsnum \<Rightarrow> jsnum \<Rightarrow> jsnum" where
  "js_add NaN _ = NaN"
| "js_add _ NaN = NaN"
| "js_add Inf NegInf = NaN"
| "js_add NegInf Inf = NaN"
| "js_add Inf _ = Inf"
| "js_add _ Inf = Inf"
| "js_add NegInf _ = NegInf"
| "js_add _ NegInf = NegInf"
| "js_add NegZero NegZero = NegZero"
| "js_add NegZero (Fin b) = Fin b"
| "js_add (Fin a) NegZero = Fin a"
| "js_add (Fin a) (Fin b) = of_exact (a + b < 0) (a + b)"

definition js_sub :: "jsnum \<Rightarrow> jsnum \<Rightarrow> jsnum" where
  "js_sub a b = js_add a (js_neg b)"

definition js_mul :: "jsnum \<Rightarrow> jsnum \<Rightarrow> jsnum" where
  "js_mul a b =
     (let neg = (neg_sign a \<noteq> neg_sign b)
      in if a = NaN \<or> b = NaN then NaN
         else if is_finite a \<and> is_finite b then of_exact neg (val a * val b)
         else if is_finite a \<and> val a = 0 \<or> is_finite b \<and> val b = 0 then NaN
         else if neg then NegInf else Inf)"

definition js_div :: "jsnum \<Rightarrow> jsnum \<Rightarrow> jsnum" where
  "js_div a b =
     (let neg = (neg_sign a \<noteq> neg_sign b)
      in if a = NaN \<or> b = NaN then NaN
         else if \<not> is_finite a \<and> \<not> is_finite b then NaN
         else if \<not> is_finite a then (if neg then NegInf else Inf)
         else if \<not> is_finite b then (if neg then NegZero else Fin 0)
         else if val b = 0 then
           (if val a = 0 then NaN else if neg then NegInf else Inf)
         else of_exact neg (val a / val b))"

subsection \<open>Comparison and truth\<close>

fun js_lt :: "jsnum \<Rightarrow> jsnum \<Rightarrow> bool" where
  "js_lt NaN _ = False"
| "js_lt _ NaN = False"
| "js_lt Inf _ = False"
| "js_lt _ NegInf = False"
| "js_lt NegInf _ = True"
| "js_lt _ Inf = True"
| "js_lt a b = (val a < val b)"

text \<open>\<open>a <= b\<close>: neither is \<open>NaN\<close> and \<open>b < a\<close> fails.\<close>

definition js_le :: "jsnum \<Rightarrow> jsnum \<Rightarrow> bool" where
  "js_le a b \<longleftrightarrow> a \<noteq> NaN \<and> b \<noteq> NaN \<and> \<not> js_lt b a"

text \<open>\<open>a === b\<close>: the zeros are equal, \<open>NaN\<close> equals nothing.\<close>

definition js_eq :: "jsnum \<Rightarrow> jsnum \<Rightarrow> bool" where
  "js_eq a b \<longleftrightarrow> a \<noteq> NaN \<and> b \<noteq> NaN \<and>
     (a = b \<or> is_finite a \<and> is_finite b \<and> val a = val b)"

fun truthy :: "jsnum \<Rightarrow> bool" where
  "truthy NaN = False"
| "truthy NegZero = False"
| "truthy (Fin q) = (q \<noteq> 0)"
| "truthy _ = True"

text \<open>\<open>a || b\<close>.\<close>

definition js_or :: "jsnum \<Rightarrow> jsnum \<Rightarrow> jsnum" where
  "js_or a b = (if truthy a then a else b)"

subsection \<open>Math\<close>

text \<open>\<open>Math.max(a, b)\<close> and \<open>Math.min(a, b)\<close>; +0 is larger than -0.\<close>

definition js_max :: "jsnum \<Rightarrow> jsnum \<Rightarrow> jsnum" where
  "js_max a b =
     (if a = NaN \<or> b = NaN then NaN
      else if js_lt a b then b
      else if js_lt b a then a
      else if a = NegZero then b else a)"

definition js_min :: "jsnum \<Rightarrow> jsnum \<Rightarrow> jsnum" where
  "js_min a b =
     (if a = NaN \<or> b = NaN then NaN
      else if js_lt a b then a
      else if js_lt b a then b
      else if a = NegZero then a else b)"

text \<open>\<open>Math.max.apply(null, xs)\<close>: \<open>-Infinity\<close> for no argument.\<close>

definition js_max_list :: "jsnum list \<Rightarrow> jsnum" where
  "js_max_list xs = foldl js_max NegInf xs"

fun js_abs :: "jsnum \<Rightarrow> jsnum" where
  "js_abs NegInf = Inf"
| "js_abs NegZero = Fin 0"
| "js_abs (Fin q) = Fin \<bar>q\<bar>"
| "js_abs x = x"

text \<open>\<open>Math.round\<close>: the nearest integer, a tie going up; a negative number that rounds to zero
  gives -0.\<close>

fun js_round :: "jsnum \<Rightarrow> jsnum" where
  "js_round (Fin q) =
     (let n = \<lfloor>q + 1/2\<rfloor> in if n = 0 \<and> q < 0 then NegZero else Fin (of_int n))"
| "js_round x = x"

fun js_sign :: "jsnum \<Rightarrow> jsnum" where
  "js_sign NaN = NaN"
| "js_sign Inf = Fin 1"
| "js_sign NegInf = Fin (-1)"
| "js_sign NegZero = NegZero"
| "js_sign (Fin q) = Fin (sgn q)"

fun js_is_integer :: "jsnum \<Rightarrow> bool" where
  "js_is_integer (Fin q) = (of_int \<lfloor>q\<rfloor> = q)"
| "js_is_integer NegZero = True"
| "js_is_integer _ = False"

subsection \<open>Well-formedness\<close>

lemma wf_of_exact [simp]: "wf_num (of_exact neg q)"
  by (auto simp: of_exact_def Let_def is_dbl_fl is_dbl_zero abs_if)

lemma wf_js_neg [simp]: "wf_num a \<Longrightarrow> wf_num (js_neg a)"
  by (cases a) (auto simp: is_dbl_zero is_dbl_minus)

lemma wf_js_add [simp]: "wf_num a \<Longrightarrow> wf_num b \<Longrightarrow> wf_num (js_add a b)"
  by (cases "(a, b)" rule: js_add.cases) auto

lemma wf_js_sub [simp]: "wf_num a \<Longrightarrow> wf_num b \<Longrightarrow> wf_num (js_sub a b)"
  by (simp add: js_sub_def)

lemma wf_js_mul [simp]: "wf_num (js_mul a b)"
  by (simp add: js_mul_def Let_def)

lemma wf_js_div [simp]: "wf_num (js_div a b)"
  by (simp add: js_div_def Let_def is_dbl_zero)

lemma wf_js_max [simp]: "wf_num a \<Longrightarrow> wf_num b \<Longrightarrow> wf_num (js_max a b)"
  by (simp add: js_max_def)

lemma wf_js_min [simp]: "wf_num a \<Longrightarrow> wf_num b \<Longrightarrow> wf_num (js_min a b)"
  by (simp add: js_min_def)

subsection \<open>Finite arithmetic\<close>

text \<open>
  On finite operands whose exact result stays below overflow an operation returns a finite number
  whose value is the rounded exact result. Most client proofs only need these facts.
\<close>

lemma dbl_safe_less_top: "dbl_safe < dbl_top"
  unfolding dbl_safe_def dbl_top_def by (rule power_strict_increasing) simp_all

lemma dbl_safe_large: "2 ^ 200 \<le> dbl_safe"
  unfolding dbl_safe_def by (rule power_increasing) simp_all

text \<open>Every number of the sizes the code handles is far below overflow.\<close>

lemma le_dbl_safe: "q \<le> 2 ^ 200 \<Longrightarrow> q \<le> dbl_safe"
  using dbl_safe_large by (rule order_trans [rotated])

lemma range_dbl_safe: "0 \<le> q \<Longrightarrow> q \<le> b \<Longrightarrow> b \<le> 2 ^ 200 \<Longrightarrow> \<bar>q\<bar> \<le> dbl_safe"
  using le_dbl_safe [of q] by (simp only: abs_of_nonneg)

lemma is_dbl_safe: "is_dbl dbl_safe"
  unfolding is_dbl_def dbl_safe_def
  by (rule exI [of _ 1], rule exI [of _ 1023]) (simp add: power_int_def)

lemma of_exact_finite:
  assumes "\<bar>q\<bar> \<le> dbl_safe"
  shows "is_finite (of_exact neg q)" and "val (of_exact neg q) = fl q"
proof -
  have "fl q \<le> dbl_safe" and "- dbl_safe \<le> fl q"
    using assms by (auto intro!: b64.rnd_le b64.rnd_ge is_dbl_safe is_dbl_minus simp: abs_le_iff)
  with dbl_safe_less_top have "\<not> dbl_top \<le> fl q" and "\<not> fl q \<le> - dbl_top" by linarith+
  then show "is_finite (of_exact neg q)" and "val (of_exact neg q) = fl q"
    by (auto simp: of_exact_def Let_def)
qed

lemma val_wf:
  assumes "wf_num a"
  shows "is_dbl (val a)"
  using assms by (cases a) (auto simp: is_dbl_zero)

lemma js_add_finite:
  assumes "is_finite a" "is_finite b" "wf_num a" "wf_num b" "\<bar>val a + val b\<bar> \<le> dbl_safe"
  shows "is_finite (js_add a b)" and "val (js_add a b) = fl (val a + val b)"
  using assms
  by (cases a; cases b; auto simp: of_exact_finite b64.rnd_exact fl_zero)+

lemma is_finite_neg [simp]: "is_finite (js_neg a) = is_finite a"
  by (cases a) auto

lemma val_neg [simp]: "val (js_neg a) = - val a"
  by (cases a) auto

lemma js_sub_finite:
  assumes "is_finite a" "is_finite b" "wf_num a" "wf_num b" "\<bar>val a - val b\<bar> \<le> dbl_safe"
  shows "is_finite (js_sub a b)" and "val (js_sub a b) = fl (val a - val b)"
  using js_add_finite [of a "js_neg b"] assms by (simp_all add: js_sub_def)

lemma finite_not_NaN: "is_finite a \<Longrightarrow> a \<noteq> NaN"
  by auto

lemma js_mul_finite:
  assumes "is_finite a" "is_finite b" "\<bar>val a * val b\<bar> \<le> dbl_safe"
  shows "is_finite (js_mul a b)" and "val (js_mul a b) = fl (val a * val b)"
  using assms by (auto simp: js_mul_def Let_def of_exact_finite finite_not_NaN)

lemma js_div_finite:
  assumes "is_finite a" "is_finite b" "val b \<noteq> 0" "\<bar>val a / val b\<bar> \<le> dbl_safe"
  shows "is_finite (js_div a b)" and "val (js_div a b) = fl (val a / val b)"
  using assms by (auto simp: js_div_def Let_def of_exact_finite finite_not_NaN)

lemma js_lt_finite: "is_finite a \<Longrightarrow> is_finite b \<Longrightarrow> js_lt a b = (val a < val b)"
  by (cases a; cases b) auto

lemma js_max_finite:
  assumes "is_finite a" "is_finite b"
  shows "is_finite (js_max a b)" and "val (js_max a b) = max (val a) (val b)"
  using assms by (auto simp: js_max_def js_lt_finite finite_not_NaN max_def)

lemma js_min_finite:
  assumes "is_finite a" "is_finite b"
  shows "is_finite (js_min a b)" and "val (js_min a b) = min (val a) (val b)"
  using assms by (auto simp: js_min_def js_lt_finite finite_not_NaN min_def)

lemma js_round_finite: "is_finite a \<Longrightarrow> is_finite (js_round a) \<and> val (js_round a) = of_int \<lfloor>val a + 1/2\<rfloor>"
proof (cases a)
  case NegZero
  have "\<lfloor>1/2 :: rat\<rfloor> = 0" by (simp add: floor_eq_iff)
  with NegZero show ?thesis by simp
qed (auto simp: Let_def)

lemma num_of_int_simps [simp]:
  "is_finite (num_of_int n)" "val (num_of_int n) = of_int n"
  "\<bar>n\<bar> \<le> 2 ^ 53 \<Longrightarrow> wf_num (num_of_int n)"
proof -
  show "is_finite (num_of_int n)" and "val (num_of_int n) = of_int n"
    by (simp_all add: num_of_int_def)
  assume n: "\<bar>n\<bar> \<le> 2 ^ 53"
  then have "\<bar>of_int n :: rat\<bar> \<le> of_int (2 ^ 53)" by (metis of_int_abs of_int_le_iff)
  also have "\<dots> \<le> 2 ^ 200" by simp
  finally have "\<bar>of_int n :: rat\<bar> < dbl_top"
    using dbl_safe_less_top dbl_safe_large by linarith
  with n show "wf_num (num_of_int n)"
    by (simp add: num_of_int_def is_dbl_of_int)
qed

text \<open>Operations on finite numbers whose result is not negative give a plain number.\<close>

lemma of_exact_Fin: "0 \<le> q \<Longrightarrow> q \<le> dbl_safe \<Longrightarrow> of_exact False q = Fin (fl q)"
proof -
  assume q: "0 \<le> q" "q \<le> dbl_safe"
  then have "fl q \<le> dbl_safe" "0 \<le> fl q" by (auto intro: b64.rnd_le b64.rnd_nonneg is_dbl_safe)
  moreover have "\<not> fl q \<le> - dbl_top" using \<open>0 \<le> fl q\<close> dbl_safe_pos(3) by linarith
  ultimately show ?thesis using dbl_safe_less_top by (simp add: of_exact_def Let_def)
qed

lemma js_mul_Fin:
  "0 \<le> a \<Longrightarrow> 0 \<le> b \<Longrightarrow> a * b \<le> dbl_safe \<Longrightarrow> js_mul (Fin a) (Fin b) = Fin (fl (a * b))"
  by (simp add: js_mul_def Let_def of_exact_Fin)

lemma js_div_Fin:
  "0 \<le> a \<Longrightarrow> 0 < b \<Longrightarrow> a / b \<le> dbl_safe \<Longrightarrow> js_div (Fin a) (Fin b) = Fin (fl (a / b))"
  by (simp add: js_div_def Let_def of_exact_Fin)

lemma js_sub_Fin:
  assumes "b \<le> a" "a - b \<le> dbl_safe" "is_dbl a"
  shows "js_sub (Fin a) (Fin b) = Fin (fl (a - b))"
  using assms by (auto simp: js_sub_def of_exact_Fin b64.rnd_exact)

lemma js_round_Fin: "0 \<le> q \<Longrightarrow> js_round (Fin q) = Fin (of_int \<lfloor>q + 1/2\<rfloor>)"
  by (simp add: Let_def)

text \<open>Clamping \<open>Math.max(lo, Math.min(hi, x))\<close> as the code writes it.\<close>

definition js_clamp :: "jsnum \<Rightarrow> jsnum \<Rightarrow> jsnum \<Rightarrow> jsnum" where
  "js_clamp lo hi x = js_max lo (js_min hi x)"

lemma js_clamp_range:
  assumes "is_finite lo" "is_finite hi" "val lo \<le> val hi" "x \<noteq> NaN"
  shows "is_finite (js_clamp lo hi x)"
    and "val lo \<le> val (js_clamp lo hi x)" and "val (js_clamp lo hi x) \<le> val hi"
proof -
  consider "is_finite x" | "x = Inf" | "x = NegInf" using assms(4) by (cases x) auto
  then have "is_finite (js_clamp lo hi x) \<and> val lo \<le> val (js_clamp lo hi x)
      \<and> val (js_clamp lo hi x) \<le> val hi"
  proof cases
    case 1
    with assms show ?thesis
      by (simp add: js_clamp_def js_min_finite js_max_finite)
  next
    case 2
    with assms have "js_min hi x = hi" by (cases hi) (auto simp: js_min_def)
    with assms show ?thesis by (simp add: js_clamp_def js_max_finite)
  next
    case 3
    with assms have "js_min hi x = NegInf" by (cases hi) (auto simp: js_min_def)
    moreover from assms have "js_max lo NegInf = lo" by (cases lo) (auto simp: js_max_def)
    ultimately show ?thesis using assms by (simp add: js_clamp_def)
  qed
  then show "is_finite (js_clamp lo hi x)"
    and "val lo \<le> val (js_clamp lo hi x)" and "val (js_clamp lo hi x) \<le> val hi" by simp_all
qed

lemma js_clamp_mono:
  assumes "is_finite lo" "is_finite hi" "is_finite x" "is_finite y" "val x \<le> val y"
  shows "val (js_clamp lo hi x) \<le> val (js_clamp lo hi y)"
  unfolding js_clamp_def using assms
  by (simp only: js_min_finite js_max_finite max.mono min.mono order_refl)

end
