(* ===== verification/Js_String.thy ===== *)
theory Js_String
  imports Js_Number
begin

text \<open>
  Strings and numbers: \<open>parseFloat\<close>, \<open>Number(s)\<close>, \<open>String(x)\<close> (the shortest decimal that
  reads back as the same number), \<open>toFixed(1)\<close> and \<open>toLocaleString()\<close> in the en-US locale.
  Strings are lists of UTF-8 bytes, so the white space outside ASCII is two or three of them.
\<close>

subsection \<open>Decimal digits\<close>

definition is_digit :: "char \<Rightarrow> bool" where
  "is_digit c \<longleftrightarrow> 48 \<le> (of_char c :: nat) \<and> (of_char c :: nat) \<le> 57"

definition digit_val :: "char \<Rightarrow> nat" where
  "digit_val c = of_char c - 48"

definition digit_char :: "nat \<Rightarrow> char" where
  "digit_char d = char_of (48 + d)"

fun nat_str :: "nat \<Rightarrow> string" where
  "nat_str n = (if n < 10 then [digit_char n] else nat_str (n div 10) @ [digit_char (n mod 10)])"

declare nat_str.simps [simp del]

definition digits_val :: "string \<Rightarrow> nat" where
  "digits_val s = foldl (\<lambda>a c. 10 * a + digit_val c) 0 s"

lemma of_digit_char: "d < 10 \<Longrightarrow> (of_char (digit_char d) :: nat) = 48 + d"
  by (simp add: digit_char_def of_char_of)

lemma is_digit_digit_char [simp]: "d < 10 \<Longrightarrow> is_digit (digit_char d)"
  by (simp add: is_digit_def of_digit_char)

lemma digit_val_digit_char [simp]: "d < 10 \<Longrightarrow> digit_val (digit_char d) = d"
  by (simp add: digit_val_def of_digit_char)

lemma nat_str_digits: "\<forall>c \<in> set (nat_str n). is_digit c"
proof (induction n rule: nat_str.induct)
  case (1 n)
  show ?case
    by (cases "n < 10") (use 1 in \<open>auto simp: nat_str.simps [of n]\<close>)
qed

lemma nat_str_nonempty [simp]: "nat_str n \<noteq> []"
  by (subst nat_str.simps) simp

lemma digits_val_append_one: "digits_val (s @ [c]) = 10 * digits_val s + digit_val c"
  by (simp add: digits_val_def)

lemma digits_val_nat_str [simp]: "digits_val (nat_str n) = n"
proof (induction n rule: nat_str.induct)
  case (1 n)
  show ?case
  proof (cases "n < 10")
    case True
    then show ?thesis by (simp add: nat_str.simps [of n] digits_val_def)
  next
    case False
    with 1 show ?thesis by (simp add: nat_str.simps [of n] digits_val_append_one)
  qed
qed

subsection \<open>Reading numbers\<close>

definition is_ws :: "char \<Rightarrow> bool" where
  "is_ws c \<longleftrightarrow> (of_char c :: nat) \<in> {9, 10, 11, 12, 13, 32}"

text \<open>
  The other white space and line ends of JavaScript: U+00A0, U+1680, U+2000 to U+200A, U+2028, U+2029,
  U+202F, U+205F, U+3000 and U+FEFF.
\<close>

definition is_ws2 :: "char \<Rightarrow> char \<Rightarrow> bool" where
  "is_ws2 a b \<longleftrightarrow> a = CHR 0xC2 \<and> b = CHR 0xA0"

definition is_ws3 :: "char \<Rightarrow> char \<Rightarrow> char \<Rightarrow> bool" where
  "is_ws3 a b c \<longleftrightarrow>
     a = CHR 0xE1 \<and> b = CHR 0x9A \<and> c = CHR 0x80 \<or>
     a = CHR 0xE2 \<and> b = CHR 0x80 \<and> (of_char c :: nat) \<in> {128..138} \<union> {168, 169, 175} \<or>
     a = CHR 0xE2 \<and> b = CHR 0x81 \<and> c = CHR 0x9F \<or>
     a = CHR 0xE3 \<and> b = CHR 0x80 \<and> c = CHR 0x80 \<or>
     a = CHR 0xEF \<and> b = CHR 0xBB \<and> c = CHR 0xBF"

text \<open>How many bytes the white space character takes that a string starts with; 0 if it starts with none.\<close>

definition ws_len :: "string \<Rightarrow> nat" where
  "ws_len s =
     (case s of
        [] \<Rightarrow> 0
      | a # r \<Rightarrow>
          if is_ws a then 1
          else (case r of
             [] \<Rightarrow> 0
           | b # t \<Rightarrow>
               if is_ws2 a b then 2
               else (case t of [] \<Rightarrow> 0 | c # _ \<Rightarrow> if is_ws3 a b c then 3 else 0)))"

text \<open>The white space that a string starts with is left out; and the same from the other end.\<close>

function skip_ws :: "string \<Rightarrow> string" where
  "skip_ws s = (if ws_len s = 0 then s else skip_ws (drop (ws_len s) s))"
  by pat_completeness auto
termination
  by (relation "measure length") (auto simp: ws_len_def split: list.splits if_splits)

declare skip_ws.simps [simp del]

fun skip_ws_back :: "string \<Rightarrow> string" where
  "skip_ws_back [] = []"
| "skip_ws_back (c # s) =
     (if is_ws c then skip_ws_back s
      else case s of
        b # a # t \<Rightarrow> if is_ws2 b c then skip_ws_back (a # t) else if is_ws3 a b c then skip_ws_back t else c # s
      | [b] \<Rightarrow> if is_ws2 b c then [] else c # s
      | [] \<Rightarrow> c # s)"

definition js_trim :: "string \<Rightarrow> string" where
  "js_trim s = rev (skip_ws_back (rev (skip_ws s)))"

text \<open>An optional exponent part; without digits after the \<open>e\<close> it is not part of the number.\<close>

definition parse_exp :: "string \<Rightarrow> int \<times> string" where
  "parse_exp s =
     (case s of
        c # r \<Rightarrow>
          if c = CHR ''e'' \<or> c = CHR ''E'' then
            (let (sg, r') = (case r of
                 d # t \<Rightarrow> if d = CHR ''-'' then (-1, t) else if d = CHR ''+'' then (1, t) else (1, r)
               | [] \<Rightarrow> (1, r));
               ds = takeWhile is_digit r'
             in if ds = [] then (0, s) else (sg * int (digits_val ds), dropWhile is_digit r'))
          else (0, s)
      | [] \<Rightarrow> (0, s))"

text \<open>The longest prefix that is an unsigned decimal literal: its value and the rest.\<close>

definition parse_dec :: "string \<Rightarrow> (rat \<times> string) option" where
  "parse_dec s =
     (let i = takeWhile is_digit s; r = dropWhile is_digit s;
          dot = (r \<noteq> [] \<and> hd r = CHR ''.'');
          f = (if dot then takeWhile is_digit (tl r) else []);
          r' = (if dot \<and> (i \<noteq> [] \<or> f \<noteq> []) then dropWhile is_digit (tl r) else r)
      in if i = [] \<and> f = [] then None
         else (case parse_exp r' of (e, rest) \<Rightarrow>
           Some (of_nat (digits_val (i @ f)) / 10 ^ length f * 10 powi e, rest)))"

definition split_sign :: "string \<Rightarrow> bool \<times> string" where
  "split_sign s =
     (case s of
        c # t \<Rightarrow> if c = CHR ''-'' then (True, t) else if c = CHR ''+'' then (False, t) else (False, s)
      | [] \<Rightarrow> (False, s))"

definition signed_num :: "bool \<Rightarrow> rat \<Rightarrow> jsnum" where
  "signed_num neg q = of_exact neg (if neg then - q else q)"

definition js_parse_float :: "string \<Rightarrow> jsnum" where
  "js_parse_float s =
     (case split_sign (skip_ws s) of (neg, t) \<Rightarrow>
        if take 8 t = ''Infinity'' then (if neg then NegInf else Inf)
        else (case parse_dec t of None \<Rightarrow> NaN | Some (q, _) \<Rightarrow> signed_num neg q))"

text \<open>Digits of a radix literal \<open>0x\<close>, \<open>0o\<close>, \<open>0b\<close>.\<close>

definition radix_digit :: "char \<Rightarrow> nat" where
  "radix_digit c =
     (let n = of_char c in
      if 48 \<le> n \<and> n \<le> 57 then n - 48
      else if 97 \<le> n \<and> n \<le> 102 then n - 87
      else if 65 \<le> n \<and> n \<le> 70 then n - 55 else 99)"

definition parse_radix :: "nat \<Rightarrow> string \<Rightarrow> jsnum" where
  "parse_radix b s =
     (if s = [] \<or> \<not> list_all (\<lambda>c. radix_digit c < b) s then NaN
      else of_exact False (of_nat (foldl (\<lambda>a c. b * a + radix_digit c) 0 s)))"

definition js_to_number :: "string \<Rightarrow> jsnum" where
  "js_to_number s =
     (let t = js_trim s; p = take 2 t
      in if t = [] then Fin 0
         else if p = ''0x'' \<or> p = ''0X'' then parse_radix 16 (drop 2 t)
         else if p = ''0o'' \<or> p = ''0O'' then parse_radix 8 (drop 2 t)
         else if p = ''0b'' \<or> p = ''0B'' then parse_radix 2 (drop 2 t)
         else (case split_sign t of (neg, u) \<Rightarrow>
           if u = ''Infinity'' then (if neg then NegInf else Inf)
           else (case parse_dec u of
               Some (q, []) \<Rightarrow> signed_num neg q
             | _ \<Rightarrow> NaN)))"

subsection \<open>Writing numbers\<close>

text \<open>The decimal exponent \<open>n\<close> with \<open>10 ^ (n - 1) \<le> q < 10 ^ n\<close>, searched from a start.\<close>

fun dec_exp_from :: "nat \<Rightarrow> int \<Rightarrow> rat \<Rightarrow> int" where
  "dec_exp_from 0 n q = n"
| "dec_exp_from (Suc k) n q =
     (if q < 10 powi (n - 1) then dec_exp_from k (n - 1) q
      else if 10 powi n \<le> q then dec_exp_from k (n + 1) q else n)"

text \<open>The bit length gives the start; 700 steps cover the whole range of binary64.\<close>

definition dec_exp :: "rat \<Rightarrow> int" where
  "dec_exp q = dec_exp_from 700 (ilog2 q * 3 div 10) q"

text \<open>A decimal with \<open>k\<close> digits that rounds to \<open>q\<close>: its digits and exponent.\<close>

definition dec_candidate :: "int \<Rightarrow> rat \<Rightarrow> nat \<Rightarrow> (nat \<times> int) option" where
  "dec_candidate n q k =
     (let x = q / 10 powi (n - int k); lo = \<lfloor>x\<rfloor>; hi = lo + 1;
          ok = (\<lambda>s. fl (of_int s * 10 powi (n - int k)) = q);
          near = (if x - of_int lo \<le> of_int hi - x then lo else hi);
          far = (if near = lo then hi else lo);
          s = (if ok near then Some near else if ok far then Some far else None)
      in case s of None \<Rightarrow> None
         | Some s \<Rightarrow> if s = 10 ^ k then Some (1, n + 1) else Some (nat s, n))"

fun shortest_dec :: "nat \<Rightarrow> nat \<Rightarrow> int \<Rightarrow> rat \<Rightarrow> nat \<times> int" where
  "shortest_dec 0 k n q = (nat \<lfloor>q / 10 powi (n - int k)\<rfloor>, n)"
| "shortest_dec (Suc m) k n q =
     (case dec_candidate n q k of Some r \<Rightarrow> r | None \<Rightarrow> shortest_dec m (Suc k) n q)"

definition zeros :: "nat \<Rightarrow> string" where
  "zeros n = replicate n (CHR ''0'')"

text \<open>The layout of digits \<open>ds\<close> with decimal exponent \<open>n\<close> (\<open>Number::toString\<close>).\<close>

definition layout_dec :: "string \<Rightarrow> int \<Rightarrow> string" where
  "layout_dec ds n =
     (let k = length ds in
      if int k \<le> n \<and> n \<le> 21 then ds @ zeros (nat (n - int k))
      else if 0 < n \<and> n \<le> 21 then take (nat n) ds @ ''.'' @ drop (nat n) ds
      else if -6 < n \<and> n \<le> 0 then ''0.'' @ zeros (nat (- n)) @ ds
      else (let e = n - 1;
                es = (if 0 \<le> e then ''e+'' else ''e-'') @ nat_str (nat \<bar>e\<bar>)
            in if k = 1 then ds @ es else take 1 ds @ ''.'' @ drop 1 ds @ es))"

definition pos_to_string :: "rat \<Rightarrow> string" where
  "pos_to_string q =
     (case shortest_dec 17 1 (dec_exp q) q of (s, n) \<Rightarrow> layout_dec (nat_str s) n)"

fun js_to_string :: "jsnum \<Rightarrow> string" where
  "js_to_string NaN = ''NaN''"
| "js_to_string Inf = ''Infinity''"
| "js_to_string NegInf = ''-Infinity''"
| "js_to_string NegZero = ''0''"
| "js_to_string (Fin q) =
     (if q = 0 then ''0'' else if q < 0 then ''-'' @ pos_to_string (- q) else pos_to_string q)"

text \<open>\<open>toFixed(1)\<close>.\<close>

definition tenths_str :: "nat \<Rightarrow> string" where
  "tenths_str n = nat_str (n div 10) @ ''.'' @ [digit_char (n mod 10)]"

fun js_to_fixed1 :: "jsnum \<Rightarrow> string" where
  "js_to_fixed1 (Fin q) =
     (if 10 ^ 21 \<le> \<bar>q\<bar> then js_to_string (Fin q)
      else (if q < 0 then ''-'' else []) @ tenths_str (nat \<lfloor>\<bar>q\<bar> * 10 + 1/2\<rfloor>))"
| "js_to_fixed1 NegZero = ''0.0''"
| "js_to_fixed1 x = js_to_string x"

text \<open>\<open>toLocaleString()\<close>: thousands groups and at most three fraction digits.\<close>

fun group3_rev :: "string \<Rightarrow> string" where
  "group3_rev (a # b # c # d # t) = a # b # c # CHR '','' # group3_rev (d # t)"
| "group3_rev s = s"

definition group3 :: "string \<Rightarrow> string" where
  "group3 s = rev (group3_rev (rev s))"

definition fraction3 :: "nat \<Rightarrow> string" where
  "fraction3 n =
     rev (dropWhile (\<lambda>c. c = CHR ''0'')
       (rev [digit_char (n div 100), digit_char (n div 10 mod 10), digit_char (n mod 10)]))"

definition locale_pos :: "rat \<Rightarrow> string" where
  "locale_pos q =
     (let n = nat \<lfloor>q * 1000 + 1/2\<rfloor>; f = fraction3 (n mod 1000)
      in group3 (nat_str (n div 1000)) @ (if f = [] then [] else ''.'' @ f))"

fun js_to_locale :: "jsnum \<Rightarrow> string" where
  "js_to_locale NaN = ''NaN''"
| "js_to_locale Inf = [CHR 0xE2, CHR 0x88, CHR 0x9E]"
| "js_to_locale NegInf = ''-'' @ [CHR 0xE2, CHR 0x88, CHR 0x9E]"
| "js_to_locale NegZero = ''-0''"
| "js_to_locale (Fin q) = (if q < 0 then ''-'' else []) @ locale_pos \<bar>q\<bar>"

subsection \<open>Reading back a decimal with one fraction digit\<close>

lemma skip_ws_digit [simp]: "is_digit c \<Longrightarrow> skip_ws (c # s) = c # s"
proof -
  assume "is_digit c"
  then have "\<not> is_ws c" "\<not> is_ws2 c b" "\<not> is_ws3 c b d" for b d
    by (auto simp: is_digit_def is_ws_def is_ws2_def is_ws3_def)
  then have "ws_len (c # s) = 0" by (simp add: ws_len_def split: list.split)
  then show ?thesis by (simp add: skip_ws.simps)
qed

lemma digit_neq [simp]: "is_digit c \<Longrightarrow> c \<noteq> CHR ''-'' \<and> c \<noteq> CHR ''+'' \<and> c \<noteq> CHR ''I''"
  by (auto simp: is_digit_def)

lemma not_digit_dot [simp]: "\<not> is_digit (CHR ''.'')"
  by (simp add: is_digit_def)

lemma takeWhile_digits:
  "\<forall>c \<in> set ds. is_digit c \<Longrightarrow> takeWhile is_digit (ds @ CHR ''.'' # r) = ds"
  "\<forall>c \<in> set ds. is_digit c \<Longrightarrow> dropWhile is_digit (ds @ CHR ''.'' # r) = CHR ''.'' # r"
  by (induction ds) auto

lemma parse_dec_tenths: "parse_dec (tenths_str n) = Some (of_nat n / 10, [])"
proof -
  have d: "n mod 10 < 10" by simp
  have e: "10 * (of_nat (n div 10) :: rat) + of_nat (n mod 10) = of_nat n"
    by (metis mult_div_mod_eq of_nat_add of_nat_mult of_nat_numeral)
  then have "of_nat (n mod 10) = of_nat n - 10 * (of_nat (n div 10) :: rat)" by simp
  then show ?thesis
    using d nat_str_digits [of "n div 10"]
    by (simp add: parse_dec_def tenths_str_def takeWhile_digits Let_def parse_exp_def digits_val_append_one)
qed

lemma js_parse_float_tenths: "js_parse_float (tenths_str n) = of_exact False (of_nat n / 10)"
proof -
  obtain c cs where c: "nat_str (n div 10) = c # cs" by (cases "nat_str (n div 10)") auto
  then have dig: "is_digit c" using nat_str_digits [of "n div 10"] by simp
  define r where "r = cs @ ''.'' @ [digit_char (n mod 10)]"
  have t: "tenths_str n = c # r" by (simp add: tenths_str_def c r_def)
  have "take 8 (c # r) \<noteq> ''Infinity''" using dig by auto
  then show ?thesis
    using dig parse_dec_tenths [of n]
    by (simp add: js_parse_float_def t split_sign_def signed_num_def)
qed

end
