(* ===== verification/Chart.thy ===== *)
theory Chart
  imports Js_String Dom
begin

text \<open>
  The charts of \<open>Adivento.chart\<close>: the coordinates of the probability line and of the sparkline,
  the SVG markup written for them, and \<open>init\<close>, which draws every chart of the page. Computed
  styles come from the browser: \<open>css\<close> is a parameter giving the value of a custom property of an
  element of a document.
\<close>

subsection \<open>Chart data\<close>

fun split_on :: "char \<Rightarrow> string \<Rightarrow> string list" where
  "split_on c [] = [[]]"
| "split_on c (x # xs) =
     (if x = c then [] # split_on c xs
      else (case split_on c xs of [] \<Rightarrow> [[x]] | y # ys \<Rightarrow> (x # y) # ys))"

text \<open>\<open>(attr || "").split(",").map(Number).filter((x) => !isNaN(x))\<close>.\<close>

definition parse_points :: "string option \<Rightarrow> jsnum list" where
  "parse_points a =
     filter (\<lambda>x. x \<noteq> NaN)
       (map js_to_number (split_on (CHR '','') (case a of None \<Rightarrow> [] | Some s \<Rightarrow> s)))"

subsection \<open>Coordinates\<close>

definition nat_num :: "nat \<Rightarrow> jsnum" where
  "nat_num n = Fin (of_nat n)"

text \<open>\<open>(i / (n - 1)) * W\<close>\<close>

definition x_coord :: "rat \<Rightarrow> nat \<Rightarrow> nat \<Rightarrow> jsnum" where
  "x_coord w n i = js_mul (js_div (nat_num i) (Fin (of_nat n - 1))) (Fin w)"

text \<open>\<open>H - (v / 100) * H\<close>\<close>

definition y_coord :: "rat \<Rightarrow> jsnum \<Rightarrow> jsnum" where
  "y_coord h v = js_sub (Fin h) (js_mul (js_div v (Fin 100)) (Fin h))"

definition line_xy :: "jsnum list \<Rightarrow> (jsnum \<times> jsnum) list" where
  "line_xy points =
     map (\<lambda>(i, v). (x_coord 300 (length points) i, y_coord 120 (js_clamp (Fin 0) (Fin 100) v)))
       (enumerate 0 points)"

definition spark_xy :: "jsnum list \<Rightarrow> (jsnum \<times> jsnum) list" where
  "spark_xy points =
     map (\<lambda>(i, v). (x_coord 72 (length points) i, y_coord 22 v)) (enumerate 0 points)"

subsection \<open>Markup\<close>

definition xy_str :: "jsnum \<times> jsnum \<Rightarrow> string" where
  "xy_str p = js_to_string (fst p) @ '','' @ js_to_string (snd p)"

definition path_str :: "(jsnum \<times> jsnum) list \<Rightarrow> string" where
  "path_str xy = join_with '' '' (map xy_str xy)"

text \<open>\<open>const v = getComputedStyle(el).getPropertyValue(name).trim(); return v || fallback\<close>\<close>

definition css_var :: "(dom \<Rightarrow> nat \<Rightarrow> string \<Rightarrow> string) \<Rightarrow> dom \<Rightarrow> nat \<Rightarrow> string \<Rightarrow> string \<Rightarrow> string" where
  "css_var css d el name fallback =
     (let v = js_trim (css d el name) in if v = [] then fallback else v)"

text \<open>\<open>opts.color || cssVar(el, "--ds-accent", "#0e7c66")\<close>, where \<open>data-color\<close> gave the option.\<close>

definition chart_color :: "(dom \<Rightarrow> nat \<Rightarrow> string \<Rightarrow> string) \<Rightarrow> dom \<Rightarrow> nat \<Rightarrow> string" where
  "chart_color css d el =
     (case get_attr d ''data-color'' el of
        Some (c # cs) \<Rightarrow> c # cs
      | _ \<Rightarrow> css_var css d el ''--ds-accent'' ''#0e7c66'')"

definition grid_line :: "string \<Rightarrow> rat \<Rightarrow> string" where
  "grid_line grid g =
     (let y = js_to_string (js_sub (Fin 120) (js_mul (js_div (Fin g) (Fin 100)) (Fin 120)))
      in ''<line x1=\"0\" x2=\"300\" y1=\"'' @ y @ ''\" y2=\"'' @ y @ ''\" stroke=\"'' @ grid
         @ ''\" stroke-width=\"1\" stroke-dasharray=\"3 3\"/>'')"

definition line_html :: "string \<Rightarrow> string \<Rightarrow> string \<Rightarrow> jsnum list \<Rightarrow> string" where
  "line_html color grid area_op points =
     (let xy = line_xy points; path = path_str xy;
          area = ''0,120 '' @ path @ '' 300,120''; l = last xy
      in concat (map (grid_line grid) [25, 50, 75])
         @ ''<polygon points=\"'' @ area @ ''\" fill=\"'' @ color @ ''\" opacity=\"'' @ area_op @ ''\"/>''
         @ ''<polyline points=\"'' @ path @ ''\" fill=\"none\" stroke=\"'' @ color
         @ ''\" stroke-width=\"2\" stroke-linejoin=\"round\" stroke-linecap=\"round\"/>''
         @ ''<circle cx=\"'' @ js_to_string (fst l) @ ''\" cy=\"'' @ js_to_string (snd l)
         @ ''\" r=\"3.5\" fill=\"'' @ color @ ''\"/>'')"

definition spark_html :: "string \<Rightarrow> jsnum list \<Rightarrow> string" where
  "spark_html color points =
     ''<polyline points=\"'' @ path_str (spark_xy points) @ ''\" fill=\"none\" stroke=\"'' @ color
     @ ''\" stroke-width=\"1.5\" stroke-linejoin=\"round\"/>''"

subsection \<open>Drawing\<close>

definition chart_line :: "(dom \<Rightarrow> nat \<Rightarrow> string \<Rightarrow> string) \<Rightarrow> nat \<Rightarrow> jsnum list \<Rightarrow> dom \<Rightarrow> dom" where
  "chart_line css el points d =
     (if length points < 2 then d
      else
        let color = chart_color css d el;
            grid = css_var css d el ''--ds-chart-grid'' ''#e7e3d6'';
            area_op = css_var css d el ''--ds-chart-area'' ''0.1''
        in set_html (line_html color grid area_op points) el
             (set_attr ''preserveAspectRatio'' ''none'' el
               (set_attr ''viewBox'' ''0 0 300 120'' el d)))"

definition chart_spark :: "(dom \<Rightarrow> nat \<Rightarrow> string \<Rightarrow> string) \<Rightarrow> nat \<Rightarrow> jsnum list \<Rightarrow> dom \<Rightarrow> dom" where
  "chart_spark css el points d =
     (let color = chart_color css d el
      in set_style ''height'' ''22px'' el (set_style ''width'' ''72px'' el
           (set_html (spark_html color points) el
             (set_attr ''viewBox'' ''0 0 72 22'' el d))))"

definition draw_one ::
  "(nat \<Rightarrow> jsnum list \<Rightarrow> dom \<Rightarrow> dom) \<Rightarrow> string \<Rightarrow> nat \<Rightarrow> dom \<Rightarrow> dom" where
  "draw_one draw a el d =
     (let pts = parse_points (get_attr d a el) in if pts = [] then d else draw el pts d)"

definition is_svg_with :: "dom \<Rightarrow> string \<Rightarrow> nat \<Rightarrow> bool" where
  "is_svg_with d a n \<longleftrightarrow> e_tag (d_el d n) = ''svg'' \<and> has_attr d a n"

text \<open>The drawing part of \<open>chart.init\<close>; the listener it also adds is in \<open>Theme\<close>.\<close>

definition draw_charts :: "(dom \<Rightarrow> nat \<Rightarrow> string \<Rightarrow> string) \<Rightarrow> dom \<Rightarrow> dom" where
  "draw_charts css d =
     (let d1 = for_each (draw_one (chart_line css) ''data-ds-chart'')
                 (query_all d (is_svg_with d ''data-ds-chart'')) d
      in for_each (draw_one (chart_spark css) ''data-ds-spark'')
           (query_all d1 (is_svg_with d1 ''data-ds-spark'')) d1)"

subsection \<open>The line stays in its box\<close>

lemma x_coord_val:
  assumes "2 \<le> n" "i < n" "n \<le> 2 ^ 32" "0 \<le> w" "w \<le> 2 ^ 50"
  shows "is_finite (x_coord w n i)"
    and "val (x_coord w n i) = fl (fl (of_nat i / (of_nat n - 1)) * w)"
proof -
  have n1: "0 < (of_nat n - 1 :: rat)" using assms(1) by simp
  have "of_nat i \<le> (of_nat n - 1 :: rat)"
    using assms(2) by (metis Suc_leI le_diff_eq of_nat_Suc of_nat_le_iff add.commute)
  with n1 have r: "0 \<le> of_nat i / (of_nat n - 1 :: rat)" "of_nat i / (of_nat n - 1 :: rat) \<le> 1"
    by simp_all
  then have f: "0 \<le> fl (of_nat i / (of_nat n - 1))" "fl (of_nat i / (of_nat n - 1)) \<le> 1"
    using b64.rnd_nonneg b64.rnd_le [of 1] is_dbl_of_int [of 1] by auto
  have "\<bar>of_nat i / (of_nat n - 1 :: rat)\<bar> \<le> dbl_safe"
    by (rule range_dbl_safe [OF r]) simp
  then have d: "is_finite (js_div (nat_num i) (Fin (of_nat n - 1)))"
      "val (js_div (nat_num i) (Fin (of_nat n - 1))) = fl (of_nat i / (of_nat n - 1))"
    using n1 js_div_finite [of "nat_num i" "Fin (of_nat n - 1)"] by (simp_all add: nat_num_def)
  have "fl (of_nat i / (of_nat n - 1)) * w \<le> 1 * w"
    using f assms(4) by (intro mult_right_mono) auto
  with f assms(4,5) have "\<bar>fl (of_nat i / (of_nat n - 1)) * w\<bar> \<le> dbl_safe"
    by (intro le_dbl_safe) (simp add: abs_of_nonneg)
  with d show "is_finite (x_coord w n i)"
    and "val (x_coord w n i) = fl (fl (of_nat i / (of_nat n - 1)) * w)"
    using js_mul_finite [of "js_div (nat_num i) (Fin (of_nat n - 1))" "Fin w"]
    by (simp_all add: x_coord_def)
qed

lemma ratio_mono:
  "2 \<le> n \<Longrightarrow> i \<le> j \<Longrightarrow> of_nat i / (of_nat n - 1 :: rat) \<le> of_nat j / (of_nat n - 1)"
  by (intro divide_right_mono) simp_all

lemma x_coord_mono:
  assumes "2 \<le> n" "i \<le> j" "j < n" "n \<le> 2 ^ 32" "0 \<le> w" "w \<le> 2 ^ 50"
  shows "val (x_coord w n i) \<le> val (x_coord w n j)"
  using assms by (auto simp: x_coord_val intro!: b64.rnd_mono mult_right_mono ratio_mono)

lemma x_coord_first:
  "2 \<le> n \<Longrightarrow> n \<le> 2 ^ 32 \<Longrightarrow> 0 \<le> w \<Longrightarrow> w \<le> 2 ^ 50 \<Longrightarrow> val (x_coord w n 0) = 0"
  by (simp add: x_coord_val fl_zero)

lemma x_coord_last:
  assumes "2 \<le> n" "n \<le> 2 ^ 32" "0 \<le> w" "w \<le> 2 ^ 50" "is_dbl w"
  shows "val (x_coord w n (n - 1)) = w"
proof -
  have "of_nat (n - 1) / (of_nat n - 1 :: rat) = 1"
    using assms(1) by (simp add: of_nat_diff)
  then show ?thesis
    using assms by (simp add: x_coord_val b64.rnd_exact)
qed

lemma y_coord_val:
  assumes "is_finite v" "0 \<le> val v" "val v \<le> 100" "is_dbl h" "0 \<le> h" "h \<le> 2 ^ 50"
  shows "is_finite (y_coord h v)"
    and "val (y_coord h v) = fl (h - fl (fl (val v / 100) * h))"
    and "0 \<le> val (y_coord h v)" and "val (y_coord h v) \<le> h"
proof -
  have f: "0 \<le> fl (val v / 100)" "fl (val v / 100) \<le> 1"
    using assms b64.rnd_nonneg b64.rnd_le [of 1] is_dbl_of_int [of 1] by auto
  have "\<bar>val v / 100\<bar> \<le> dbl_safe"
    using assms by (intro le_dbl_safe) simp
  then have d: "is_finite (js_div v (Fin 100))" "val (js_div v (Fin 100)) = fl (val v / 100)"
    using assms(1) js_div_finite [of v "Fin 100"] by simp_all
  have p: "0 \<le> fl (val v / 100) * h" "fl (val v / 100) * h \<le> h"
    using f assms by (auto intro: mult_left_le_one_le)
  then have "\<bar>fl (val v / 100) * h\<bar> \<le> dbl_safe"
    using assms(6) by (intro le_dbl_safe) simp
  with d have m: "is_finite (js_mul (js_div v (Fin 100)) (Fin h))"
      "val (js_mul (js_div v (Fin 100)) (Fin h)) = fl (fl (val v / 100) * h)"
    using js_mul_finite [of "js_div v (Fin 100)" "Fin h"] by simp_all
  have q: "0 \<le> fl (fl (val v / 100) * h)" "fl (fl (val v / 100) * h) \<le> h"
    using p assms(4) by (auto intro: b64.rnd_nonneg b64.rnd_le)
  then have s: "\<bar>h - fl (fl (val v / 100) * h)\<bar> \<le> dbl_safe"
    using assms(5,6) by (intro le_dbl_safe) simp
  have "\<bar>h\<bar> < dbl_top"
    using assms(5,6) dbl_safe_less_top le_dbl_safe [of h] by simp
  with m s assms(4) show fin: "is_finite (y_coord h v)"
    and v: "val (y_coord h v) = fl (h - fl (fl (val v / 100) * h))"
    using js_sub_finite [of "Fin h" "js_mul (js_div v (Fin 100)) (Fin h)"]
    by (simp_all add: y_coord_def)
  show "0 \<le> val (y_coord h v)" and "val (y_coord h v) \<le> h"
    unfolding v using q assms(4) by (auto intro: b64.rnd_nonneg b64.rnd_le)
qed

lemma y_coord_antimono:
  assumes "is_finite u" "is_finite v" "0 \<le> val u" "val u \<le> val v" "val v \<le> 100"
    "is_dbl h" "0 \<le> h" "h \<le> 2 ^ 50"
  shows "val (y_coord h v) \<le> val (y_coord h u)"
  using assms
  by (auto simp: y_coord_val(2) intro!: b64.rnd_mono mult_right_mono divide_right_mono diff_left_mono)

lemma is_dbl_300 [simp]: "is_dbl 300" "is_dbl 120" "is_dbl 100" "is_dbl 72" "is_dbl 22"
  by (simp_all add: is_dbl_numeral)

lemma line_xy_length [simp]: "length (line_xy points) = length points"
  by (simp add: line_xy_def)

lemma line_xy_nth:
  "i < length points \<Longrightarrow> line_xy points ! i =
     (x_coord 300 (length points) i, y_coord 120 (js_clamp (Fin 0) (Fin 100) (points ! i)))"
  by (simp add: line_xy_def nth_enumerate_eq)

lemma clamp_percent:
  "v \<noteq> NaN \<Longrightarrow> is_finite (js_clamp (Fin 0) (Fin 100) v) \<and>
     0 \<le> val (js_clamp (Fin 0) (Fin 100) v) \<and> val (js_clamp (Fin 0) (Fin 100) v) \<le> 100"
  using js_clamp_range [of "Fin 0" "Fin 100" v] by simp

lemma parse_points_no_NaN: "NaN \<notin> set (parse_points a)"
  by (simp add: parse_points_def)

lemma length_le_dbl: "n < length points \<Longrightarrow> length points \<le> 2 ^ 32 \<Longrightarrow> n < 2 ^ 32"
  by simp

lemma count_minus_one:
  assumes "1 \<le> n" "n \<le> 2 ^ 32"
  shows "js_sub (nat_num n) (Fin 1) = Fin (of_nat n - 1)"
proof -
  have d: "is_dbl (of_nat n)" using assms(2) by (intro is_dbl_of_nat) simp
  have "(of_nat n :: rat) \<le> of_nat (2 ^ 32)" using assms(2) by (simp only: of_nat_le_iff)
  then have "(of_nat n - 1 :: rat) \<le> 2 ^ 200" by simp
  moreover have "fl (of_nat n - 1) = of_nat n - 1"
    using b64.rnd_exact [OF is_dbl_of_nat [of "n - 1"]] assms by (simp add: of_nat_diff)
  ultimately show ?thesis
    using js_sub_Fin [OF _ le_dbl_safe d, of 1] assms(1) by (simp add: nat_num_def)
qed

subsection \<open>Properties of the charts\<close>

text \<open>
  C17. Every point of the probability line drawn from an attribute has finite coordinates inside
  the 300 by 120 box of the view, also for values outside 0 to 100 and infinite ones, in binary64
  arithmetic; the first point is at the left edge and the last at the right edge, exactly.
\<close>

theorem chart_line_in_box:
  assumes "points = parse_points a" "2 \<le> length points" "length points \<le> 2 ^ 32"
  shows "(\<forall>(x, y) \<in> set (line_xy points).
            is_finite x \<and> is_finite y \<and> 0 \<le> val x \<and> val x \<le> 300 \<and> 0 \<le> val y \<and> val y \<le> 120) \<and>
         val (fst (hd (line_xy points))) = 0 \<and> val (fst (last (line_xy points))) = 300"
proof (intro conjI ballI)
  let ?n = "length points"
  have bound: "(300 :: rat) \<le> 2 ^ 50" by simp
  fix p assume "p \<in> set (line_xy points)"
  then obtain i where i: "i < ?n" "p = line_xy points ! i" by (auto simp: in_set_conv_nth)
  have nn: "points ! i \<noteq> NaN" using i(1) parse_points_no_NaN [of a] assms(1) nth_mem by metis
  have "val (x_coord 300 ?n 0) \<le> val (x_coord 300 ?n i)"
    and "val (x_coord 300 ?n i) \<le> val (x_coord 300 ?n (?n - 1))"
    using i(1) assms(2,3) by (intro x_coord_mono; simp)+
  then have x: "0 \<le> val (x_coord 300 ?n i)" "val (x_coord 300 ?n i) \<le> 300"
    using x_coord_first [of ?n 300] x_coord_last [of ?n 300] assms(2,3) by simp_all
  have f: "is_finite (x_coord 300 ?n i)"
    using x_coord_val(1) [of ?n i 300] i(1) assms(2,3) by simp
  show "case p of (x, y) \<Rightarrow> is_finite x \<and> is_finite y \<and> 0 \<le> val x \<and> val x \<le> 300 \<and> 0 \<le> val y \<and> val y \<le> 120"
    using x f y_coord_val [of "js_clamp (Fin 0) (Fin 100) (points ! i)" 120] clamp_percent [OF nn]
    by (simp add: i(2) line_xy_nth [OF i(1)])
next
  have "length (line_xy points) \<noteq> 0" unfolding line_xy_length using assms(2) by linarith
  then have ne: "line_xy points \<noteq> []" by (simp only: length_0_conv not_False_eq_True)
  have n: "0 < length points" "length points - 1 < length points" using assms(2) by linarith+
  show "val (fst (hd (line_xy points))) = 0"
    using x_coord_first [of "length points" 300] assms(2,3)
    by (simp add: hd_conv_nth [OF ne] line_xy_nth [OF n(1)])
  show "val (fst (last (line_xy points))) = 300"
    using x_coord_last [of "length points" 300] assms(2,3)
    by (simp add: last_conv_nth [OF ne] line_xy_nth [OF n(2), simplified])
qed

theorem chart_line_in_box_witness:
  "val (fst (last (line_xy (parse_points (Some ''10,250,-Infinity''))))) = 300"
proof -
  have "parse_points (Some ''10,250,-Infinity'') = [Fin 10, Fin 250, NegInf]" by code_simp
  then show ?thesis
    using chart_line_in_box [OF refl, of "Some ''10,250,-Infinity''"] by simp
qed

text \<open>
  The line runs to the right and shows the order of the values: a later point is never to the
  left of an earlier one, and a larger value is never drawn below a smaller one.
\<close>

theorem chart_line_ordered:
  assumes "2 \<le> length points" "length points \<le> 2 ^ 32" "list_all is_finite points"
    and "i < length points" "j < length points"
  shows "(i \<le> j \<longrightarrow> val (fst (line_xy points ! i)) \<le> val (fst (line_xy points ! j))) \<and>
         (val (points ! i) \<le> val (points ! j) \<longrightarrow>
            val (snd (line_xy points ! j)) \<le> val (snd (line_xy points ! i)))"
proof (intro conjI impI)
  show "val (fst (line_xy points ! i)) \<le> val (fst (line_xy points ! j))" if "i \<le> j"
    using assms that by (simp add: line_xy_nth) (intro x_coord_mono; simp)
next
  assume le: "val (points ! i) \<le> val (points ! j)"
  have fin: "is_finite (points ! i)" "is_finite (points ! j)"
    using assms by (auto simp: list_all_length)
  then have "points ! i \<noteq> NaN" "points ! j \<noteq> NaN" by (auto simp: finite_not_NaN)
  note clamp = this [THEN clamp_percent]
  have "val (js_clamp (Fin 0) (Fin 100) (points ! i)) \<le> val (js_clamp (Fin 0) (Fin 100) (points ! j))"
    using fin le by (intro js_clamp_mono) simp_all
  with clamp show "val (snd (line_xy points ! j)) \<le> val (snd (line_xy points ! i))"
    using assms by (simp add: line_xy_nth) (intro y_coord_antimono; simp)
qed

theorem chart_line_ordered_witness:
  "val (snd (line_xy [Fin 10, Fin 90, Fin 40] ! 1)) \<le> val (snd (line_xy [Fin 10, Fin 90, Fin 40] ! 2))"
  using chart_line_ordered [of "[Fin 10, Fin 90, Fin 40]" 2 1] by simp

text \<open>
  A sparkline of one point, which is also what an empty attribute gives, has no drawable
  coordinate: \<open>0 / 0\<close> makes its abscissa \<open>NaN\<close>. The line chart returns early instead.
\<close>

theorem spark_single_point:
  "path_str (spark_xy [v]) = ''NaN,'' @ js_to_string (y_coord 22 v) \<and>
   parse_points (Some []) = [Fin 0] \<and> chart_line css el [v] d = d"
proof -
  have "x_coord 72 1 0 = NaN" by code_simp
  then have "path_str (spark_xy [v]) = ''NaN,'' @ js_to_string (y_coord 22 v)"
    by (simp add: spark_xy_def path_str_def xy_str_def)
  moreover have "parse_points (Some []) = [Fin 0]" by code_simp
  ultimately show ?thesis by (simp add: chart_line_def)
qed

end
