(* ===== verification/Theme.thy ===== *)
theory Theme
  imports Chart
begin

text \<open>
  \<open>Adivento.theme\<close> over the page: the document, the saved theme in \<open>localStorage\<close> (which may
  be missing, or refuse a read or a write; of a missing one neither succeeds), the callbacks waiting for animation frames, and the listeners of the
  \<open>ds:theme\<close> event that \<open>theme.set\<close> dispatches. Listeners run in the order they were added; one
  added during a dispatch runs from the next dispatch on. The document element is node 0.
\<close>

record storage =
  no_storage :: bool
  can_read :: bool
  can_write :: bool
  saved_theme :: "string option"

datatype listener = SyncThemeColor | ChartInit

record page =
  p_dom :: dom
  p_store :: storage
  p_frames :: "nat list"
  p_listeners :: "listener list"

abbreviation (input) root_node :: nat where
  "root_node \<equiv> 0"

subsection \<open>The controls\<close>

definition theme_toggles :: "dom \<Rightarrow> nat \<Rightarrow> bool" where
  "theme_toggles d n \<longleftrightarrow> has_attr d ''data-ds-theme-toggle'' n"

definition theme_labels :: "dom \<Rightarrow> nat \<Rightarrow> bool" where
  "theme_labels d n \<longleftrightarrow> has_attr d ''data-ds-theme-label'' n"

definition theme_meta :: "dom \<Rightarrow> nat \<Rightarrow> bool" where
  "theme_meta d n \<longleftrightarrow> e_tag (d_el d n) = ''meta'' \<and> get_attr d ''name'' n = Some ''theme-color''"

definition bool_str :: "bool \<Rightarrow> string" where
  "bool_str b = (if b then ''true'' else ''false'')"

definition label_of :: "string \<Rightarrow> string" where
  "label_of name = (if name = ''dark'' then ''Dark'' else ''Light'')"

definition sync_theme_controls :: "string \<Rightarrow> dom \<Rightarrow> dom" where
  "sync_theme_controls name d =
     (let d1 = for_each (set_attr ''aria-pressed'' (bool_str (name = ''dark'')))
                 (query_all d (theme_toggles d)) d
      in for_each (set_text (label_of name)) (query_all d1 (theme_labels d1)) d1)"

text \<open>
  \<open>THEME_COLORS[name] || THEME_COLORS.light\<close> as the text that \<open>setAttribute\<close> makes of it. The object
  inherits members whose names are looked up like the others: functions, which read as their source
  (in the form the V8 engine gives), and the prototype.
\<close>

definition object_functions :: "string list" where
  "object_functions =
     [''constructor'', ''hasOwnProperty'', ''isPrototypeOf'', ''propertyIsEnumerable'', ''toLocaleString'', ''toString'',
      ''valueOf'', ''__defineGetter__'', ''__defineSetter__'', ''__lookupGetter__'', ''__lookupSetter__'']"

definition inherited_member :: "string \<Rightarrow> string option" where
  "inherited_member name =
     (if name = ''__proto__'' then Some ''[object Object]''
      else if name \<in> set object_functions
      then Some (''function '' @ (if name = ''constructor'' then ''Object'' else name) @ ''() { [native code] }'')
      else None)"

definition theme_color :: "string \<Rightarrow> string" where
  "theme_color name =
     (if name = ''dark'' then ''#0F5136'' else if name = ''light'' then ''#FAF7F2''
      else case inherited_member name of Some t \<Rightarrow> t | None \<Rightarrow> ''#FAF7F2'')"

definition sync_theme_color :: "string \<Rightarrow> dom \<Rightarrow> dom" where
  "sync_theme_color name d =
     (case query_first d (theme_meta d) of
        None \<Rightarrow> d
      | Some n \<Rightarrow> set_attr ''content'' (theme_color name) n d)"

subsection \<open>Operations\<close>

text \<open>\<open>getAttribute("data-theme") || "light"\<close>\<close>

definition theme_get :: "page \<Rightarrow> string" where
  "theme_get p =
     (case get_attr (p_dom p) ''data-theme'' root_node of
        Some (c # cs) \<Rightarrow> c # cs
      | _ \<Rightarrow> ''light'')"

definition chart_init :: "(dom \<Rightarrow> nat \<Rightarrow> string \<Rightarrow> string) \<Rightarrow> page \<Rightarrow> page" where
  "chart_init css p =
     p\<lparr>p_dom := draw_charts css (p_dom p), p_listeners := p_listeners p @ [ChartInit]\<rparr>"

fun run_listener :: "(dom \<Rightarrow> nat \<Rightarrow> string \<Rightarrow> string) \<Rightarrow> string \<Rightarrow> listener \<Rightarrow> page \<Rightarrow> page" where
  "run_listener css name SyncThemeColor p = p\<lparr>p_dom := sync_theme_color name (p_dom p)\<rparr>"
| "run_listener css name ChartInit p = chart_init css p"

definition dispatch_theme :: "(dom \<Rightarrow> nat \<Rightarrow> string \<Rightarrow> string) \<Rightarrow> string \<Rightarrow> page \<Rightarrow> page" where
  "dispatch_theme css name p = fold (run_listener css name) (p_listeners p) p"

definition store_theme :: "string \<Rightarrow> storage \<Rightarrow> storage" where
  "store_theme name s = (if can_write s then s\<lparr>saved_theme := Some name\<rparr> else s)"

definition read_theme :: "storage \<Rightarrow> string option" where
  "read_theme s = (if can_read s then saved_theme s else None)"

definition theme_set :: "(dom \<Rightarrow> nat \<Rightarrow> string \<Rightarrow> string) \<Rightarrow> string \<Rightarrow> page \<Rightarrow> page" where
  "theme_set css name p =
     (let d1 = set_attr ''data-theme'' name root_node (add_class ''ds-theming'' root_node (p_dom p));
          d2 = sync_theme_color name (sync_theme_controls name d1);
          p1 = dispatch_theme css name
                 (p\<lparr>p_dom := d2, p_store := store_theme name (p_store p)\<rparr>)
      in p1\<lparr>p_frames := p_frames p1 @ [2]\<rparr>)"

definition theme_toggle :: "(dom \<Rightarrow> nat \<Rightarrow> string \<Rightarrow> string) \<Rightarrow> page \<Rightarrow> page" where
  "theme_toggle css p = theme_set css (if theme_get p = ''dark'' then ''light'' else ''dark'') p"

definition theme_init :: "(dom \<Rightarrow> nat \<Rightarrow> string \<Rightarrow> string) \<Rightarrow> page \<Rightarrow> page" where
  "theme_init css p =
     (let p1 = p\<lparr>p_listeners := p_listeners p @ [SyncThemeColor]\<rparr>
      in case read_theme (p_store p1) of
           Some (c # cs) \<Rightarrow> theme_set css (c # cs) p1
         | _ \<Rightarrow> p1\<lparr>p_dom := sync_theme_color (theme_get p1)
                          (sync_theme_controls (theme_get p1) (p_dom p1))\<rparr>)"

text \<open>The click handler that \<open>init\<close> puts on the document.\<close>

definition theme_click :: "(dom \<Rightarrow> nat \<Rightarrow> string \<Rightarrow> string) \<Rightarrow> nat \<Rightarrow> page \<Rightarrow> page" where
  "theme_click css n p =
     (case closest (p_dom p) (\<lambda>m. theme_toggles (p_dom p) m \<or> theme_labels (p_dom p) m) n of
        None \<Rightarrow> p
      | Some _ \<Rightarrow> theme_toggle css p)"

text \<open>One animation frame: a callback waits for two, and removes the class when it runs.\<close>

definition theme_frame :: "page \<Rightarrow> page" where
  "theme_frame p =
     (let p1 = p\<lparr>p_frames := map (\<lambda>k. k - 1) (filter (\<lambda>k. k \<noteq> 1) (p_frames p))\<rparr>
      in if 1 \<in> set (p_frames p)
         then p1\<lparr>p_dom := remove_class ''ds-theming'' root_node (p_dom p)\<rparr> else p1)"

text \<open>\<open>Adivento.init\<close>, as far as the theme and the charts are concerned.\<close>

definition boot :: "(dom \<Rightarrow> nat \<Rightarrow> string \<Rightarrow> string) \<Rightarrow> page \<Rightarrow> page" where
  "boot css p = chart_init css (theme_init css p)"

datatype theme_event = SetTheme string | ToggleTheme | ClickOn nat | Frame

fun theme_step :: "(dom \<Rightarrow> nat \<Rightarrow> string \<Rightarrow> string) \<Rightarrow> theme_event \<Rightarrow> page \<Rightarrow> page" where
  "theme_step css (SetTheme name) p = theme_set css name p"
| "theme_step css ToggleTheme p = theme_toggle css p"
| "theme_step css (ClickOn n) p = theme_click css n p"
| "theme_step css Frame p = theme_frame p"


text \<open>Every control of the document shows the theme \<open>name\<close>.\<close>

definition shows_theme :: "string \<Rightarrow> dom \<Rightarrow> bool" where
  "shows_theme name d \<longleftrightarrow>
     list_all (\<lambda>n. get_attr d ''aria-pressed'' n = Some (bool_str (name = ''dark'')))
       (query_all d (theme_toggles d)) \<and>
     list_all (\<lambda>n. e_text (d_el d n) = label_of name) (query_all d (theme_labels d)) \<and>
     (case query_first d (theme_meta d) of
        None \<Rightarrow> True
      | Some n \<Rightarrow> get_attr d ''content'' n = Some (theme_color name))"

text \<open>How many of the listeners draw the charts.\<close>

definition chart_listeners :: "page \<Rightarrow> nat" where
  "chart_listeners p = length (filter (\<lambda>l. l = ChartInit) (p_listeners p))"

subsection \<open>What drawing leaves alone\<close>

definition draws_only :: "dom \<Rightarrow> dom \<Rightarrow> bool" where
  "draws_only d d' \<longleftrightarrow>
     d_size d' = d_size d \<and>
     (\<forall>n. parent d' n = parent d n \<and> e_tag (d_el d' n) = e_tag (d_el d n) \<and>
          e_text (d_el d' n) = e_text (d_el d n) \<and> e_hidden (d_el d' n) = e_hidden (d_el d n) \<and>
          e_value (d_el d' n) = e_value (d_el d n) \<and>
          (\<forall>c. has_class d' c n = has_class d c n) \<and>
          (\<forall>a. a \<notin> {''viewBox'', ''preserveAspectRatio''} \<longrightarrow> get_attr d' a n = get_attr d a n))"

lemma draws_only_refl [simp]: "draws_only d d"
  by (simp add: draws_only_def)

lemma draws_only_trans: "draws_only a b \<Longrightarrow> draws_only b c \<Longrightarrow> draws_only a c"
  by (simp add: draws_only_def)

lemma draws_only_for_each:
  assumes "\<And>n d. draws_only d (f n d)"
  shows "draws_only d (for_each f ns d)"
  unfolding for_each_def
  by (induction ns arbitrary: d) (auto intro: draws_only_trans assms)

lemma draws_only_chart_line: "draws_only d (chart_line css el pts d)"
  by (simp add: chart_line_def draws_only_def Let_def)

lemma draws_only_chart_spark: "draws_only d (chart_spark css el pts d)"
  by (simp add: chart_spark_def draws_only_def Let_def)

lemma draws_only_draw_charts: "draws_only d (draw_charts css d)"
  unfolding draw_charts_def Let_def
  by (rule draws_only_trans; rule draws_only_for_each)
    (simp_all add: draw_one_def Let_def draws_only_chart_line draws_only_chart_spark)

lemma draws_only_query:
  assumes "draws_only d d'"
  shows "theme_toggles d' = theme_toggles d" "theme_labels d' = theme_labels d"
    "theme_meta d' = theme_meta d" "query_all d' P = query_all d P" "query_first d' P = query_first d P"
  using assms
  by (auto simp: draws_only_def theme_toggles_def theme_labels_def theme_meta_def has_attr_def
      query_all_def query_first_def fun_eq_iff)

lemma shows_theme_draws_only:
  assumes "draws_only d d'" "shows_theme name d"
  shows "shows_theme name d'"
  using assms(2) unfolding shows_theme_def draws_only_query [OF assms(1)]
  using assms(1) by (auto simp: draws_only_def list_all_iff split: option.splits)

subsection \<open>The controls after one synchronisation\<close>

lemma for_each_set_attr [simp]:
  "get_attr (for_each (set_attr a v) ns d) b n =
     (if n \<in> set ns \<and> b = a then Some v else get_attr d b n)"
  unfolding for_each_def by (induction ns arbitrary: d) auto

lemma for_each_set_attr_other [simp]:
  "d_size (for_each (set_attr a v) ns d) = d_size d"
  "e_tag (d_el (for_each (set_attr a v) ns d) n) = e_tag (d_el d n)"
  "e_text (d_el (for_each (set_attr a v) ns d) n) = e_text (d_el d n)"
  "has_class (for_each (set_attr a v) ns d) c n = has_class d c n"
  unfolding for_each_def by (induction ns arbitrary: d) auto

lemma for_each_set_text [simp]:
  "e_text (d_el (for_each (set_text s) ns d) n) = (if n \<in> set ns then s else e_text (d_el d n))"
  "get_attr (for_each (set_text s) ns d) b n = get_attr d b n"
  "d_size (for_each (set_text s) ns d) = d_size d"
  "e_tag (d_el (for_each (set_text s) ns d) n) = e_tag (d_el d n)"
  "has_class (for_each (set_text s) ns d) c n = has_class d c n"
  unfolding for_each_def by (induction ns arbitrary: d) auto

lemma sync_theme_controls_simps [simp]:
  "d_size (sync_theme_controls name d) = d_size d"
  "e_tag (d_el (sync_theme_controls name d) n) = e_tag (d_el d n)"
  "has_class (sync_theme_controls name d) c n = has_class d c n"
  "b \<noteq> ''aria-pressed'' \<Longrightarrow> get_attr (sync_theme_controls name d) b n = get_attr d b n"
  by (simp_all add: sync_theme_controls_def Let_def)

lemma sync_theme_color_simps [simp]:
  "d_size (sync_theme_color name d) = d_size d"
  "e_tag (d_el (sync_theme_color name d) n) = e_tag (d_el d n)"
  "e_text (d_el (sync_theme_color name d) n) = e_text (d_el d n)"
  "has_class (sync_theme_color name d) c n = has_class d c n"
  "b \<noteq> ''content'' \<Longrightarrow> get_attr (sync_theme_color name d) b n = get_attr d b n"
  by (simp_all add: sync_theme_color_def split: option.splits)

lemma controls_sync [simp]:
  "theme_toggles (sync_theme_controls name d) = theme_toggles d"
  "theme_labels (sync_theme_controls name d) = theme_labels d"
  "theme_meta (sync_theme_controls name d) = theme_meta d"
  "theme_toggles (sync_theme_color name d) = theme_toggles d"
  "theme_labels (sync_theme_color name d) = theme_labels d"
  "theme_meta (sync_theme_color name d) = theme_meta d"
  by (simp_all add: theme_toggles_def theme_labels_def theme_meta_def has_attr_def fun_eq_iff)

lemma query_size_cong:
  "d_size d' = d_size d \<Longrightarrow> query_all d' P = query_all d P"
  "d_size d' = d_size d \<Longrightarrow> query_first d' P = query_first d P"
  by (simp_all add: query_all_def query_first_def)

lemmas query_sync [simp] =
  query_size_cong [of "sync_theme_controls name d" d for name d, OF sync_theme_controls_simps(1)]
  query_size_cong [of "sync_theme_color name d" d for name d, OF sync_theme_color_simps(1)]

lemma sync_theme_color_content:
  "query_first d (theme_meta d) = Some n \<Longrightarrow>
     get_attr (sync_theme_color name d) ''content'' n = Some (theme_color name)"
  by (simp add: sync_theme_color_def)

lemma sync_theme_controls_pressed:
  assumes "n < d_size d" "theme_toggles d n"
  shows "get_attr (sync_theme_controls name d) ''aria-pressed'' n = Some (bool_str (name = ''dark''))"
  using assms by (simp add: sync_theme_controls_def Let_def)

lemma sync_theme_controls_text:
  assumes "n < d_size d" "theme_labels d n"
  shows "e_text (d_el (sync_theme_controls name d) n) = label_of name"
proof -
  have "theme_labels (for_each (set_attr ''aria-pressed'' v) ns d) n" for v ns
    using assms(2) by (simp add: theme_labels_def has_attr_def)
  with assms(1) show ?thesis by (simp add: sync_theme_controls_def Let_def)
qed

lemma shows_theme_sync: "shows_theme name (sync_theme_color name (sync_theme_controls name d))"
  unfolding shows_theme_def
  by (simp add: list_all_iff sync_theme_controls_pressed sync_theme_controls_text
      sync_theme_color_content split: option.split)

lemma shows_theme_color:
  "shows_theme name d \<Longrightarrow> shows_theme name (sync_theme_color name d)"
  unfolding shows_theme_def
  by (simp add: list_all_iff sync_theme_color_content split: option.split)

lemma shows_theme_cong:
  assumes "d_size d' = d_size d"
    and "\<And>n. e_tag (d_el d' n) = e_tag (d_el d n)" "\<And>n. e_text (d_el d' n) = e_text (d_el d n)"
    and "\<And>a n. get_attr d' a n = get_attr d a n"
  shows "shows_theme name d' = shows_theme name d"
proof -
  have "theme_toggles d' = theme_toggles d" "theme_labels d' = theme_labels d" "theme_meta d' = theme_meta d"
    using assms by (simp_all add: theme_toggles_def theme_labels_def theme_meta_def has_attr_def fun_eq_iff)
  with assms show ?thesis
    unfolding shows_theme_def by (simp only: query_size_cong [OF assms(1)])
qed

lemma shows_theme_class [simp]:
  "shows_theme name (add_class k n d) = shows_theme name d"
  "shows_theme name (remove_class k n d) = shows_theme name d"
  by (rule shows_theme_cong; simp)+

text \<open>The empty name, which \<open>get\<close> reads as \<open>light\<close>, is shown like it.\<close>

lemma shows_theme_empty: "shows_theme [] d = shows_theme ''light'' d"
proof -
  have "label_of [] = label_of ''light''" "theme_color [] = theme_color ''light''" "([] = ''dark'') = (''light'' = ''dark'')"
    by (simp_all add: label_of_def theme_color_def inherited_member_def object_functions_def)
  then show ?thesis unfolding shows_theme_def by (simp only:)
qed

subsection \<open>Dispatch\<close>

text \<open>
  What a listener may do: change the document in a way that keeps a property \<open>Q\<close>, and add
  listeners that draw the charts.
\<close>

lemma run_listener_fields [simp]:
  "p_store (run_listener css name l p) = p_store p"
  "p_frames (run_listener css name l p) = p_frames p"
  by (cases l; simp add: chart_init_def)+

lemma dispatch_fold_fields [simp]:
  "p_store (fold (run_listener css name) ls p) = p_store p"
  "p_frames (fold (run_listener css name) ls p) = p_frames p"
  by (induction ls arbitrary: p) simp_all

lemma dispatch_fold_listeners:
  "p_listeners (fold (run_listener css name) ls p) =
     p_listeners p @ filter (\<lambda>l. l = ChartInit) ls"
proof (induction ls arbitrary: p)
  case (Cons l ls)
  then show ?case by (cases l) (simp_all add: chart_init_def)
qed simp

lemma dispatch_fold_dom:
  assumes "Q (p_dom p)"
    and "\<And>d. Q d \<Longrightarrow> Q (sync_theme_color name d)" "\<And>d. Q d \<Longrightarrow> Q (draw_charts css d)"
  shows "Q (p_dom (fold (run_listener css name) ls p))"
  using assms(1)
proof (induction ls arbitrary: p)
  case (Cons l ls)
  then show ?case by (cases l) (simp_all add: chart_init_def assms)
qed simp

lemma draw_charts_attr [simp]:
  "a \<notin> {''viewBox'', ''preserveAspectRatio''} \<Longrightarrow> get_attr (draw_charts css d) a n = get_attr d a n"
  "has_class (draw_charts css d) c n = has_class d c n"
  using draws_only_draw_charts [of d css] by (auto simp: draws_only_def)

lemma shows_theme_draw [simp]: "shows_theme name d \<Longrightarrow> shows_theme name (draw_charts css d)"
  by (rule shows_theme_draws_only [OF draws_only_draw_charts])

subsection \<open>Setting the theme\<close>

lemma theme_set_dom:
  assumes "\<And>d. Q d \<Longrightarrow> Q (sync_theme_color name d)" "\<And>d. Q d \<Longrightarrow> Q (draw_charts css d)"
    and "Q (sync_theme_color name (sync_theme_controls name
          (set_attr ''data-theme'' name root_node (add_class ''ds-theming'' root_node (p_dom p)))))"
  shows "Q (p_dom (theme_set css name p))"
  unfolding theme_set_def dispatch_theme_def Let_def
  by (simp, rule dispatch_fold_dom) (use assms in simp_all)

lemma theme_set_fields [simp]:
  "p_store (theme_set css name p) = store_theme name (p_store p)"
  "p_frames (theme_set css name p) = p_frames p @ [2]"
  "p_listeners (theme_set css name p) = p_listeners p @ filter (\<lambda>l. l = ChartInit) (p_listeners p)"
  by (simp_all add: theme_set_def dispatch_theme_def Let_def dispatch_fold_listeners)

lemma theme_set_attr:
  "get_attr (p_dom (theme_set css name p)) ''data-theme'' root_node = Some name"
  by (rule theme_set_dom) simp_all

lemma theme_set_class: "has_class (p_dom (theme_set css name p)) ''ds-theming'' root_node"
  by (rule theme_set_dom) simp_all

lemma theme_set_shows: "shows_theme name (p_dom (theme_set css name p))"
  by (rule theme_set_dom) (simp_all add: shows_theme_color shows_theme_sync)

lemma theme_get_set [simp]:
  "theme_get (theme_set css name p) = (if name = [] then ''light'' else name)"
  by (simp add: theme_get_def theme_set_attr split: list.split)

text \<open>The theme is shown: the controls agree with what \<open>get\<close> returns.\<close>

abbreviation synced :: "page \<Rightarrow> bool" where
  "synced p \<equiv> shows_theme (theme_get p) (p_dom p)"

lemma synced_set: "synced (theme_set css name p)"
  using theme_set_shows [of name css p] by (cases "name = []") (simp_all add: shows_theme_empty)

lemma theme_get_dom: "theme_get (p\<lparr>p_dom := d\<rparr>) =
   (case get_attr d ''data-theme'' root_node of Some (c # cs) \<Rightarrow> c # cs | _ \<Rightarrow> ''light'')"
  by (simp add: theme_get_def)

lemma synced_draw: "synced p \<Longrightarrow> synced (chart_init css p)"
  by (simp add: chart_init_def theme_get_def)

lemma synced_frame: "synced p \<Longrightarrow> synced (theme_frame p)"
  by (simp add: theme_frame_def theme_get_def Let_def)

lemma synced_init: "synced (theme_init css p)"
proof -
  have "synced (q\<lparr>p_dom := sync_theme_color (theme_get q) (sync_theme_controls (theme_get q) (p_dom q))\<rparr>)"
    for q by (simp add: theme_get_def shows_theme_sync)
  then show ?thesis
    by (simp only: theme_init_def Let_def synced_set split: option.split list.split) simp
qed

lemma synced_step: "synced p \<Longrightarrow> synced (theme_step css e p)"
  by (cases e) (simp_all only: theme_step.simps theme_toggle_def theme_click_def synced_set synced_frame
      split: option.split, auto simp: synced_set)

lemma synced_run: "synced p \<Longrightarrow> synced (fold (theme_step css) es p)"
  by (induction es arbitrary: p) (simp_all add: synced_step)


subsection \<open>The transition class\<close>

text \<open>While the class is there, a callback that removes it is waiting.\<close>

definition transition_ok :: "page \<Rightarrow> bool" where
  "transition_ok p \<longleftrightarrow> set (p_frames p) \<subseteq> {1, 2} \<and>
     (has_class (p_dom p) ''ds-theming'' root_node \<longrightarrow> p_frames p \<noteq> [])"

lemma frames_of_frame [simp]:
  "p_frames (theme_frame p) = map (\<lambda>k. k - 1) (filter (\<lambda>k. k \<noteq> 1) (p_frames p))"
  by (simp add: theme_frame_def Let_def)

lemma class_of_frame:
  "has_class (p_dom (theme_frame p)) ''ds-theming'' root_node \<longleftrightarrow>
     1 \<notin> set (p_frames p) \<and> has_class (p_dom p) ''ds-theming'' root_node"
  by (auto simp: theme_frame_def Let_def)

lemma transition_ok_set: "transition_ok p \<Longrightarrow> transition_ok (theme_set css name p)"
  by (simp add: transition_ok_def)

lemma transition_ok_frame: "transition_ok p \<Longrightarrow> transition_ok (theme_frame p)"
  by (cases "p_frames p") (auto simp: transition_ok_def class_of_frame filter_empty_conv)

lemma transition_ok_step: "transition_ok p \<Longrightarrow> transition_ok (theme_step css e p)"
  by (cases e)
    (simp_all add: theme_toggle_def theme_click_def transition_ok_set transition_ok_frame split: option.split)

lemma transition_ok_run: "transition_ok p \<Longrightarrow> transition_ok (fold (theme_step css) es p)"
  by (induction es arbitrary: p) (simp_all add: transition_ok_step)

lemma transition_ok_boot: "transition_ok p \<Longrightarrow> transition_ok (boot css p)"
  by (auto simp: transition_ok_def boot_def chart_init_def theme_init_def Let_def
      split: option.split list.split)

lemma two_frames:
  assumes "transition_ok p"
  shows "p_frames (theme_frame (theme_frame p)) = []"
    and "\<not> has_class (p_dom (theme_frame (theme_frame p))) ''ds-theming'' root_node"
proof -
  have "set (p_frames p) \<subseteq> {1, 2}" using assms by (simp add: transition_ok_def)
  then show "p_frames (theme_frame (theme_frame p)) = []"
    by (auto simp: filter_empty_conv)
  moreover have "transition_ok (theme_frame (theme_frame p))"
    by (intro transition_ok_frame assms)
  ultimately show "\<not> has_class (p_dom (theme_frame (theme_frame p))) ''ds-theming'' root_node"
    by (simp add: transition_ok_def)
qed

subsection \<open>The number of chart listeners\<close>

lemma chart_listeners_set [simp]: "chart_listeners (theme_set css name p) = 2 * chart_listeners p"
  by (simp add: chart_listeners_def)

lemma chart_listeners_sets:
  "chart_listeners (fold (theme_set css) names p) = 2 ^ length names * chart_listeners p"
  by (induction names arbitrary: p) simp_all

lemma chart_listeners_boot: "p_listeners p = [] \<Longrightarrow> chart_listeners (boot css p) = 1"
  by (simp add: boot_def chart_init_def theme_init_def chart_listeners_def Let_def
      split: option.split list.split)


subsection \<open>Properties of the theme\<close>

text \<open>
  C5. After start-up and any sequence of theme changes, toggles, clicks and animation frames,
  every toggle, every label and the browser's colour show the theme that \<open>theme.get()\<close> returns,
  whatever the document, the storage and the listeners were.
\<close>

theorem theme_controls_agree:
  "shows_theme (theme_get (fold (theme_step css) es (boot css p)))
     (p_dom (fold (theme_step css) es (boot css p)))"
  unfolding boot_def by (intro synced_run synced_draw synced_init)

text \<open>
  C25. The theme last set is the one a freshly loaded page starts with, where the browser's
  storage can be written and read.
\<close>

theorem theme_survives_reload:
  assumes "can_write (p_store p)" "can_read (p_store p)" "name \<noteq> []"
    and "p_store q = p_store (theme_set css name p)"
  shows "theme_get (boot css q) = name"
proof -
  obtain c cs where "name = c # cs" using assms(3) by (cases name) auto
  then have "read_theme (p_store q) = Some (c # cs)"
    using assms by (simp add: read_theme_def store_theme_def)
  then show ?thesis
    by (simp add: boot_def theme_init_def chart_init_def theme_get_def theme_set_attr \<open>name = c # cs\<close>)
qed

text \<open>
  C26. After start-up and any sequence of events, two animation frames later the class that
  switches on the theme's transition is gone and no callback is left waiting, although changes of
  the theme may have been interleaved with the frames.
\<close>

theorem theme_transition_ends:
  assumes "p_frames p = []" "\<not> has_class (p_dom p) ''ds-theming'' root_node"
    and "p' = fold (theme_step css) (es @ [Frame, Frame]) (boot css p)"
  shows "p_frames p' = [] \<and> \<not> has_class (p_dom p') ''ds-theming'' root_node"
proof -
  have "transition_ok (fold (theme_step css) es (boot css p))"
    using assms(1,2) by (intro transition_ok_run transition_ok_boot) (simp add: transition_ok_def)
  moreover have "p' = theme_frame (theme_frame (fold (theme_step css) es (boot css p)))"
    unfolding assms(3) by simp
  ultimately show ?thesis by (simp only: two_frames simp_thms)
qed

text \<open>
  C22. Every change of the theme doubles the number of listeners that redraw the charts:
  \<open>chart.init\<close>, which is itself such a listener, adds itself again each time it runs. After start-up
  and \<open>k\<close> changes there are \<open>2 ^ k\<close>, and the next change redraws the charts that many times.
\<close>

theorem chart_listeners_double:
  "chart_listeners (fold (theme_set css) names (boot css (p\<lparr>p_listeners := []\<rparr>))) = 2 ^ length names"
  by (simp add: chart_listeners_sets chart_listeners_boot)

subsection \<open>An instance\<close>

text \<open>A page with a toggle that holds a label, the colour's meta element and one chart.\<close>

definition demo_dom :: dom where
  "demo_dom = \<lparr>d_size = 5, d_el = (\<lambda>_. blank_elem)
     (0 := blank_elem\<lparr>e_parent := None, e_tag := ''html''\<rparr>,
      1 := blank_elem\<lparr>e_tag := ''meta'', e_attrs := [''name'' \<mapsto> ''theme-color'']\<rparr>,
      2 := blank_elem\<lparr>e_tag := ''button'', e_attrs := [''data-ds-theme-toggle'' \<mapsto> []]\<rparr>,
      3 := blank_elem\<lparr>e_parent := Some 2, e_attrs := [''data-ds-theme-label'' \<mapsto> []]\<rparr>,
      4 := blank_elem\<lparr>e_tag := ''svg'', e_attrs := [''data-ds-chart'' \<mapsto> ''10,90'']\<rparr>)\<rparr>"

definition demo_page :: page where
  "demo_page = \<lparr>p_dom = demo_dom, p_store = \<lparr>no_storage = False, can_read = True, can_write = True, saved_theme = None\<rparr>,
     p_frames = [], p_listeners = []\<rparr>"

theorem theme_survives_reload_witness:
  "theme_get (boot (\<lambda>_ _ _. []) (demo_page\<lparr>p_store := p_store (theme_set (\<lambda>_ _ _. []) ''dark'' demo_page)\<rparr>))
     = ''dark''"
  by (rule theme_survives_reload [where p = demo_page and css = "\<lambda>_ _ _. []"]) (simp_all add: demo_page_def)

theorem theme_transition_ends_witness:
  "p_frames (fold (theme_step (\<lambda>_ _ _. [])) ([ClickOn 3, Frame, ToggleTheme] @ [Frame, Frame])
     (boot (\<lambda>_ _ _. []) demo_page)) = []"
  by (rule theme_transition_ends [THEN conjunct1, OF _ _ refl])
    (simp_all add: demo_page_def demo_dom_def blank_elem_def has_class_def)

end
