(* ===== verification/Segments.thy ===== *)
theory Segments
  imports Theme
begin

text \<open>
  \<open>Adivento.segments\<close>: the click handler of segmented controls and tabs. A click on an item marks
  it active in its group and shows the panels that its \<open>data-target\<close> names. The group may say, in
  \<open>data-ds-tabs\<close>, in which element its panels are; the selector given there is matched by the
  browser and may be malformed, in which case \<open>querySelector\<close> throws.
\<close>

datatype selected = BadSelector | Selected "nat option"

record segment_event =
  se_group :: nat
  se_value :: string
  se_target :: "string option"

definition has_ancestor :: "dom \<Rightarrow> (nat \<Rightarrow> bool) \<Rightarrow> nat \<Rightarrow> bool" where
  "has_ancestor d P n =
     (case parent d n of None \<Rightarrow> False | Some p \<Rightarrow> p < n \<and> closest d P p \<noteq> None)"

definition segment_item :: "dom \<Rightarrow> nat \<Rightarrow> bool" where
  "segment_item d n \<longleftrightarrow>
     has_class d ''ds-segment__item'' n \<and> has_ancestor d (has_attr d ''data-ds-segment'') n \<or>
     (has_class d ''ds-chip'' n \<or> has_attr d ''data-tab'' n) \<and>
       has_ancestor d (has_attr d ''data-ds-tabs'') n"

definition segment_group :: "dom \<Rightarrow> nat \<Rightarrow> bool" where
  "segment_group d n \<longleftrightarrow> has_attr d ''data-ds-segment'' n \<or> has_attr d ''data-ds-tabs'' n"

definition segment_member :: "dom \<Rightarrow> nat \<Rightarrow> nat \<Rightarrow> bool" where
  "segment_member d g n \<longleftrightarrow> below d g n \<and>
     (has_class d ''ds-segment__item'' n \<or> has_class d ''ds-chip'' n \<or> has_attr d ''data-tab'' n)"

text \<open>\<open>panel ? document.querySelector(panel) || document : document\<close>; \<open>None\<close> is the document.\<close>

definition panel_scope :: "(dom \<Rightarrow> string \<Rightarrow> selected) \<Rightarrow> dom \<Rightarrow> nat \<Rightarrow> selected" where
  "panel_scope qs d g =
     (case get_attr d ''data-ds-tabs'' g of Some (c # cs) \<Rightarrow> qs d (c # cs) | _ \<Rightarrow> Selected None)"

definition in_scope :: "dom \<Rightarrow> nat option \<Rightarrow> nat \<Rightarrow> bool" where
  "in_scope d scope n = (case scope of None \<Rightarrow> True | Some s \<Rightarrow> below d s n)"

definition panel_hidden :: "dom \<Rightarrow> string \<Rightarrow> nat \<Rightarrow> bool" where
  "panel_hidden d sel n = (''#'' @ the (get_attr d ''data-panel'' n) \<noteq> sel)"

definition show_panels :: "nat option \<Rightarrow> string \<Rightarrow> dom \<Rightarrow> dom" where
  "show_panels scope sel d =
     for_each (\<lambda>p. set_hidden (panel_hidden d sel p) p)
       (query_all d (\<lambda>n. in_scope d scope n \<and> has_attr d ''data-panel'' n)) d"

definition activate :: "nat \<Rightarrow> nat \<Rightarrow> dom \<Rightarrow> dom" where
  "activate g item d =
     add_class ''is-active'' item
       (for_each (remove_class ''is-active'') (query_all d (segment_member d g)) d)"

definition segment_click ::
  "(dom \<Rightarrow> string \<Rightarrow> selected) \<Rightarrow> nat \<Rightarrow> dom \<Rightarrow> dom \<times> segment_event option" where
  "segment_click qs n d =
     (case closest d (segment_item d) n of
        None \<Rightarrow> (d, None)
      | Some item \<Rightarrow>
          (case closest d (segment_group d) item of
             None \<Rightarrow> (d, None)
           | Some g \<Rightarrow>
               let d1 = activate g item d;
                   sel = get_attr d1 ''data-target'' item;
                   ev = \<lparr>se_group = g, se_value = js_trim (e_text (d_el d1 item)), se_target = sel\<rparr>
               in case sel of
                    Some (c # cs) \<Rightarrow>
                      (case panel_scope qs d1 g of
                         BadSelector \<Rightarrow> (d1, None)
                       | Selected scope \<Rightarrow> (show_panels scope (c # cs) d1, Some ev))
                  | _ \<Rightarrow> (d1, Some ev)))"

subsection \<open>The group of an item\<close>

lemma closest_mono:
  assumes "closest d P n \<noteq> None" "\<And>m. P m \<Longrightarrow> Q m"
  shows "closest d Q n \<noteq> None"
  using assms(1)
proof (induction n rule: less_induct)
  case (less n)
  then obtain m where "closest d P n = Some m" by auto
  then show ?case
  proof (cases rule: closest_SomeE)
    case 1
    then show ?thesis using assms(2) by (simp add: closest.simps [of d Q n])
  next
    case (2 p)
    then show ?thesis using less.IH [of p] by (simp add: closest.simps [of d Q n])
  qed
qed

lemma has_ancestor_closest:
  assumes "has_ancestor d P n" "\<And>m. P m \<Longrightarrow> Q m"
  shows "closest d Q n \<noteq> None"
proof -
  from assms(1) obtain p where "parent d n = Some p" "p < n" "closest d P p \<noteq> None"
    by (auto simp: has_ancestor_def split: option.splits)
  with closest_mono [OF this(3) assms(2)] show ?thesis by (simp add: closest.simps [of d Q n])
qed

text \<open>Every item has a group, so the handler never reads a property of \<open>null\<close>.\<close>

lemma item_has_group: "segment_item d n \<Longrightarrow> closest d (segment_group d) n \<noteq> None"
  unfolding segment_item_def
  by (elim disjE conjE; erule has_ancestor_closest) (auto simp: segment_group_def)

subsection \<open>What the two loops do\<close>

lemma for_each_remove_class [simp]:
  "has_class (for_each (remove_class k) ns d) c m \<longleftrightarrow> has_class d c m \<and> \<not> (m \<in> set ns \<and> c = k)"
  "get_attr (for_each (remove_class k) ns d) a m = get_attr d a m"
  "parent (for_each (remove_class k) ns d) m = parent d m"
  "d_size (for_each (remove_class k) ns d) = d_size d"
  "e_text (d_el (for_each (remove_class k) ns d) m) = e_text (d_el d m)"
  "e_hidden (d_el (for_each (remove_class k) ns d) m) = e_hidden (d_el d m)"
  unfolding for_each_def by (induction ns arbitrary: d) auto

lemma for_each_set_hidden [simp]:
  "e_hidden (d_el (for_each (\<lambda>p. set_hidden (h p) p) ns d) m) =
     (if m \<in> set ns then h m else e_hidden (d_el d m))"
  "has_class (for_each (\<lambda>p. set_hidden (h p) p) ns d) c m = has_class d c m"
  "get_attr (for_each (\<lambda>p. set_hidden (h p) p) ns d) a m = get_attr d a m"
  unfolding for_each_def by (induction ns arbitrary: d) auto

lemma activate_simps [simp]:
  "get_attr (activate g item d) a m = get_attr d a m"
  "parent (activate g item d) m = parent d m"
  "d_size (activate g item d) = d_size d"
  "e_text (d_el (activate g item d) m) = e_text (d_el d m)"
  "e_hidden (d_el (activate g item d) m) = e_hidden (d_el d m)"
  by (simp_all add: activate_def)

lemma activate_class:
  "has_class (activate g item d) ''is-active'' m \<longleftrightarrow>
     m = item \<or> has_class d ''is-active'' m \<and> \<not> (m < d_size d \<and> segment_member d g m)"
  by (auto simp: activate_def)

lemma below_activate [simp]: "below (activate g item d) a m = below d a m"
  by (simp add: below_def contains_cong [of "activate g item d" d])

lemma show_panels_simps [simp]:
  "has_class (show_panels scope sel d) c m = has_class d c m"
  "get_attr (show_panels scope sel d) a m = get_attr d a m"
  "e_hidden (d_el (show_panels scope sel d) m) =
     (if m < d_size d \<and> in_scope d scope m \<and> has_attr d ''data-panel'' m
      then panel_hidden d sel m else e_hidden (d_el d m))"
  by (simp_all add: show_panels_def)

lemma segment_click_class:
  assumes "closest d (segment_item d) n = Some item" "closest d (segment_group d) item = Some g"
  shows "has_class (fst (segment_click qs n d)) c m = has_class (activate g item d) c m"
  using assms by (simp add: segment_click_def Let_def split: option.split list.split selected.split)

subsection \<open>Properties of segmented controls\<close>

text \<open>
  C23. A click inside a group, whatever its panels and even when the panel selector is malformed,
  leaves exactly one member of the group active, the clicked item, and does not touch the
  active marks of elements that are not members of the group.
\<close>

theorem segment_one_active:
  assumes "closest d (segment_item d) n = Some item" "closest d (segment_group d) item = Some g"
    and "d' = fst (segment_click qs n d)" "m < d_size d"
  shows "has_class d' ''is-active'' m \<longleftrightarrow>
           m = item \<or> \<not> segment_member d g m \<and> has_class d ''is-active'' m"
  using assms by (simp add: segment_click_class activate_class) blast

text \<open>
  C24. When the clicked item has a target, a panel of the group's scope is visible exactly when it is
  the target, and nothing outside the scope is shown or hidden. Without a usable
  \<open>data-ds-tabs\<close> the scope is the whole document, so the panels of every other group on the page
  are hidden as well.
\<close>

theorem segment_panels:
  assumes "closest d (segment_item d) n = Some item" "closest d (segment_group d) item = Some g"
    and "get_attr d ''data-target'' item = Some sel" "sel \<noteq> []"
    and "panel_scope qs (activate g item d) g = Selected scope"
    and "m < d_size d" "has_attr d ''data-panel'' m"
  shows "e_hidden (d_el (fst (segment_click qs n d)) m) =
           (if in_scope d scope m then get_attr d ''data-panel'' m \<noteq> Some (tl sel) \<or> hd sel \<noteq> CHR ''#''
            else e_hidden (d_el d m))"
proof -
  obtain c cs where sel: "sel = c # cs" using assms(4) by (cases sel) auto
  obtain p where p: "get_attr d ''data-panel'' m = Some p" using assms(7) by (auto simp: has_attr_def)
  have sc: "in_scope (activate g item d) scope m = in_scope d scope m"
    by (simp add: in_scope_def split: option.split)
  have "fst (segment_click qs n d) = show_panels scope sel (activate g item d)"
    using assms(1-3,5) by (simp add: segment_click_def Let_def sel)
  then show ?thesis
    using assms(6) p by (auto simp: sc has_attr_def panel_hidden_def sel)
qed

subsection \<open>An instance\<close>

text \<open>Two groups of two items and two panels each.\<close>

definition segment_dom :: dom where
  "segment_dom = \<lparr>d_size = 11, d_el = (\<lambda>_. blank_elem)
     (0 := blank_elem\<lparr>e_parent := None\<rparr>,
      1 := blank_elem\<lparr>e_attrs := [''data-ds-segment'' \<mapsto> []]\<rparr>,
      2 := blank_elem\<lparr>e_parent := Some 1, e_classes := [''ds-segment__item'', ''is-active''],
             e_attrs := [''data-target'' \<mapsto> ''#a'']\<rparr>,
      3 := blank_elem\<lparr>e_parent := Some 1, e_classes := [''ds-segment__item''],
             e_attrs := [''data-target'' \<mapsto> ''#b'']\<rparr>,
      4 := blank_elem\<lparr>e_attrs := [''data-ds-segment'' \<mapsto> []]\<rparr>,
      5 := blank_elem\<lparr>e_parent := Some 4, e_classes := [''ds-segment__item'', ''is-active''],
             e_attrs := [''data-target'' \<mapsto> ''#c'']\<rparr>,
      6 := blank_elem\<lparr>e_parent := Some 4, e_classes := [''ds-segment__item'']\<rparr>,
      7 := blank_elem\<lparr>e_attrs := [''data-panel'' \<mapsto> ''a'']\<rparr>,
      8 := blank_elem\<lparr>e_attrs := [''data-panel'' \<mapsto> ''b''], e_hidden := True\<rparr>,
      9 := blank_elem\<lparr>e_attrs := [''data-panel'' \<mapsto> ''c'']\<rparr>)\<rparr>"

definition no_selector :: "dom \<Rightarrow> string \<Rightarrow> selected" where
  "no_selector d s = BadSelector"

theorem segment_one_active_witness:
  "\<not> has_class (fst (segment_click no_selector 3 segment_dom)) ''is-active'' 2 \<and>
   has_class segment_dom ''is-active'' 2"
proof -
  have "closest segment_dom (segment_item segment_dom) 3 = Some 3"
    and "closest segment_dom (segment_group segment_dom) 3 = Some 1"
    and "segment_member segment_dom 1 2" and "has_class segment_dom ''is-active'' 2"
    by code_simp+
  moreover have "2 < d_size segment_dom" by code_simp
  ultimately show ?thesis using segment_one_active [OF _ _ refl] by auto
qed

theorem segment_panels_witness:
  "e_hidden (d_el (fst (segment_click no_selector 3 segment_dom)) 9) \<and>
   \<not> e_hidden (d_el segment_dom 9)"
proof -
  have "closest segment_dom (segment_item segment_dom) 3 = Some 3"
    and "closest segment_dom (segment_group segment_dom) 3 = Some 1"
    and "get_attr segment_dom ''data-target'' 3 = Some ''#b''"
    and "panel_scope no_selector (activate 1 3 segment_dom) 1 = Selected None"
    and "9 < d_size segment_dom" "has_attr segment_dom ''data-panel'' 9"
    and "get_attr segment_dom ''data-panel'' 9 = Some ''c''" "\<not> e_hidden (d_el segment_dom 9)"
    by code_simp+
  then show ?thesis by (simp add: segment_panels in_scope_def)
qed

end
