(* ===== verification/Sheet.thy ===== *)
theory Sheet
  imports Segments
begin

text \<open>
  \<open>Adivento.sheet\<close>: bottom sheets and the scrims behind them. Opening a sheet that has no scrim
  appends one to the body and keeps it in the sheet's \<open>_scrim\<close>; closing hides the scrim and, 250
  milliseconds later, a timer removes it from the page and clears \<open>_scrim\<close>. Scrims are numbered in
  the order of creation, timers carry the time at which they are due.
\<close>

record scrim =
  sc_sheet :: nat
  sc_hidden :: bool
  sc_attached :: bool

record timer =
  tm_due :: nat
  tm_scrim :: nat
  tm_sheet :: nat

record sheets =
  sh_dom :: dom
  sh_scrims :: "scrim list"
  sh_scrim_of :: "nat \<Rightarrow> nat option"
  sh_timers :: "timer list"
  sh_now :: nat

subsection \<open>Operations\<close>

definition element_by_id :: "dom \<Rightarrow> string \<Rightarrow> nat option" where
  "element_by_id d i = query_first d (\<lambda>n. get_attr d ''id'' n = Some i)"

definition hide_scrim :: "nat \<Rightarrow> scrim list \<Rightarrow> scrim list" where
  "hide_scrim k scs = scs[k := (scs ! k)\<lparr>sc_hidden := True\<rparr>]"

definition detach_scrim :: "nat \<Rightarrow> scrim list \<Rightarrow> scrim list" where
  "detach_scrim k scs = scs[k := (scs ! k)\<lparr>sc_attached := False\<rparr>]"

definition sheet_toggle :: "nat \<Rightarrow> bool \<Rightarrow> sheets \<Rightarrow> sheets" where
  "sheet_toggle s show_it st =
     (let st1 = st\<lparr>sh_dom := set_hidden (\<not> show_it) s (sh_dom st)\<rparr>
      in case sh_scrim_of st1 s of
           None \<Rightarrow>
             if show_it then
               st1\<lparr>sh_scrims := sh_scrims st1 @ [\<lparr>sc_sheet = s, sc_hidden = False, sc_attached = True\<rparr>],
                   sh_scrim_of := (sh_scrim_of st1)(s \<mapsto> length (sh_scrims st1))\<rparr>
             else st1
         | Some k \<Rightarrow>
             if \<not> show_it then
               st1\<lparr>sh_scrims := hide_scrim k (sh_scrims st1),
                   sh_timers := sh_timers st1 @ [\<lparr>tm_due = sh_now st1 + 250, tm_scrim = k, tm_sheet = s\<rparr>]\<rparr>
             else st1)"

text \<open>\<open>open(id)\<close> and \<open>close(id)\<close> with a string, which may name no element.\<close>

definition sheet_by_id :: "string \<Rightarrow> bool \<Rightarrow> sheets \<Rightarrow> sheets" where
  "sheet_by_id i show_it st =
     (case element_by_id (sh_dom st) i of None \<Rightarrow> st | Some s \<Rightarrow> sheet_toggle s show_it st)"

text \<open>The document's click handler: an opener and a closer may both enclose the target.\<close>

definition sheet_click :: "nat \<Rightarrow> sheets \<Rightarrow> sheets" where
  "sheet_click n st =
     (let st1 = (case closest (sh_dom st) (has_attr (sh_dom st) ''data-ds-sheet-open'') n of
                   None \<Rightarrow> st
                 | Some o1 \<Rightarrow> sheet_by_id (the (get_attr (sh_dom st) ''data-ds-sheet-open'' o1)) True st)
      in case closest (sh_dom st1) (has_attr (sh_dom st1) ''data-ds-sheet-close'') n of
           None \<Rightarrow> st1
         | Some c \<Rightarrow>
             (case closest (sh_dom st1) (has_class (sh_dom st1) ''ds-sheet'') c of
                None \<Rightarrow> st1
              | Some s \<Rightarrow> sheet_toggle s False st1))"

text \<open>The listener on a scrim; a scrim that is hidden or off the page receives no click.\<close>

definition scrim_click :: "nat \<Rightarrow> sheets \<Rightarrow> sheets" where
  "scrim_click k st =
     (if k < length (sh_scrims st) \<and> sc_attached (sh_scrims st ! k) \<and> \<not> sc_hidden (sh_scrims st ! k)
      then sheet_toggle (sc_sheet (sh_scrims st ! k)) False st else st)"

definition fire_timer :: "timer \<Rightarrow> sheets \<Rightarrow> sheets" where
  "fire_timer t st =
     st\<lparr>sh_scrims := detach_scrim (tm_scrim t) (sh_scrims st),
        sh_scrim_of := (sh_scrim_of st)(tm_sheet t := None)\<rparr>"

text \<open>Time passes: the timers that are due run. All have the same delay, so their order is the
  order in which they were set.\<close>

definition elapse :: "nat \<Rightarrow> sheets \<Rightarrow> sheets" where
  "elapse dt st =
     (let t = sh_now st + dt;
          due = filter (\<lambda>tm. tm_due tm \<le> t) (sh_timers st);
          st1 = fold fire_timer due st
      in st1\<lparr>sh_timers := filter (\<lambda>tm. \<not> tm_due tm \<le> t) (sh_timers st), sh_now := t\<rparr>)"

datatype sheet_event = OpenSheet nat | CloseSheet nat | ScrimClick nat | Elapse nat

fun sheet_step :: "sheet_event \<Rightarrow> sheets \<Rightarrow> sheets" where
  "sheet_step (OpenSheet s) st = sheet_toggle s True st"
| "sheet_step (CloseSheet s) st = sheet_toggle s False st"
| "sheet_step (ScrimClick k) st = scrim_click k st"
| "sheet_step (Elapse dt) st = elapse dt st"

subsection \<open>What is on the page\<close>

definition sheet_shown :: "sheets \<Rightarrow> nat \<Rightarrow> bool" where
  "sheet_shown st s \<longleftrightarrow> \<not> e_hidden (d_el (sh_dom st) s)"

text \<open>The scrims a user sees, as their numbers.\<close>

definition visible_scrims :: "sheets \<Rightarrow> nat \<Rightarrow> nat list" where
  "visible_scrims st s =
     filter (\<lambda>k. sc_sheet (sh_scrims st ! k) = s \<and> sc_attached (sh_scrims st ! k) \<and>
               \<not> sc_hidden (sh_scrims st ! k)) [0..<length (sh_scrims st)]"

definition closing :: "sheets \<Rightarrow> nat \<Rightarrow> bool" where
  "closing st s \<longleftrightarrow> list_ex (\<lambda>t. tm_sheet t = s) (sh_timers st)"

definition fresh_sheets :: "dom \<Rightarrow> sheets" where
  "fresh_sheets d = \<lparr>sh_dom = d, sh_scrims = [], sh_scrim_of = (\<lambda>_. None), sh_timers = [], sh_now = 0\<rparr>"

text \<open>
  States reached when nobody opens or closes a sheet while the timer that removes its scrim is
  running.
\<close>

inductive calm :: "dom \<Rightarrow> sheets \<Rightarrow> bool" for d where
  calm_start: "calm d (fresh_sheets d)"
| calm_toggle: "calm d st \<Longrightarrow> \<not> closing st s \<Longrightarrow> calm d (sheet_toggle s b st)"
| calm_elapse: "calm d st \<Longrightarrow> calm d (elapse dt st)"

subsection \<open>One step at a time\<close>

lemma hide_scrim_simps [simp]:
  "length (hide_scrim k scs) = length scs"
  "j < length scs \<Longrightarrow> hide_scrim k scs ! j = (if j = k then (scs ! j)\<lparr>sc_hidden := True\<rparr> else scs ! j)"
  by (auto simp: hide_scrim_def nth_list_update)

lemma detach_scrim_simps [simp]:
  "length (detach_scrim k scs) = length scs"
  "j < length scs \<Longrightarrow> detach_scrim k scs ! j = (if j = k then (scs ! j)\<lparr>sc_attached := False\<rparr> else scs ! j)"
  by (auto simp: detach_scrim_def nth_list_update)

lemma fire_all:
  "length (sh_scrims (fold fire_timer ts st)) = length (sh_scrims st)"
  "sh_dom (fold fire_timer ts st) = sh_dom st"
  "sh_now (fold fire_timer ts st) = sh_now st"
  "sh_scrim_of (fold fire_timer ts st) s =
     (if s \<in> tm_sheet ` set ts then None else sh_scrim_of st s)"
  by (induction ts arbitrary: st) (auto simp: fire_timer_def)

lemma fire_all_scrims:
  "j < length (sh_scrims st) \<Longrightarrow> sh_scrims (fold fire_timer ts st) ! j =
     (if j \<in> tm_scrim ` set ts then (sh_scrims st ! j)\<lparr>sc_attached := False\<rparr> else sh_scrims st ! j)"
  by (induction ts arbitrary: st) (auto simp: fire_timer_def)

definition due_timers :: "nat \<Rightarrow> sheets \<Rightarrow> timer set" where
  "due_timers dt st = {t \<in> set (sh_timers st). tm_due t \<le> sh_now st + dt}"

lemma elapse_simps [simp]:
  "length (sh_scrims (elapse dt st)) = length (sh_scrims st)"
  "sh_dom (elapse dt st) = sh_dom st"
  "sh_now (elapse dt st) = sh_now st + dt"
  "sh_scrim_of (elapse dt st) s =
     (if s \<in> tm_sheet ` due_timers dt st then None else sh_scrim_of st s)"
  "sh_timers (elapse dt st) = filter (\<lambda>t. \<not> tm_due t \<le> sh_now st + dt) (sh_timers st)"
  "j < length (sh_scrims st) \<Longrightarrow> sh_scrims (elapse dt st) ! j =
     (if j \<in> tm_scrim ` due_timers dt st then (sh_scrims st ! j)\<lparr>sc_attached := False\<rparr>
      else sh_scrims st ! j)"
  by (simp_all add: elapse_def Let_def fire_all fire_all_scrims due_timers_def)

lemma toggle_None [simp]:
  assumes "sh_scrim_of st s = None"
  shows "sheet_toggle s True st =
      st\<lparr>sh_dom := set_hidden False s (sh_dom st),
         sh_scrims := sh_scrims st @ [\<lparr>sc_sheet = s, sc_hidden = False, sc_attached = True\<rparr>],
         sh_scrim_of := (sh_scrim_of st)(s \<mapsto> length (sh_scrims st))\<rparr>"
    and "sheet_toggle s False st = st\<lparr>sh_dom := set_hidden True s (sh_dom st)\<rparr>"
  using assms by (simp_all add: sheet_toggle_def Let_def)

lemma toggle_Some [simp]:
  assumes "sh_scrim_of st s = Some k"
  shows "sheet_toggle s True st = st\<lparr>sh_dom := set_hidden False s (sh_dom st)\<rparr>"
    and "sheet_toggle s False st =
      st\<lparr>sh_dom := set_hidden True s (sh_dom st), sh_scrims := hide_scrim k (sh_scrims st),
         sh_timers := sh_timers st @ [\<lparr>tm_due = sh_now st + 250, tm_scrim = k, tm_sheet = s\<rparr>]\<rparr>"
  using assms by (simp_all add: sheet_toggle_def Let_def)

lemma closing_iff: "closing st s \<longleftrightarrow> s \<in> tm_sheet ` set (sh_timers st)"
  by (auto simp: closing_def list_ex_iff)

subsection \<open>The invariant of calm use\<close>

definition sheets_ok :: "dom \<Rightarrow> sheets \<Rightarrow> bool" where
  "sheets_ok d st \<longleftrightarrow>
     distinct (map tm_sheet (sh_timers st)) \<and>
     (\<forall>t \<in> set (sh_timers st). sh_scrim_of st (tm_sheet t) = Some (tm_scrim t)) \<and>
     (\<forall>s k. sh_scrim_of st s = Some k \<longrightarrow> k < length (sh_scrims st) \<and>
        sh_scrims st ! k = \<lparr>sc_sheet = s, sc_hidden = closing st s, sc_attached = True\<rparr> \<and>
        sheet_shown st s = (\<not> closing st s)) \<and>
     (\<forall>k < length (sh_scrims st). sc_attached (sh_scrims st ! k) \<longrightarrow>
        sh_scrim_of st (sc_sheet (sh_scrims st ! k)) = Some k) \<and>
     (\<forall>s. e_hidden (d_el d s) \<longrightarrow> sh_scrim_of st s = None \<longrightarrow> \<not> sheet_shown st s)"

lemma sheets_okD:
  assumes "sheets_ok d st"
  shows "distinct (map tm_sheet (sh_timers st))"
    and "t \<in> set (sh_timers st) \<Longrightarrow> sh_scrim_of st (tm_sheet t) = Some (tm_scrim t)"
    and "sh_scrim_of st s = Some k \<Longrightarrow> k < length (sh_scrims st)"
    and "sh_scrim_of st s = Some k \<Longrightarrow>
      sh_scrims st ! k = \<lparr>sc_sheet = s, sc_hidden = closing st s, sc_attached = True\<rparr>"
    and "sh_scrim_of st s = Some k \<Longrightarrow> sheet_shown st s = (\<not> closing st s)"
    and "k < length (sh_scrims st) \<Longrightarrow> sc_attached (sh_scrims st ! k) \<Longrightarrow>
      sh_scrim_of st (sc_sheet (sh_scrims st ! k)) = Some k"
    and "e_hidden (d_el d s) \<Longrightarrow> sh_scrim_of st s = None \<Longrightarrow> \<not> sheet_shown st s"
  using assms by (auto simp: sheets_ok_def)

lemma sheets_ok_fresh: "sheets_ok d (fresh_sheets d)"
  by (simp add: sheets_ok_def fresh_sheets_def sheet_shown_def)

lemma sheets_ok_open:
  assumes ok: "sheets_ok d st" and nc: "\<not> closing st s"
  shows "sheets_ok d (sheet_toggle s True st)"
proof (cases "sh_scrim_of st s")
  case None
  note D = sheets_okD [OF ok]
  show ?thesis
    using None nc D(1,2,3,5,7) D(3) [THEN less_SucI] D(4) D(6)
    by (auto simp: sheets_ok_def sheet_shown_def closing_iff nth_append)
next
  case (Some k)
  then show ?thesis
    using nc ok by (auto simp: sheets_ok_def sheet_shown_def closing_iff)
qed

lemma sheets_ok_close:
  assumes ok: "sheets_ok d st" and nc: "\<not> closing st s"
  shows "sheets_ok d (sheet_toggle s False st)"
proof (cases "sh_scrim_of st s")
  case None
  then show ?thesis
    using nc ok by (auto simp: sheets_ok_def sheet_shown_def closing_iff)
next
  case (Some k)
  note D = sheets_okD [OF ok]
  have other: "k' \<noteq> k" if "sh_scrim_of st s' = Some k'" "s' \<noteq> s" for s' k'
    using that D(4) [OF that(1)] D(4) [OF Some] by auto
  show ?thesis
    using Some nc D(1,2,3,5,7) D(4) D(6) other
    by (auto simp: sheets_ok_def sheet_shown_def closing_iff)
qed

lemma elapse_closing:
  assumes "sheets_ok d st"
  shows "closing (elapse dt st) s \<longleftrightarrow> closing st s \<and> s \<notin> tm_sheet ` due_timers dt st"
proof -
  have "inj_on tm_sheet (set (sh_timers st))"
    using sheets_okD(1) [OF assms] by (simp add: distinct_map)
  then show ?thesis
    by (auto simp: closing_iff due_timers_def dest: inj_onD)
qed

lemma sheets_ok_elapse:
  assumes ok: "sheets_ok d st"
  shows "sheets_ok d (elapse dt st)"
proof -
  note D = sheets_okD [OF ok] and C = elapse_closing [OF ok]
  have due: "tm_scrim t \<noteq> k" if "t \<in> due_timers dt st" "sh_scrim_of st s = Some k"
    "s \<notin> tm_sheet ` due_timers dt st" for t s k
  proof
    assume "tm_scrim t = k"
    with that(1) D(2) have "sh_scrim_of st (tm_sheet t) = Some k" by (auto simp: due_timers_def)
    with D(4) [OF this] D(4) [OF that(2)] have "tm_sheet t = s" by simp
    with that show False by auto
  qed
  have sub: "t \<in> set (sh_timers st)" if "t \<in> due_timers dt st" for t
    using that by (simp add: due_timers_def)
  have key: "tm_scrim t = k" if "t \<in> due_timers dt st" "sh_scrim_of st (tm_sheet t) = Some k" for t k
    using D(2) [OF sub [OF that(1)]] that(2) by simp
  have 1: "distinct (map tm_sheet (sh_timers (elapse dt st)))"
    using D(1) by (simp add: distinct_map inj_on_def)
  have 2: "sh_scrim_of (elapse dt st) (tm_sheet t) = Some (tm_scrim t)" if "t \<in> set (sh_timers (elapse dt st))" for t
  proof -
    have "t \<in> set (sh_timers st)" "t \<notin> due_timers dt st" using that by (auto simp: due_timers_def)
    moreover have "tm_sheet t \<notin> tm_sheet ` due_timers dt st"
      using calculation D(1) sub by (auto simp: distinct_map dest: inj_onD)
    ultimately show ?thesis using D(2) by simp
  qed
  have 3: "k < length (sh_scrims st) \<and>
      sh_scrims (elapse dt st) ! k = \<lparr>sc_sheet = s, sc_hidden = closing (elapse dt st) s, sc_attached = True\<rparr> \<and>
      sheet_shown (elapse dt st) s = (\<not> closing (elapse dt st) s)"
    if "sh_scrim_of (elapse dt st) s = Some k" for s k
  proof -
    have nd: "s \<notin> tm_sheet ` due_timers dt st" and k: "sh_scrim_of st s = Some k"
      using that by (auto split: if_splits)
    then have "k \<notin> tm_scrim ` due_timers dt st" using due by blast
    then show ?thesis using nd D(3-5) [OF k] by (simp add: C sheet_shown_def)
  qed
  have 4: "sh_scrim_of (elapse dt st) (sc_sheet (sh_scrims (elapse dt st) ! k)) = Some k"
    if "k < length (sh_scrims st)" "sc_attached (sh_scrims (elapse dt st) ! k)" for k
  proof -
    have nd: "k \<notin> tm_scrim ` due_timers dt st" and at: "sc_attached (sh_scrims st ! k)"
      using that by (auto split: if_splits)
    note k = D(6) [OF that(1) at]
    have "sc_sheet (sh_scrims st ! k) \<notin> tm_sheet ` due_timers dt st"
    proof
      assume "sc_sheet (sh_scrims st ! k) \<in> tm_sheet ` due_timers dt st"
      then obtain t where t: "t \<in> due_timers dt st" "sh_scrim_of st (tm_sheet t) = Some k"
        using k by auto
      with key nd show False by blast
    qed
    then show ?thesis using nd k that(1) by simp
  qed
  have 5: "\<not> sheet_shown (elapse dt st) s"
    if "e_hidden (d_el d s)" "sh_scrim_of (elapse dt st) s = None" for s
  proof (cases "s \<in> tm_sheet ` due_timers dt st")
    case True
    then obtain t where t: "t \<in> set (sh_timers st)" "tm_sheet t = s" using sub by auto
    then have "closing st s" by (auto simp: closing_iff)
    with D(5) D(2) [OF t(1)] t(2) show ?thesis by (simp add: sheet_shown_def)
  next
    case False
    with that D(7) show ?thesis by (simp add: sheet_shown_def)
  qed
  show ?thesis
    unfolding sheets_ok_def elapse_simps(1)
    by (intro conjI ballI allI impI) (fact 1, erule 2, (drule 3, simp)+, erule (1) 4, erule (1) 5)
qed

lemma calm_ok: "calm d st \<Longrightarrow> sheets_ok d st"
proof (induction rule: calm.induct)
  case (calm_toggle st s b)
  then show ?case by (cases b) (simp_all add: sheets_ok_open sheets_ok_close)
qed (simp_all add: sheets_ok_fresh sheets_ok_elapse)

subsection \<open>Visible scrims\<close>

lemma visible_scrims_set [simp]:
  "k \<in> set (visible_scrims st s) \<longleftrightarrow> k < length (sh_scrims st) \<and> sc_sheet (sh_scrims st ! k) = s \<and>
     sc_attached (sh_scrims st ! k) \<and> \<not> sc_hidden (sh_scrims st ! k)"
  by (auto simp: visible_scrims_def)

lemma distinct_visible: "distinct (visible_scrims st s)"
  by (simp add: visible_scrims_def)

lemma singleton_list: "distinct xs \<Longrightarrow> set xs = {x} \<Longrightarrow> xs = [x]"
  by (metis distinct_card card.empty card.insert empty_iff finite.emptyI length_0_conv length_Suc_conv
      list.set_intros(1) set_empty singletonD)

lemma ok_visible:
  assumes "sheets_ok d st"
  shows "visible_scrims st s = (case sh_scrim_of st s of
      Some k \<Rightarrow> if closing st s then [] else [k] | None \<Rightarrow> [])"
proof (cases "sh_scrim_of st s")
  case None
  have "k \<notin> set (visible_scrims st s)" for k
    using None sheets_okD(6) [OF assms, of k] by (cases "k < length (sh_scrims st)") auto
  then have "visible_scrims st s = []" by (metis list.set_intros(1) neq_Nil_conv)
  with None show ?thesis by simp
next
  case (Some k)
  have f: "sc_sheet (sh_scrims st ! k) = s" "sc_hidden (sh_scrims st ! k) = closing st s"
    "sc_attached (sh_scrims st ! k)"
    using sheets_okD(4) [OF assms Some] by simp_all
  have "j \<in> set (visible_scrims st s) \<longleftrightarrow> \<not> closing st s \<and> j = k" for j
  proof
    assume "j \<in> set (visible_scrims st s)"
    then have j: "j < length (sh_scrims st)" "sc_sheet (sh_scrims st ! j) = s"
      "sc_attached (sh_scrims st ! j)" "\<not> sc_hidden (sh_scrims st ! j)" by simp_all
    with sheets_okD(6) [OF assms j(1,3)] Some have "j = k" by simp
    with j(4) f(2) show "\<not> closing st s \<and> j = k" by simp
  next
    assume "\<not> closing st s \<and> j = k"
    with sheets_okD(3) [OF assms Some] f show "j \<in> set (visible_scrims st s)" by simp
  qed
  then have *: "set (visible_scrims st s) = (if closing st s then {} else {k})"
    by (intro set_eqI) (simp del: visible_scrims_set)
  show ?thesis
  proof (cases "closing st s")
    case True
    have "visible_scrims st s = []" using * unfolding if_P [OF True] by (simp only: set_empty)
    with True Some show ?thesis by simp
  next
    case False
    have "visible_scrims st s = [k]"
      using * unfolding if_not_P [OF False] by (rule singleton_list [OF distinct_visible])
    with False Some show ?thesis by simp
  qed
qed

lemma elapse_visible_sub: "set (visible_scrims (elapse dt st) s) \<subseteq> set (visible_scrims st s)"
  by (auto split: if_splits)

subsection \<open>A scrim nobody refers to\<close>

text \<open>
  A visible scrim that no sheet and no timer refers to: no operation can hide or remove it again.
\<close>

definition orphan :: "nat \<Rightarrow> sheets \<Rightarrow> nat \<Rightarrow> bool" where
  "orphan s0 st k \<longleftrightarrow> k < length (sh_scrims st) \<and> sc_sheet (sh_scrims st ! k) = s0 \<and>
     sc_attached (sh_scrims st ! k) \<and> \<not> sc_hidden (sh_scrims st ! k) \<and> (\<forall>s. sh_scrim_of st s \<noteq> Some k) \<and>
     (\<forall>t \<in> set (sh_timers st). tm_scrim t \<noteq> k)"

lemma orphan_toggle:
  assumes "orphan s0 st k"
  shows "orphan s0 (sheet_toggle s b st) k"
proof (cases "sh_scrim_of st s")
  case None
  then show ?thesis using assms by (cases b) (auto simp: orphan_def nth_append)
next
  case (Some j)
  then show ?thesis using assms by (cases b) (auto simp: orphan_def)
qed

lemma orphan_elapse: "orphan s0 st k \<Longrightarrow> orphan s0 (elapse dt st) k"
  by (auto simp: orphan_def due_timers_def)

lemma orphan_step: "orphan s0 st k \<Longrightarrow> orphan s0 (sheet_step e st) k"
  by (cases e) (simp_all add: orphan_toggle orphan_elapse scrim_click_def)

lemma orphan_run: "orphan s0 st k \<Longrightarrow> orphan s0 (fold sheet_step es st) k"
  by (induction es arbitrary: st) (simp_all add: orphan_step)

text \<open>Close twice, reopen between the two removals.\<close>

definition leak_run :: "nat \<Rightarrow> sheet_event list" where
  "leak_run s = [OpenSheet s, CloseSheet s, Elapse 100, CloseSheet s, Elapse 200, OpenSheet s, Elapse 50]"

lemma leak_orphan: "orphan s (fold sheet_step (leak_run s) (fresh_sheets d)) 1"
  by (simp add: leak_run_def fresh_sheets_def orphan_def elapse_def fire_timer_def hide_scrim_def
      detach_scrim_def Let_def)

subsection \<open>Properties of the bottom sheet\<close>

text \<open>
  C6. As long as nobody opens or closes a sheet in the 250 milliseconds in which its scrim is being
  removed, a sheet that the page starts hidden is shown exactly while there is one visible scrim
  behind it, and there is never a second one.
\<close>

theorem sheet_scrim_agree:
  assumes "calm d st" "e_hidden (d_el d s)"
  shows "length (visible_scrims st s) = (if sheet_shown st s then 1 else 0)"
proof -
  note ok = calm_ok [OF assms(1)]
  show ?thesis
    using ok_visible [OF ok, of s] sheets_okD(5) [OF ok, of s] sheets_okD(7) [OF ok assms(2)]
    by (auto split: option.splits)
qed

text \<open>
  Reopening a sheet less than 250 milliseconds after it was closed leaves it without a
  scrim: the hidden one still counts as its scrim when it is opened, and the timer then takes it
  away. Once the timer has run the sheet is shown and nothing is behind it.
\<close>

theorem sheet_reopen_loses_scrim:
  assumes "calm d st" "e_hidden (d_el d s)" "sheet_shown st s" "dt < 250" "250 \<le> dt + dt'"
  shows "sheet_shown (fold sheet_step [CloseSheet s, Elapse dt, OpenSheet s, Elapse dt'] st) s \<and>
    visible_scrims (fold sheet_step [CloseSheet s, Elapse dt, OpenSheet s, Elapse dt'] st) s = []"
proof -
  note ok = calm_ok [OF assms(1)]
  obtain k where k: "sh_scrim_of st s = Some k"
    using sheets_okD(7) [OF ok assms(2)] assms(3) by blast
  have nc: "\<not> closing st s" using sheets_okD(5) [OF ok k] assms(3) by simp
  define st1 where "st1 = sheet_toggle s False st"
  define st2 where "st2 = elapse dt st1"
  define st3 where "st3 = sheet_toggle s True st2"
  have k1: "sh_scrim_of st1 s = Some k" using k by (simp add: st1_def)
  have nd: "s \<notin> tm_sheet ` due_timers dt st1"
  proof
    assume "s \<in> tm_sheet ` due_timers dt st1"
    then obtain t where t: "t \<in> set (sh_timers st1)" "tm_due t \<le> sh_now st + dt" "tm_sheet t = s"
      using k by (auto simp: st1_def due_timers_def)
    moreover have "t \<notin> set (sh_timers st)" using nc t(3) by (auto simp: closing_iff)
    ultimately have "tm_due t = sh_now st + 250" using k by (simp add: st1_def)
    with t(2) assms(4) show False by simp
  qed
  have k2: "sh_scrim_of st2 s = Some k" using k1 nd by (simp add: st2_def)
  have "closing st1 s" using k by (simp add: st1_def closing_iff)
  then have "visible_scrims st1 s = []"
    using ok_visible [OF sheets_ok_close [OF ok nc], of s] k1 by (simp add: st1_def)
  then have "visible_scrims st2 s = []"
    using elapse_visible_sub [of dt st1 s] by (simp add: st2_def del: visible_scrims_set)
  then have v3: "visible_scrims st3 s = []"
    using k2 by (simp add: st3_def visible_scrims_def)
  have "visible_scrims (elapse dt' st3) s = []"
    using elapse_visible_sub [of dt' st3 s] v3 by (simp del: visible_scrims_set)
  moreover have "sheet_shown (elapse dt' st3) s" using k2 by (simp add: st3_def sheet_shown_def)
  ultimately show ?thesis by (simp add: st1_def st2_def st3_def)
qed

text \<open>
  C21. Closing a sheet twice before its scrim is removed and reopening it between the two removals
  leaves a visible scrim that stays on the page whatever happens afterwards: the second timer
  clears the sheet's reference to the new scrim.
\<close>

theorem sheet_scrim_leak:
  "1 \<in> set (visible_scrims (fold sheet_step es (fold sheet_step (leak_run s) (fresh_sheets d))) s)"
  using orphan_run [OF leak_orphan [of s d], of es] by (simp add: orphan_def)

subsection \<open>An instance\<close>

definition sheet_dom :: dom where
  "sheet_dom = \<lparr>d_size = 2, d_el = (\<lambda>_. blank_elem\<lparr>e_classes := [''ds-sheet''], e_hidden := True\<rparr>)\<rparr>"

lemma sheet_dom_hidden: "e_hidden (d_el sheet_dom s)"
  by (simp add: sheet_dom_def)

lemma calm_demo: "calm sheet_dom (sheet_toggle 1 True (fresh_sheets sheet_dom))"
  by (intro calm_toggle calm_start) (simp add: closing_def fresh_sheets_def)

theorem sheet_scrim_agree_witness:
  "length (visible_scrims (sheet_toggle 1 True (fresh_sheets sheet_dom)) 1) = 1"
  using sheet_scrim_agree [OF calm_demo sheet_dom_hidden, of 1]
  by (simp add: sheet_shown_def fresh_sheets_def)

theorem sheet_reopen_loses_scrim_witness:
  "visible_scrims (fold sheet_step [CloseSheet 1, Elapse 100, OpenSheet 1, Elapse 200]
     (sheet_toggle 1 True (fresh_sheets sheet_dom))) 1 = []"
  by (rule sheet_reopen_loses_scrim [THEN conjunct2, OF calm_demo sheet_dom_hidden])
    (simp_all add: sheet_shown_def fresh_sheets_def)

end
