(* ===== verification/Orderbook.thy ===== *)
theory Orderbook
  imports Sheet
begin

text \<open>
  The order book: the vanilla renderer \<open>Adivento.orderbook.render\<close> and the React component
  \<open>OrderBook\<close>. A row is a price and a size; \<open>spread\<close> and \<open>last\<close> may be undefined.
\<close>

record book =
  bk_asks :: "(jsnum \<times> jsnum) list"
  bk_bids :: "(jsnum \<times> jsnum) list"
  bk_spread :: "jsnum option"
  bk_last :: "jsnum option"

definition book_sizes :: "book \<Rightarrow> jsnum list" where
  "book_sizes b = map snd (bk_asks b @ bk_bids b)"

text \<open>\<open>Math.max.apply(null, all) || 1\<close>\<close>

definition book_max :: "book \<Rightarrow> jsnum" where
  "book_max b = js_or (js_max_list (book_sizes b)) (Fin 1)"

text \<open>\<open>Math.max(1, ...sizes)\<close>, as the React component has it.\<close>

definition react_book_max :: "book \<Rightarrow> jsnum" where
  "react_book_max b = js_max_list (Fin 1 # book_sizes b)"

text \<open>\<open>(r[1] / max) * 100\<close>\<close>

definition bar_width :: "jsnum \<Rightarrow> jsnum \<Rightarrow> jsnum" where
  "bar_width mx sz = js_mul (js_div sz mx) (Fin 100)"

definition cent_sign :: string where
  "cent_sign = [CHR 0xC2, CHR 0xA2]"

definition book_row :: "jsnum \<Rightarrow> string \<Rightarrow> jsnum \<times> jsnum \<Rightarrow> string" where
  "book_row mx side r =
     ''<div class=\"ds-orderbook__row ds-orderbook__row--'' @ side @ ''\">''
     @ ''<div class=\"ds-orderbook__bar\" style=\"width:'' @ js_to_string (bar_width mx (snd r)) @ ''%\"></div>''
     @ ''<span class=\"ds-orderbook__px ds-num\">'' @ js_to_string (fst r) @ cent_sign @ ''</span>''
     @ ''<span class=\"ds-orderbook__sz ds-num\">'' @ js_to_string (snd r) @ ''</span></div>''"

definition opt_string :: "jsnum option \<Rightarrow> string" where
  "opt_string x = (case x of None \<Rightarrow> ''undefined'' | Some v \<Rightarrow> js_to_string v)"

text \<open>\<open>book.spread || "-"\<close>, the fallback being an em dash.\<close>

definition spread_text :: "jsnum option \<Rightarrow> string" where
  "spread_text x = (case x of Some v \<Rightarrow> if truthy v then js_to_string v else [CHR 0xE2, CHR 0x80, CHR 0x94]
     | None \<Rightarrow> [CHR 0xE2, CHR 0x80, CHR 0x94])"

definition spread_row :: "book \<Rightarrow> string" where
  "spread_row b = ''<div class=\"ds-orderbook__spread\">spread '' @ spread_text (bk_spread b) @ cent_sign
     @ [CHR 0x20, CHR 0xC2, CHR 0xB7, CHR 0x20] @ ''last '' @ opt_string (bk_last b) @ cent_sign @ ''</div>''"

definition book_html :: "book \<Rightarrow> string" where
  "book_html b =
     concat (map (book_row (book_max b) ''ask'') (rev (bk_asks b))) @ spread_row b
     @ concat (map (book_row (book_max b) ''bid'') (bk_bids b))"

definition orderbook_render :: "nat \<Rightarrow> book \<Rightarrow> dom \<Rightarrow> dom" where
  "orderbook_render el b = set_html (book_html b) el"

text \<open>The React component: its rows, as side, price, size and bar width.\<close>

definition react_book_rows :: "book \<Rightarrow> (string \<times> jsnum \<times> jsnum \<times> jsnum) list" where
  "react_book_rows b =
     (let mx = react_book_max b
      in map (\<lambda>(px, sz). (''ask'', px, sz, bar_width mx sz)) (rev (bk_asks b))
         @ map (\<lambda>(px, sz). (''bid'', px, sz, bar_width mx sz)) (bk_bids b))"

subsection \<open>The largest size\<close>

lemma foldl_js_max:
  assumes "is_finite a" "list_all is_finite xs"
  shows "is_finite (foldl js_max a xs)"
    and "val (foldl js_max a xs) = Max (insert (val a) (val ` set xs))"
proof -
  have "is_finite (foldl js_max a xs) \<and> val (foldl js_max a xs) = Max (insert (val a) (val ` set xs))"
    using assms
  proof (induction xs arbitrary: a)
    case (Cons x xs)
    then have "is_finite (js_max a x)" "val (js_max a x) = max (val a) (val x)"
      by (simp_all add: js_max_finite)
    then show ?case
      using Cons by (cases "xs = []") (simp_all add: max.assoc insert_commute)
  qed simp
  then show "is_finite (foldl js_max a xs)"
    and "val (foldl js_max a xs) = Max (insert (val a) (val ` set xs))" by simp_all
qed

lemma js_max_list_finite:
  assumes "list_all is_finite xs" "xs \<noteq> []"
  shows "is_finite (js_max_list xs)" and "val (js_max_list xs) = Max (val ` set xs)"
proof -
  obtain y ys where xs: "xs = y # ys" using assms(2) by (cases xs) auto
  have "js_max NegInf y = y" using assms(1) by (cases y) (auto simp: xs js_max_def)
  then show "is_finite (js_max_list xs)" and "val (js_max_list xs) = Max (val ` set xs)"
    using foldl_js_max [of y ys] assms(1) by (simp_all add: js_max_list_def xs)
qed

definition sizes_ok :: "book \<Rightarrow> bool" where
  "sizes_ok b \<longleftrightarrow> list_all (\<lambda>z. is_finite z \<and> 0 \<le> val z) (book_sizes b)"

lemma truthy_finite: "is_finite a \<Longrightarrow> truthy a = (val a \<noteq> 0)"
  by (cases a) auto

lemma book_max_val:
  assumes "sizes_ok b" "z \<in> set (book_sizes b)"
  shows "is_finite (book_max b)" "0 < val (book_max b)" "val z \<le> val (book_max b)"
    and "0 < val z \<Longrightarrow> val (book_max b) \<in> val ` set (book_sizes b)"
proof -
  let ?m = "js_max_list (book_sizes b)"
  have fin: "list_all is_finite (book_sizes b)" and ne: "book_sizes b \<noteq> []"
    using assms by (auto simp: sizes_ok_def list_all_iff)
  note m = js_max_list_finite [OF fin ne]
  have z: "0 \<le> val z" "val z \<le> val ?m" using assms by (auto simp: m sizes_ok_def list_all_iff)
  moreover have "val ?m \<in> val ` set (book_sizes b)" unfolding m(2) using ne by (intro Max_in) auto
  ultimately show "is_finite (book_max b)" "0 < val (book_max b)" "val z \<le> val (book_max b)"
    and "0 < val z \<Longrightarrow> val (book_max b) \<in> val ` set (book_sizes b)"
    using m(1) by (auto simp: book_max_def js_or_def truthy_finite)
qed

lemma bar_width_val:
  assumes "is_finite z" "is_finite mx" "0 < val mx" "0 \<le> val z" "val z \<le> val mx"
  shows "is_finite (bar_width mx z)" "val (bar_width mx z) = fl (fl (val z / val mx) * 100)"
    and "0 \<le> val (bar_width mx z)" "val (bar_width mx z) \<le> 100"
proof -
  have r: "0 \<le> val z / val mx" "val z / val mx \<le> 1" using assms by simp_all
  then have f: "0 \<le> fl (val z / val mx)" "fl (val z / val mx) \<le> 1"
    using b64.rnd_nonneg b64.rnd_le [of 1] is_dbl_of_int [of 1] by auto
  have d: "is_finite (js_div z mx)" "val (js_div z mx) = fl (val z / val mx)"
    using assms range_dbl_safe [OF r] by (auto intro: js_div_finite)
  then show 1: "is_finite (bar_width mx z)" and 2: "val (bar_width mx z) = fl (fl (val z / val mx) * 100)"
    using f range_dbl_safe [of "fl (val z / val mx) * 100" 100]
      js_mul_finite [of "js_div z mx" "Fin 100"] by (simp_all add: bar_width_def)
  show "0 \<le> val (bar_width mx z)" and "val (bar_width mx z) \<le> 100"
    unfolding 2 using f by (auto intro!: b64.rnd_nonneg b64.rnd_le)
qed

lemma book_bar:
  assumes "sizes_ok b" "z \<in> set (book_sizes b)"
  shows "is_finite (bar_width (book_max b) z)"
    "val (bar_width (book_max b) z) = fl (fl (val z / val (book_max b)) * 100)"
    "0 \<le> val (bar_width (book_max b) z)" "val (bar_width (book_max b) z) \<le> 100"
  using assms by (auto simp: sizes_ok_def list_all_iff intro!: bar_width_val book_max_val)

subsection \<open>Properties of the order book\<close>

text \<open>
  C27. When every size is finite and not negative, every bar is between 0 and 100 percent wide, a larger
  size never has a narrower bar, and the largest positive size has exactly 100 percent, in
  binary64 arithmetic.
\<close>

theorem book_bars:
  assumes "sizes_ok b" "z \<in> set (book_sizes b)" "y \<in> set (book_sizes b)" "val y \<le> val z"
  shows "0 \<le> val (bar_width (book_max b) y) \<and>
    val (bar_width (book_max b) y) \<le> val (bar_width (book_max b) z) \<and>
    val (bar_width (book_max b) z) \<le> 100 \<and>
    (0 < val z \<and> (\<forall>x \<in> set (book_sizes b). val x \<le> val z) \<longrightarrow> val (bar_width (book_max b) z) = 100)"
proof (intro conjI impI)
  note z = book_bar [OF assms(1,2)] and y = book_bar [OF assms(1,3)]
  have m: "0 < val (book_max b)" by (rule book_max_val(2) [OF assms(1,2)])
  show "0 \<le> val (bar_width (book_max b) y)" and "val (bar_width (book_max b) z) \<le> 100"
    using y z by simp_all
  show "val (bar_width (book_max b) y) \<le> val (bar_width (book_max b) z)"
    unfolding y(2) z(2) using assms(4) m
    by (intro b64.rnd_mono mult_right_mono divide_right_mono) simp_all
  assume "0 < val z \<and> (\<forall>x \<in> set (book_sizes b). val x \<le> val z)"
  then have "val (book_max b) = val z"
    using book_max_val(3,4) [OF assms(1,2)] by fastforce
  with m have "val z / val (book_max b) = 1" by simp
  then show "val (bar_width (book_max b) z) = 100"
    unfolding z(2) by (simp add: fl_one fl_numeral)
qed

text \<open>
  The vanilla renderer and the React component scale the bars alike as soon as one size is at
  least 1; below that the React component does not stretch them to the full width.
\<close>

theorem book_max_agree:
  assumes "sizes_ok b" "z \<in> set (book_sizes b)" "1 \<le> val z"
  shows "val (react_book_max b) = val (book_max b)"
proof -
  have fin: "list_all is_finite (book_sizes b)" and ne: "book_sizes b \<noteq> []"
    using assms by (auto simp: sizes_ok_def list_all_iff)
  have "val z \<le> Max (val ` set (book_sizes b))" using assms(2) by (intro Max_ge) simp_all
  then have le: "1 \<le> Max (val ` set (book_sizes b))" using assms(3) by simp
  have "val (react_book_max b) = Max (insert 1 (val ` set (book_sizes b)))"
    using js_max_list_finite [of "Fin 1 # book_sizes b"] fin by (simp add: react_book_max_def)
  also have "\<dots> = Max (val ` set (book_sizes b))" using ne le by simp
  also have "\<dots> = val (book_max b)"
    using js_max_list_finite [OF fin ne] le by (simp add: book_max_def js_or_def truthy_finite)
  finally show ?thesis .
qed

subsection \<open>An instance\<close>

definition demo_book :: book where
  "demo_book = \<lparr>bk_asks = [(Fin 55, Fin 30), (Fin 57, Fin 120)], bk_bids = [(Fin 52, Fin 40)],
     bk_spread = Some (Fin 3), bk_last = Some (Fin 54)\<rparr>"

lemma demo_book_ok: "sizes_ok demo_book" "book_sizes demo_book = [Fin 30, Fin 120, Fin 40]"
  by (simp_all add: demo_book_def sizes_ok_def book_sizes_def)

theorem book_bars_witness: "val (bar_width (book_max demo_book) (Fin 120)) = 100"
  using book_bars [of demo_book "Fin 120" "Fin 40"] by (simp add: demo_book_ok)

theorem book_max_agree_witness: "val (react_book_max demo_book) = val (book_max demo_book)"
  by (rule book_max_agree [of _ "Fin 30"]) (simp_all add: demo_book_ok)

end
