(* ===== verification/Ticket.thy ===== *)
theory Ticket
  imports Orderbook
begin

text \<open>
  The bet ticket: \<open>Adivento.ticket\<close>, which reads the stake field and the selected price box of a
  ticket and writes the payout and the profit, and the payout arithmetic of the React \<open>BetTicket\<close>.
  A price is in cents, so a stake \<open>s\<close> at price \<open>p\<close> pays \<open>s * (100 / p)\<close>.
\<close>

subsection \<open>The payout arithmetic\<close>

definition ticket_payout :: "jsnum \<Rightarrow> jsnum \<Rightarrow> jsnum" where
  "ticket_payout price s =
     (if js_lt (Fin 0) price then js_mul s (js_div (Fin 100) price) else Fin 0)"

definition payout_text :: "jsnum \<Rightarrow> jsnum \<Rightarrow> string" where
  "payout_text price s = js_to_locale (js_round (ticket_payout price s))"

definition profit_text :: "jsnum \<Rightarrow> jsnum \<Rightarrow> string" where
  "profit_text price s = ''+'' @ js_to_locale (js_round (js_sub (ticket_payout price s) s))"

text \<open>The React component rounds the payout first and subtracts the stake from the result.\<close>

definition react_payout :: "jsnum \<Rightarrow> jsnum \<Rightarrow> jsnum" where
  "react_payout price s =
     (if js_lt (Fin 0) price then js_round (js_mul s (js_div (Fin 100) price)) else Fin 0)"

definition react_profit_text :: "jsnum \<Rightarrow> jsnum \<Rightarrow> string" where
  "react_profit_text price s = ''+'' @ js_to_locale (js_sub (react_payout price s) s)"

subsection \<open>Reading a ticket\<close>

definition ticket_box :: "dom \<Rightarrow> nat \<Rightarrow> nat \<Rightarrow> bool" where
  "ticket_box d tk n \<longleftrightarrow> below d tk n \<and> has_class d ''ds-pricebox'' n"

definition ticket_selection :: "dom \<Rightarrow> nat \<Rightarrow> nat option" where
  "ticket_selection d tk =
     (case query_first d (\<lambda>n. ticket_box d tk n \<and> has_class d ''is-selected'' n) of
        Some n \<Rightarrow> Some n
      | None \<Rightarrow> query_first d (ticket_box d tk))"

definition ticket_price :: "dom \<Rightarrow> nat \<Rightarrow> jsnum" where
  "ticket_price d tk =
     (case ticket_selection d tk of
        None \<Rightarrow> NaN
      | Some n \<Rightarrow> (case get_attr d ''data-price'' n of None \<Rightarrow> NaN | Some v \<Rightarrow> js_parse_float v))"

definition ticket_input :: "dom \<Rightarrow> nat \<Rightarrow> nat option" where
  "ticket_input d tk = query_first d (\<lambda>n. below d tk n \<and> has_attr d ''data-ticket-stake'' n)"

text \<open>\<open>parseFloat(stake && stake.value) || 0\<close>\<close>

definition ticket_stake :: "dom \<Rightarrow> nat option \<Rightarrow> jsnum" where
  "ticket_stake d stake =
     js_or (case stake of None \<Rightarrow> NaN | Some n \<Rightarrow> js_parse_float (e_value (d_el d n))) (Fin 0)"

subsection \<open>Writing it\<close>

definition ticket_field :: "dom \<Rightarrow> nat \<Rightarrow> string \<Rightarrow> nat option" where
  "ticket_field d tk k = query_first d (\<lambda>n. below d tk n \<and> has_attr d k n)"

definition ticket_set :: "nat \<Rightarrow> string \<Rightarrow> string \<Rightarrow> dom \<Rightarrow> dom" where
  "ticket_set tk k v d = (case ticket_field d tk k of None \<Rightarrow> d | Some n \<Rightarrow> set_text v n d)"

definition ticket_recalc :: "nat \<Rightarrow> nat option \<Rightarrow> dom \<Rightarrow> dom" where
  "ticket_recalc tk stake d =
     (let price = ticket_price d tk; s = ticket_stake d stake
      in ticket_set tk ''data-ticket-profit'' (profit_text price s)
           (ticket_set tk ''data-ticket-payout'' (payout_text price s) d))"

text \<open>The click listener of a ticket.\<close>

definition ticket_select :: "nat \<Rightarrow> nat \<Rightarrow> dom \<Rightarrow> dom" where
  "ticket_select tk box d =
     add_class ''is-selected'' box
       (for_each (remove_class ''is-selected'') (query_all d (ticket_box d tk)) d)"

definition ticket_click :: "nat \<Rightarrow> nat option \<Rightarrow> nat \<Rightarrow> dom \<Rightarrow> dom" where
  "ticket_click tk stake n d =
     (let d1 = (case closest d (has_class d ''ds-pricebox'') n of
                  None \<Rightarrow> d
                | Some box \<Rightarrow> ticket_recalc tk stake (ticket_select tk box d))
      in case (closest d1 (has_attr d1 ''data-ticket-add'') n, stake) of
           (Some quick, Some i) \<Rightarrow>
             ticket_recalc tk stake (set_value (the (get_attr d1 ''data-ticket-add'' quick)) i d1)
         | _ \<Rightarrow> d1)"

text \<open>The user edits the stake field: its value changes and the input listener runs.\<close>

definition ticket_edit :: "nat \<Rightarrow> nat option \<Rightarrow> string \<Rightarrow> dom \<Rightarrow> dom" where
  "ticket_edit tk stake v d =
     (case stake of None \<Rightarrow> d | Some i \<Rightarrow> ticket_recalc tk stake (set_value v i d))"

text \<open>\<open>init\<close>: every ticket of the page is calculated once.\<close>

definition ticket_init :: "dom \<Rightarrow> dom" where
  "ticket_init d =
     for_each (\<lambda>tk d'. ticket_recalc tk (ticket_input d' tk) d')
       (query_all d (has_attr d ''data-ds-ticket'')) d"

datatype ticket_event = TicketEdit string | TicketClick nat

fun ticket_step :: "nat \<Rightarrow> nat option \<Rightarrow> ticket_event \<Rightarrow> dom \<Rightarrow> dom" where
  "ticket_step tk stake (TicketEdit v) d = ticket_edit tk stake v d"
| "ticket_step tk stake (TicketClick n) d = ticket_click tk stake n d"

text \<open>The ticket shows what its selection and its stake are worth.\<close>

definition ticket_shows :: "dom \<Rightarrow> nat \<Rightarrow> nat option \<Rightarrow> bool" where
  "ticket_shows d tk stake \<longleftrightarrow>
     (case ticket_field d tk ''data-ticket-payout'' of None \<Rightarrow> True
      | Some n \<Rightarrow> e_text (d_el d n) = payout_text (ticket_price d tk) (ticket_stake d stake)) \<and>
     (case ticket_field d tk ''data-ticket-profit'' of None \<Rightarrow> True
      | Some n \<Rightarrow> e_text (d_el d n) = profit_text (ticket_price d tk) (ticket_stake d stake))"

subsection \<open>Writing texts does not change what is read\<close>

text \<open>Documents that differ in texts only.\<close>

definition same_but_text :: "dom \<Rightarrow> dom \<Rightarrow> bool" where
  "same_but_text d d' \<longleftrightarrow> d_size d' = d_size d \<and>
     (\<forall>n. parent d' n = parent d n \<and> e_value (d_el d' n) = e_value (d_el d n) \<and>
          (\<forall>c. has_class d' c n = has_class d c n) \<and> (\<forall>a. get_attr d' a n = get_attr d a n))"

lemma same_but_text_refl [simp]: "same_but_text d d"
  by (simp add: same_but_text_def)

lemma same_but_text_trans: "same_but_text a b \<Longrightarrow> same_but_text b c \<Longrightarrow> same_but_text a c"
  by (simp add: same_but_text_def)

lemma same_but_text_set: "same_but_text d (ticket_set tk k v d)"
  by (simp add: ticket_set_def same_but_text_def split: option.split)

lemma same_but_text_recalc: "same_but_text d (ticket_recalc tk stake d)"
  unfolding ticket_recalc_def Let_def
  by (rule same_but_text_trans [OF same_but_text_set same_but_text_set])

lemma same_but_text_reads:
  assumes "same_but_text d d'"
  shows "ticket_price d' tk = ticket_price d tk" "ticket_stake d' stake = ticket_stake d stake"
    "ticket_field d' tk k = ticket_field d tk k" "ticket_box d' tk = ticket_box d tk"
    "ticket_input d' tk = ticket_input d tk"
proof -
  have b: "below d' a = below d a" for a
    using assms by (auto simp: fun_eq_iff below_def same_but_text_def intro!: contains_cong [THEN arg_cong])
  have h: "has_attr d' = has_attr d" "has_class d' = has_class d" "get_attr d' = get_attr d"
    "d_size d' = d_size d" "\<And>n. e_value (d_el d' n) = e_value (d_el d n)"
    using assms by (auto simp: fun_eq_iff has_attr_def same_but_text_def)
  have q: "query_first d' = query_first d" by (auto simp: fun_eq_iff query_first_def query_all_def h)
  show t: "ticket_box d' tk = ticket_box d tk" by (simp add: fun_eq_iff ticket_box_def b h)
  show "ticket_price d' tk = ticket_price d tk" "ticket_stake d' stake = ticket_stake d stake"
    "ticket_field d' tk k = ticket_field d tk k" "ticket_input d' tk = ticket_input d tk"
    by (simp_all add: ticket_price_def ticket_selection_def ticket_stake_def ticket_field_def
        ticket_input_def q t b h cong: option.case_cong)
qed

lemma ticket_set_text:
  "ticket_field d tk k = Some n \<Longrightarrow>
     e_text (d_el (ticket_set tk k v d) m) = (if m = n then v else e_text (d_el d m))"
  "ticket_field d tk k = None \<Longrightarrow> ticket_set tk k v d = d"
  by (simp_all add: ticket_set_def)

text \<open>Payout and profit are written to different elements.\<close>

definition ticket_fields_apart :: "dom \<Rightarrow> nat \<Rightarrow> bool" where
  "ticket_fields_apart d tk \<longleftrightarrow>
     ticket_field d tk ''data-ticket-payout'' = None \<or>
     ticket_field d tk ''data-ticket-payout'' \<noteq> ticket_field d tk ''data-ticket-profit''"

lemma ticket_shows_recalc:
  assumes "ticket_fields_apart d tk"
  shows "ticket_shows (ticket_recalc tk stake d) tk stake"
proof -
  note r = same_but_text_reads [OF same_but_text_recalc [of d tk stake]]
    and f = same_but_text_reads(3) [OF same_but_text_set]
  show ?thesis
    using assms
    by (cases "ticket_field d tk ''data-ticket-payout''"; cases "ticket_field d tk ''data-ticket-profit''")
      (simp_all add: ticket_shows_def r, simp_all add: ticket_recalc_def Let_def ticket_set_text f ticket_fields_apart_def)
qed

lemma ticket_field_cong:
  assumes "d_size d' = d_size d" "\<And>n. parent d' n = parent d n" "\<And>a n. get_attr d' a n = get_attr d a n"
  shows "ticket_field d' tk k = ticket_field d tk k"
  using assms
  by (simp add: ticket_field_def query_first_def query_all_def has_attr_def below_def contains_cong [of d' d])

lemma ticket_field_upd [simp]:
  "ticket_field (ticket_recalc tk stake d) tk' k = ticket_field d tk' k"
  "ticket_field (ticket_select tk box d) tk' k = ticket_field d tk' k"
  "ticket_field (set_value v i d) tk' k = ticket_field d tk' k"
  by (rule same_but_text_reads(3) [OF same_but_text_recalc], (rule ticket_field_cong; simp add: ticket_select_def)+)

lemma ticket_fields_upd [simp]:
  "ticket_fields_apart (ticket_recalc tk stake d) tk' = ticket_fields_apart d tk'"
  "ticket_fields_apart (ticket_select tk box d) tk' = ticket_fields_apart d tk'"
  "ticket_fields_apart (set_value v i d) tk' = ticket_fields_apart d tk'"
  by (simp_all add: ticket_fields_apart_def)

lemma ticket_step_shows:
  assumes "ticket_fields_apart d tk" "ticket_shows d tk stake"
  shows "ticket_fields_apart (ticket_step tk stake e d) tk \<and> ticket_shows (ticket_step tk stake e d) tk stake"
  using assms
  by (cases e) (auto simp: ticket_edit_def ticket_click_def ticket_shows_recalc Let_def split: option.split)

lemma ticket_run_shows:
  "ticket_fields_apart d tk \<Longrightarrow> ticket_shows d tk stake \<Longrightarrow>
     ticket_shows (fold (ticket_step tk stake) es d) tk stake"
  by (induction es arbitrary: d) (simp_all add: ticket_step_shows)

subsection \<open>Arithmetic of the payout\<close>

text \<open>The difference of a number and a smaller integer is exact.\<close>

lemma is_dbl_diff_int:
  assumes "is_dbl p" "0 \<le> s" "of_int s \<le> p" "p \<le> 2 ^ 53"
  shows "is_dbl (p - of_int s)"
proof -
  obtain m e where p: "p = of_int m * 2 powi e" "\<bar>m\<bar> \<le> 2 ^ 53" "-1074 \<le> e"
    using assms(1) by (auto simp: is_dbl_def)
  show ?thesis
  proof (cases "0 \<le> e")
    case True
    then have k: "p = of_int (m * 2 ^ nat e)" using p(1) by (simp add: power_int_def)
    have "of_int (m * 2 ^ nat e) \<le> (of_int (2 ^ 53) :: rat)" using k assms(4) by simp
    then have "m * 2 ^ nat e \<le> 2 ^ 53" by (simp only: of_int_le_iff)
    moreover have "s \<le> m * 2 ^ nat e"
      using assms(3) by (simp only: k of_int_le_iff)
    ultimately have "\<bar>m * 2 ^ nat e - s\<bar> \<le> 2 ^ 53" using assms(2) by linarith
    moreover have "p - of_int s = of_int (m * 2 ^ nat e - s)" by (simp only: k of_int_diff)
    ultimately show ?thesis by (simp only: is_dbl_of_int)
  next
    case False
    have s: "of_int s = of_int (s * 2 ^ nat (- e)) * (2 powi e :: rat)"
      using False by (simp add: power_int_def field_simps)
    then have d: "p - of_int s = of_int (m - s * 2 ^ nat (- e)) * 2 powi e"
      using p(1) by (simp add: algebra_simps)
    have pos: "(0 :: rat) < 2 powi e" by simp
    have "0 \<le> of_int (m - s * 2 ^ nat (- e)) * (2 powi e :: rat)" using d assms(3) by linarith
    then have "0 \<le> (of_int (m - s * 2 ^ nat (- e)) :: rat)"
      using pos by (rule mult_right_le_imp_le [of 0, unfolded mult_zero_left])
    then have "0 \<le> m - s * 2 ^ nat (- e)" by (simp only: of_int_0_le_iff)
    moreover have "0 \<le> s * 2 ^ nat (- e)" using assms(2) by simp
    ultimately have "\<bar>m - s * 2 ^ nat (- e)\<bar> \<le> 2 ^ 53" using p(2) by linarith
    then show ?thesis unfolding is_dbl_def using d p(3) by blast
  qed
qed

lemma payout_Fin:
  assumes "1 \<le> p" "p \<le> 100" "0 \<le> s" "s \<le> 2 ^ 40"
  shows "ticket_payout (Fin p) (Fin s) = Fin (fl (s * fl (100 / p)))"
    and "1 \<le> fl (100 / p)" "fl (100 / p) \<le> 100" "s \<le> s * fl (100 / p)" "s * fl (100 / p) \<le> 2 ^ 47"
proof -
  have r: "1 \<le> 100 / p" "100 / p \<le> 100" using assms(1,2) by (simp_all add: field_simps)
  show 1: "1 \<le> fl (100 / p)" by (rule b64.rnd_ge) (use r is_dbl_of_int [of 1] in simp_all)
  show 2: "fl (100 / p) \<le> 100" by (rule b64.rnd_le) (use r in simp_all)
  show "s \<le> s * fl (100 / p)" using mult_left_mono [OF 1 assms(3)] by simp
  have "s * fl (100 / p) \<le> 2 ^ 40 * 100" using 2 1 assms by (intro mult_mono) auto
  then show 3: "s * fl (100 / p) \<le> 2 ^ 47" by simp
  have safe: "100 / p \<le> dbl_safe" "s * fl (100 / p) \<le> dbl_safe"
    by (rule le_dbl_safe, rule order_trans [OF r(2)], simp, rule le_dbl_safe, rule order_trans [OF 3], simp)
  have "0 < p" using assms(1) by linarith
  then have "js_div (Fin 100) (Fin p) = Fin (fl (100 / p))" "js_lt (Fin 0) (Fin p)"
    using js_div_Fin [OF _ _ safe(1)] by simp_all
  moreover have "js_mul (Fin s) (Fin (fl (100 / p))) = Fin (fl (s * fl (100 / p)))"
    by (rule js_mul_Fin [OF assms(3) _ safe(2)]) (rule order_trans [OF zero_le_one 1])
  ultimately show "ticket_payout (Fin p) (Fin s) = Fin (fl (s * fl (100 / p)))"
    by (simp only: ticket_payout_def if_True)
qed

lemma fl_error_ge_one: "1 \<le> x \<Longrightarrow> \<bar>fl x - x\<bar> \<le> x / 2 ^ 53"
proof -
  assume x: "1 \<le> x"
  have "(2 :: rat) powi (-1022) \<le> 2 powi 0" by (rule power_int_increasing) simp_all
  also have "\<dots> \<le> \<bar>x\<bar>" using x by simp
  finally show ?thesis using fl_error [of x] x by (simp only: abs_of_nonneg zero_le_one order_trans [OF zero_le_one])
qed

text \<open>The two roundings stay within an eighth of the exact payout.\<close>

lemma payout_error:
  assumes "1 \<le> p" "p \<le> 100" "s = 0 \<or> 1 \<le> s" "s \<le> 2 ^ 40"
  shows "\<bar>fl (s * fl (100 / p)) - s * 100 / p\<bar> \<le> 1 / 8"
proof (cases "s = 0")
  case False
  with assms have s: "1 \<le> s" by simp
  note f = payout_Fin [of p s]
  have r: "1 \<le> 100 / p" "100 / p \<le> 100" using assms(1,2) by (simp_all add: field_simps)
  define a where "a = fl (100 / p)"
  have "\<bar>a - 100 / p\<bar> \<le> 100 / p / 2 ^ 53" unfolding a_def by (rule fl_error_ge_one [OF r(1)])
  also have "\<dots> \<le> 100 / 2 ^ 53" using r by (simp add: divide_right_mono)
  finally have "\<bar>a - 100 / p\<bar> \<le> 100 / 2 ^ 53" .
  then have e1: "s * \<bar>a - 100 / p\<bar> \<le> 2 ^ 40 * (100 / 2 ^ 53)"
    using s assms(4) by (intro mult_mono) auto
  have "s * a - s * 100 / p = s * (a - 100 / p)" by (simp add: right_diff_distrib)
  then have e2: "\<bar>s * a - s * 100 / p\<bar> = s * \<bar>a - 100 / p\<bar>" using s by (simp add: abs_mult)
  have sa: "s * a \<le> 2 ^ 47" "1 \<le> s * a"
    using f(5) order_trans [OF s f(4)] s assms by (simp_all add: a_def)
  have e3: "\<bar>fl (s * a) - s * a\<bar> \<le> 2 ^ 47 / 2 ^ 53"
    by (rule order_trans [OF fl_error_ge_one [OF sa(2)]]) (rule divide_right_mono [OF sa(1)], simp)
  have "\<bar>fl (s * a) - s * 100 / p\<bar> \<le> \<bar>fl (s * a) - s * a\<bar> + \<bar>s * a - s * 100 / p\<bar>"
    using abs_triangle_ineq [of "fl (s * a) - s * a" "s * a - s * 100 / p"] by simp
  also have "\<dots> \<le> 2 ^ 47 / 2 ^ 53 + 2 ^ 40 * (100 / 2 ^ 53)" using e1 e2 e3 by linarith
  also have "\<dots> \<le> 1 / 8" by simp
  finally show ?thesis unfolding a_def .
qed (simp add: fl_zero)

lemma round_near_int:
  assumes "\<bar>x - of_int n\<bar> \<le> 1 / 8"
  shows "\<lfloor>x + 1 / 2 :: rat\<rfloor> = n"
  unfolding floor_eq_iff using abs_le_D1 [OF assms] abs_le_D2 [OF assms] by simp

subsection \<open>Properties of the ticket\<close>

text \<open>
  Once a ticket has been calculated, after any edits of the stake and any clicks on boxes and quick
  amounts its payout and profit texts are those of the selected price and the stake in the
  field.
\<close>

theorem ticket_display:
  assumes "ticket_fields_apart d tk"
  shows "ticket_shows (fold (ticket_step tk stake) es (ticket_recalc tk stake d)) tk stake"
  by (rule ticket_run_shows) (simp_all add: assms ticket_shows_recalc)

text \<open>
  C7. For a whole stake up to \<open>2 ^ 40\<close> and a price of 1 to 100 cents the payout the ticket shows,
  computed in binary64 and rounded, is within 5/8 of the exact \<open>100 s / p\<close>, and it is exact whenever
  that is a whole number.
\<close>

theorem ticket_payout_close:
  assumes "1 \<le> p" "p \<le> 100" "0 \<le> s" "s \<le> 2 ^ 40"
  shows "\<bar>val (js_round (ticket_payout (num_of_int p) (num_of_int s))) - of_int (100 * s) / of_int p\<bar> \<le> 5 / 8 \<and>
    (p dvd 100 * s \<longrightarrow>
       js_round (ticket_payout (num_of_int p) (num_of_int s)) = num_of_int (100 * s div p))"
proof -
  have p: "1 \<le> (of_int p :: rat)" "(of_int p :: rat) \<le> 100" using assms(1,2) by simp_all
  have "of_int s \<le> (of_int (2 ^ 40) :: rat)" using assms(4) by (simp only: of_int_le_iff)
  then have s: "0 \<le> (of_int s :: rat)" "of_int s \<le> (2 ^ 40 :: rat)" using assms(3) by simp_all
  have "s = 0 \<or> 1 \<le> s" using assms(3) by linarith
  then have s01: "(of_int s :: rat) = 0 \<or> 1 \<le> (of_int s :: rat)" by auto
  define x :: rat where "x = fl (of_int s * fl (100 / of_int p))"
  have pay: "ticket_payout (num_of_int p) (num_of_int s) = Fin x"
    unfolding num_of_int_def x_def by (rule payout_Fin(1) [OF p s])
  have "0 \<le> of_int s * fl (100 / of_int p)" using payout_Fin(4) [OF p s] s(1) by linarith
  then have r: "js_round (Fin x) = Fin (of_int \<lfloor>x + 1 / 2\<rfloor>)"
    unfolding x_def by (intro js_round_Fin b64.rnd_nonneg)
  have err: "\<bar>x - of_int (100 * s) / of_int p\<bar> \<le> 1 / 8"
    using payout_error [OF p s01 s(2)] by (simp add: x_def mult.commute)
  have "\<bar>of_int \<lfloor>x + 1 / 2\<rfloor> - x\<bar> \<le> 1 / 2" by linarith
  with err have "\<bar>of_int \<lfloor>x + 1 / 2\<rfloor> - of_int (100 * s) / of_int p\<bar> \<le> (5 / 8 :: rat)" by linarith
  moreover have "\<lfloor>x + 1 / 2\<rfloor> = 100 * s div p" if "p dvd 100 * s"
  proof (rule round_near_int)
    have "of_int (100 * s) / of_int p = (of_int (100 * s div p) :: rat)"
      using that assms(1) by (simp add: of_int_div)
    with err show "\<bar>x - of_int (100 * s div p)\<bar> \<le> 1 / 8" by simp
  qed
  ultimately show ?thesis unfolding pay unfolding r unfolding num_of_int_def by simp
qed

text \<open>The rounded payout minus the stake, whichever is done first.\<close>

lemma profit_Fin:
  assumes "1 \<le> p" "p \<le> 100" "0 \<le> s" "s \<le> 2 ^ 40"
  defines "x \<equiv> fl (of_int s * fl (100 / p))"
  shows "js_round (js_sub (ticket_payout (Fin p) (num_of_int s)) (num_of_int s)) = num_of_int (\<lfloor>x + 1 / 2\<rfloor> - s)"
    and "js_sub (react_payout (Fin p) (num_of_int s)) (num_of_int s) = num_of_int (\<lfloor>x + 1 / 2\<rfloor> - s)"
    and "s \<le> \<lfloor>x + 1 / 2\<rfloor>"
proof -
  have "of_int s \<le> (of_int (2 ^ 40) :: rat)" using assms(4) by (simp only: of_int_le_iff)
  then have s: "0 \<le> (of_int s :: rat)" "of_int s \<le> (2 ^ 40 :: rat)" using assms(3) by simp_all
  note f = payout_Fin [OF assms(1,2) s]
  have ds: "is_dbl (of_int s)" using assms(3,4) by (intro is_dbl_of_int) simp
  have d47: "is_dbl (2 ^ 47)" using is_dbl_of_int [of "2 ^ 47"] by simp
  have x: "of_int s \<le> x" "x \<le> 2 ^ 47" "is_dbl x"
    using f(4,5) ds d47 by (simp_all add: x_def b64.rnd_ge b64.rnd_le is_dbl_fl)
  have x0: "0 \<le> x" using x(1) s(1) by linarith
  show ge: "s \<le> \<lfloor>x + 1 / 2\<rfloor>" using x(1) by (simp add: le_floor_iff)
  have x53: "x \<le> 2 ^ 53" using x(2) by (rule order_trans) simp
  have n: "\<lfloor>x + 1 / 2\<rfloor> \<le> 2 ^ 53"
    using x(2) by (simp add: floor_le_iff)
  have nb: "\<bar>\<lfloor>x + 1 / 2\<rfloor> - s\<bar> \<le> 2 ^ 53" using ge assms(3) n by linarith
  have pay: "ticket_payout (Fin p) (num_of_int s) = Fin x"
    unfolding num_of_int_def x_def by (rule f(1))
  have "x - of_int s \<le> 2 ^ 200" using x53 s(1) by simp
  then have safe: "x - of_int s \<le> dbl_safe" by (rule le_dbl_safe)
  have "js_sub (Fin x) (num_of_int s) = Fin (x - of_int s)"
    unfolding num_of_int_def js_sub_Fin [OF x(1) safe x(3)]
    by (simp only: b64.rnd_exact [OF is_dbl_diff_int [OF x(3) assms(3) x(1) x53]])
  moreover have "js_round (Fin (x - of_int s)) = Fin (of_int \<lfloor>x - of_int s + 1 / 2\<rfloor>)"
    using x(1) by (intro js_round_Fin) simp
  moreover have "\<lfloor>x - of_int s + 1 / 2\<rfloor> = \<lfloor>x + 1 / 2\<rfloor> - s"
    by (metis diff_add_eq floor_diff_of_int)
  ultimately show "js_round (js_sub (ticket_payout (Fin p) (num_of_int s)) (num_of_int s)) = num_of_int (\<lfloor>x + 1 / 2\<rfloor> - s)"
    unfolding pay by (simp only: num_of_int_def)
  have "0 < p" using assms(1) by linarith
  then have rp: "react_payout (Fin p) (num_of_int s) = Fin (of_int \<lfloor>x + 1 / 2\<rfloor>)"
    using pay js_round_Fin [OF x0] by (simp add: react_payout_def ticket_payout_def)
  have "(of_int (\<lfloor>x + 1 / 2\<rfloor> - s) :: rat) \<le> of_int (2 ^ 200)"
    unfolding of_int_le_iff using nb by simp
  then have safe2: "of_int \<lfloor>x + 1 / 2\<rfloor> - of_int s \<le> dbl_safe"
    using le_dbl_safe [of "of_int (\<lfloor>x + 1 / 2\<rfloor> - s)"] by simp
  have "is_dbl (of_int \<lfloor>x + 1 / 2\<rfloor>)" using n ge assms(3) by (intro is_dbl_of_int) linarith
  then have "js_sub (Fin (of_int \<lfloor>x + 1 / 2\<rfloor>)) (num_of_int s) = Fin (fl (of_int (\<lfloor>x + 1 / 2\<rfloor> - s)))"
    unfolding num_of_int_def of_int_diff using ge safe2 by (intro js_sub_Fin) simp_all
  also have "fl (of_int (\<lfloor>x + 1 / 2\<rfloor> - s)) = of_int (\<lfloor>x + 1 / 2\<rfloor> - s)"
    by (rule b64.rnd_exact, rule is_dbl_of_int, rule nb)
  finally show "js_sub (react_payout (Fin p) (num_of_int s)) (num_of_int s) = num_of_int (\<lfloor>x + 1 / 2\<rfloor> - s)"
    using rp by (simp only: num_of_int_def)
qed

text \<open>
  C19. For a whole stake up to \<open>2 ^ 40\<close> and any price between 1 and 100 cents the vanilla ticket
  and the React ticket show the same payout and the same profit, although one rounds before
  subtracting the stake and the other after, and that profit is not negative.
\<close>

theorem ticket_agrees_with_react:
  assumes "1 \<le> p" "p \<le> 100" "0 \<le> s" "s \<le> 2 ^ 40"
  shows "payout_text (Fin p) (num_of_int s) = js_to_locale (react_payout (Fin p) (num_of_int s)) \<and>
    profit_text (Fin p) (num_of_int s) = react_profit_text (Fin p) (num_of_int s) \<and>
    0 \<le> val (js_sub (react_payout (Fin p) (num_of_int s)) (num_of_int s))"
proof -
  have "0 < p" using assms(1) by linarith
  then have "payout_text (Fin p) (num_of_int s) = js_to_locale (react_payout (Fin p) (num_of_int s))"
    by (simp add: payout_text_def react_payout_def ticket_payout_def)
  with profit_Fin [OF assms] show ?thesis by (simp add: profit_text_def react_profit_text_def)
qed

text \<open>
  C28. Without a usable price, and for any price that is not positive, the payout is 0 and the profit
  is written as a plus sign followed by the negative stake.
\<close>

theorem ticket_no_price:
  assumes "\<not> js_lt (Fin 0) price" "0 < s" "s \<le> 2 ^ 40"
  shows "payout_text price (num_of_int s) = ''0'' \<and>
    profit_text price (num_of_int s) = ''+-'' @ locale_pos (of_int s)"
proof -
  have "locale_pos 0 = ''0''" by code_simp
  moreover have "\<lfloor>1 / 2 :: rat\<rfloor> = 0" by (simp add: floor_eq_iff)
  moreover have "is_dbl (of_int (- s))" using assms(2,3) by (intro is_dbl_of_int) simp
  then have "fl (- of_int s) = - of_int s" by (simp add: b64.rnd_exact)
  moreover have "(of_int s :: rat) \<le> of_int (2 ^ 200)" unfolding of_int_le_iff using assms(3) by simp
  then have "\<not> dbl_top \<le> (of_int s :: rat)"
    using le_dbl_safe [of "of_int s"] dbl_safe_less_top by simp
  ultimately show ?thesis
    using assms(1,2)
    by (simp add: payout_text_def profit_text_def ticket_payout_def num_of_int_def js_sub_def of_exact_def Let_def)
qed

text \<open>
  A click on a price box of a ticket leaves that box and no other box of the ticket selected.
\<close>

theorem ticket_one_selected:
  assumes "closest d (has_class d ''ds-pricebox'') n = Some box" "below d tk box" "ticket_box d tk m" "m < d_size d"
  shows "has_class (ticket_click tk stake n d) ''is-selected'' m \<longleftrightarrow> m = box"
proof -
  have "has_class (ticket_select tk box d) ''is-selected'' m \<longleftrightarrow> m = box"
    using assms(3,4) by (simp add: ticket_select_def)
  moreover have "has_class (ticket_recalc tk i e) = has_class e" for i e
    using same_but_text_recalc [of e tk i] by (simp add: same_but_text_def fun_eq_iff)
  ultimately show ?thesis
    using assms(1) by (simp add: ticket_click_def Let_def split: option.split)
qed

subsection \<open>An instance\<close>

definition ticket_dom :: dom where
  "ticket_dom = \<lparr>d_size = 7, d_el = (\<lambda>_. blank_elem)
     (0 := blank_elem\<lparr>e_parent := None\<rparr>,
      1 := blank_elem\<lparr>e_attrs := [''data-ds-ticket'' \<mapsto> []]\<rparr>,
      2 := blank_elem\<lparr>e_parent := Some 1, e_classes := [''ds-pricebox'', ''is-selected''],
             e_attrs := [''data-price'' \<mapsto> ''62'']\<rparr>,
      3 := blank_elem\<lparr>e_parent := Some 1, e_classes := [''ds-pricebox''], e_attrs := [''data-price'' \<mapsto> ''38'']\<rparr>,
      4 := blank_elem\<lparr>e_parent := Some 1, e_attrs := [''data-ticket-stake'' \<mapsto> []], e_value := ''100''\<rparr>,
      5 := blank_elem\<lparr>e_parent := Some 1, e_attrs := [''data-ticket-payout'' \<mapsto> []]\<rparr>,
      6 := blank_elem\<lparr>e_parent := Some 1, e_attrs := [''data-ticket-profit'' \<mapsto> []]\<rparr>)\<rparr>"

theorem ticket_display_witness:
  "ticket_shows (fold (ticket_step 1 (Some 4)) [TicketClick 3, TicketEdit ''25'']
     (ticket_recalc 1 (Some 4) ticket_dom)) 1 (Some 4)"
proof -
  have "ticket_field ticket_dom 1 ''data-ticket-payout'' = Some 5"
    and "ticket_field ticket_dom 1 ''data-ticket-profit'' = Some 6" by code_simp+
  then show ?thesis by (intro ticket_display) (simp add: ticket_fields_apart_def)
qed

theorem ticket_payout_close_witness:
  "js_round (ticket_payout (num_of_int 3) (num_of_int 9)) = num_of_int 300"
  using ticket_payout_close [of 3 9] by simp

theorem ticket_agrees_with_react_witness:
  "profit_text (Fin (125 / 2)) (num_of_int 100) = react_profit_text (Fin (125 / 2)) (num_of_int 100)"
  using ticket_agrees_with_react [of "125 / 2" 100] by simp

theorem ticket_no_price_witness: "profit_text NaN (num_of_int 10) = ''+-'' @ locale_pos 10"
  using ticket_no_price [of NaN 10] by simp

theorem ticket_one_selected_witness: "\<not> has_class (ticket_click 1 (Some 4) 3 ticket_dom) ''is-selected'' 2"
proof -
  have "closest ticket_dom (has_class ticket_dom ''ds-pricebox'') 3 = Some 3" "below ticket_dom 1 3"
    "ticket_box ticket_dom 1 2" "2 < d_size ticket_dom" by code_simp+
  then show ?thesis using ticket_one_selected by fastforce
qed

end
