(* ===== verification/Live.thy ===== *)
theory Live
  imports Ticket
begin

text \<open>
  \<open>Adivento.live\<close>: the simulated price tick and its interval timer, and \<open>Adivento.init\<close>. The values
  of \<open>Math.random()\<close> are a parameter: \<open>rnd i\<close> is the one drawn for the \<open>i\<close>-th element of a tick.
\<close>

subsection \<open>One tick\<close>

text \<open>\<open>parseFloat(el.getAttribute("data-value")) || 50\<close>; a missing attribute reads as \<open>null\<close>.\<close>

definition live_value :: "string option \<Rightarrow> jsnum" where
  "live_value a = js_or (case a of None \<Rightarrow> NaN | Some s \<Rightarrow> js_parse_float s) (Fin 50)"

text \<open>\<open>Math.max(2, Math.min(98, v + (Math.random() - 0.5) * 3))\<close>\<close>

definition live_next :: "jsnum \<Rightarrow> jsnum \<Rightarrow> jsnum" where
  "live_next r v = js_clamp (Fin 2) (Fin 98) (js_add v (js_mul (js_sub r (Fin (1 / 2))) (Fin 3)))"

definition live_pct :: "jsnum \<Rightarrow> string" where
  "live_pct v = js_to_string (js_round v) @ ''%''"

text \<open>\<open>el.querySelector("[data-live-pct]") || el\<close>\<close>

definition live_target :: "dom \<Rightarrow> nat \<Rightarrow> nat" where
  "live_target d el =
     (case query_first d (\<lambda>n. below d el n \<and> has_attr d ''data-live-pct'' n) of
        None \<Rightarrow> el | Some n \<Rightarrow> n)"

text \<open>One element: the document after it and the value its \<open>ds:tick\<close> event carries.\<close>

definition live_one :: "jsnum \<Rightarrow> nat \<Rightarrow> dom \<Rightarrow> dom \<times> jsnum" where
  "live_one r el d =
     (let v = live_next r (live_value (get_attr d ''data-value'' el));
          d1 = set_attr ''data-value'' (js_to_fixed1 v) el d;
          t = live_target d1 el;
          d2 = (if has_attr d1 ''data-live-pct'' t then set_text (live_pct v) t d1 else d1)
      in (d2, v))"

fun live_loop :: "(nat \<Rightarrow> jsnum) \<Rightarrow> nat \<Rightarrow> nat list \<Rightarrow> dom \<Rightarrow> dom \<times> (nat \<times> jsnum) list" where
  "live_loop rnd i [] d = (d, [])"
| "live_loop rnd i (el # els) d =
     (let (d1, v) = live_one (rnd i) el d; (d2, evs) = live_loop rnd (Suc i) els d1
      in (d2, (el, v) # evs))"

definition live_tick :: "(nat \<Rightarrow> jsnum) \<Rightarrow> dom \<Rightarrow> dom \<times> (nat \<times> jsnum) list" where
  "live_tick rnd d = live_loop rnd 0 (query_all d (has_attr d ''data-ds-live'')) d"

subsection \<open>The interval timer\<close>

text \<open>The intervals that are running, with their periods, and the handle in \<open>_timer\<close>.\<close>

record live_state =
  lv_timer :: "nat option"
  lv_running :: "(nat \<times> jsnum) list"
  lv_next :: nat

definition live_stop :: "live_state \<Rightarrow> live_state" where
  "live_stop st =
     (case lv_timer st of
        None \<Rightarrow> st
      | Some i \<Rightarrow> st\<lparr>lv_timer := None, lv_running := filter (\<lambda>t. fst t \<noteq> i) (lv_running st)\<rparr>)"

text \<open>\<open>setInterval(tick, intervalMs || 2200)\<close>; timer handles are positive, so a set one is true.\<close>

definition live_start :: "jsnum option \<Rightarrow> live_state \<Rightarrow> live_state" where
  "live_start interval st =
     (let st1 = live_stop st;
          ms = js_or (case interval of None \<Rightarrow> NaN | Some v \<Rightarrow> v) (Fin 2200)
      in st1\<lparr>lv_timer := Some (lv_next st1), lv_running := lv_running st1 @ [(lv_next st1, ms)],
             lv_next := Suc (lv_next st1)\<rparr>)"

datatype live_event = StartLive "jsnum option" | StopLive

fun live_step :: "live_event \<Rightarrow> live_state \<Rightarrow> live_state" where
  "live_step (StartLive v) st = live_start v st"
| "live_step StopLive st = live_stop st"

definition live_idle :: live_state where
  "live_idle = \<lparr>lv_timer = None, lv_running = [], lv_next = 1\<rparr>"

subsection \<open>The value\<close>

lemma live_next_range:
  assumes "r \<noteq> NaN" "is_finite r" "0 \<le> val r" "val r \<le> 1" "wf_num r" "v \<noteq> NaN"
  shows "is_finite (live_next r v)" "2 \<le> val (live_next r v)" "val (live_next r v) \<le> 98"
proof -
  have h: "is_dbl (1 / 2)" unfolding is_dbl_def by (rule exI [of _ 1], rule exI [of _ "-1"]) simp
  then have wh: "wf_num (Fin (1 / 2))" using le_dbl_safe [of 1] dbl_safe_less_top by simp
  have "\<bar>val r - 1 / 2\<bar> \<le> 2 ^ 200" using assms(3,4) by (simp add: abs_le_iff)
  then have s: "is_finite (js_sub r (Fin (1 / 2)))" "val (js_sub r (Fin (1 / 2))) = fl (val r - 1 / 2)"
    using js_sub_finite [of r "Fin (1 / 2)"] assms(2,5) wh le_dbl_safe by simp_all
  have "fl (val r - 1 / 2) \<le> 1" "- 1 \<le> fl (val r - 1 / 2)"
    using assms(3,4) is_dbl_of_int [of 1] is_dbl_of_int [of "-1"] by (simp_all add: b64.rnd_le b64.rnd_ge)
  then have "\<bar>fl (val r - 1 / 2) * 3\<bar> \<le> 2 ^ 200" by (simp add: abs_le_iff)
  then have "is_finite (js_mul (js_sub r (Fin (1 / 2))) (Fin 3))"
    using js_mul_finite [of "js_sub r (Fin (1 / 2))" "Fin 3"] s le_dbl_safe by simp
  then have "js_add v (js_mul (js_sub r (Fin (1 / 2))) (Fin 3)) \<noteq> NaN"
    using assms(6) by (cases v; cases "js_mul (js_sub r (Fin (1 / 2))) (Fin 3)")
      (auto simp: of_exact_def Let_def)
  from js_clamp_range [OF _ _ _ this, of "Fin 2" "Fin 98"]
  show "is_finite (live_next r v)" "2 \<le> val (live_next r v)" "val (live_next r v) \<le> 98"
    by (simp_all add: live_next_def)
qed

lemma of_exact_not_NaN: "of_exact neg q \<noteq> NaN"
  by (simp add: of_exact_def Let_def)

lemma live_value_not_NaN: "live_value a \<noteq> NaN"
  by (cases a) (auto simp: live_value_def js_or_def elim: truthy.elims)

text \<open>What \<open>Math.random()\<close> returns.\<close>

definition unit_draw :: "jsnum \<Rightarrow> bool" where
  "unit_draw r \<longleftrightarrow> is_finite r \<and> 0 \<le> val r \<and> val r \<le> 1 \<and> wf_num r"

lemma live_loop_Cons:
  "snd (live_loop rnd i (el # els) d) =
     (el, snd (live_one (rnd i) el d)) # snd (live_loop rnd (Suc i) els (fst (live_one (rnd i) el d)))"
  "fst (live_loop rnd i (el # els) d) = fst (live_loop rnd (Suc i) els (fst (live_one (rnd i) el d)))"
  by (simp_all add: split_beta)

lemma live_one_range:
  "unit_draw r \<Longrightarrow> is_finite (snd (live_one r el d)) \<and> 2 \<le> val (snd (live_one r el d)) \<and>
     val (snd (live_one r el d)) \<le> 98"
  by (simp add: live_one_def Let_def live_next_range live_value_not_NaN unit_draw_def finite_not_NaN)

lemma live_loop_range:
  assumes "\<forall>i. unit_draw (rnd i)" "(el, v) \<in> set (snd (live_loop rnd i els d))"
  shows "is_finite v \<and> 2 \<le> val v \<and> val v \<le> 98"
  using assms(2)
proof (induction els arbitrary: i d)
  case (Cons e els)
  then show ?case
    using live_one_range assms(1) by (auto simp: live_loop_Cons simp del: live_loop.simps(2))
qed simp

lemma live_one_attr:
  "get_attr (fst (live_one r el d)) ''data-value'' m =
     (if m = el then Some (js_to_fixed1 (snd (live_one r el d))) else get_attr d ''data-value'' m)"
  by (simp add: live_one_def Let_def)

lemma live_loop_attr:
  "get_attr (fst (live_loop rnd i els d)) ''data-value'' m =
     (case map_of (rev (snd (live_loop rnd i els d))) m of
        None \<Rightarrow> get_attr d ''data-value'' m | Some v \<Rightarrow> Some (js_to_fixed1 v))"
  by (induction els arbitrary: i d)
    (auto simp: live_loop_Cons live_one_attr map_add_def simp del: live_loop.simps(2) split: option.splits)

lemma live_loop_keys: "map fst (snd (live_loop rnd i els d)) = els"
  by (induction els arbitrary: i d) (simp_all add: live_loop_Cons del: live_loop.simps(2))

subsection \<open>The text of a value\<close>

lemma js_to_fixed1_range:
  assumes "is_finite v" "2 \<le> val v" "val v \<le> 98"
  shows "js_to_fixed1 v = tenths_str (nat \<lfloor>val v * 10 + 1/2\<rfloor>)"
    "20 \<le> nat \<lfloor>val v * 10 + 1/2\<rfloor>" "nat \<lfloor>val v * 10 + 1/2\<rfloor> \<le> 980"
proof -
  obtain q where v: "v = Fin q" "2 \<le> q" "q \<le> 98" using assms by (cases v) auto
  then have "\<not> 10 ^ 21 \<le> \<bar>q\<bar>" by simp
  with v show "js_to_fixed1 v = tenths_str (nat \<lfloor>val v * 10 + 1/2\<rfloor>)" by simp
  have "20 \<le> \<lfloor>q * 10 + 1/2\<rfloor>" "\<lfloor>q * 10 + 1/2\<rfloor> < 981"
    using v by (simp_all add: le_floor_iff floor_less_iff)
  then show "20 \<le> nat \<lfloor>val v * 10 + 1/2\<rfloor>" "nat \<lfloor>val v * 10 + 1/2\<rfloor> \<le> 980"
    unfolding v(1) val.simps by linarith+
qed

text \<open>The text a tick stores reads back as a number in the same range, close to the value.\<close>

lemma fixed1_roundtrip:
  assumes "is_finite v" "2 \<le> val v" "val v \<le> 98"
  shows "\<exists>q. js_parse_float (js_to_fixed1 v) = Fin q \<and> 2 \<le> q \<and> q \<le> 98 \<and> \<bar>q - val v\<bar> \<le> 51 / 1000"
proof -
  define n where "n = nat \<lfloor>val v * 10 + 1/2\<rfloor>"
  note f = js_to_fixed1_range [OF assms, folded n_def]
  have n: "(of_nat n :: rat) = of_int \<lfloor>val v * 10 + 1/2\<rfloor>"
    using f(2) by (simp add: n_def)
  have b: "2 \<le> (of_nat n / 10 :: rat)" "(of_nat n / 10 :: rat) \<le> 98"
    using f(2,3) by (simp_all add: field_simps)
  have "(of_nat n / 10 :: rat) \<le> 2 ^ 200" using b(2) by simp
  then have p: "js_parse_float (js_to_fixed1 v) = Fin (fl (of_nat n / 10))"
    unfolding f(1) js_parse_float_tenths by (intro of_exact_Fin le_dbl_safe) simp_all
  have r: "2 \<le> fl (of_nat n / 10)" "fl (of_nat n / 10) \<le> 98"
    using b is_dbl_numeral by (auto intro!: b64.rnd_ge b64.rnd_le)
  have "\<bar>of_int \<lfloor>val v * 10 + 1/2\<rfloor> - val v * 10\<bar> \<le> 1 / 2" by linarith
  from abs_le_D1 [OF this] abs_le_D2 [OF this] have e1: "\<bar>of_nat n / 10 - val v\<bar> \<le> 1 / 20"
    unfolding n by (intro abs_leI) simp_all
  have "\<bar>fl (of_nat n / 10) - of_nat n / 10\<bar> \<le> of_nat n / 10 / 2 ^ 53"
    by (rule fl_error_ge_one) (use b in simp)
  also have "\<dots> \<le> 98 / 2 ^ 53" by (rule divide_right_mono [OF b(2)]) simp
  finally have e2: "\<bar>fl (of_nat n / 10) - of_nat n / 10\<bar> \<le> 1 / 1000" by (rule order_trans) simp
  from e1 e2 have "\<bar>fl (of_nat n / 10) - val v\<bar> \<le> 51 / 1000" by linarith
  with p r show ?thesis by blast
qed

subsection \<open>The timer\<close>

definition live_ok :: "live_state \<Rightarrow> bool" where
  "live_ok st \<longleftrightarrow>
     map fst (lv_running st) = (case lv_timer st of None \<Rightarrow> [] | Some i \<Rightarrow> [i]) \<and>
     list_all (\<lambda>t. fst t < lv_next st) (lv_running st)"

lemma live_stop_ok: "live_ok st \<Longrightarrow> live_ok (live_stop st) \<and> lv_running (live_stop st) = []"
  by (auto simp: live_ok_def live_stop_def map_eq_Cons_conv split: option.splits)

lemma live_start_ok: "live_ok st \<Longrightarrow> live_ok (live_start v st)"
  using live_stop_ok [of st] by (simp add: live_start_def Let_def live_ok_def)

lemma live_run_ok: "live_ok st \<Longrightarrow> live_ok (fold live_step es st)"
proof (induction es arbitrary: st)
  case (Cons e es)
  then show ?case by (cases e) (simp_all add: live_start_ok live_stop_ok)
qed simp

subsection \<open>Properties of the live prices\<close>

text \<open>
  C20. A tick gives every live element a value between 2 and 98 whatever its attribute held and whatever
  is drawn, and stores a text from which the next tick reads a number in the same range, at most
  51/1000 away from that value.
\<close>

theorem live_values:
  assumes "\<forall>i. unit_draw (rnd i)" "(el, v) \<in> set (snd (live_tick rnd d))"
  shows "is_finite v \<and> 2 \<le> val v \<and> val v \<le> 98 \<and>
    (\<exists>q. live_value (get_attr (fst (live_tick rnd d)) ''data-value'' el) = Fin q \<and>
       2 \<le> q \<and> q \<le> 98 \<and> \<bar>q - val v\<bar> \<le> 51 / 1000)"
proof -
  note r = live_loop_range [OF assms(1) assms(2) [unfolded live_tick_def]]
  have "distinct (map fst (rev (snd (live_tick rnd d))))"
    unfolding rev_map [symmetric] live_tick_def live_loop_keys by simp
  then have "map_of (rev (snd (live_tick rnd d))) el = Some v"
    using assms(2) by (simp add: map_of_eq_Some_iff)
  then have a: "get_attr (fst (live_tick rnd d)) ''data-value'' el = Some (js_to_fixed1 v)"
    by (simp add: live_tick_def live_loop_attr)
  obtain q where q: "js_parse_float (js_to_fixed1 v) = Fin q" "2 \<le> q" "q \<le> 98" "\<bar>q - val v\<bar> \<le> 51 / 1000"
    using fixed1_roundtrip r by blast
  then have "live_value (Some (js_to_fixed1 v)) = Fin q"
    by (simp add: live_value_def js_or_def)
  with a q r show ?thesis by simp
qed

text \<open>
  However often the simulation is started and stopped, at most one interval runs, and it is the
  one that \<open>_timer\<close> refers to, so that \<open>stop\<close> always ends it.
\<close>

theorem live_single_timer:
  "map fst (lv_running (fold live_step es live_idle)) =
     (case lv_timer (fold live_step es live_idle) of None \<Rightarrow> [] | Some i \<Rightarrow> [i]) \<and>
   lv_running (fold live_step (es @ [StopLive]) live_idle) = []"
proof -
  have "live_ok live_idle" by (simp add: live_ok_def live_idle_def)
  from live_run_ok [OF this, of es] live_stop_ok [of "fold live_step es live_idle"]
  show ?thesis by (simp add: live_ok_def)
qed

subsection \<open>An instance\<close>

definition live_dom :: dom where
  "live_dom = \<lparr>d_size = 2, d_el = (\<lambda>_. blank_elem)
     (1 := blank_elem\<lparr>e_attrs := [''data-ds-live'' \<mapsto> [], ''data-value'' \<mapsto> ''97.9'']\<rparr>)\<rparr>"

theorem live_values_witness:
  "\<exists>v q. live_value (get_attr (fst (live_tick (\<lambda>_. Fin (3 / 4)) live_dom)) ''data-value'' 1) = Fin q \<and>
     2 \<le> q \<and> q \<le> 98 \<and> \<bar>q - val v\<bar> \<le> 51 / 1000"
proof -
  have "query_all live_dom (has_attr live_dom ''data-ds-live'') = [1]" by code_simp
  then have keys: "map fst (snd (live_tick (\<lambda>_. Fin (3 / 4)) live_dom)) = [1]"
    unfolding live_tick_def live_loop_keys .
  have "1 \<in> set (map fst (snd (live_tick (\<lambda>_. Fin (3 / 4)) live_dom)))"
    unfolding keys by simp
  then obtain p where p: "p \<in> set (snd (live_tick (\<lambda>_. Fin (3 / 4)) live_dom))" "1 = fst p"
    unfolding set_map by (rule imageE)
  define v where "v = snd p"
  have mem: "(1, v) \<in> set (snd (live_tick (\<lambda>_. Fin (3 / 4)) live_dom))"
    using p(1) by (simp only: v_def p(2) prod.collapse)
  have "is_dbl (3 / 4)" unfolding is_dbl_def by (rule exI [of _ 3], rule exI [of _ "-2"]) simp
  then have "unit_draw (Fin (3 / 4))"
    using le_dbl_safe [of 1] dbl_safe_less_top by (simp add: unit_draw_def)
  then have "\<forall>i. unit_draw ((\<lambda>_. Fin (3 / 4)) i)" by simp
  from live_values [OF this mem] show ?thesis by blast
qed

end
