(* ===== verification/App.thy ===== *)
theory App
  imports Dom_Frame Live
begin

text \<open>
  The whole of \<open>adivento.js\<close> on one page: \<open>Adivento.init\<close> and everything that can happen after it. A
  click is handled by the tickets around its target, innermost first, and then by the three
  listeners of the document in the order in which \<open>init\<close> added them (theme, segments, sheets). The
  sheets and the theme work on the same document, which is kept in the page. Then, for every
  component, the cells of the document it writes, and the observers of the theme controls and of a
  ticket.
\<close>

record app =
  ap_page :: page
  ap_sheets :: sheets
  ap_live :: live_state
  ap_tickets :: "(nat \<times> nat option) list"
  ap_body :: nat

abbreviation app_dom :: "app \<Rightarrow> dom" where
  "app_dom a \<equiv> p_dom (ap_page a)"

definition on_dom :: "(dom \<Rightarrow> dom) \<Rightarrow> app \<Rightarrow> app" where
  "on_dom f a = a\<lparr>ap_page := (ap_page a)\<lparr>p_dom := f (app_dom a)\<rparr>\<rparr>"

definition on_sheets :: "(sheets \<Rightarrow> sheets) \<Rightarrow> app \<Rightarrow> app" where
  "on_sheets f a =
     (let st = f ((ap_sheets a)\<lparr>sh_dom := app_dom a\<rparr>)
      in a\<lparr>ap_sheets := st, ap_page := (ap_page a)\<lparr>p_dom := sh_dom st\<rparr>\<rparr>)"

definition on_page :: "(page \<Rightarrow> page) \<Rightarrow> app \<Rightarrow> app" where
  "on_page f a = a\<lparr>ap_page := f (ap_page a)\<rparr>"

subsection \<open>Start-up\<close>

text \<open>Each ticket keeps the stake field it found when it was set up.\<close>

definition ticket_roots :: "dom \<Rightarrow> (nat \<times> nat option) list" where
  "ticket_roots d = map (\<lambda>tk. (tk, ticket_input d tk)) (query_all d (has_attr d ''data-ds-ticket''))"

definition app_init :: "(dom \<Rightarrow> nat \<Rightarrow> string \<Rightarrow> string) \<Rightarrow> nat \<Rightarrow> page \<Rightarrow> app" where
  "app_init css body p =
     (let p1 = boot css p; d = ticket_init (p_dom p1)
      in \<lparr>ap_page = p1\<lparr>p_dom := d\<rparr>, ap_sheets = fresh_sheets d, ap_live = live_idle,
          ap_tickets = ticket_roots (p_dom p1), ap_body = body\<rparr>)"

subsection \<open>Events\<close>

text \<open>The tickets whose listeners an event at \<open>n\<close> reaches while it bubbles.\<close>

definition bubble_tickets :: "app \<Rightarrow> nat \<Rightarrow> (nat \<times> nat option) list" where
  "bubble_tickets a n = filter (\<lambda>t. contains (app_dom a) (fst t) n) (rev (ap_tickets a))"

definition app_click ::
  "(dom \<Rightarrow> nat \<Rightarrow> string \<Rightarrow> string) \<Rightarrow> (dom \<Rightarrow> string \<Rightarrow> selected) \<Rightarrow> nat \<Rightarrow> app \<Rightarrow> app" where
  "app_click css qs n a =
     (let a1 = fold (\<lambda>(tk, stake). on_dom (ticket_click tk stake n)) (bubble_tickets a n) a;
          a2 = on_page (theme_click css n) a1;
          a3 = on_dom (\<lambda>d. fst (segment_click qs n d)) a2
      in on_sheets (sheet_click n) a3)"

text \<open>The user changes the field \<open>i\<close> to \<open>v\<close>; the \<open>input\<close> event bubbles to the tickets around it.\<close>

definition app_edit :: "nat \<Rightarrow> string \<Rightarrow> app \<Rightarrow> app" where
  "app_edit i v a =
     fold (\<lambda>(tk, stake). on_dom (ticket_recalc tk stake)) (bubble_tickets a i) (on_dom (set_value v i) a)"

text \<open>
  A click on a scrim closes its sheet and bubbles on from the body, where the scrim is attached.
\<close>

definition app_scrim ::
  "(dom \<Rightarrow> nat \<Rightarrow> string \<Rightarrow> string) \<Rightarrow> (dom \<Rightarrow> string \<Rightarrow> selected) \<Rightarrow> nat \<Rightarrow> app \<Rightarrow> app" where
  "app_scrim css qs k a =
     (if k < length (sh_scrims (ap_sheets a)) \<and> sc_attached (sh_scrims (ap_sheets a) ! k) \<and>
         \<not> sc_hidden (sh_scrims (ap_sheets a) ! k)
      then app_click css qs (ap_body a) (on_sheets (scrim_click k) a) else a)"

datatype app_event =
    Click nat
  | Edit nat string
  | ClickScrim nat
  | CallTheme theme_event
  | CallSheet string bool
  | CallLive live_event
  | LiveTick "nat \<Rightarrow> jsnum"
  | Wait nat

fun app_step ::
  "(dom \<Rightarrow> nat \<Rightarrow> string \<Rightarrow> string) \<Rightarrow> (dom \<Rightarrow> string \<Rightarrow> selected) \<Rightarrow> app_event \<Rightarrow> app \<Rightarrow> app" where
  "app_step css qs (Click n) a = app_click css qs n a"
| "app_step css qs (Edit i v) a = app_edit i v a"
| "app_step css qs (ClickScrim k) a = app_scrim css qs k a"
| "app_step css qs (CallTheme e) a = on_page (theme_step css e) a"
| "app_step css qs (CallSheet i b) a = on_sheets (sheet_by_id i b) a"
| "app_step css qs (CallLive e) a = a\<lparr>ap_live := live_step e (ap_live a)\<rparr>"
| "app_step css qs (LiveTick rnd) a =
     (if lv_running (ap_live a) = [] then a else on_dom (\<lambda>d. fst (live_tick rnd d)) a)"
| "app_step css qs (Wait dt) a = on_sheets (elapse dt) a"

subsection \<open>What each component writes\<close>

definition theme_cells :: "dom \<Rightarrow> cell \<Rightarrow> nat \<Rightarrow> bool" where
  "theme_cells d c n \<longleftrightarrow>
     c = CClass ''ds-theming'' \<or>
     c \<in> {CAttr ''data-theme'', CAttr ''aria-pressed'', CAttr ''content'', CAttr ''viewBox'',
            CAttr ''preserveAspectRatio'', CHtml, CStyle ''width'', CStyle ''height''} \<or>
     c = CText \<and> has_attr d ''data-ds-theme-label'' n"

definition segment_cells :: "cell \<Rightarrow> nat \<Rightarrow> bool" where
  "segment_cells c n \<longleftrightarrow> c = CClass ''is-active'' \<or> c = CHidden"

definition sheet_cells :: "cell \<Rightarrow> nat \<Rightarrow> bool" where
  "sheet_cells c n \<longleftrightarrow> c = CHidden"

definition live_cells :: "dom \<Rightarrow> cell \<Rightarrow> nat \<Rightarrow> bool" where
  "live_cells d c n \<longleftrightarrow> c = CAttr ''data-value'' \<or> c = CText \<and> has_attr d ''data-live-pct'' n"

text \<open>A ticket selects a price box in it or around it.\<close>

definition ticket_cells :: "dom \<Rightarrow> nat \<Rightarrow> cell \<Rightarrow> nat \<Rightarrow> bool" where
  "ticket_cells d tk c n \<longleftrightarrow>
     c = CClass ''is-selected'' \<and> (below d tk n \<or> contains d n tk) \<or>
     c = CText \<and> below d tk n \<and> (has_attr d ''data-ticket-payout'' n \<or> has_attr d ''data-ticket-profit'' n) \<or>
     c = CValue \<and> below d tk n"

text \<open>The attributes nobody writes: they say which element plays which part.\<close>

definition fixed_attrs :: "string set" where
  "fixed_attrs = {''data-ds-theme-toggle'', ''data-ds-theme-label'', ''name'', ''data-ds-ticket'',
     ''data-ticket-stake'', ''data-ticket-payout'', ''data-ticket-profit'', ''data-ticket-add'',
     ''data-price'', ''data-live-pct''}"

definition app_cells :: "cell \<Rightarrow> nat \<Rightarrow> bool" where
  "app_cells c n \<longleftrightarrow> c \<notin> CAttr ` fixed_attrs"

lemma app_cells_simps [simp]:
  "theme_cells d c n \<Longrightarrow> app_cells c n"
  "segment_cells c n \<Longrightarrow> app_cells c n"
  "sheet_cells c n \<Longrightarrow> app_cells c n"
  "live_cells d c n \<Longrightarrow> app_cells c n"
  "ticket_cells d tk c n \<Longrightarrow> app_cells c n"
  by (auto simp: theme_cells_def segment_cells_def sheet_cells_def live_cells_def ticket_cells_def
      app_cells_def fixed_attrs_def)

lemma frame_fixed:
  assumes "frame W d d'" "\<And>c n. W c n \<Longrightarrow> app_cells c n" "a \<in> fixed_attrs"
  shows "get_attr d' a n = get_attr d a n" "has_attr d' a n = has_attr d a n"
proof -
  have "\<not> W (CAttr a) n" using assms(2,3) by (auto simp: app_cells_def)
  then show "get_attr d' a n = get_attr d a n" "has_attr d' a n = has_attr d a n"
    by (rule frame_attr [OF assms(1)], rule frame_has_attr [OF assms(1)])
qed


subsection \<open>Frames of the components\<close>

lemma frame_chart_line: "frame (theme_cells e) d (chart_line css el pts d)"
proof -
  have "frame (theme_cells e) d (set_html h el (set_attr ''preserveAspectRatio'' v el (set_attr ''viewBox'' w el d)))"
    for h v w
    by (simp add: frame_after theme_cells_def)
  then show ?thesis by (simp add: chart_line_def Let_def)
qed

lemma frame_chart_spark: "frame (theme_cells e) d (chart_spark css el pts d)"
proof -
  have "frame (theme_cells e) d (set_style ''height'' x el (set_style ''width'' v el (set_html h el (set_attr ''viewBox'' w el d))))"
    for h v w x
    by (simp add: frame_after theme_cells_def)
  then show ?thesis by (simp add: chart_spark_def Let_def)
qed

lemma frame_draw_charts: "frame (theme_cells e) d (draw_charts css d)"
  unfolding draw_charts_def Let_def
  by (rule frame_trans; rule frame_for_each)
    (simp_all add: draw_one_def Let_def frame_chart_line frame_chart_spark)

lemma frame_sync_color: "frame (theme_cells e) d (sync_theme_color name d)"
  by (auto simp: sync_theme_color_def theme_cells_def split: option.split)

lemma frame_sync_controls:
  assumes "has_attr d ''data-ds-theme-label'' = has_attr e ''data-ds-theme-label''"
  shows "frame (theme_cells e) d (sync_theme_controls name d)"
  unfolding sync_theme_controls_def Let_def
proof (rule frame_trans; rule frame_for_each)
  fix n d1
  show "frame (theme_cells e) d1 (set_attr ''aria-pressed'' (bool_str (name = ''dark'')) n d1)"
    by (rule frame_upd) (simp add: theme_cells_def)
next
  fix n d1
  let ?d = "for_each (set_attr ''aria-pressed'' (bool_str (name = ''dark''))) (query_all d (theme_toggles d)) d"
  assume "n \<in> set (query_all ?d (theme_labels ?d))"
  then have "has_attr d ''data-ds-theme-label'' n" by (simp add: theme_labels_def has_attr_def)
  then show "frame (theme_cells e) d1 (set_text (label_of name) n d1)"
    using assms by (intro frame_upd) (simp add: theme_cells_def)
qed

lemma frame_theme_set: "frame (theme_cells (p_dom p)) (p_dom p) (p_dom (theme_set css name p))"
proof (rule theme_set_dom)
  let ?d = "p_dom p"
  let ?d1 = "set_attr ''data-theme'' name root_node (add_class ''ds-theming'' root_node ?d)"
  have "frame (theme_cells ?d) ?d ?d1"
    by (rule frame_trans; rule frame_upd) (simp_all add: theme_cells_def)
  moreover have "frame (theme_cells ?d) ?d1 (sync_theme_controls name ?d1)"
    by (rule frame_sync_controls) (simp add: has_attr_def fun_eq_iff)
  ultimately show "frame (theme_cells ?d) ?d (sync_theme_color name (sync_theme_controls name ?d1))"
    by (blast intro: frame_trans frame_sync_color)
qed (blast intro: frame_trans frame_sync_color frame_draw_charts)+

lemma frame_theme_step: "frame (theme_cells (p_dom p)) (p_dom p) (p_dom (theme_step css e p))"
  by (cases e) (auto simp: theme_toggle_def theme_click_def theme_frame_def theme_cells_def Let_def
      frame_theme_set split: option.split)

lemma frame_boot: "frame (theme_cells (p_dom p)) (p_dom p) (p_dom (boot css p))"
proof -
  let ?q = "p\<lparr>p_listeners := p_listeners p @ [SyncThemeColor]\<rparr>"
  have "frame (theme_cells (p_dom p)) (p_dom p) (p_dom (theme_init css p))"
    using frame_theme_set [of ?q css]
    by (auto simp: theme_init_def Let_def split: option.split list.split
        intro!: frame_trans [OF frame_sync_controls frame_sync_color])
  then show ?thesis
    by (auto simp: boot_def chart_init_def intro: frame_trans frame_draw_charts)
qed

lemma frame_activate: "frame segment_cells d (activate g item d)"
  unfolding activate_def
  by (rule frame_trans [OF frame_for_each]; rule frame_upd) (simp_all add: segment_cells_def)

lemma frame_show_panels: "frame segment_cells d (show_panels scope sel d)"
  unfolding show_panels_def by (rule frame_for_each) (auto simp: segment_cells_def)

lemma frame_segment_click: "frame segment_cells d (fst (segment_click qs n d))"
  by (auto simp: segment_click_def Let_def frame_activate
      intro: frame_trans [OF frame_activate frame_show_panels]
      split: option.split list.split selected.split)

lemma frame_sheet_toggle: "frame sheet_cells (sh_dom st) (sh_dom (sheet_toggle s b st))"
  by (auto simp: sheet_toggle_def Let_def sheet_cells_def split: option.split)

lemma frame_sheet_by_id: "frame sheet_cells (sh_dom st) (sh_dom (sheet_by_id i b st))"
  by (simp add: sheet_by_id_def frame_sheet_toggle split: option.split)

lemma frame_sheet_click: "frame sheet_cells (sh_dom st) (sh_dom (sheet_click n st))"
  unfolding sheet_click_def Let_def
  by (auto split: option.split intro: frame_sheet_by_id frame_sheet_toggle
      frame_trans [OF frame_sheet_by_id frame_sheet_toggle])

lemma frame_scrim_click: "frame sheet_cells (sh_dom st) (sh_dom (scrim_click k st))"
  by (simp add: scrim_click_def frame_sheet_toggle)

lemma elapse_dom [simp]: "sh_dom (elapse dt st) = sh_dom st"
proof -
  have "sh_dom (fold fire_timer ts s) = sh_dom s" for ts s
    by (induction ts arbitrary: s) (simp_all add: fire_timer_def)
  then show ?thesis by (simp add: elapse_def Let_def)
qed

lemma frame_live_one:
  assumes "has_attr d ''data-live-pct'' = has_attr e ''data-live-pct''"
  shows "frame (live_cells e) d (fst (live_one r el d))"
proof -
  let ?d1 = "set_attr ''data-value'' (js_to_fixed1 (live_next r (live_value (get_attr d ''data-value'' el)))) el d"
  have "frame (live_cells e) d ?d1" by (rule frame_upd) (simp add: live_cells_def)
  moreover have "frame (live_cells e) ?d1 (set_text v t ?d1)" if "has_attr ?d1 ''data-live-pct'' t" for v t
  proof -
    have "has_attr d ''data-live-pct'' t" using that by (simp add: has_attr_def)
    then show ?thesis using assms by (intro frame_upd) (simp add: live_cells_def)
  qed
  ultimately show ?thesis by (auto simp: live_one_def Let_def intro: frame_trans)
qed

lemma frame_live_loop:
  "has_attr d ''data-live-pct'' = has_attr e ''data-live-pct'' \<Longrightarrow>
     frame (live_cells e) d (fst (live_loop rnd i els d))"
proof (induction els arbitrary: i d)
  case (Cons el els)
  let ?d1 = "fst (live_one (rnd i) el d)"
  have 1: "frame (live_cells e) d ?d1" by (rule frame_live_one [OF Cons.prems])
  have "has_attr ?d1 ''data-live-pct'' = has_attr d ''data-live-pct''"
    by (rule ext) (rule frame_has_attr [OF 1], simp add: live_cells_def)
  with Cons have "frame (live_cells e) ?d1 (fst (live_loop rnd (Suc i) els ?d1))" by simp
  with 1 show ?case by (auto simp: split_beta Let_def intro: frame_trans)
qed simp

lemma frame_live_tick: "frame (live_cells d) d (fst (live_tick rnd d))"
  by (simp add: live_tick_def frame_live_loop)

lemma frame_ticket_set:
  assumes "k = ''data-ticket-payout'' \<or> k = ''data-ticket-profit''"
  shows "frame (ticket_cells d tk) d (ticket_set tk k v d)"
proof (cases "ticket_field d tk k")
  case (Some n)
  then have "below d tk n \<and> has_attr d k n" unfolding ticket_field_def by (blast dest: query_first_Some)
  with Some assms show ?thesis by (auto simp: ticket_set_def ticket_cells_def)
qed (simp add: ticket_set_def)

lemma ticket_cells_cong:
  assumes "frame W d d'" "\<And>c n. W c n \<Longrightarrow> app_cells c n"
  shows "ticket_cells d' tk = ticket_cells d tk"
proof -
  have "has_attr d' a n = has_attr d a n" if "a \<in> fixed_attrs" for a n
    by (rule frame_fixed(2) [OF assms that])
  then show ?thesis
    by (simp add: ticket_cells_def frame_below [OF assms(1)] frame_contains [OF assms(1)]
        fun_eq_iff fixed_attrs_def)
qed

lemma frame_ticket_recalc: "frame (ticket_cells d tk) d (ticket_recalc tk stake d)"
proof -
  let ?d1 = "ticket_set tk ''data-ticket-payout'' (payout_text (ticket_price d tk) (ticket_stake d stake)) d"
  have 1: "frame (ticket_cells d tk) d ?d1" by (rule frame_ticket_set) simp
  have "frame (ticket_cells ?d1 tk) ?d1 (ticket_set tk ''data-ticket-profit'' v ?d1)" for v
    by (rule frame_ticket_set) simp
  then show ?thesis
    using 1 ticket_cells_cong [OF 1] by (auto simp: ticket_recalc_def Let_def intro: frame_trans)
qed


lemma frame_ticket_select:
  assumes "contains d tk n" "closest d P n = Some box"
  shows "frame (ticket_cells d tk) d (ticket_select tk box d)"
proof -
  have "contains d box n" by (rule closest_contains [OF assms(2)])
  with assms(1) have "below d tk box \<or> contains d box tk"
    using contains_comparable [of d tk n box] by (auto simp: below_def)
  then have "ticket_cells d tk (CClass ''is-selected'') box" by (simp add: ticket_cells_def)
  moreover have "ticket_cells d tk (CClass ''is-selected'') m" if "ticket_box d tk m" for m
    using that by (simp add: ticket_cells_def ticket_box_def)
  ultimately show ?thesis
    unfolding ticket_select_def by (intro frame_after frame_for_each) (auto intro!: frame_upd)
qed

lemma frame_ticket_click:
  assumes "contains d tk n" "\<And>i. stake = Some i \<Longrightarrow> below d tk i"
  shows "frame (ticket_cells d tk) d (ticket_click tk stake n d)"
proof -
  have rec: "frame (ticket_cells d tk) d (ticket_recalc tk stake e)" if "frame (ticket_cells d tk) d e" for e
    using frame_trans [OF that] frame_ticket_recalc [of e tk stake] ticket_cells_cong [OF that] by simp
  define d1 where "d1 = (case closest d (has_class d ''ds-pricebox'') n of None \<Rightarrow> d
     | Some box \<Rightarrow> ticket_recalc tk stake (ticket_select tk box d))"
  have 1: "frame (ticket_cells d tk) d d1"
    unfolding d1_def using assms(1) by (auto intro: rec frame_ticket_select split: option.split)
  have 2: "frame (ticket_cells d tk) d (ticket_recalc tk stake (set_value v i d1))" if "stake = Some i" for v i
    by (rule rec, rule frame_after(8) [OF 1]) (simp add: ticket_cells_def assms(2) that)
  have "ticket_click tk stake n d =
      (case (closest d1 (has_attr d1 ''data-ticket-add'') n, stake) of
         (Some quick, Some i) \<Rightarrow>
           ticket_recalc tk stake (set_value (the (get_attr d1 ''data-ticket-add'' quick)) i d1)
       | _ \<Rightarrow> d1)"
    by (simp only: ticket_click_def Let_def d1_def)
  then show ?thesis using 1 2 by (simp split: option.split)
qed

subsection \<open>The observers\<close>

definition theme_view :: "dom \<Rightarrow> string option \<times> (string \<Rightarrow> bool)" where
  "theme_view d = (get_attr d ''data-theme'' root_node, \<lambda>name. shows_theme name d)"

definition theme_reads :: "dom \<Rightarrow> cell \<Rightarrow> nat \<Rightarrow> bool" where
  "theme_reads d c n \<longleftrightarrow>
     c \<in> {CAttr ''data-theme'', CAttr ''aria-pressed'', CAttr ''content'', CAttr ''name'',
            CAttr ''data-ds-theme-toggle'', CAttr ''data-ds-theme-label''} \<or>
     c = CText \<and> has_attr d ''data-ds-theme-label'' n"

interpretation theme_obs: stable_observer theme_view theme_reads
proof
  fix d d'
  assume fr: "frame (\<lambda>c n. \<not> theme_reads d c n) d d'"
  have a: "get_attr d' a n = get_attr d a n" if "theme_reads d (CAttr a) n" for a n
    by (rule frame_attr [OF fr]) (simp add: that)
  have h: "has_attr d' a n = has_attr d a n" if "theme_reads d (CAttr a) n" for a n
    using a [OF that] by (simp add: has_attr_def)
  have m: "theme_toggles d' = theme_toggles d" "theme_labels d' = theme_labels d" "theme_meta d' = theme_meta d"
    by (simp_all add: fun_eq_iff theme_toggles_def theme_labels_def theme_meta_def a h theme_reads_def
        frame_tag [OF fr])
  have t: "e_text (d_el d' n) = e_text (d_el d n)" if "theme_labels d n" for n
    by (rule frame_text [OF fr]) (use that in \<open>simp add: theme_reads_def theme_labels_def\<close>)
  have "shows_theme name d' = shows_theme name d" for name
    unfolding shows_theme_def m query_size_cong [OF frame_size [OF fr]]
    by (auto simp: list_all_iff t a theme_reads_def split: option.split)
  then show "theme_view d' = theme_view d"
    by (simp add: theme_view_def a theme_reads_def fun_eq_iff)
  have "has_attr d' ''data-ds-theme-label'' = has_attr d ''data-ds-theme-label''"
    using h by (simp add: fun_eq_iff theme_reads_def)
  then show "theme_reads d' = theme_reads d" by (simp add: fun_eq_iff theme_reads_def)
qed

definition ticket_reads :: "nat \<Rightarrow> nat option \<Rightarrow> dom \<Rightarrow> cell \<Rightarrow> nat \<Rightarrow> bool" where
  "ticket_reads tk stake d c n \<longleftrightarrow>
     c \<in> CAttr ` fixed_attrs \<or> c = CClass ''ds-pricebox'' \<or>
     c = CClass ''is-selected'' \<and> below d tk n \<or>
     c = CText \<and> below d tk n \<and> (has_attr d ''data-ticket-payout'' n \<or> has_attr d ''data-ticket-profit'' n) \<or>
     c = CValue \<and> stake = Some n"

interpretation ticket_obs: stable_observer "\<lambda>d. ticket_shows d tk stake" "ticket_reads tk stake" for tk stake
proof
  fix d d'
  assume fr: "frame (\<lambda>c n. \<not> ticket_reads tk stake d c n) d d'"
  have a: "get_attr d' a n = get_attr d a n" if "a \<in> fixed_attrs" for a n
    by (rule frame_attr [OF fr]) (use that in \<open>simp add: ticket_reads_def\<close>)
  have h: "has_attr d' a n = has_attr d a n" if "a \<in> fixed_attrs" for a n
    using a [OF that] by (simp add: has_attr_def)
  note b = frame_below [OF fr] and q = frame_query_first [OF fr]
  have box: "ticket_box d' tk n = ticket_box d tk n" for n
    using frame_class [OF fr, of "''ds-pricebox''" n] by (simp add: ticket_box_def b ticket_reads_def)
  have sel: "(ticket_box d' tk n \<and> has_class d' ''is-selected'' n) = (ticket_box d tk n \<and> has_class d ''is-selected'' n)" for n
    using frame_class [OF fr, of "''is-selected''" n] by (auto simp: box) (auto simp: ticket_box_def ticket_reads_def)
  have "ticket_selection d' tk = ticket_selection d tk"
    unfolding ticket_selection_def q [OF sel] q [OF box] ..
  then have price: "ticket_price d' tk = ticket_price d tk"
    by (simp add: ticket_price_def a fixed_attrs_def cong: option.case_cong)
  have stk: "ticket_stake d' stake = ticket_stake d stake"
    by (cases stake) (simp_all add: ticket_stake_def frame_value [OF fr] ticket_reads_def)
  have fld: "ticket_field d' tk k = ticket_field d tk k" if "k \<in> fixed_attrs" for k
    unfolding ticket_field_def by (rule q) (simp add: b h that)
  have words: "e_text (d_el d' n) = e_text (d_el d n)"
    if "ticket_field d tk k = Some n" "k = ''data-ticket-payout'' \<or> k = ''data-ticket-profit''" for k n
  proof -
    have "below d tk n \<and> has_attr d k n"
      using that(1) unfolding ticket_field_def by (blast dest: query_first_Some)
    then show ?thesis using that(2) by (intro frame_text [OF fr]) (auto simp: ticket_reads_def)
  qed
  show "ticket_shows d' tk stake = ticket_shows d tk stake"
    by (simp add: ticket_shows_def price stk fld fixed_attrs_def words split: option.split)
  show "ticket_reads tk stake d' = ticket_reads tk stake d"
    by (simp add: fun_eq_iff ticket_reads_def b h fixed_attrs_def)
qed


subsection \<open>The components do not disturb each other\<close>

text \<open>
  No element is written by two components: labels of the theme, fields of tickets and live values
  are different elements, payout and profit too, and no ticket is inside another.
\<close>

definition parts_apart :: "dom \<Rightarrow> bool" where
  "parts_apart d \<longleftrightarrow>
     (\<forall>n. \<not> (has_attr d ''data-ds-theme-label'' n \<and> has_attr d ''data-live-pct'' n)) \<and>
     (\<forall>n. has_attr d ''data-ticket-payout'' n \<or> has_attr d ''data-ticket-profit'' n \<longrightarrow>
          \<not> has_attr d ''data-ds-theme-label'' n \<and> \<not> has_attr d ''data-live-pct'' n) \<and>
     (\<forall>tk \<in> set (query_all d (has_attr d ''data-ds-ticket'')).
          ticket_fields_apart d tk \<and>
          (\<forall>tk' \<in> set (query_all d (has_attr d ''data-ds-ticket'')). \<not> below d tk tk'))"

text \<open>Everything is shown as it should be, but for the tickets of \<open>X\<close>.\<close>

definition app_ok_but :: "nat set \<Rightarrow> app \<Rightarrow> bool" where
  "app_ok_but X a \<longleftrightarrow> parts_apart (app_dom a) \<and> ap_tickets a = ticket_roots (app_dom a) \<and>
     synced (ap_page a) \<and>
     (\<forall>(tk, stake) \<in> set (ap_tickets a). tk \<notin> X \<longrightarrow> ticket_shows (app_dom a) tk stake)"

lemma ticket_input_below: "ticket_input d tk = Some i \<Longrightarrow> below d tk i"
  unfolding ticket_input_def by (blast dest: query_first_Some)

lemma ticket_rootsD:
  assumes "(tk, stake) \<in> set (ticket_roots d)"
  shows "tk \<in> set (query_all d (has_attr d ''data-ds-ticket''))" "stake = ticket_input d tk"
    "stake = Some i \<Longrightarrow> below d tk i"
  using assms by (auto simp: ticket_roots_def ticket_input_below)

lemma structure_frame:
  assumes "frame W d d'" "\<And>c n. W c n \<Longrightarrow> app_cells c n"
  shows "parts_apart d' = parts_apart d" "ticket_roots d' = ticket_roots d"
    "ticket_fields_apart d' tk = ticket_fields_apart d tk"
proof -
  have h: "has_attr d' a n = has_attr d a n" if "a \<in> fixed_attrs" for a n
    by (rule frame_fixed(2) [OF assms that])
  have q: "query_all d' (has_attr d' ''data-ds-ticket'') = query_all d (has_attr d ''data-ds-ticket'')"
    by (rule frame_query_all [OF assms(1)]) (simp add: h fixed_attrs_def)
  have f: "ticket_field d' tk k = ticket_field d tk k" if "k \<in> fixed_attrs" for tk k
    unfolding ticket_field_def
    by (rule frame_query_first [OF assms(1)]) (simp add: frame_below [OF assms(1)] h that)
  have i: "ticket_input d' tk = ticket_input d tk" for tk
    unfolding ticket_input_def
    by (rule frame_query_first [OF assms(1)]) (simp add: frame_below [OF assms(1)] h fixed_attrs_def)
  show p: "ticket_fields_apart d' tk = ticket_fields_apart d tk" for tk
    by (simp add: ticket_fields_apart_def f fixed_attrs_def)
  show "parts_apart d' = parts_apart d" "ticket_roots d' = ticket_roots d"
    by (simp_all add: parts_apart_def ticket_roots_def q i p frame_below [OF assms(1)] h fixed_attrs_def
        cong: ball_cong)
qed

lemma synced_view:
  "theme_view (p_dom q) = theme_view (p_dom p) \<Longrightarrow> synced q = synced p"
  by (simp add: theme_view_def theme_get_def fun_eq_iff)

text \<open>An operation of another component keeps what a ticket shows.\<close>

lemma ticket_undisturbed:
  assumes "frame W d d'" "parts_apart d" "(tk, stake) \<in> set (ticket_roots d)"
    and "\<And>c n. W c n \<Longrightarrow> theme_cells d c n \<or> segment_cells c n \<or> sheet_cells c n \<or> live_cells d c n \<or>
           (\<exists>tk'. tk' \<noteq> tk \<and> tk' \<in> set (query_all d (has_attr d ''data-ds-ticket'')) \<and> ticket_cells d tk' c n)"
  shows "ticket_shows d' tk stake = ticket_shows d tk stake"
proof (rule ticket_obs.obs_frame [OF assms(1)])
  fix c n
  assume "W c n"
  from assms(4) [OF this] consider
    "theme_cells d c n \<or> segment_cells c n \<or> sheet_cells c n \<or> live_cells d c n"
    | tk' where "tk' \<noteq> tk" "tk' \<in> set (query_all d (has_attr d ''data-ds-ticket''))" "ticket_cells d tk' c n"
    by blast
  then show "\<not> ticket_reads tk stake d c n"
  proof cases
    case 1
    have p: "\<not> has_attr d ''data-ds-theme-label'' n \<and> \<not> has_attr d ''data-live-pct'' n"
      if "has_attr d ''data-ticket-payout'' n \<or> has_attr d ''data-ticket-profit'' n"
      using assms(2) that unfolding parts_apart_def by blast
    from 1 p show ?thesis
      by (elim disjE)
        (auto simp: theme_cells_def segment_cells_def sheet_cells_def live_cells_def ticket_reads_def fixed_attrs_def)
  next
    case 2
    have r: "tk \<in> set (query_all d (has_attr d ''data-ds-ticket''))" by (rule ticket_rootsD(1) [OF assms(3)])
    have ap: "\<not> below d tk tk'" "\<not> below d tk' tk"
      using assms(2) r 2(2) unfolding parts_apart_def by blast+
    have nb: "\<not> (below d tk n \<and> below d tk' n)" using below_two [of d tk n tk'] ap 2(1) by blast
    have "\<not> (below d tk n \<and> contains d n tk')" using below_through [of d tk n tk'] ap 2(1) by blast
    moreover have "stake = Some n \<Longrightarrow> below d tk n" by (rule ticket_rootsD(3) [OF assms(3)])
    ultimately show ?thesis using nb 2(3) by (auto simp: ticket_cells_def ticket_reads_def)
  qed
qed

lemma theme_undisturbed:
  assumes "frame W d d'" "parts_apart d"
    and "\<And>c n. W c n \<Longrightarrow> segment_cells c n \<or> sheet_cells c n \<or> live_cells d c n \<or> (\<exists>tk. ticket_cells d tk c n)"
  shows "theme_view d' = theme_view d"
proof (rule theme_obs.obs_frame [OF assms(1)])
  fix c n
  assume "W c n"
  have "\<not> has_attr d ''data-ds-theme-label'' n"
    if "has_attr d ''data-ticket-payout'' n \<or> has_attr d ''data-ticket-profit'' n \<or> has_attr d ''data-live-pct'' n"
    using assms(2) that unfolding parts_apart_def by blast
  with assms(3) [OF \<open>W c n\<close>] show "\<not> theme_reads d c n"
    by (auto simp: segment_cells_def sheet_cells_def live_cells_def ticket_cells_def theme_reads_def)
qed

text \<open>One operation on the document: what has to be shown for it.\<close>

lemma app_ok_dom:
  assumes "app_ok_but X a" "frame W (app_dom a) (p_dom q)" "\<And>c n. W c n \<Longrightarrow> app_cells c n" "synced q"
    and "\<And>tk stake. (tk, stake) \<in> set (ap_tickets a) \<Longrightarrow> tk \<notin> Y \<Longrightarrow> ticket_shows (p_dom q) tk stake"
    and "ap_page b = q" "ap_tickets b = ap_tickets a"
  shows "app_ok_but Y b"
  using assms structure_frame [OF assms(2,3)] by (auto simp: app_ok_but_def)

lemma app_ok_quiet:
  assumes "app_ok_but X a" "frame W (app_dom a) (p_dom q)"
    and "\<And>c n. W c n \<Longrightarrow> segment_cells c n \<or> sheet_cells c n \<or> live_cells (app_dom a) c n"
    and "ap_page b = q" "ap_tickets b = ap_tickets a"
  shows "app_ok_but X b"
proof (rule app_ok_dom [OF assms(1,2) _ _ _ assms(4,5)])
  have pa: "parts_apart (app_dom a)" "synced (ap_page a)" "ap_tickets a = ticket_roots (app_dom a)"
    using assms(1) by (simp_all add: app_ok_but_def)
  show "app_cells c n" if "W c n" for c n using assms(3) [OF that] by auto
  have "theme_view (p_dom q) = theme_view (app_dom a)"
    by (rule theme_undisturbed [OF assms(2) pa(1)]) (use assms(3) in blast)
  then show "synced q" using synced_view pa(2) by blast
  show "ticket_shows (p_dom q) tk stake" if "(tk, stake) \<in> set (ap_tickets a)" "tk \<notin> X" for tk stake
  proof -
    have "ticket_shows (p_dom q) tk stake = ticket_shows (app_dom a) tk stake"
      by (rule ticket_undisturbed [OF assms(2) pa(1)]) (use that pa(3) assms(3) in auto)
    then show ?thesis using assms(1) that by (auto simp: app_ok_but_def)
  qed
qed

lemma app_ok_sheets:
  assumes "app_ok_but X a" "\<And>st. frame sheet_cells (sh_dom st) (sh_dom (f st))"
  shows "app_ok_but X (on_sheets f a)"
proof (rule app_ok_quiet [OF assms(1)])
  show "frame sheet_cells (app_dom a) (p_dom (ap_page (on_sheets f a)))"
    using assms(2) [of "(ap_sheets a)\<lparr>sh_dom := app_dom a\<rparr>"] by (simp add: on_sheets_def Let_def)
qed (simp_all add: on_sheets_def Let_def)

lemma app_ok_theme:
  assumes "app_ok_but X a" "frame (theme_cells (app_dom a)) (app_dom a) (p_dom (f (ap_page a)))"
    and "synced (f (ap_page a))"
  shows "app_ok_but X (on_page f a)"
proof (rule app_ok_dom [OF assms(1,2) _ assms(3)])
  have pa: "parts_apart (app_dom a)" "ap_tickets a = ticket_roots (app_dom a)"
    using assms(1) by (simp_all add: app_ok_but_def)
  show "ticket_shows (p_dom (f (ap_page a))) tk stake" if "(tk, stake) \<in> set (ap_tickets a)" "tk \<notin> X" for tk stake
  proof -
    have "ticket_shows (p_dom (f (ap_page a))) tk stake = ticket_shows (app_dom a) tk stake"
      by (rule ticket_undisturbed [OF assms(2) pa(1)]) (use that pa(2) in auto)
    then show ?thesis using assms(1) that by (auto simp: app_ok_but_def)
  qed
qed (simp_all add: on_page_def)


lemma on_dom_simps [simp]:
  "app_dom (on_dom f a) = f (app_dom a)" "ap_tickets (on_dom f a) = ap_tickets a"
  "ap_sheets (on_dom f a) = ap_sheets a" "ap_live (on_dom f a) = ap_live a"
  by (simp_all add: on_dom_def)

lemma synced_on_dom:
  "theme_view (f (app_dom a)) = theme_view (app_dom a) \<Longrightarrow> synced (ap_page a) \<Longrightarrow> synced (ap_page (on_dom f a))"
  using synced_view [of "ap_page (on_dom f a)" "ap_page a"] by (simp add: on_dom_def)

lemma app_ok_ticket:
  assumes "app_ok_but X a" "(tk, stake) \<in> set (ap_tickets a)"
    and fr: "frame (ticket_cells (app_dom a) tk) (app_dom a) (f (app_dom a))"
    and "ticket_shows (f (app_dom a)) tk stake"
  shows "app_ok_but (X - {tk}) (on_dom f a)"
proof (rule app_ok_dom [OF assms(1), where q = "ap_page (on_dom f a)"])
  have pa: "parts_apart (app_dom a)" "synced (ap_page a)" "ap_tickets a = ticket_roots (app_dom a)"
    using assms(1) by (simp_all add: app_ok_but_def)
  have root: "tk \<in> set (query_all (app_dom a) (has_attr (app_dom a) ''data-ds-ticket''))"
    using assms(2) pa(3) by (intro ticket_rootsD(1)) simp
  show "frame (ticket_cells (app_dom a) tk) (app_dom a) (app_dom (on_dom f a))" using fr by simp
  have "theme_view (f (app_dom a)) = theme_view (app_dom a)"
    by (rule theme_undisturbed [OF fr pa(1)]) blast
  then show "synced (ap_page (on_dom f a))" using pa(2) by (rule synced_on_dom)
  show "ticket_shows (app_dom (on_dom f a)) tk' stake'"
    if m: "(tk', stake') \<in> set (ap_tickets a)" "tk' \<notin> X - {tk}" for tk' stake'
  proof (cases "tk' = tk")
    case True
    then have "stake' = stake" using m(1) assms(2) pa(3) by (auto simp: ticket_roots_def)
    with True assms(4) show ?thesis by simp
  next
    case False
    have "ticket_shows (f (app_dom a)) tk' stake' = ticket_shows (app_dom a) tk' stake'"
      by (rule ticket_undisturbed [OF fr pa(1)]) (use m pa(3) root False in auto)
    then show ?thesis using assms(1) m False by (auto simp: app_ok_but_def)
  qed
qed simp_all

lemma app_ok_ticketD:
  assumes "app_ok_but X a" "(tk, stake) \<in> set (ap_tickets a)"
  shows "ticket_fields_apart (app_dom a) tk" "\<And>i. stake = Some i \<Longrightarrow> below (app_dom a) tk i"
proof -
  have pa: "parts_apart (app_dom a)" "ap_tickets a = ticket_roots (app_dom a)"
    using assms(1) by (simp_all add: app_ok_but_def)
  have "tk \<in> set (query_all (app_dom a) (has_attr (app_dom a) ''data-ds-ticket''))"
    using assms(2) pa(2) by (intro ticket_rootsD(1)) simp
  then show "ticket_fields_apart (app_dom a) tk" using pa(1) unfolding parts_apart_def by blast
  show "\<And>i. stake = Some i \<Longrightarrow> below (app_dom a) tk i"
    using assms(2) pa(2) by (auto intro: ticket_rootsD(3))
qed

lemma app_ok_recalc:
  assumes "app_ok_but X a" "(tk, stake) \<in> set (ap_tickets a)"
  shows "app_ok_but (X - {tk}) (on_dom (ticket_recalc tk stake) a)"
  by (rule app_ok_ticket [where f = "ticket_recalc tk stake", OF assms frame_ticket_recalc])
    (rule ticket_shows_recalc [OF app_ok_ticketD(1) [OF assms]])

lemma ap_tickets_fold [simp]:
  "ap_tickets (fold (\<lambda>(tk, stake). on_dom (f tk stake)) ts a) = ap_tickets a"
  by (induction ts arbitrary: a) (simp_all add: split_beta)

lemma app_ok_recalcs:
  assumes "app_ok_but X a" "set ts \<subseteq> set (ap_tickets a)"
  shows "app_ok_but (X - fst ` set ts) (fold (\<lambda>(tk, stake). on_dom (ticket_recalc tk stake)) ts a)"
  using assms
proof (induction ts arbitrary: a X)
  case (Cons t ts)
  obtain tk stake where t: "t = (tk, stake)" by (cases t)
  have "app_ok_but (X - {tk} - fst ` set ts)
      (fold (\<lambda>(tk, stake). on_dom (ticket_recalc tk stake)) ts (on_dom (ticket_recalc tk stake) a))"
    by (rule Cons.IH [OF app_ok_recalc]) (use Cons.prems t in auto)
  then show ?case by (simp add: t Diff_insert2 [symmetric] insert_Diff_if flip: Diff_insert)
qed simp

lemma app_ok_edit:
  assumes "app_ok_but {} a"
  shows "app_ok_but {} (app_edit i v a)"
proof -
  let ?d = "app_dom a" and ?X = "{tk. contains (app_dom a) tk i}"
  have pa: "parts_apart ?d" "synced (ap_page a)" "ap_tickets a = ticket_roots ?d"
    using assms by (simp_all add: app_ok_but_def)
  have fr: "frame (\<lambda>c m. c = CValue \<and> m = i) ?d (set_value v i ?d)" by (rule frame_upd) simp
  have 1: "app_ok_but ?X (on_dom (set_value v i) a)"
  proof (rule app_ok_dom [OF assms, where q = "ap_page (on_dom (set_value v i) a)"])
    show "frame (\<lambda>c m. c = CValue \<and> m = i) ?d (app_dom (on_dom (set_value v i) a))" using fr by simp
    have "theme_view (set_value v i ?d) = theme_view ?d"
      by (rule theme_obs.obs_frame [OF fr]) (auto simp: theme_reads_def)
    then show "synced (ap_page (on_dom (set_value v i) a))" using pa(2) by (rule synced_on_dom)
    show "ticket_shows (app_dom (on_dom (set_value v i) a)) tk stake"
      if m: "(tk, stake) \<in> set (ap_tickets a)" "tk \<notin> ?X" for tk stake
    proof -
      have "stake \<noteq> Some i" using app_ok_ticketD(2) [OF assms m(1)] m(2) by (auto simp: below_def)
      then have "ticket_shows (set_value v i ?d) tk stake = ticket_shows ?d tk stake"
        by (intro ticket_obs.obs_frame [OF fr]) (auto simp: ticket_reads_def)
      then show ?thesis using assms m(1) by (auto simp: app_ok_but_def)
    qed
  qed (auto simp: app_cells_def)
  have "app_ok_but (?X - fst ` set (bubble_tickets a i)) (app_edit i v a)"
    unfolding app_edit_def by (rule app_ok_recalcs [OF 1]) (auto simp: bubble_tickets_def)
  moreover have "ap_tickets (app_edit i v a) = ap_tickets a" by (simp add: app_edit_def)
  moreover have "tk \<notin> ?X - fst ` set (bubble_tickets a i)" if "(tk, stake) \<in> set (ap_tickets a)" for tk stake
    using that by (force simp: bubble_tickets_def)
  ultimately show ?thesis by (fastforce simp: app_ok_but_def)
qed

lemma app_ok_ticket_clicks:
  assumes "app_ok_but {} a" "set ts \<subseteq> set (ap_tickets a)" "\<And>t. t \<in> set ts \<Longrightarrow> contains (app_dom a) (fst t) n"
  shows "app_ok_but {} (fold (\<lambda>(tk, stake). on_dom (ticket_click tk stake n)) ts a)"
  using assms
proof (induction ts arbitrary: a)
  case (Cons t ts)
  obtain tk stake where t: "t = (tk, stake)" by (cases t)
  have m: "(tk, stake) \<in> set (ap_tickets a)" using Cons.prems(2) t by auto
  have c: "contains (app_dom a) tk n" using Cons.prems(3) [of t] t by simp
  have fr: "frame (ticket_cells (app_dom a) tk) (app_dom a) (ticket_click tk stake n (app_dom a))"
    by (rule frame_ticket_click [OF c app_ok_ticketD(2) [OF Cons.prems(1) m]])
  have "ticket_shows (app_dom a) tk stake" using Cons.prems(1) m by (auto simp: app_ok_but_def)
  then have "ticket_shows (ticket_click tk stake n (app_dom a)) tk stake"
    using ticket_step_shows [OF app_ok_ticketD(1) [OF Cons.prems(1) m], of stake "TicketClick n"] by simp
  from app_ok_ticket [where f = "ticket_click tk stake n", OF Cons.prems(1) m fr this]
  have 1: "app_ok_but {} (on_dom (ticket_click tk stake n) a)" by simp
  show ?case
    by (simp add: t, rule Cons.IH [OF 1]) (use Cons.prems(2,3) frame_contains [OF fr] in auto)
qed simp

lemma app_ok_click:
  assumes "app_ok_but {} a"
  shows "app_ok_but {} (app_click css qs n a)"
  unfolding app_click_def Let_def
proof (intro app_ok_sheets frame_sheet_click)
  let ?a1 = "fold (\<lambda>(tk, stake). on_dom (ticket_click tk stake n)) (bubble_tickets a n) a"
  have "app_ok_but {} ?a1"
    by (rule app_ok_ticket_clicks [OF assms]) (auto simp: bubble_tickets_def)
  moreover have "synced (theme_click css n (ap_page ?a1))"
    using synced_step [of "ap_page ?a1" css "ClickOn n"] calculation by (simp add: app_ok_but_def)
  moreover have "frame (theme_cells (app_dom ?a1)) (app_dom ?a1) (p_dom (theme_click css n (ap_page ?a1)))"
    using frame_theme_step [of "ap_page ?a1" css "ClickOn n"] by simp
  ultimately have 2: "app_ok_but {} (on_page (theme_click css n) ?a1)" by (blast intro: app_ok_theme)
  show "app_ok_but {} (on_dom (\<lambda>d. fst (segment_click qs n d)) (on_page (theme_click css n) ?a1))"
    by (rule app_ok_quiet [OF 2, where q = "ap_page (on_dom (\<lambda>d. fst (segment_click qs n d)) (on_page (theme_click css n) ?a1))"
          and W = segment_cells])
      (simp_all add: frame_segment_click)
qed

lemma app_ok_step:
  assumes "app_ok_but {} a"
  shows "app_ok_but {} (app_step css qs e a)"
proof (cases e)
  case (Click n)
  then show ?thesis using app_ok_click [OF assms] by simp
next
  case (Edit i v)
  then show ?thesis using app_ok_edit [OF assms] by simp
next
  case (ClickScrim k)
  have "app_ok_but {} (on_sheets (scrim_click k) a)" by (intro app_ok_sheets assms frame_scrim_click)
  with ClickScrim show ?thesis using assms app_ok_click by (simp add: app_scrim_def)
next
  case (CallTheme te)
  have "app_ok_but {} (on_page (theme_step css te) a)"
    using assms by (intro app_ok_theme frame_theme_step synced_step) (simp_all add: app_ok_but_def)
  with CallTheme show ?thesis by simp
next
  case (CallSheet i b)
  then show ?thesis using app_ok_sheets [OF assms frame_sheet_by_id] by simp
next
  case (CallLive le)
  then show ?thesis using assms by (simp add: app_ok_but_def)
next
  case (LiveTick rnd)
  have "app_ok_but {} (on_dom (\<lambda>d. fst (live_tick rnd d)) a)"
    by (rule app_ok_quiet [OF assms, where q = "ap_page (on_dom (\<lambda>d. fst (live_tick rnd d)) a)"
          and W = "live_cells (app_dom a)"]) (simp_all add: frame_live_tick)
  with LiveTick assms show ?thesis by simp
next
  case (Wait dt)
  then show ?thesis using app_ok_sheets [OF assms] by simp
qed

lemma app_ok_run: "app_ok_but {} a \<Longrightarrow> app_ok_but {} (fold (app_step css qs) es a)"
  by (induction es arbitrary: a) (simp_all add: app_ok_step)

lemma app_ok_init:
  assumes "parts_apart (p_dom p)"
  shows "app_ok_but {} (app_init css body p)"
proof -
  let ?p = "boot css p" and ?ts = "ticket_roots (p_dom (boot css p))"
  let ?a = "\<lparr>ap_page = ?p, ap_sheets = fresh_sheets (p_dom ?p), ap_live = live_idle, ap_tickets = ?ts, ap_body = body\<rparr>"
  have "parts_apart (p_dom ?p)" using assms structure_frame(1) [OF frame_boot] by simp
  moreover have "synced ?p" unfolding boot_def by (intro synced_draw synced_init)
  ultimately have "app_ok_but (fst ` set ?ts) ?a" by (force simp: app_ok_but_def)
  from app_ok_recalcs [OF this, of ?ts]
  have ok: "app_ok_but {} (fold (\<lambda>(tk, stake). on_dom (ticket_recalc tk stake)) ?ts ?a)" by simp
  have run: "app_dom (fold (\<lambda>(tk, stake). on_dom (ticket_recalc tk stake)) (map (\<lambda>tk. (tk, ticket_input d tk)) tks) b) =
      for_each (\<lambda>tk d'. ticket_recalc tk (ticket_input d' tk) d') tks (app_dom b)"
    if "\<And>tk. ticket_input (app_dom b) tk = ticket_input d tk" for tks b d
    using that
  proof (induction tks arbitrary: b)
    case (Cons tk tks)
    have "ticket_input (ticket_recalc tk (ticket_input d tk) (app_dom b)) tk' = ticket_input d tk'" for tk'
      using same_but_text_reads(5) [OF same_but_text_recalc] Cons.prems by simp
    with Cons show ?case by (simp add: for_each_def)
  qed (simp add: for_each_def)
  have "app_dom (fold (\<lambda>(tk, stake). on_dom (ticket_recalc tk stake)) ?ts ?a) = ticket_init (p_dom ?p)"
    unfolding ticket_roots_def ticket_init_def by (subst run) simp_all
  moreover have "ap_tickets (fold (\<lambda>(tk, stake). on_dom (ticket_recalc tk stake)) ts b) = ap_tickets b \<and>
      (\<exists>d. ap_page (fold (\<lambda>(tk, stake). on_dom (ticket_recalc tk stake)) ts b) = (ap_page b)\<lparr>p_dom := d\<rparr>)" for ts b
  proof (induction ts arbitrary: b)
    case Nil
    show ?case by (auto intro: exI [of _ "app_dom b"])
  next
    case (Cons t ts)
    obtain tk stake where t: "t = (tk, stake)" by (cases t)
    show ?case using Cons.IH [of "on_dom (ticket_recalc tk stake) b"] by (auto simp: t on_dom_def)
  qed
  then obtain d where "ap_tickets (fold (\<lambda>(tk, stake). on_dom (ticket_recalc tk stake)) ?ts ?a) = ?ts"
    "ap_page (fold (\<lambda>(tk, stake). on_dom (ticket_recalc tk stake)) ?ts ?a) = ?p\<lparr>p_dom := d\<rparr>"
    by (metis select_convs(1,4) app.select_convs(1,4))
  ultimately show ?thesis using ok by (auto simp: app_ok_but_def app_init_def Let_def)
qed

end
