(* ===== verification/Old_Build.thy ===== *)
theory Old_Build
  imports App
begin

text \<open>
  The theme of the older builds of \<open>adivento.js\<close> (\<open>system/dist\<close> and \<open>system/assets\<close>, two identical files), which
  do not set the colour of the browser; all their other members repeat the application's file line by line.
  \<open>plain_page\<close> forgets that colour and the listener that sets it, \<open>plain_app\<close> does so for a whole page. As long as the
  computed styles and the selectors of the page do not depend on the colour (\<open>colour_blind\<close>, \<open>selects_blind\<close>), every
  operation of either build commutes with forgetting, and so a page with an older build and a page with the
  present one differ in nothing but the colour, whatever happens on them.
\<close>

subsection \<open>The older theme\<close>

definition old_set :: "(dom \<Rightarrow> nat \<Rightarrow> string \<Rightarrow> string) \<Rightarrow> string \<Rightarrow> page \<Rightarrow> page" where
  "old_set css name p =
     (let d1 = set_attr ''data-theme'' name root_node (add_class ''ds-theming'' root_node (p_dom p));
          p1 = dispatch_theme css name
                 (p\<lparr>p_dom := sync_theme_controls name d1, p_store := store_theme name (p_store p)\<rparr>)
      in p1\<lparr>p_frames := p_frames p1 @ [2]\<rparr>)"

definition old_toggle :: "(dom \<Rightarrow> nat \<Rightarrow> string \<Rightarrow> string) \<Rightarrow> page \<Rightarrow> page" where
  "old_toggle css p = old_set css (if theme_get p = ''dark'' then ''light'' else ''dark'') p"

definition old_init :: "(dom \<Rightarrow> nat \<Rightarrow> string \<Rightarrow> string) \<Rightarrow> page \<Rightarrow> page" where
  "old_init css p =
     (case read_theme (p_store p) of
        Some (c # cs) \<Rightarrow> old_set css (c # cs) p
      | _ \<Rightarrow> p\<lparr>p_dom := sync_theme_controls (theme_get p) (p_dom p)\<rparr>)"

definition old_click :: "(dom \<Rightarrow> nat \<Rightarrow> string \<Rightarrow> string) \<Rightarrow> nat \<Rightarrow> page \<Rightarrow> page" where
  "old_click css n p =
     (case closest (p_dom p) (\<lambda>m. theme_toggles (p_dom p) m \<or> theme_labels (p_dom p) m) n of
        None \<Rightarrow> p
      | Some _ \<Rightarrow> old_toggle css p)"

definition old_boot :: "(dom \<Rightarrow> nat \<Rightarrow> string \<Rightarrow> string) \<Rightarrow> page \<Rightarrow> page" where
  "old_boot css p = chart_init css (old_init css p)"

fun old_step :: "(dom \<Rightarrow> nat \<Rightarrow> string \<Rightarrow> string) \<Rightarrow> theme_event \<Rightarrow> page \<Rightarrow> page" where
  "old_step css (SetTheme name) p = old_set css name p"
| "old_step css ToggleTheme p = old_toggle css p"
| "old_step css (ClickOn n) p = old_click css n p"
| "old_step css Frame p = theme_frame p"

subsection \<open>The older page\<close>

text \<open>The other members are those of the present build, in the same order.\<close>

definition old_app_init :: "(dom \<Rightarrow> nat \<Rightarrow> string \<Rightarrow> string) \<Rightarrow> nat \<Rightarrow> page \<Rightarrow> app" where
  "old_app_init css body p =
     (let p1 = old_boot css p; d = ticket_init (p_dom p1)
      in \<lparr>ap_page = p1\<lparr>p_dom := d\<rparr>, ap_sheets = fresh_sheets d, ap_live = live_idle,
          ap_tickets = ticket_roots (p_dom p1), ap_body = body\<rparr>)"

definition old_app_click ::
  "(dom \<Rightarrow> nat \<Rightarrow> string \<Rightarrow> string) \<Rightarrow> (dom \<Rightarrow> string \<Rightarrow> selected) \<Rightarrow> nat \<Rightarrow> app \<Rightarrow> app" where
  "old_app_click css qs n a =
     (let a1 = fold (\<lambda>(tk, stake). on_dom (ticket_click tk stake n)) (bubble_tickets a n) a;
          a2 = on_page (old_click css n) a1;
          a3 = on_dom (\<lambda>d. fst (segment_click qs n d)) a2
      in on_sheets (sheet_click n) a3)"

definition old_app_scrim ::
  "(dom \<Rightarrow> nat \<Rightarrow> string \<Rightarrow> string) \<Rightarrow> (dom \<Rightarrow> string \<Rightarrow> selected) \<Rightarrow> nat \<Rightarrow> app \<Rightarrow> app" where
  "old_app_scrim css qs k a =
     (if k < length (sh_scrims (ap_sheets a)) \<and> sc_attached (sh_scrims (ap_sheets a) ! k) \<and>
         \<not> sc_hidden (sh_scrims (ap_sheets a) ! k)
      then old_app_click css qs (ap_body a) (on_sheets (scrim_click k) a) else a)"

fun old_app_step ::
  "(dom \<Rightarrow> nat \<Rightarrow> string \<Rightarrow> string) \<Rightarrow> (dom \<Rightarrow> string \<Rightarrow> selected) \<Rightarrow> app_event \<Rightarrow> app \<Rightarrow> app" where
  "old_app_step css qs (Click n) a = old_app_click css qs n a"
| "old_app_step css qs (ClickScrim k) a = old_app_scrim css qs k a"
| "old_app_step css qs (CallTheme e) a = on_page (old_step css e) a"
| "old_app_step css qs e a = app_step css qs e a"

subsection \<open>Forgetting the colour\<close>

definition plain_el :: "elem \<Rightarrow> elem" where
  "plain_el e = e\<lparr>e_attrs := (e_attrs e)(''content'' := None)\<rparr>"

definition plain :: "dom \<Rightarrow> dom" where
  "plain d = d\<lparr>d_el := \<lambda>n. plain_el (d_el d n)\<rparr>"

definition plain_page :: "page \<Rightarrow> page" where
  "plain_page p = p\<lparr>p_dom := plain (p_dom p), p_listeners := filter (\<lambda>l. l = ChartInit) (p_listeners p)\<rparr>"

text \<open>Computed styles that do not look at the colour.\<close>

definition colour_blind :: "(dom \<Rightarrow> nat \<Rightarrow> string \<Rightarrow> string) \<Rightarrow> bool" where
  "colour_blind css \<longleftrightarrow> (\<forall>d el name. css (plain d) el name = css d el name)"

lemma plain_reads [simp]:
  "d_size (plain d) = d_size d" "e_tag (d_el (plain d) n) = e_tag (d_el d n)"
  "e_classes (d_el (plain d) n) = e_classes (d_el d n)" "parent (plain d) n = parent d n"
  "a \<noteq> ''content'' \<Longrightarrow> get_attr (plain d) a n = get_attr d a n"
  "a \<noteq> ''content'' \<Longrightarrow> has_attr (plain d) a n = has_attr d a n"
  by (simp_all add: plain_def plain_el_def parent_def get_attr_def has_attr_def)

lemma plain_reads_more [simp]:
  "has_class (plain d) = has_class d" "e_text (d_el (plain d) n) = e_text (d_el d n)"
  "e_hidden (d_el (plain d) n) = e_hidden (d_el d n)" "e_value (d_el (plain d) n) = e_value (d_el d n)"
  "a \<noteq> ''content'' \<Longrightarrow> has_attr (plain d) a = has_attr d a"
  by (simp_all add: plain_def plain_el_def has_attr_def get_attr_def has_class_def fun_eq_iff)

lemma plain_query [simp]: "query_all (plain d) P = query_all d P"
  by (simp add: query_all_def)

lemma plain_closest [simp]: "closest (plain d) P n = closest d P n"
  by (induction d P n rule: closest.induct)
    (subst closest.simps, subst (2) closest.simps, simp split: option.split)

lemma plain_query_first [simp]: "query_first (plain d) P = query_first d P"
  by (simp add: query_first_def)

lemma plain_tree [simp]: "contains (plain d) = contains d" "below (plain d) = below d"
  by (simp_all add: contains_def below_def fun_eq_iff)

lemma plain_theme [simp]:
  "theme_toggles (plain d) = theme_toggles d" "theme_labels (plain d) = theme_labels d"
  "theme_meta (plain d) = theme_meta d" "is_svg_with (plain d) ''data-ds-chart'' = is_svg_with d ''data-ds-chart''"
  "is_svg_with (plain d) ''data-ds-spark'' = is_svg_with d ''data-ds-spark''"
  by (simp_all add: theme_toggles_def theme_labels_def theme_meta_def is_svg_with_def fun_eq_iff)

lemma plain_upd: "(\<And>e. plain_el (f e) = f (plain_el e)) \<Longrightarrow> plain (upd_el f n d) = upd_el f n (plain d)"
  by (simp add: plain_def upd_el_def fun_eq_iff)

lemma plain_writes [simp]:
  "plain (add_class c n d) = add_class c n (plain d)" "plain (remove_class c n d) = remove_class c n (plain d)"
  "plain (set_text s n d) = set_text s n (plain d)" "plain (set_html s n d) = set_html s n (plain d)"
  "plain (set_style k v n d) = set_style k v n (plain d)"
  "plain (set_hidden h n d) = set_hidden h n (plain d)" "plain (set_value v n d) = set_value v n (plain d)"
  "a \<noteq> ''content'' \<Longrightarrow> plain (set_attr a v n d) = set_attr a v n (plain d)"
  unfolding add_class_def remove_class_def set_text_def set_html_def set_style_def set_attr_def
    set_hidden_def set_value_def
  by (rule plain_upd; simp add: plain_el_def fun_upd_twist)+

lemma plain_content [simp]: "plain (set_attr ''content'' v n d) = plain d"
  by (auto simp: plain_def plain_el_def set_attr_def upd_el_def fun_eq_iff)

lemma plain_for_each: "(\<And>n d. plain (f n d) = f n (plain d)) \<Longrightarrow> plain (for_each f ns d) = for_each f ns (plain d)"
  unfolding for_each_def by (induction ns arbitrary: d) simp_all

lemma plain_controls [simp]: "plain (sync_theme_controls name d) = sync_theme_controls name (plain d)"
proof -
  have "plain (for_each (set_attr ''aria-pressed'' v) ns d) = for_each (set_attr ''aria-pressed'' v) ns (plain d)"
    "plain (for_each (set_text s) ns d) = for_each (set_text s) ns (plain d)" for v s ns d
    by (rule plain_for_each; simp)+
  moreover have "theme_labels (for_each (set_attr ''aria-pressed'' v) ns (plain d)) = theme_labels (for_each (set_attr ''aria-pressed'' v) ns d)" for v ns
    using calculation(1) plain_theme(2) by metis
  moreover have "query_all (for_each (set_attr ''aria-pressed'' v) ns (plain d)) P = query_all (for_each (set_attr ''aria-pressed'' v) ns d) P" for v ns P
    using calculation(1) plain_query by metis
  ultimately show ?thesis by (simp add: sync_theme_controls_def Let_def)
qed

lemma plain_color [simp]: "plain (sync_theme_color name d) = plain d"
  by (simp add: sync_theme_color_def split: option.split)

lemma plain_css:
  assumes "colour_blind css"
  shows "css_var css (plain d) el name f = css_var css d el name f"
    and "chart_color css (plain d) el = chart_color css d el"
proof -
  show var: "css_var css (plain d) el name f = css_var css d el name f" for name f
    using assms by (simp add: css_var_def colour_blind_def)
  show "chart_color css (plain d) el = chart_color css d el"
    by (simp add: chart_color_def var cong: option.case_cong list.case_cong)
qed

lemma plain_draw [simp]:
  assumes "colour_blind css"
  shows "plain (draw_charts css d) = draw_charts css (plain d)"
proof -
  have line: "plain (for_each (draw_one (chart_line css) ''data-ds-chart'') ns e)
      = for_each (draw_one (chart_line css) ''data-ds-chart'') ns (plain e)" for ns e
    by (rule plain_for_each) (simp add: draw_one_def Let_def chart_line_def plain_css [OF assms])
  have spark: "plain (for_each (draw_one (chart_spark css) ''data-ds-spark'') ns e)
      = for_each (draw_one (chart_spark css) ''data-ds-spark'') ns (plain e)" for ns e
    by (rule plain_for_each) (simp add: draw_one_def Let_def chart_spark_def plain_css [OF assms])
  show ?thesis
    by (simp only: draw_charts_def Let_def spark line plain_query plain_theme flip: line)
qed

lemma theme_get_plain [simp]: "theme_get (plain_page p) = theme_get p"
  by (simp add: theme_get_def plain_page_def)

lemma plain_listeners:
  assumes "colour_blind css"
  shows "plain_page (fold (run_listener css name) ls p)
    = fold (run_listener css name) (filter (\<lambda>l. l = ChartInit) ls) (plain_page p)"
proof (induction ls arbitrary: p)
  case (Cons l ls)
  then show ?case
    by (cases l) (simp_all add: plain_page_def chart_init_def assms)
qed simp

lemma plain_dispatch:
  "colour_blind css \<Longrightarrow> plain_page (dispatch_theme css name p) = dispatch_theme css name (plain_page p)"
  by (simp add: dispatch_theme_def plain_listeners) (simp add: plain_page_def)

lemma plain_set:
  assumes "colour_blind css"
  shows "plain_page (theme_set css name p) = old_set css name (plain_page p)"
    and "plain_page (old_set css name p) = old_set css name (plain_page p)"
proof -
  have frames: "plain_page (q\<lparr>p_frames := p_frames q @ [2]\<rparr>)
      = (plain_page q)\<lparr>p_frames := p_frames (plain_page q) @ [2]\<rparr>" for q
    by (simp add: plain_page_def)
  have upd: "plain_page (p\<lparr>p_dom := d, p_store := st\<rparr>) = (plain_page p)\<lparr>p_dom := plain d, p_store := st\<rparr>" for d st
    by (cases p) (simp add: plain_page_def)
  have reads: "p_dom (plain_page p) = plain (p_dom p)" "p_store (plain_page p) = p_store p"
    by (simp_all add: plain_page_def)
  show "plain_page (theme_set css name p) = old_set css name (plain_page p)"
    unfolding theme_set_def old_set_def Let_def frames plain_dispatch [OF assms] upd reads by simp
  show "plain_page (old_set css name p) = old_set css name (plain_page p)"
    unfolding old_set_def Let_def frames plain_dispatch [OF assms] upd reads by simp
qed

lemma plain_boot:
  assumes "colour_blind css"
  shows "plain_page (boot css p) = old_boot css (plain_page p)"
    and "plain_page (old_boot css p) = old_boot css (plain_page p)"
proof -
  have draw: "plain_page (chart_init css q) = chart_init css (plain_page q)" for q
    by (simp add: chart_init_def plain_page_def assms)
  have store: "p_store (plain_page q) = p_store q" for q
    by (simp add: plain_page_def)
  have get: "theme_get (q\<lparr>p_listeners := ls\<rparr>) = theme_get q" for q ls
    by (simp add: theme_get_def)
  have quiet: "plain_page (p\<lparr>p_listeners := p_listeners p @ [SyncThemeColor]\<rparr>) = plain_page p"
    by (simp add: plain_page_def)
  have "plain_page (theme_init css p) = old_init css (plain_page p)"
    unfolding theme_init_def old_init_def Let_def store
    by (auto simp: plain_set(1) [OF assms] quiet theme_get_plain get split: option.split list.split)
      (simp_all add: plain_page_def)
  then show "plain_page (boot css p) = old_boot css (plain_page p)"
    by (simp add: boot_def old_boot_def draw)
  have "plain_page (old_init css p) = old_init css (plain_page p)"
    unfolding old_init_def store
    by (auto simp: plain_set(2) [OF assms] theme_get_plain split: option.split list.split)
      (simp_all add: plain_page_def)
  then show "plain_page (old_boot css p) = old_boot css (plain_page p)"
    by (simp add: old_boot_def draw)
qed

lemma plain_step:
  assumes "colour_blind css"
  shows "plain_page (theme_step css ev p) = old_step css ev (plain_page p)"
    and "plain_page (old_step css ev p) = old_step css ev (plain_page p)"
proof -
  have dom: "p_dom (plain_page q) = plain (p_dom q)" for q
    by (simp add: plain_page_def)
  have frame: "plain_page (theme_frame p) = theme_frame (plain_page p)"
    by (simp add: theme_frame_def plain_page_def Let_def)
  show "plain_page (theme_step css ev p) = old_step css ev (plain_page p)"
    by (cases ev) (simp_all add: plain_set [OF assms] frame dom
      theme_toggle_def old_toggle_def theme_click_def old_click_def split: option.split)
  show "plain_page (old_step css ev p) = old_step css ev (plain_page p)"
    by (cases ev) (simp_all add: plain_set [OF assms] frame dom
      old_toggle_def old_click_def split: option.split)
qed

subsection \<open>The other components forget it too\<close>

lemma plain_activate: "plain (activate g item d) = activate g item (plain d)"
proof -
  have "segment_member (plain d) g = segment_member d g" by (simp add: segment_member_def fun_eq_iff)
  then show ?thesis by (simp add: activate_def plain_for_each)
qed

lemma plain_panels: "plain (show_panels scope sel d) = show_panels scope sel (plain d)"
proof -
  have "in_scope (plain d) scope = in_scope d scope" by (simp add: in_scope_def fun_eq_iff split: option.split)
  moreover have "panel_hidden (plain d) sel = panel_hidden d sel" by (simp add: panel_hidden_def fun_eq_iff)
  ultimately show ?thesis by (simp add: show_panels_def plain_for_each)
qed

definition selects_blind :: "(dom \<Rightarrow> string \<Rightarrow> selected) \<Rightarrow> bool" where
  "selects_blind qs \<longleftrightarrow> (\<forall>d s. qs (plain d) s = qs d s)"

lemma plain_segment:
  assumes "selects_blind qs"
  shows "plain (fst (segment_click qs n d)) = fst (segment_click qs n (plain d))"
proof -
  have "has_ancestor (plain d) P m = has_ancestor d P m" for P m
    by (simp add: has_ancestor_def cong: option.case_cong)
  then have item: "segment_item (plain d) = segment_item d" and group: "segment_group (plain d) = segment_group d"
    by (simp_all add: segment_item_def segment_group_def fun_eq_iff)
  have scope: "panel_scope qs (plain e) g = panel_scope qs e g" for e g
    using assms by (simp add: panel_scope_def selects_blind_def cong: option.case_cong list.case_cong)
  show ?thesis
    unfolding segment_click_def Let_def item group plain_closest plain_activate [symmetric] scope
    by (simp add: plain_panels split: option.split list.split selected.split)
qed

definition plain_sheets :: "sheets \<Rightarrow> sheets" where
  "plain_sheets st = st\<lparr>sh_dom := plain (sh_dom st)\<rparr>"

lemma plain_sheets_sel [simp]:
  "sh_dom (plain_sheets st) = plain (sh_dom st)" "sh_scrims (plain_sheets st) = sh_scrims st"
  "sh_scrim_of (plain_sheets st) = sh_scrim_of st" "sh_timers (plain_sheets st) = sh_timers st"
  "sh_now (plain_sheets st) = sh_now st"
  by (simp_all add: plain_sheets_def)

lemma plain_toggle: "plain_sheets (sheet_toggle s b st) = sheet_toggle s b (plain_sheets st)"
  by (cases st) (simp add: sheet_toggle_def plain_sheets_def Let_def split: option.split)

lemma plain_by_id: "plain_sheets (sheet_by_id i b st) = sheet_by_id i b (plain_sheets st)"
proof -
  have "element_by_id (plain d) i = element_by_id d i" for d by (simp add: element_by_id_def)
  then show ?thesis by (simp add: sheet_by_id_def plain_toggle split: option.split)
qed

lemma plain_sheet_click: "plain_sheets (sheet_click n st) = sheet_click n (plain_sheets st)"
proof -
  have opened: "(case closest (sh_dom (plain_sheets st)) (has_attr (sh_dom (plain_sheets st)) ''data-ds-sheet-open'') n of
        None \<Rightarrow> plain_sheets st
      | Some o1 \<Rightarrow> sheet_by_id (the (get_attr (sh_dom (plain_sheets st)) ''data-ds-sheet-open'' o1)) True (plain_sheets st)) =
    plain_sheets (case closest (sh_dom st) (has_attr (sh_dom st) ''data-ds-sheet-open'') n of
        None \<Rightarrow> st
      | Some o1 \<Rightarrow> sheet_by_id (the (get_attr (sh_dom st) ''data-ds-sheet-open'' o1)) True st)"
    by (simp add: plain_by_id split: option.split)
  show ?thesis
    unfolding sheet_click_def opened Let_def by (simp add: plain_toggle split: option.split)
qed

lemma plain_scrim: "plain_sheets (scrim_click k st) = scrim_click k (plain_sheets st)"
  by (simp add: scrim_click_def plain_toggle)

lemma plain_elapse: "plain_sheets (elapse dt st) = elapse dt (plain_sheets st)"
proof -
  have "plain_sheets (fire_timer t s) = fire_timer t (plain_sheets s)" for t s
    by (cases s) (simp add: fire_timer_def plain_sheets_def)
  then have "plain_sheets (fold fire_timer ts s) = fold fire_timer ts (plain_sheets s)" for ts s
    by (induction ts arbitrary: s) simp_all
  note fired = this [symmetric]
  have "plain_sheets (s\<lparr>sh_timers := ts, sh_now := t\<rparr>) = (plain_sheets s)\<lparr>sh_timers := ts, sh_now := t\<rparr>" for s ts t
    by (cases s) (simp add: plain_sheets_def)
  then show ?thesis by (simp add: elapse_def Let_def fired)
qed

lemma plain_ticket_reads [simp]:
  "ticket_price (plain d) tk = ticket_price d tk" "ticket_stake (plain d) stake = ticket_stake d stake"
  "ticket_input (plain d) tk = ticket_input d tk" "ticket_box (plain d) tk = ticket_box d tk"
  "k \<noteq> ''content'' \<Longrightarrow> ticket_field (plain d) tk k = ticket_field d tk k"
proof -
  show box: "ticket_box (plain d) tk = ticket_box d tk" by (simp add: ticket_box_def fun_eq_iff)
  show "ticket_price (plain d) tk = ticket_price d tk"
    by (simp add: ticket_price_def ticket_selection_def box cong: option.case_cong)
  show "ticket_stake (plain d) stake = ticket_stake d stake"
    by (simp add: ticket_stake_def cong: option.case_cong)
qed (simp_all add: ticket_input_def ticket_field_def)

lemma plain_recalc: "plain (ticket_recalc tk stake d) = ticket_recalc tk stake (plain d)"
proof -
  have "plain (ticket_set tk k v d) = ticket_set tk k v (plain d)" if "k \<noteq> ''content''" for k v d
    using that by (simp add: ticket_set_def split: option.split)
  then show ?thesis by (simp add: ticket_recalc_def Let_def)
qed

lemma plain_ticket_click: "plain (ticket_click tk stake n d) = ticket_click tk stake n (plain d)"
proof -
  have sel: "plain (ticket_select tk box d) = ticket_select tk box (plain d)" for box
    by (simp add: ticket_select_def plain_for_each)
  have boxed: "(case closest (plain d) (has_class (plain d) ''ds-pricebox'') n of
        None \<Rightarrow> plain d
      | Some box \<Rightarrow> ticket_recalc tk stake (ticket_select tk box (plain d))) =
    plain (case closest d (has_class d ''ds-pricebox'') n of
        None \<Rightarrow> d
      | Some box \<Rightarrow> ticket_recalc tk stake (ticket_select tk box d))"
    by (simp add: plain_recalc sel split: option.split)
  have added: "plain (case (closest e (has_attr e ''data-ticket-add'') n, stake) of
        (Some quick, Some i) \<Rightarrow> ticket_recalc tk stake (set_value (the (get_attr e ''data-ticket-add'' quick)) i e)
      | _ \<Rightarrow> e) =
    (case (closest (plain e) (has_attr (plain e) ''data-ticket-add'') n, stake) of
        (Some quick, Some i) \<Rightarrow>
          ticket_recalc tk stake (set_value (the (get_attr (plain e) ''data-ticket-add'' quick)) i (plain e))
      | _ \<Rightarrow> plain e)" for e
    by (simp add: plain_recalc split: option.split)
  show ?thesis unfolding ticket_click_def boxed Let_def by (rule added)
qed

lemma plain_ticket_init: "plain (ticket_init d) = ticket_init (plain d)"
  by (simp add: ticket_init_def plain_for_each plain_recalc)

lemma plain_live: "plain (fst (live_tick rnd d)) = fst (live_tick rnd (plain d))"
proof -
  have target: "live_target (plain e) = live_target e" for e
    by (simp add: live_target_def fun_eq_iff)
  have one: "live_one r el (plain e) = (plain (fst (live_one r el e)), snd (live_one r el e))" for r el e
  proof -
    have "set_attr ''data-value'' v el (plain e) = plain (set_attr ''data-value'' v el e)" for v by simp
    then show ?thesis by (simp add: live_one_def Let_def target del: plain_writes) (simp add: plain_writes(3))
  qed
  have "live_loop rnd i els (plain e) = (plain (fst (live_loop rnd i els e)), snd (live_loop rnd i els e))" for i els e
    by (induction els arbitrary: i e) (simp_all add: one split_beta Let_def)
  then show ?thesis by (simp add: live_tick_def)
qed

subsection \<open>The page forgets it\<close>

definition plain_app :: "app \<Rightarrow> app" where
  "plain_app a = a\<lparr>ap_page := plain_page (ap_page a), ap_sheets := plain_sheets (ap_sheets a)\<rparr>"

lemma plain_app_sel [simp]:
  "ap_page (plain_app a) = plain_page (ap_page a)" "ap_sheets (plain_app a) = plain_sheets (ap_sheets a)"
  "ap_live (plain_app a) = ap_live a" "ap_tickets (plain_app a) = ap_tickets a" "ap_body (plain_app a) = ap_body a"
  by (simp_all add: plain_app_def)

lemma plain_page_dom [simp]: "p_dom (plain_page p) = plain (p_dom p)"
  by (simp add: plain_page_def)

lemma plain_on:
  "(\<And>d. plain (f d) = f (plain d)) \<Longrightarrow> plain_app (on_dom f a) = on_dom f (plain_app a)"
  "(\<And>st. plain_sheets (g st) = g (plain_sheets st)) \<Longrightarrow> plain_app (on_sheets g a) = on_sheets g (plain_app a)"
  "plain_page (h (ap_page a)) = h' (plain_page (ap_page a)) \<Longrightarrow> plain_app (on_page h a) = on_page h' (plain_app a)"
proof -
  show "plain_app (on_dom f a) = on_dom f (plain_app a)" if "\<And>d. plain (f d) = f (plain d)"
    using that by (simp add: on_dom_def plain_app_def) (simp add: plain_page_def)
  show "plain_app (on_page h a) = on_page h' (plain_app a)" if "plain_page (h (ap_page a)) = h' (plain_page (ap_page a))"
    using that by (simp add: on_page_def plain_app_def)
  show "plain_app (on_sheets g a) = on_sheets g (plain_app a)" if g: "\<And>st. plain_sheets (g st) = g (plain_sheets st)"
  proof -
    have st: "(plain_sheets (ap_sheets a))\<lparr>sh_dom := plain (app_dom a)\<rparr> = plain_sheets ((ap_sheets a)\<lparr>sh_dom := app_dom a\<rparr>)"
      by (simp add: plain_sheets_def)
    show ?thesis
      unfolding on_sheets_def Let_def plain_app_sel plain_page_dom st g [symmetric]
      by (cases a) (simp add: plain_app_def plain_page_def)
  qed
qed

lemma plain_bubble [simp]: "bubble_tickets (plain_app a) n = bubble_tickets a n"
  by (simp add: bubble_tickets_def)

lemma plain_tickets:
  assumes "\<And>tk stake d. plain (f tk stake d) = f tk stake (plain d)"
  shows "plain_app (fold (\<lambda>(tk, stake). on_dom (f tk stake)) ts a) = fold (\<lambda>(tk, stake). on_dom (f tk stake)) ts (plain_app a)"
  by (induction ts arbitrary: a) (simp_all add: split_beta plain_on(1) assms)

lemma plain_click:
  assumes "colour_blind css" "selects_blind qs"
  shows "plain_app (app_click css qs n a) = old_app_click css qs n (plain_app a)"
    and "plain_app (old_app_click css qs n a) = old_app_click css qs n (plain_app a)"
proof -
  note step = plain_step [OF assms(1), of "ClickOn n", simplified]
  note rest = plain_on(2) [where g = "sheet_click n", OF plain_sheet_click] plain_on(1) [where f = "\<lambda>d. fst (segment_click qs n d)", OF plain_segment [OF assms(2)]]
    plain_tickets [of "\<lambda>tk stake. ticket_click tk stake n", OF plain_ticket_click]
  show "plain_app (app_click css qs n a) = old_app_click css qs n (plain_app a)"
    by (simp only: app_click_def old_app_click_def Let_def rest plain_on(3) [where h = "theme_click css n" and h' = "old_click css n", OF step(1)] plain_bubble)
  show "plain_app (old_app_click css qs n a) = old_app_click css qs n (plain_app a)"
    by (simp only: old_app_click_def Let_def rest plain_on(3) [where h = "old_click css n" and h' = "old_click css n", OF step(2)] plain_bubble)
qed

lemma plain_app_step:
  assumes "colour_blind css" "selects_blind qs"
  shows "plain_app (app_step css qs e a) = old_app_step css qs e (plain_app a)"
    and "plain_app (old_app_step css qs e a) = old_app_step css qs e (plain_app a)"
proof -
  note lift = plain_click [OF assms] plain_on(2) [where g = "scrim_click k" for k, OF plain_scrim]
    plain_on(2) [where g = "sheet_by_id i b" for i b, OF plain_by_id]
    plain_on(2) [where g = "elapse dt" for dt, OF plain_elapse]
    plain_on(1) [where f = "\<lambda>d. fst (live_tick rnd d)" for rnd, OF plain_live]
    plain_on(3) [where h = "theme_step css e" and h' = "old_step css e" for e, OF plain_step(1) [OF assms(1)]]
    plain_on(3) [where h = "old_step css e" and h' = "old_step css e" for e, OF plain_step(2) [OF assms(1)]]
  have edit: "plain_app (app_edit i v a) = app_edit i v (plain_app a)" for i v
    by (simp add: app_edit_def plain_tickets [of ticket_recalc, OF plain_recalc] plain_on(1))
  have live: "plain_app (a\<lparr>ap_live := l\<rparr>) = (plain_app a)\<lparr>ap_live := l\<rparr>" for l
    by (simp add: plain_app_def)
  show "plain_app (app_step css qs e a) = old_app_step css qs e (plain_app a)"
    by (cases e) (simp_all add: app_scrim_def old_app_scrim_def edit live lift)
  show "plain_app (old_app_step css qs e a) = old_app_step css qs e (plain_app a)"
    by (cases e) (simp_all add: old_app_scrim_def edit live lift)
qed

lemma plain_app_init:
  assumes "colour_blind css"
  shows "plain_app (app_init css body p) = old_app_init css body (plain_page p)"
    and "plain_app (old_app_init css body p) = old_app_init css body (plain_page p)"
proof -
  have dom: "plain_page (q\<lparr>p_dom := d\<rparr>) = (plain_page q)\<lparr>p_dom := plain d\<rparr>" for q d
    by (simp add: plain_page_def)
  have fresh: "plain_sheets (fresh_sheets d) = fresh_sheets (plain d)" for d
    by (simp add: plain_sheets_def fresh_sheets_def)
  have roots: "ticket_roots (plain d) = ticket_roots d" for d
    by (simp add: ticket_roots_def)
  show "plain_app (app_init css body p) = old_app_init css body (plain_page p)"
    unfolding app_init_def old_app_init_def Let_def plain_boot(1) [OF assms, symmetric] plain_page_dom
    by (simp add: plain_app_def dom fresh roots plain_ticket_init)
  show "plain_app (old_app_init css body p) = old_app_init css body (plain_page p)"
    unfolding old_app_init_def Let_def plain_boot(2) [OF assms, symmetric] plain_page_dom
    by (simp add: plain_app_def dom fresh roots plain_ticket_init)
qed

subsection \<open>The builds agree\<close>

text \<open>
  C34. Started on the same page and given the same clicks anywhere, edits of fields, clicks on scrims,
  calls of the theme, sheet and live interfaces, live ticks and passing time, an older build and the present one
  leave the same page: the same attributes, classes, texts, charts, tickets, scrims and timers, the same stored
  theme and the same pending callbacks. They differ only in the \<open>content\<close> attribute that the present build
  keeps in step with the theme, and in the listener that does so.
\<close>

theorem old_build_agrees:
  assumes "colour_blind css" "selects_blind qs"
  shows "plain_app (fold (app_step css qs) es (app_init css body p))
    = plain_app (fold (old_app_step css qs) es (old_app_init css body p))"
proof -
  have "plain_app (fold (app_step css qs) es a) = plain_app (fold (old_app_step css qs) es b)"
    if "plain_app a = plain_app b" for a b
    using that by (induction es arbitrary: a b) (simp_all add: plain_app_step [OF assms])
  then show ?thesis by (simp add: plain_app_init [OF assms(1)])
qed

theorem old_build_agrees_witness:
  "plain_app (fold (app_step (\<lambda>_ _ _. ''#0e7c66'') no_selector)
      [app_event.Click 3, CallTheme Frame, CallSheet ''s'' True, Wait 250] (app_init (\<lambda>_ _ _. ''#0e7c66'') 0 demo_page))
    = plain_app (fold (old_app_step (\<lambda>_ _ _. ''#0e7c66'') no_selector)
      [app_event.Click 3, CallTheme Frame, CallSheet ''s'' True, Wait 250] (old_app_init (\<lambda>_ _ _. ''#0e7c66'') 0 demo_page))"
  by (rule old_build_agrees) (simp_all add: colour_blind_def selects_blind_def no_selector_def)

end
