(* ===== verification/Canvas_Order.thy ===== *)
theory Canvas_Order
  imports Chart
begin

text \<open>
  The sections and artboards of a \<open>DesignCanvas\<close>: flattening of React children, the identifiers of
  the artboards, the saved arrangement of a section, and the order in which its artboards are
  shown. That order is computed twice in the code, by \<open>DesignCanvas\<close> for the focus overlay and by
  \<open>DCSection\<close> for the canvas, which keeps it from render to render (\<open>Canvas_Memo\<close>). A missing property is \<open>None\<close>; the sections saved in the sidecar file
  are a map from section identifiers (no names inherited by every JavaScript object).
\<close>

subsection \<open>Children\<close>

datatype child =
  Fragment "child list"
| Section "string option" "string option" "child list"
| Artboard "string option" "string option"
| Other string
| Nothing

fun dc_flatten :: "child list \<Rightarrow> child list" where
  "dc_flatten [] = []"
| "dc_flatten (Fragment cs # r) = dc_flatten cs @ dc_flatten r"
| "dc_flatten (c # r) = c # dc_flatten r"

text \<open>\<open>a ?? b\<close> on optional strings, and whether the result counts as true.\<close>

definition nullish :: "string option \<Rightarrow> string option \<Rightarrow> string option" where
  "nullish a b = (case a of None \<Rightarrow> b | Some x \<Rightarrow> Some x)"

definition some_text :: "string option \<Rightarrow> string list" where
  "some_text a = (case a of Some (c # cs) \<Rightarrow> [c # cs] | _ \<Rightarrow> [])"

fun artboard_id :: "child \<Rightarrow> string list" where
  "artboard_id (Artboard i l) = some_text (nullish i l)"
| "artboard_id _ = []"

subsection \<open>Saved arrangements\<close>

record saved =
  sv_title :: "string option"
  sv_order :: "string list"
  sv_labels :: "string \<rightharpoonup> string"
  sv_hidden :: "string list"
  sv_key :: "string option"

type_synonym sections = "string \<rightharpoonup> saved"

definition no_saved :: saved where
  "no_saved = \<lparr>sv_title = None, sv_order = [], sv_labels = Map.empty, sv_hidden = [], sv_key = None\<rparr>"

definition saved_of :: "sections \<Rightarrow> string \<Rightarrow> saved" where
  "saved_of ss sid = (case ss sid of None \<Rightarrow> no_saved | Some s \<Rightarrow> s)"

text \<open>\<open>ids.join('\x1f')\<close>\<close>

definition src_key :: "string list \<Rightarrow> string" where
  "src_key ids = join_with [CHR 0x1F] ids"

subsection \<open>The order of a section\<close>

definition merge_order :: "string list \<Rightarrow> string list \<Rightarrow> string list" where
  "merge_order saved_order src =
     (let kept = filter (\<lambda>k. k \<in> set src) saved_order
      in kept @ filter (\<lambda>k. k \<notin> set kept) src)"

text \<open>As \<open>DesignCanvas\<close> computes it, pushing the identifiers while it walks the children.\<close>

definition canvas_ids :: "child list \<Rightarrow> string list" where
  "canvas_ids children =
     foldl (\<lambda>abs ab. case ab of Artboard i l \<Rightarrow> abs @ some_text (nullish i l) | _ \<Rightarrow> abs) []
       (dc_flatten children)"

definition canvas_hidden :: "saved \<Rightarrow> string list \<Rightarrow> string list" where
  "canvas_hidden p ids = (if sv_key p = Some (src_key ids) then sv_hidden p else [])"

definition canvas_src :: "saved \<Rightarrow> child list \<Rightarrow> string list" where
  "canvas_src p children =
     (let ids = canvas_ids children; hidden = canvas_hidden p ids
      in filter (\<lambda>k. k \<notin> set hidden) ids)"

definition canvas_slots :: "saved \<Rightarrow> child list \<Rightarrow> string list" where
  "canvas_slots p children = merge_order (sv_order p) (canvas_src p children)"

text \<open>
  As \<open>DCSection\<close> computes it, from the children without the empty ones, filtered to artboards,
  mapped to identifiers and filtered again: \<open>section_src\<close> is its \<open>srcOrder\<close>, and \<open>section_order\<close> what the
  function given to \<open>useMemo\<close> returns. When that function is called is the matter of \<open>Canvas_Memo\<close>.
\<close>

definition section_artboards :: "child list \<Rightarrow> child list" where
  "section_artboards children =
     filter (\<lambda>c. case c of Artboard _ _ \<Rightarrow> True | _ \<Rightarrow> False)
       (filter (\<lambda>c. c \<noteq> Nothing) (dc_flatten children))"

definition section_ids :: "child list \<Rightarrow> string list" where
  "section_ids children =
     concat (map some_text
       (map (\<lambda>c. case c of Artboard i l \<Rightarrow> nullish i l | _ \<Rightarrow> None) (section_artboards children)))"

definition section_src :: "saved \<Rightarrow> child list \<Rightarrow> string list" where
  "section_src sec children =
     (let all_ids = section_ids children;
          hidden = (if sv_key sec = Some (src_key all_ids) then sv_hidden sec else [])
      in filter (\<lambda>k. k \<notin> set hidden) all_ids)"

definition section_order :: "saved \<Rightarrow> child list \<Rightarrow> string list" where
  "section_order sec children =
     (let src = section_src sec children; kept = filter (\<lambda>k. k \<in> set src) (sv_order sec)
      in kept @ filter (\<lambda>k. k \<notin> set kept) src)"

subsection \<open>Operations on the saved sections\<close>

definition patch_section :: "string \<Rightarrow> (saved \<Rightarrow> saved) \<Rightarrow> sections \<Rightarrow> sections" where
  "patch_section sid p ss = ss(sid \<mapsto> p (saved_of ss sid))"

definition rename_section :: "string \<Rightarrow> string \<Rightarrow> sections \<Rightarrow> sections" where
  "rename_section sid v = patch_section sid (\<lambda>s. s\<lparr>sv_title := Some v\<rparr>)"

definition rename_artboard :: "string \<Rightarrow> string \<Rightarrow> string \<Rightarrow> sections \<Rightarrow> sections" where
  "rename_artboard sid k v = patch_section sid (\<lambda>s. s\<lparr>sv_labels := (sv_labels s)(k \<mapsto> v)\<rparr>)"

definition reorder_section :: "string \<Rightarrow> string list \<Rightarrow> sections \<Rightarrow> sections" where
  "reorder_section sid next_order = patch_section sid (\<lambda>s. s\<lparr>sv_order := next_order\<rparr>)"

definition delete_artboard :: "string \<Rightarrow> child list \<Rightarrow> string \<Rightarrow> sections \<Rightarrow> sections" where
  "delete_artboard sid children k =
     patch_section sid (\<lambda>s. s\<lparr>
       sv_hidden := (if sv_key s = Some (src_key (section_ids children)) then sv_hidden s else []) @ [k],
       sv_key := Some (src_key (section_ids children))\<rparr>)"

subsection \<open>Merging\<close>

lemma set_merge_order [simp]: "set (merge_order so src) = set src"
  by (auto simp: merge_order_def Let_def)

lemma distinct_merge_order: "distinct so \<Longrightarrow> distinct src \<Longrightarrow> distinct (merge_order so src)"
  by (auto simp: merge_order_def Let_def)

lemma mset_merge_order:
  "distinct so \<Longrightarrow> distinct src \<Longrightarrow> mset (merge_order so src) = mset src"
  by (simp add: distinct_merge_order set_eq_iff_mset_eq_distinct [symmetric])

lemma merge_order_saved: "filter (\<lambda>k. k \<in> set so) (merge_order so src) = filter (\<lambda>k. k \<in> set src) so"
  by (auto simp: merge_order_def Let_def filter_empty_conv intro!: filter_cong)

lemma merge_order_new:
  "filter (\<lambda>k. k \<notin> set so) (merge_order so src) = filter (\<lambda>k. k \<notin> set so) src"
  by (auto simp: merge_order_def Let_def filter_empty_conv intro!: filter_cong)

text \<open>An order that already is an arrangement of the source is kept.\<close>

lemma merge_order_id: "set so = set src \<Longrightarrow> merge_order so src = so"
  by (simp add: merge_order_def Let_def filter_empty_conv)

lemma merge_order_remove:
  "merge_order so (filter (\<lambda>x. x \<noteq> k) src) = filter (\<lambda>x. x \<noteq> k) (merge_order so src)"
  by (auto simp: merge_order_def Let_def intro!: filter_cong arg_cong2 [where f = append])

lemma canvas_ids_eq: "canvas_ids children = concat (map artboard_id (dc_flatten children))"
proof -
  have "foldl (\<lambda>abs ab. case ab of Artboard i l \<Rightarrow> abs @ some_text (nullish i l) | _ \<Rightarrow> abs) a cs
      = a @ concat (map artboard_id cs)" for a cs
    by (induction cs arbitrary: a) (simp_all split: child.split)
  then show ?thesis by (simp add: canvas_ids_def)
qed

lemma section_ids_eq: "section_ids children = concat (map artboard_id (dc_flatten children))"
proof -
  have "concat (map some_text (map (\<lambda>c. case c of Artboard i l \<Rightarrow> nullish i l | _ \<Rightarrow> None)
      (filter (\<lambda>c. case c of Artboard _ _ \<Rightarrow> True | _ \<Rightarrow> False) (filter (\<lambda>c. c \<noteq> Nothing) cs))))
      = concat (map artboard_id cs)" for cs
    by (induction cs) (auto split: child.split)
  then show ?thesis by (simp add: section_ids_def section_artboards_def)
qed

lemma section_order_eq: "section_order sec children = canvas_slots sec children"
  unfolding section_order_def section_src_def canvas_slots_def canvas_src_def canvas_hidden_def merge_order_def
    Let_def canvas_ids_eq section_ids_eq ..

lemma saved_of_patch [simp]:
  "saved_of (patch_section sid p ss) sid' = (if sid' = sid then p (saved_of ss sid) else saved_of ss sid')"
  by (simp add: patch_section_def saved_of_def)

lemma section_canvas_ids: "section_ids children = canvas_ids children"
  by (simp add: canvas_ids_eq section_ids_eq)

lemma delete_slots:
  "canvas_slots (saved_of (delete_artboard sid children k ss) sid) children =
     filter (\<lambda>x. x \<noteq> k) (canvas_slots (saved_of ss sid) children)"
proof -
  have "canvas_src (saved_of (delete_artboard sid children k ss) sid) children =
      filter (\<lambda>x. x \<noteq> k) (canvas_src (saved_of ss sid) children)"
    by (auto simp: delete_artboard_def canvas_src_def canvas_hidden_def Let_def section_canvas_ids intro!: filter_cong)
  moreover have "sv_order (saved_of (delete_artboard sid children k ss) sid) = sv_order (saved_of ss sid)"
    by (simp add: delete_artboard_def)
  ultimately show ?thesis by (simp add: canvas_slots_def merge_order_remove)
qed

subsection \<open>Keys of identifier lists\<close>

lemma join_with_Cons: "ys \<noteq> [] \<Longrightarrow> join_with sep (y # ys) = y @ sep @ join_with sep ys"
  by (cases ys) auto

lemma split_on_plain: "c \<notin> set x \<Longrightarrow> split_on c x = [x]"
  by (induction x) auto

lemma split_on_nonempty [simp]: "split_on c s \<noteq> []"
  by (induction s) (auto split: list.split)

lemma split_on_append: "c \<notin> set x \<Longrightarrow> split_on c (x @ c # r) = x # split_on c r"
  by (induction x) auto

text \<open>Splitting a joined list gives it back, if no part contains the separator.\<close>

lemma split_join:
  assumes "xs \<noteq> []" "list_all (\<lambda>x. c \<notin> set x) xs"
  shows "split_on c (join_with [c] xs) = xs"
  using assms
proof (induction xs)
  case (Cons x xs)
  then show ?case
    by (cases "xs = []") (simp_all add: split_on_plain join_with_Cons split_on_append)
qed simp

lemma join_inj:
  fixes c :: char
  assumes "xs \<noteq> []" "ys \<noteq> []" "list_all (\<lambda>x. c \<notin> set x) xs" "list_all (\<lambda>x. c \<notin> set x) ys"
  shows "join_with [c] xs = join_with [c] ys \<longleftrightarrow> xs = ys"
  using split_join [OF assms(1,3)] split_join [OF assms(2,4)] by metis

lemma join_key_inj:
  fixes c :: char
  assumes "[] \<notin> set xs" "[] \<notin> set ys" "list_all (\<lambda>x. c \<notin> set x) (xs @ ys)"
  shows "join_with [c] xs = join_with [c] ys \<longleftrightarrow> xs = ys"
proof (cases "xs = [] \<or> ys = []")
  case True
  have "join_with [c] zs \<noteq> []" if "zs \<noteq> []" "[] \<notin> set zs" for zs
    using that by (cases zs; cases "tl zs") auto
  with True assms show ?thesis by (metis join_with.simps(1))
next
  case False
  with assms show ?thesis by (intro join_inj) auto
qed

lemma src_key_inj:
  assumes "[] \<notin> set xs" "[] \<notin> set ys" "list_all (\<lambda>x. CHR 0x1F \<notin> set x) (xs @ ys)"
  shows "src_key xs = src_key ys \<longleftrightarrow> xs = ys"
  unfolding src_key_def by (rule join_key_inj [OF assms])

lemma canvas_ids_texts: "[] \<notin> set (canvas_ids children)"
proof -
  have "[] \<notin> set (some_text a)" for a by (simp add: some_text_def split: option.split list.split)
  then have "[] \<notin> set (artboard_id c)" for c by (cases c) auto
  then show ?thesis by (auto simp: canvas_ids_eq)
qed

subsection \<open>Properties of the order\<close>

text \<open>
  Without repetitions the order of a section is an arrangement of the artboards that are not deleted:
  those of the saved order first, in that order, and the new ones after them in source order.
\<close>

lemma slots_arranged:
  assumes "distinct (canvas_ids children)" "distinct (sv_order s)"
  shows "mset (canvas_slots s children) = mset (canvas_src s children)"
    and "canvas_slots s children =
        filter (\<lambda>k. k \<in> set (canvas_src s children)) (sv_order s) @
        filter (\<lambda>k. k \<notin> set (sv_order s)) (canvas_src s children)"
proof -
  have "distinct (canvas_src s children)" using assms(1) by (simp add: canvas_src_def Let_def)
  with assms(2) show "mset (canvas_slots s children) = mset (canvas_src s children)"
    unfolding canvas_slots_def by (intro mset_merge_order) simp_all
  show "canvas_slots s children =
        filter (\<lambda>k. k \<in> set (canvas_src s children)) (sv_order s) @
        filter (\<lambda>k. k \<notin> set (sv_order s)) (canvas_src s children)"
    by (auto simp: canvas_slots_def merge_order_def Let_def intro!: filter_cong)
qed

text \<open>
  C29. Deleting an artboard removes exactly it from the order of its section, also after earlier
  deletions, and leaves the other sections alone; once the identifiers of the section change, all
  its deletions are forgotten.
\<close>

theorem canvas_delete:
  assumes "list_all (\<lambda>x. CHR 0x1F \<notin> set x) (canvas_ids children @ canvas_ids children')"
    and "canvas_ids children' \<noteq> canvas_ids children"
    and "ss' = delete_artboard sid children k ss"
  shows "canvas_slots (saved_of ss' sid) children = filter (\<lambda>x. x \<noteq> k) (canvas_slots (saved_of ss sid) children) \<and>
    (sid' \<noteq> sid \<longrightarrow> saved_of ss' sid' = saved_of ss sid') \<and>
    canvas_src (saved_of ss' sid) children' = canvas_ids children'"
proof (intro conjI impI)
  show "canvas_slots (saved_of ss' sid) children = filter (\<lambda>x. x \<noteq> k) (canvas_slots (saved_of ss sid) children)"
    unfolding assms(3) by (rule delete_slots)
  show "saved_of ss' sid' = saved_of ss sid'" if "sid' \<noteq> sid"
    using that by (simp add: assms(3) delete_artboard_def)
  have "src_key (canvas_ids children) \<noteq> src_key (canvas_ids children')"
    using assms(1,2) canvas_ids_texts by (subst src_key_inj) auto
  then show "canvas_src (saved_of ss' sid) children' = canvas_ids children'"
    by (simp add: assms(3) delete_artboard_def canvas_src_def canvas_hidden_def Let_def section_canvas_ids)
qed

text \<open>
  Committing a new arrangement of a section's artboards is what the section shows from then on,
  also after a reload of the saved sections, while renaming titles and labels changes no order.
\<close>

theorem canvas_reorder:
  assumes "set next_order = set (canvas_slots (saved_of ss sid) children)"
  shows "canvas_slots (saved_of (reorder_section sid next_order ss) sid) children = next_order \<and>
    canvas_slots (saved_of (rename_section t v ss) sid) children = canvas_slots (saved_of ss sid) children \<and>
    canvas_slots (saved_of (rename_artboard t k v ss) sid) children = canvas_slots (saved_of ss sid) children"
proof -
  have src: "canvas_src (f s) children = canvas_src s children"
    if "sv_hidden (f s) = sv_hidden s" "sv_key (f s) = sv_key s" for f s
    using that by (simp add: canvas_src_def canvas_hidden_def)
  show ?thesis
    using assms
    by (simp add: canvas_slots_def reorder_section_def rename_section_def rename_artboard_def
        merge_order_id canvas_src_def canvas_hidden_def)
qed

subsection \<open>An instance\<close>

definition demo_children :: "child list" where
  "demo_children = [Fragment [Artboard (Some ''a'') None, Nothing], Other ''p'',
     Artboard None (Some ''b''), Artboard (Some ''c'') (Some ''C'')]"

lemma demo_children_ids: "canvas_ids demo_children = [''a'', ''b'', ''c'']"
  by code_simp

theorem canvas_delete_witness:
  "canvas_slots (saved_of (delete_artboard ''s'' demo_children ''b'' Map.empty) ''s'') demo_children
     = filter (\<lambda>x. x \<noteq> ''b'') (canvas_slots (saved_of Map.empty ''s'') demo_children)"
proof -
  have "canvas_ids [] = []" by code_simp
  then show ?thesis
    by (intro canvas_delete [THEN conjunct1, of demo_children "[]", OF _ _ refl]) (simp_all add: demo_children_ids)
qed

theorem canvas_reorder_witness:
  "canvas_slots (saved_of (reorder_section ''s'' [''c'', ''a'', ''b''] Map.empty) ''s'') demo_children
     = [''c'', ''a'', ''b'']"
proof -
  have "set (canvas_slots (saved_of Map.empty ''s'') demo_children) = set [''c'', ''a'', ''b'']"
    by (auto simp: canvas_slots_def canvas_src_def demo_children_ids canvas_hidden_def saved_of_def
        no_saved_def Let_def)
  then show ?thesis by (intro canvas_reorder [THEN conjunct1]) simp
qed

end
