(* ===== verification/Canvas_State.thy ===== *)
theory Canvas_State
  imports Canvas_Order
begin

text \<open>
  The state of \<open>DesignCanvas\<close> and its sidecar file: the read on mount, the effect that writes the
  sections 250 milliseconds after they last changed, and the flags \<open>didRead\<close> and \<open>skipNextWrite\<close>
  between them. A change of state marks the sections as changed; the effect runs when React flushes
  effects, an event of its own, so that a read and an edit can fall into one flush. A pending write
  carries the sections of the render in which it was set.
\<close>

record canvas =
  cv_sections :: sections
  cv_focus :: "string option"
  cv_ready :: bool
  cv_did_read :: bool
  cv_skip :: bool
  cv_changed :: bool
  cv_write :: "(nat \<times> sections) option"
  cv_now :: nat
  cv_mounted :: bool
  cv_file :: "sections option"

subsection \<open>Operations\<close>

definition canvas_mount :: "sections option \<Rightarrow> canvas" where
  "canvas_mount file = \<lparr>cv_sections = Map.empty, cv_focus = None, cv_ready = False, cv_did_read = False,
     cv_skip = False, cv_changed = True, cv_write = None, cv_now = 0, cv_mounted = True, cv_file = file\<rparr>"

text \<open>The read settles: with saved sections, or without (no file, an error, no sections in it).\<close>

definition read_settled :: "sections option \<Rightarrow> canvas \<Rightarrow> canvas" where
  "read_settled r c =
     (let c1 = (case r of
          Some ss \<Rightarrow> if cv_mounted c then c\<lparr>cv_skip := True, cv_sections := ss, cv_changed := True\<rparr> else c
        | None \<Rightarrow> c)
      in c1\<lparr>cv_did_read := True, cv_ready := (cv_ready c1 \<or> cv_mounted c1)\<rparr>)"

text \<open>The timer that shows the canvas after 150 milliseconds without a read.\<close>

definition show_unread :: "canvas \<Rightarrow> canvas" where
  "show_unread c = c\<lparr>cv_ready := (cv_ready c \<or> cv_mounted c)\<rparr>"

definition canvas_edit :: "(sections \<Rightarrow> sections) \<Rightarrow> canvas \<Rightarrow> canvas" where
  "canvas_edit f c = c\<lparr>cv_sections := f (cv_sections c), cv_changed := True\<rparr>"

definition set_focus :: "string option \<Rightarrow> canvas \<Rightarrow> canvas" where
  "set_focus slot c = c\<lparr>cv_focus := slot\<rparr>"

text \<open>The effect on \<open>[state.sections]\<close>, its cleanup first.\<close>

definition flush_effect :: "canvas \<Rightarrow> canvas" where
  "flush_effect c =
     (if \<not> cv_changed c \<or> \<not> cv_mounted c then c
      else
        let c1 = c\<lparr>cv_changed := False, cv_write := None\<rparr>
        in if \<not> cv_did_read c1 then c1
           else if cv_skip c1 then c1\<lparr>cv_skip := False\<rparr>
           else c1\<lparr>cv_write := Some (cv_now c1 + 250, cv_sections c1)\<rparr>)"

definition canvas_elapse :: "nat \<Rightarrow> canvas \<Rightarrow> canvas" where
  "canvas_elapse dt c =
     (let t = cv_now c + dt; c1 = c\<lparr>cv_now := t\<rparr>
      in case cv_write c of
           None \<Rightarrow> c1
         | Some (due, ss) \<Rightarrow> if due \<le> t then c1\<lparr>cv_file := Some ss, cv_write := None\<rparr> else c1)"

text \<open>Unmounting cancels the pending write.\<close>

definition canvas_unmount :: "canvas \<Rightarrow> canvas" where
  "canvas_unmount c = c\<lparr>cv_mounted := False, cv_write := None\<rparr>"

datatype canvas_event =
  Settle "sections option"
| ShowUnread
| Edit "sections \<Rightarrow> sections"
| Focus "string option"
| Flush
| Wait nat
| Unmount

fun canvas_step :: "canvas_event \<Rightarrow> canvas \<Rightarrow> canvas" where
  "canvas_step (Settle r) c = read_settled r c"
| "canvas_step ShowUnread c = show_unread c"
| "canvas_step (Edit f) c = canvas_edit f c"
| "canvas_step (Focus s) c = set_focus s c"
| "canvas_step Flush c = flush_effect c"
| "canvas_step (Wait dt) c = canvas_elapse dt c"
| "canvas_step Unmount c = canvas_unmount c"

text \<open>Whether an event is the end of the read.\<close>

fun is_settle :: "canvas_event \<Rightarrow> bool" where
  "is_settle (Settle _) = True"
| "is_settle _ = False"

subsection \<open>Nothing is written before the read settles\<close>

definition unread :: "sections option \<Rightarrow> canvas \<Rightarrow> bool" where
  "unread file c \<longleftrightarrow> \<not> cv_did_read c \<and> cv_write c = None \<and> cv_file c = file"

lemma unread_step: "unread file c \<Longrightarrow> \<not> is_settle e \<Longrightarrow> unread file (canvas_step e c)"
  by (cases e) (auto simp: unread_def show_unread_def canvas_edit_def set_focus_def flush_effect_def
      canvas_elapse_def canvas_unmount_def Let_def)

lemma unread_run: "unread file c \<Longrightarrow> list_all (\<lambda>e. \<not> is_settle e) es \<Longrightarrow> unread file (fold canvas_step es c)"
  by (induction es arbitrary: c) (simp_all add: unread_step)

subsection \<open>After the read\<close>

text \<open>
  Once the read has settled and its own change has been flushed, either a write of the current
  sections is pending, or the sections still have to be flushed, or nothing is left to save.
\<close>

definition tracked :: "canvas \<Rightarrow> bool" where
  "tracked c \<longleftrightarrow> cv_did_read c \<and> \<not> cv_skip c \<and> cv_mounted c \<and>
     (cv_changed c \<or>
      (case cv_write c of Some (due, ss) \<Rightarrow> ss = cv_sections c \<and> due \<le> cv_now c + 250
       | None \<Rightarrow> cv_file c = Some (cv_sections c)))"

fun is_local :: "canvas_event \<Rightarrow> bool" where
  "is_local (Settle _) = False"
| "is_local Unmount = False"
| "is_local _ = True"

lemma tracked_step: "tracked c \<Longrightarrow> is_local e \<Longrightarrow> tracked (canvas_step e c)"
  by (cases e) (auto simp: tracked_def show_unread_def canvas_edit_def set_focus_def flush_effect_def
      canvas_elapse_def Let_def split: option.splits prod.splits)

lemma tracked_run: "tracked c \<Longrightarrow> list_all is_local es \<Longrightarrow> tracked (fold canvas_step es c)"
  by (induction es arbitrary: c) (simp_all add: tracked_step)

lemma tracked_saves:
  assumes "tracked c" "250 \<le> dt"
  shows "cv_file (canvas_elapse dt (flush_effect c)) = Some (cv_sections c)"
  using assms
  by (auto simp: tracked_def flush_effect_def canvas_elapse_def Let_def split: option.splits prod.splits)

lemma unread_flags:
  assumes "list_all (\<lambda>e. \<not> is_settle e \<and> e \<noteq> Unmount) es" "cv_mounted c" "\<not> cv_skip c" "\<not> cv_did_read c"
  shows "cv_mounted (fold canvas_step es c) \<and> \<not> cv_skip (fold canvas_step es c)"
  using assms
proof (induction es arbitrary: c)
  case (Cons e es)
  then have "cv_mounted (canvas_step e c) \<and> \<not> cv_skip (canvas_step e c) \<and> \<not> cv_did_read (canvas_step e c)"
    by (cases e) (auto simp: show_unread_def canvas_edit_def set_focus_def flush_effect_def
        canvas_elapse_def Let_def split: option.split)
  with Cons show ?case by simp
qed simp

subsection \<open>Properties of the sidecar\<close>

text \<open>
  C14. Whatever the user does and however long the read takes, the sidecar file is not written
  before the read has settled, and settling it does not write the sections it just read back.
\<close>

theorem sidecar_not_clobbered:
  assumes "list_all (\<lambda>e. \<not> is_settle e \<and> e \<noteq> Unmount) es"
  shows "cv_file (fold canvas_step es (canvas_mount file)) = file \<and>
    cv_file (fold canvas_step (es @ [Settle (Some ss), Flush, Wait dt]) (canvas_mount file)) = file"
proof -
  have u: "unread file (fold canvas_step es (canvas_mount file))"
    using assms by (intro unread_run) (auto simp: unread_def canvas_mount_def list_all_iff)
  moreover have "cv_mounted (fold canvas_step es (canvas_mount file)) \<and>
      \<not> cv_skip (fold canvas_step es (canvas_mount file))"
    using assms by (intro unread_flags) (simp_all add: canvas_mount_def)
  ultimately show ?thesis
    by (simp add: unread_def read_settled_def flush_effect_def canvas_elapse_def Let_def)
qed

text \<open>
  C30. After the sections have been read and flushed, any run of edits, focus changes, flushes and
  waits, in any interleaving, is saved: 250 milliseconds after the next flush the file holds the
  sections of the canvas.
\<close>

theorem sidecar_saves_edits:
  assumes "list_all is_local es" "250 \<le> dt"
    and "c = fold canvas_step ([Settle (Some ss), Flush, Edit f] @ es @ [Flush]) (canvas_mount file)"
  shows "cv_file (canvas_elapse dt c) = Some (cv_sections c)"
proof -
  have "tracked (canvas_step (Edit f) (canvas_step Flush (canvas_step (Settle (Some ss)) (canvas_mount file))))"
    by (simp add: tracked_def canvas_mount_def read_settled_def flush_effect_def canvas_edit_def Let_def)
  then have t: "tracked (fold canvas_step ([Settle (Some ss), Flush, Edit f] @ es) (canvas_mount file))"
    using tracked_run [OF _ assms(1)] by simp
  have "cv_sections (flush_effect x) = cv_sections x" for x
    by (simp add: flush_effect_def Let_def)
  with tracked_saves [OF t assms(2)] show ?thesis by (simp add: assms(3))
qed

text \<open>
  Edits made before the read settles are lost when it succeeds: the saved sections replace the
  edited ones, and the edits are never written, however long one waits. The canvas is shown, and so
  can be edited, after 150 milliseconds without a read.
\<close>

theorem early_edits_lost:
  "cv_ready (fold canvas_step [Flush, ShowUnread] (canvas_mount (Some ss))) \<and>
   cv_sections (fold canvas_step [Flush, ShowUnread, Edit f, Flush, Settle (Some ss), Flush, Wait dt]
     (canvas_mount (Some ss))) = ss \<and>
   cv_file (fold canvas_step [Flush, ShowUnread, Edit f, Flush, Settle (Some ss), Flush, Wait dt]
     (canvas_mount (Some ss))) = Some ss"
  by (simp add: canvas_mount_def flush_effect_def show_unread_def canvas_edit_def read_settled_def
      canvas_elapse_def Let_def)

text \<open>
  An edit that falls into the same flush as the sections just read is shown but not saved,
  however long one waits without another edit: \<open>skipNextWrite\<close> swallows the write of both.
\<close>

theorem edit_in_hydration_flush:
  "cv_sections (fold canvas_step [Flush, Settle (Some ss), Edit f, Flush, Wait dt] (canvas_mount (Some ss))) = f ss \<and>
   cv_file (fold canvas_step [Flush, Settle (Some ss), Edit f, Flush, Wait dt] (canvas_mount (Some ss))) = Some ss"
  by (simp add: canvas_mount_def flush_effect_def canvas_edit_def read_settled_def canvas_elapse_def Let_def)

text \<open>
  Without a sidecar file, edits made before the read settles are shown but not written, however long
  one waits without another edit: the effect ran before the read had settled and does not run again.
\<close>

lemma early_edits_unsaved:
  "cv_sections (fold canvas_step [Flush, ShowUnread, Edit f, Flush, Settle None, Flush, Wait dt] (canvas_mount None)) = f Map.empty \<and>
   cv_file (fold canvas_step [Flush, ShowUnread, Edit f, Flush, Settle None, Flush, Wait dt] (canvas_mount None)) = None"
  by (simp add: canvas_mount_def flush_effect_def show_unread_def canvas_edit_def read_settled_def
      canvas_elapse_def Let_def)

subsection \<open>An instance\<close>

theorem sidecar_not_clobbered_witness:
  "cv_file (fold canvas_step [Flush, Edit (rename_section ''s'' ''T''), Flush, Wait 400]
     (canvas_mount (Some Map.empty))) = Some Map.empty"
  by (rule sidecar_not_clobbered [THEN conjunct1]) simp

theorem sidecar_saves_edits_witness:
  "cv_file (canvas_elapse 250 (fold canvas_step
     ([Settle (Some Map.empty), Flush, Edit (rename_section ''s'' ''T'')] @ [Flush, Wait 100, Focus None] @ [Flush])
     (canvas_mount None))) =
   Some (cv_sections (fold canvas_step
     ([Settle (Some Map.empty), Flush, Edit (rename_section ''s'' ''T'')] @ [Flush, Wait 100, Focus None] @ [Flush])
     (canvas_mount None)))"
  by (rule sidecar_saves_edits [OF _ _ refl]) simp_all

end
