(* ===== verification/Canvas_Focus.thy ===== *)
theory Canvas_Focus
  imports Canvas_State
begin

text \<open>
  The registries \<open>DesignCanvas\<close> builds from its children (which artboard a slot \<open>section/artboard\<close>
  names, the meta data and the order of the sections) and the navigation of \<open>DCFocusOverlay\<close>:
  left and right within a section, up and down across sections, Escape.
\<close>

record slot_entry =
  en_section :: string
  en_artboard :: string

record section_meta =
  mt_title :: "string option"
  mt_slots :: "string list"

record registries =
  rg_registry :: "string \<rightharpoonup> slot_entry"
  rg_meta :: "string \<rightharpoonup> section_meta"
  rg_order :: "string list"

definition slot_id :: "string \<Rightarrow> string \<Rightarrow> string" where
  "slot_id sid aid = sid @ ''/'' @ aid"

definition no_registries :: registries where
  "no_registries = \<lparr>rg_registry = Map.empty, rg_meta = Map.empty, rg_order = []\<rparr>"

definition register_slot :: "string \<Rightarrow> string \<Rightarrow> (string \<rightharpoonup> slot_entry) \<Rightarrow> (string \<rightharpoonup> slot_entry)" where
  "register_slot sid aid r = r(slot_id sid aid \<mapsto> \<lparr>en_section = sid, en_artboard = aid\<rparr>)"

text \<open>One child of the canvas; only sections with an identifier or a title count.\<close>

definition register_child :: "sections \<Rightarrow> child \<Rightarrow> registries \<Rightarrow> registries" where
  "register_child ss c rg =
     (case c of
        Section i t children \<Rightarrow>
          (case some_text (nullish i t) of
             [] \<Rightarrow> rg
           | sid # _ \<Rightarrow>
               rg\<lparr>rg_registry := fold (register_slot sid) (canvas_src (saved_of ss sid) children) (rg_registry rg),
                  rg_meta := (rg_meta rg)(sid \<mapsto>
                    \<lparr>mt_title = nullish (sv_title (saved_of ss sid)) t,
                     mt_slots = canvas_slots (saved_of ss sid) children\<rparr>),
                  rg_order := rg_order rg @ [sid]\<rparr>)
      | _ \<Rightarrow> rg)"

definition registries_of :: "sections \<Rightarrow> child list \<Rightarrow> registries" where
  "registries_of ss children = fold (register_child ss) (dc_flatten children) no_registries"

text \<open>The entry whose overlay is shown: \<open>state.focus && registry[state.focus]\<close>.\<close>

definition focused :: "registries \<Rightarrow> canvas \<Rightarrow> slot_entry option" where
  "focused rg c =
     (case cv_focus c of Some (x # xs) \<Rightarrow> rg_registry rg (x # xs) | _ \<Rightarrow> None)"

definition slots_of :: "registries \<Rightarrow> string \<Rightarrow> string list" where
  "slots_of rg sid = (case rg_meta rg sid of None \<Rightarrow> [] | Some m \<Rightarrow> mt_slots m)"

subsection \<open>Navigation\<close>

text \<open>
  \<open>go(d)\<close> for \<open>d\<close> of 1 or -1: \<open>peers[(idx + d + peers.length) % peers.length]\<close>. The result is the
  slot to focus, if any.
\<close>

definition go :: "registries \<Rightarrow> slot_entry \<Rightarrow> int \<Rightarrow> string option" where
  "go rg en d =
     (let peers = slots_of rg (en_section en); n = int (length peers);
          i = (index_of (en_artboard en) peers + d + n) mod n
      in if peers = [] then None else Some (slot_id (en_section en) (peers ! nat i)))"

text \<open>The loop of \<open>goSection\<close>: the first non-empty section at distance \<open>i\<close>, \<open>i + 1\<close>, and so on.\<close>

definition section_at :: "registries \<Rightarrow> int \<Rightarrow> int \<Rightarrow> nat \<Rightarrow> string" where
  "section_at rg sec_idx d i =
     (let n = int (length (rg_order rg)) in rg_order rg ! nat (((sec_idx + d * int i) mod n + n) mod n))"

definition first_slot :: "registries \<Rightarrow> string \<Rightarrow> string option" where
  "first_slot rg ns =
     (case slots_of rg ns of f # _ \<Rightarrow> if f = [] then None else Some (slot_id ns f) | [] \<Rightarrow> None)"

fun go_section_from :: "registries \<Rightarrow> int \<Rightarrow> int \<Rightarrow> nat \<Rightarrow> nat \<Rightarrow> string option" where
  "go_section_from rg sec_idx d i 0 = None"
| "go_section_from rg sec_idx d i (Suc k) =
     (case first_slot rg (section_at rg sec_idx d i) of
        Some s \<Rightarrow> Some s
      | None \<Rightarrow> go_section_from rg sec_idx d (Suc i) k)"

definition go_section :: "registries \<Rightarrow> slot_entry \<Rightarrow> int \<Rightarrow> string option" where
  "go_section rg en d =
     go_section_from rg (index_of (en_section en) (rg_order rg)) d 1 (length (rg_order rg) - 1)"

datatype nav_key = ArrowLeft | ArrowRight | ArrowUp | ArrowDown | Escape | OtherKey

text \<open>Key presses: the canvas's own listener and, while an entry is focused, the overlay's.\<close>

definition nav :: "registries \<Rightarrow> nav_key \<Rightarrow> canvas \<Rightarrow> canvas" where
  "nav rg k c =
     (let target = (case focused rg c of
          None \<Rightarrow> None
        | Some en \<Rightarrow>
            (case k of
               ArrowLeft \<Rightarrow> go rg en (-1) | ArrowRight \<Rightarrow> go rg en 1
             | ArrowUp \<Rightarrow> go_section rg en (-1) | ArrowDown \<Rightarrow> go_section rg en 1 | _ \<Rightarrow> None))
      in if k = Escape then set_focus None c
         else case target of None \<Rightarrow> c | Some s \<Rightarrow> set_focus (Some s) c)"

text \<open>\<open>Math.max(0.1, Math.min((vw - 200) / w, (vh - 260) / h, 2))\<close>\<close>

definition overlay_scale :: "jsnum \<Rightarrow> jsnum \<Rightarrow> jsnum \<Rightarrow> jsnum \<Rightarrow> jsnum" where
  "overlay_scale vw vh w h =
     js_max (Fin (fl (1 / 10)))
       (js_min (js_min (js_div (js_sub vw (Fin 200)) w) (js_div (js_sub vh (Fin 260)) h)) (Fin 2))"

subsection \<open>What the registries hold\<close>

lemma slot_id_inj:
  assumes "CHR ''/'' \<notin> set s" "CHR ''/'' \<notin> set t"
  shows "slot_id s a = slot_id t b \<longleftrightarrow> s = t \<and> a = b"
  using assms
proof (induction s arbitrary: t)
  case Nil
  then show ?case by (cases t) (auto simp: slot_id_def)
next
  case (Cons x xs)
  then show ?case by (cases t) (auto simp: slot_id_def)
qed

lemma register_slots:
  "fold (register_slot sid) aids r k =
     (if k \<in> slot_id sid ` set aids
      then Some \<lparr>en_section = sid, en_artboard = drop (length sid + 1) k\<rparr> else r k)"
  by (induction aids arbitrary: r) (auto simp: register_slot_def slot_id_def)

text \<open>Every slot of a section that the meta data lists is registered, for that section.\<close>

definition registered :: "registries \<Rightarrow> bool" where
  "registered rg \<longleftrightarrow>
     set (rg_order rg) = dom (rg_meta rg) \<and>
     (\<forall>sid \<in> set (rg_order rg). CHR ''/'' \<notin> set sid) \<and>
     (\<forall>sid aid. aid \<in> set (slots_of rg sid) \<longrightarrow>
        rg_registry rg (slot_id sid aid) = Some \<lparr>en_section = sid, en_artboard = aid\<rparr>)"

definition section_ids_ok :: "child list \<Rightarrow> bool" where
  "section_ids_ok children \<longleftrightarrow>
     list_all (\<lambda>c. case c of Section i t _ \<Rightarrow> list_all (\<lambda>s. CHR ''/'' \<notin> set s) (some_text (nullish i t)) | _ \<Rightarrow> True)
       (dc_flatten children)"

lemma registered_child:
  assumes "registered rg"
    and "case c of Section i t _ \<Rightarrow> list_all (\<lambda>s. CHR ''/'' \<notin> set s) (some_text (nullish i t)) | _ \<Rightarrow> True"
  shows "registered (register_child ss c rg)"
proof (cases "\<exists>i t cs sid r. c = Section i t cs \<and> some_text (nullish i t) = sid # r")
  case True
  then obtain i t cs sid r where c: "c = Section i t cs" "some_text (nullish i t) = sid # r" by blast
  then have sid: "CHR ''/'' \<notin> set sid" using assms(2) by simp
  have reg: "slot_id s a \<notin> slot_id sid ` A" if "s \<noteq> sid" "s \<in> set (rg_order rg)" for s a A
  proof -
    have "CHR ''/'' \<notin> set s" using that(2) assms(1) by (simp add: registered_def)
    with that(1) show ?thesis using slot_id_inj [OF _ sid, of s a] by auto
  qed
  have mem: "s \<in> set (rg_order rg)" if "a \<in> set (slots_of rg s)" for s a
    using that assms(1) by (auto simp: registered_def slots_of_def split: option.splits)
  show ?thesis
    using assms(1) sid reg mem
    by (auto simp: c register_child_def registered_def slots_of_def register_slots slot_id_def
        canvas_slots_def split: if_splits)
next
  case False
  then have "register_child ss c rg = rg"
    by (auto simp: register_child_def split: child.split list.split)
  with assms(1) show ?thesis by simp
qed

lemma registered_fold:
  assumes "registered rg"
    and "list_all (\<lambda>c. case c of Section i t _ \<Rightarrow> list_all (\<lambda>s. CHR ''/'' \<notin> set s) (some_text (nullish i t)) | _ \<Rightarrow> True) cs"
  shows "registered (fold (register_child ss) cs rg)"
  using assms
proof (induction cs arbitrary: rg)
  case (Cons c cs)
  then show ?case using registered_child [of rg c ss] by simp
qed simp

lemma registered_of: "section_ids_ok children \<Longrightarrow> registered (registries_of ss children)"
  unfolding registries_of_def section_ids_ok_def
  by (rule registered_fold) (simp_all add: registered_def no_registries_def slots_of_def)

subsection \<open>Moving the focus\<close>

definition valid_entry :: "registries \<Rightarrow> slot_entry \<Rightarrow> bool" where
  "valid_entry rg en \<longleftrightarrow> en_artboard en \<in> set (slots_of rg (en_section en))"

lemma focused_slot:
  assumes "registered rg" "aid \<in> set (slots_of rg sid)"
  shows "focused rg (set_focus (Some (slot_id sid aid)) c) = Some \<lparr>en_section = sid, en_artboard = aid\<rparr>"
proof -
  obtain x xs where "slot_id sid aid = x # xs" by (cases "slot_id sid aid") (auto simp: slot_id_def)
  with assms show ?thesis by (simp add: focused_def set_focus_def registered_def) metis
qed

lemma go_index:
  assumes "valid_entry rg en" "d = 1 \<or> d = -1"
  shows "go rg en d = Some (slot_id (en_section en)
      (slots_of rg (en_section en) !
        nat ((index_of (en_artboard en) (slots_of rg (en_section en)) + d) mod
          int (length (slots_of rg (en_section en))))))"
    and "nat ((index_of (en_artboard en) (slots_of rg (en_section en)) + d) mod
          int (length (slots_of rg (en_section en)))) < length (slots_of rg (en_section en))"
proof -
  have ne: "slots_of rg (en_section en) \<noteq> []" using assms(1) by (auto simp: valid_entry_def)
  then show "go rg en d = Some (slot_id (en_section en)
      (slots_of rg (en_section en) !
        nat ((index_of (en_artboard en) (slots_of rg (en_section en)) + d) mod
          int (length (slots_of rg (en_section en))))))"
    by (simp add: go_def Let_def)
  have "0 < int (length (slots_of rg (en_section en)))" using ne by simp
  then have "0 \<le> x mod int (length (slots_of rg (en_section en))) \<and>
      x mod int (length (slots_of rg (en_section en))) < int (length (slots_of rg (en_section en)))" for x
    by simp
  then show "nat ((index_of (en_artboard en) (slots_of rg (en_section en)) + d) mod
          int (length (slots_of rg (en_section en)))) < length (slots_of rg (en_section en))"
    by (simp add: nat_less_iff)
qed

lemma go_target:
  assumes "valid_entry rg en" "d = 1 \<or> d = -1" "go rg en d = Some s"
  shows "\<exists>aid \<in> set (slots_of rg (en_section en)). s = slot_id (en_section en) aid"
  using go_index [OF assms(1,2)] assms(3) nth_mem by fastforce

lemma first_slot_Some:
  assumes "first_slot rg ns = Some s"
  obtains aid where "s = slot_id ns aid" "aid \<in> set (slots_of rg ns)"
  using assms by (auto simp: first_slot_def split: list.splits if_splits)

lemma go_section_from_Some:
  assumes "go_section_from rg idx d i k = Some s"
  obtains j where "i \<le> j" "j < i + k" "first_slot rg (section_at rg idx d j) = Some s"
    "\<forall>l. i \<le> l \<and> l < j \<longrightarrow> first_slot rg (section_at rg idx d l) = None"
  using assms
proof (induction k arbitrary: i thesis)
  case (Suc k)
  show ?case
  proof (cases "first_slot rg (section_at rg idx d i)")
    case None
    with Suc.prems(2) have "go_section_from rg idx d (Suc i) k = Some s" by simp
    then obtain j where "Suc i \<le> j" "j < Suc i + k" "first_slot rg (section_at rg idx d j) = Some s"
      "\<forall>l. Suc i \<le> l \<and> l < j \<longrightarrow> first_slot rg (section_at rg idx d l) = None"
      by (rule Suc.IH [rotated])
    moreover have "first_slot rg (section_at rg idx d l) = None" if "i \<le> l" "l < j" for l
      using that None calculation(4) by (cases "l = i") auto
    ultimately show ?thesis by (intro Suc.prems(1) [of j]) auto
  next
    case (Some t)
    with Suc.prems(2) show ?thesis by (intro Suc.prems(1) [of i]) auto
  qed
qed simp

lemma go_section_from_None:
  "go_section_from rg idx d i k = None \<Longrightarrow> i \<le> j \<Longrightarrow> j < i + k \<Longrightarrow>
     first_slot rg (section_at rg idx d j) = None"
proof (induction k arbitrary: i)
  case (Suc k)
  then show ?case by (cases "j = i") (auto split: option.splits)
qed simp

lemma nav_focus:
  assumes "registered rg" "focused rg c = Some en" "valid_entry rg en" "k \<noteq> Escape"
  obtains en' where "focused rg (nav rg k c) = Some en'" "valid_entry rg en'"
proof -
  let ?target = "case k of
      ArrowLeft \<Rightarrow> go rg en (-1) | ArrowRight \<Rightarrow> go rg en 1
    | ArrowUp \<Rightarrow> go_section rg en (-1) | ArrowDown \<Rightarrow> go_section rg en 1 | _ \<Rightarrow> None"
  have "\<exists>sid aid. s = slot_id sid aid \<and> aid \<in> set (slots_of rg sid)" if "?target = Some s" for s
  proof -
    from that consider d where "d = 1 \<or> d = -1" "go rg en d = Some s" | d where "go_section rg en d = Some s"
      by (cases k) auto
    then show ?thesis
    proof cases
      case 1
      then show ?thesis using go_target [OF assms(3)] by blast
    next
      case 2
      then show ?thesis unfolding go_section_def
        by (elim go_section_from_Some first_slot_Some) blast
    qed
  qed
  then show ?thesis
    using assms that focused_slot [OF assms(1)]
    by (cases ?target) (auto simp: nav_def Let_def valid_entry_def)
qed

text \<open>Any number of key presses other than Escape.\<close>

lemma nav_run:
  assumes "registered rg" "focused rg c = Some en" "valid_entry rg en" "Escape \<notin> set ks"
  shows "\<exists>en'. focused rg (fold (nav rg) ks c) = Some en' \<and> valid_entry rg en'"
  using assms(2-4)
proof (induction ks arbitrary: c en)
  case (Cons k ks)
  from nav_focus [OF assms(1) Cons.prems(1,2), of k] Cons.prems(3)
  obtain en' where "focused rg (nav rg k c) = Some en'" "valid_entry rg en'" by auto
  with Cons show ?case by simp
qed auto

lemma nav_right:
  assumes "registered rg" "distinct (slots_of rg sid)" "j < length (slots_of rg sid)"
    and "cv_focus c = Some (slot_id sid (slots_of rg sid ! j))"
  shows "cv_focus (nav rg ArrowRight c) = Some (slot_id sid (slots_of rg sid ! (Suc j mod length (slots_of rg sid))))"
proof -
  let ?s = "slots_of rg sid"
  have f: "focused rg c = Some \<lparr>en_section = sid, en_artboard = ?s ! j\<rparr>"
    using focused_slot [OF assms(1) nth_mem [OF assms(3)], of c] assms(4)
    by (simp add: set_focus_def focused_def)
  have "valid_entry rg \<lparr>en_section = sid, en_artboard = ?s ! j\<rparr>"
    using assms(3) by (simp add: valid_entry_def)
  from go_index(1) [OF this, of 1]
  have "go rg \<lparr>en_section = sid, en_artboard = ?s ! j\<rparr> 1 =
      Some (slot_id sid (?s ! nat ((int j + 1) mod int (length ?s))))"
    using index_of_nth [OF assms(2,3)] by simp
  also have "nat ((int j + 1) mod int (length ?s)) = Suc j mod length ?s"
    by (metis Suc_eq_plus1 nat_int of_nat_1 of_nat_add zmod_int)
  finally show ?thesis using f by (simp add: nav_def set_focus_def)
qed

subsection \<open>Properties of the focus\<close>

text \<open>
  However the saved sections look, from a focused artboard that its section shows no sequence
  of arrow and other keys leads anywhere but to an artboard that is registered and shown by its
  section, so the overlay never closes by itself; section identifiers must not contain a slash.
\<close>

theorem focus_stays_valid:
  assumes "section_ids_ok children" "rg = registries_of ss children"
    and "focused rg c = Some en" "valid_entry rg en" "Escape \<notin> set ks"
  shows "\<exists>en'. focused rg (fold (nav rg) ks c) = Some en' \<and> valid_entry rg en'"
  unfolding assms(2) by (rule nav_run) (use assms registered_of in \<open>simp_all\<close>)

text \<open>
  The right arrow goes through the artboards of a section in their order and around: after \<open>i\<close>
  presses from the \<open>j\<close>-th of \<open>n\<close> artboards the focus is on number \<open>(j + i) mod n\<close>.
\<close>

theorem focus_cycles:
  assumes "section_ids_ok children" "rg = registries_of ss children"
    and "distinct (slots_of rg sid)" "j < length (slots_of rg sid)"
    and "cv_focus c = Some (slot_id sid (slots_of rg sid ! j))"
  shows "cv_focus ((nav rg ArrowRight ^^ i) c) =
    Some (slot_id sid (slots_of rg sid ! ((j + i) mod length (slots_of rg sid))))"
proof (induction i)
  case 0
  then show ?case using assms(4,5) by simp
next
  case (Suc i)
  have reg: "registered rg" unfolding assms(2) by (rule registered_of [OF assms(1)])
  have pos: "0 < length (slots_of rg sid)" using assms(4) by linarith
  have "Suc ((j + i) mod length (slots_of rg sid)) mod length (slots_of rg sid)
      = (j + Suc i) mod length (slots_of rg sid)"
    by (simp add: mod_Suc_eq)
  then show ?case
    using nav_right [OF reg assms(3) _ Suc.IH] pos by simp
qed

text \<open>
  The up and down arrows go to the first artboard of the nearest other section, in the
  direction of the key and around, that has artboards left; if there is none the focus stays.
\<close>

theorem section_keys_skip_empty:
  "(go_section rg en d = None \<longleftrightarrow>
      (\<forall>j. 1 \<le> j \<and> j < length (rg_order rg) \<longrightarrow>
         first_slot rg (section_at rg (index_of (en_section en) (rg_order rg)) d j) = None)) \<and>
   (\<forall>s. go_section rg en d = Some s \<longrightarrow>
      (\<exists>j. 1 \<le> j \<and> j < length (rg_order rg) \<and>
         first_slot rg (section_at rg (index_of (en_section en) (rg_order rg)) d j) = Some s \<and>
         (\<forall>l. 1 \<le> l \<and> l < j \<longrightarrow>
            first_slot rg (section_at rg (index_of (en_section en) (rg_order rg)) d l) = None)))"
proof -
  let ?f = "\<lambda>j. first_slot rg (section_at rg (index_of (en_section en) (rg_order rg)) d j)"
  have some: "\<exists>j. 1 \<le> j \<and> j < length (rg_order rg) \<and> ?f j = Some s \<and> (\<forall>l. 1 \<le> l \<and> l < j \<longrightarrow> ?f l = None)"
    if "go_section rg en d = Some s" for s
  proof -
    from that obtain j where j: "1 \<le> j" "j < 1 + (length (rg_order rg) - 1)" "?f j = Some s"
      "\<forall>l. 1 \<le> l \<and> l < j \<longrightarrow> ?f l = None"
      unfolding go_section_def by (rule go_section_from_Some)
    then have "j < length (rg_order rg)" by linarith
    with j show ?thesis by blast
  qed
  have none: "?f j = None" if "go_section rg en d = None" "1 \<le> j" "j < length (rg_order rg)" for j
    using go_section_from_None [OF that(1) [unfolded go_section_def] that(2)] that(3) by simp
  show ?thesis using some none by (metis not_None_eq)
qed

subsection \<open>An instance\<close>

definition focus_children :: "child list" where
  "focus_children = [Section (Some ''s'') None demo_children, Section (Some ''e'') None [],
     Fragment [Section None (Some ''t'') [Artboard (Some ''x'') None]]]"

definition focus_regs :: registries where
  "focus_regs = registries_of Map.empty focus_children"

lemma focus_demo:
  "section_ids_ok focus_children" "slots_of focus_regs ''s'' = [''a'', ''b'', ''c'']"
  "rg_registry focus_regs (slot_id ''s'' ''b'') = Some \<lparr>en_section = ''s'', en_artboard = ''b''\<rparr>"
  by code_simp+

theorem focus_stays_valid_witness:
  "\<exists>en'. focused focus_regs (fold (nav focus_regs) [ArrowRight, ArrowDown, OtherKey, ArrowUp, ArrowLeft]
      (set_focus (Some (slot_id ''s'' ''b'')) (canvas_mount None))) = Some en' \<and> valid_entry focus_regs en'"
  by (rule focus_stays_valid [OF focus_demo(1) focus_regs_def, where en = "\<lparr>en_section = ''s'', en_artboard = ''b''\<rparr>"])
    (use focus_demo(3) in \<open>simp_all add: focused_def set_focus_def valid_entry_def focus_demo(2) slot_id_def\<close>)

theorem focus_cycles_witness:
  "cv_focus ((nav focus_regs ArrowRight ^^ 4) (set_focus (Some (slot_id ''s'' ''b'')) (canvas_mount None)))
     = Some (slot_id ''s'' ''c'')"
  using focus_cycles [OF focus_demo(1) focus_regs_def, of "''s''" 1 "set_focus (Some (slot_id ''s'' ''b'')) (canvas_mount None)" 4]
  by (simp add: focus_demo(2) set_focus_def)

theorem section_keys_skip_empty_witness:
  "go_section focus_regs \<lparr>en_section = ''s'', en_artboard = ''b''\<rparr> 1 \<noteq> None"
proof -
  have "rg_order focus_regs = [''s'', ''e'', ''t'']"
    and "first_slot focus_regs (section_at focus_regs 0 1 2) = Some (slot_id ''t'' ''x'')" by code_simp+
  then show ?thesis
    using section_keys_skip_empty [of focus_regs "\<lparr>en_section = ''s'', en_artboard = ''b''\<rparr>" 1]
    by fastforce
qed

end
