(* ===== verification/Canvas_Frame.thy ===== *)
theory Canvas_Frame
  imports Canvas_Focus
begin

text \<open>
  An artboard's frame (\<open>DCArtboardFrame\<close>): dragging it to another place in its section, its menu
  with the delete button that wants two clicks, the inline editor of its label, and the name of an
  exported file.
\<close>

subsection \<open>Dragging\<close>

record home =
  hm_id :: string
  hm_x :: jsnum

text \<open>
  A drag in progress: the identifier, the order at its start, the homes of the cards of the section
  in document order, the pointer's start, the scale, the live order and the shifts given to cards.
\<close>

record grip =
  gr_id :: string
  gr_order :: "string list"
  gr_homes :: "home list"
  gr_start :: jsnum
  gr_scale :: jsnum
  gr_live :: "string list"
  gr_shift :: "string \<rightharpoonup> jsnum"

text \<open>\<open>getBoundingClientRect().width / offsetWidth || 1\<close>\<close>

definition grip_scale :: "jsnum \<Rightarrow> jsnum \<Rightarrow> jsnum" where
  "grip_scale w ow = js_or (js_div w ow) (Fin 1)"

definition grip_down :: "string \<Rightarrow> string list \<Rightarrow> home list \<Rightarrow> jsnum \<Rightarrow> jsnum \<Rightarrow> jsnum \<Rightarrow> grip" where
  "grip_down i order homes x w ow =
     \<lparr>gr_id = i, gr_order = order, gr_homes = homes, gr_start = x, gr_scale = grip_scale w ow,
      gr_live = order, gr_shift = Map.empty\<rparr>"

text \<open>The loop that looks for the nearest slot: index, best distance and nearest index so far.\<close>

fun nearest_from :: "jsnum \<Rightarrow> jsnum list \<Rightarrow> nat \<Rightarrow> jsnum \<Rightarrow> nat \<Rightarrow> nat" where
  "nearest_from cur [] i best nearest = nearest"
| "nearest_from cur (x # xs) i best nearest =
     (let d = js_abs (js_sub x cur)
      in if js_lt d best then nearest_from cur xs (Suc i) d i
         else nearest_from cur xs (Suc i) best nearest)"

definition nearest_slot :: "jsnum \<Rightarrow> jsnum list \<Rightarrow> nat" where
  "nearest_slot cur xs = nearest_from cur xs 0 Inf 0"

definition home_x :: "grip \<Rightarrow> jsnum" where
  "home_x g = hm_x (gr_homes g ! nat (index_of (gr_id g) (gr_order g)))"

text \<open>\<open>layout\<close>: the other cards move to the slots of the live order.\<close>

definition grip_layout :: "grip \<Rightarrow> grip" where
  "grip_layout g =
     g\<lparr>gr_shift := fold (\<lambda>h m.
         if hm_id h = gr_id g then m
         else m(hm_id h \<mapsto> js_div (js_sub (hm_x (gr_homes g ! nat (index_of (hm_id h) (gr_live g)))) (hm_x h))
                              (gr_scale g)))
       (gr_homes g) (gr_shift g)\<rparr>"

definition grip_move :: "jsnum \<Rightarrow> grip \<Rightarrow> grip" where
  "grip_move x g =
     (let dx = js_sub x (gr_start g);
          g1 = g\<lparr>gr_shift := (gr_shift g)(gr_id g \<mapsto> js_div dx (gr_scale g))\<rparr>;
          n = nearest_slot (js_add (home_x g) dx) (map hm_x (gr_homes g))
      in if index_of (gr_id g) (gr_live g) \<noteq> int n
         then grip_layout (g1\<lparr>gr_live := splice_in n (gr_id g) (filter (\<lambda>k. k \<noteq> gr_id g) (gr_order g))\<rparr>)
         else g1)"

text \<open>\<open>liveOrder.join('|') !== order.join('|')\<close> decides whether the drop is committed.\<close>

definition grip_up :: "grip \<Rightarrow> string list option" where
  "grip_up g =
     (if join_with ''|'' (gr_live g) \<noteq> join_with ''|'' (gr_order g) then Some (gr_live g) else None)"

definition drop_artboard :: "string \<Rightarrow> grip \<Rightarrow> sections \<Rightarrow> sections" where
  "drop_artboard sid g ss = (case grip_up g of None \<Rightarrow> ss | Some nxt \<Rightarrow> reorder_section sid nxt ss)"

subsection \<open>The nearest slot\<close>

lemma nearest_from_le:
  "nearest \<le> i \<Longrightarrow> nearest_from cur xs i best nearest < i + length xs \<or>
     nearest_from cur xs i best nearest = nearest"
proof (induction xs arbitrary: i best nearest)
  case (Cons x xs)
  show ?case
    using Cons.IH [of i "Suc i" "js_abs (js_sub x cur)"] Cons.IH [of nearest "Suc i" best] Cons.prems
    by (auto simp: Let_def)
qed simp

lemma nearest_slot_less: "xs \<noteq> [] \<Longrightarrow> nearest_slot cur xs < length xs"
  using nearest_from_le [of 0 0 cur xs Inf] by (auto simp: nearest_slot_def)

text \<open>Distances that compare like numbers.\<close>

definition slot_dist :: "jsnum \<Rightarrow> jsnum \<Rightarrow> jsnum" where
  "slot_dist cur x = js_abs (js_sub x cur)"

text \<open>The index \<open>j\<close> of the first smallest distance of \<open>xs\<close>.\<close>

definition first_nearest :: "jsnum \<Rightarrow> jsnum list \<Rightarrow> nat \<Rightarrow> bool" where
  "first_nearest cur xs j \<longleftrightarrow> j < length xs \<and>
     (\<forall>x \<in> set xs. val (slot_dist cur (xs ! j)) \<le> val (slot_dist cur x)) \<and>
     (\<forall>l < j. val (slot_dist cur (xs ! j)) < val (slot_dist cur (xs ! l)))"

lemma first_nearest_Suc:
  "first_nearest cur xs j \<Longrightarrow> val (slot_dist cur (xs ! j)) < val (slot_dist cur x) \<Longrightarrow>
     first_nearest cur (x # xs) (Suc j)"
  by (auto simp: first_nearest_def less_Suc_eq_0_disj)

lemma nearest_from_min:
  assumes "\<forall>x \<in> set xs. is_finite (slot_dist cur x)" "is_finite best"
  shows "nearest_from cur xs i best nearest = nearest \<and> (\<forall>x \<in> set xs. val best \<le> val (slot_dist cur x)) \<or>
    (\<exists>j. nearest_from cur xs i best nearest = i + j \<and> val (slot_dist cur (xs ! j)) < val best \<and>
       first_nearest cur xs j)"
  using assms
proof (induction xs arbitrary: i best nearest)
  case (Cons x xs)
  have fx: "is_finite (slot_dist cur x)" "\<forall>x \<in> set xs. is_finite (slot_dist cur x)"
    using Cons.prems(1) by simp_all
  show ?case
  proof (cases "val (slot_dist cur x) < val best")
    case True
    then have step: "nearest_from cur (x # xs) i best nearest = nearest_from cur xs (Suc i) (slot_dist cur x) i"
      using js_lt_finite [OF fx(1) Cons.prems(2)] by (simp add: slot_dist_def Let_def)
    from Cons.IH [OF fx(2,1), of "Suc i" i] show ?thesis
    proof (elim disjE exE conjE)
      assume "nearest_from cur xs (Suc i) (slot_dist cur x) i = i" "\<forall>y \<in> set xs. val (slot_dist cur x) \<le> val (slot_dist cur y)"
      then show ?thesis unfolding step using True
        by (intro disjI2 exI [of _ 0]) (auto simp: first_nearest_def)
    next
      fix j
      assume "nearest_from cur xs (Suc i) (slot_dist cur x) i = Suc i + j"
        "val (slot_dist cur (xs ! j)) < val (slot_dist cur x)" "first_nearest cur xs j"
      then show ?thesis unfolding step using True
        by (intro disjI2 exI [of _ "Suc j"]) (simp add: first_nearest_Suc)
    qed
  next
    case False
    then have step: "nearest_from cur (x # xs) i best nearest = nearest_from cur xs (Suc i) best nearest"
      using js_lt_finite [OF fx(1) Cons.prems(2)] by (simp add: slot_dist_def Let_def)
    from Cons.IH [OF fx(2) Cons.prems(2), of "Suc i" nearest] show ?thesis
    proof (elim disjE exE conjE)
      assume "nearest_from cur xs (Suc i) best nearest = nearest" "\<forall>y \<in> set xs. val best \<le> val (slot_dist cur y)"
      then show ?thesis unfolding step using False by (intro disjI1) auto
    next
      fix j
      assume "nearest_from cur xs (Suc i) best nearest = Suc i + j"
        "val (slot_dist cur (xs ! j)) < val best" "first_nearest cur xs j"
      then show ?thesis unfolding step using False
        by (intro disjI2 exI [of _ "Suc j"]) (auto intro!: first_nearest_Suc)
    qed
  qed
qed simp

lemma nearest_slot_first:
  assumes "xs \<noteq> []" "\<forall>x \<in> set xs. is_finite (slot_dist cur x)"
  shows "first_nearest cur xs (nearest_slot cur xs)"
proof -
  obtain y ys where xs: "xs = y # ys" using assms(1) by (cases xs) auto
  have fy: "is_finite (slot_dist cur y)" "\<forall>x \<in> set ys. is_finite (slot_dist cur x)" using assms(2) by (auto simp: xs)
  have "js_lt (slot_dist cur y) Inf" using fy(1) by (cases "slot_dist cur y") auto
  then have n: "nearest_slot cur xs = nearest_from cur ys 1 (slot_dist cur y) 0"
    by (simp add: nearest_slot_def xs slot_dist_def Let_def)
  from nearest_from_min [OF fy(2,1), of 1 0] show ?thesis
  proof (elim disjE exE conjE)
    assume "nearest_from cur ys 1 (slot_dist cur y) 0 = 0" "\<forall>x \<in> set ys. val (slot_dist cur y) \<le> val (slot_dist cur x)"
    then show ?thesis unfolding n by (simp add: xs first_nearest_def)
  next
    fix j
    assume "nearest_from cur ys 1 (slot_dist cur y) 0 = 1 + j"
      "val (slot_dist cur (ys ! j)) < val (slot_dist cur y)" "first_nearest cur ys j"
    then show ?thesis unfolding n by (simp add: xs first_nearest_Suc)
  qed
qed

subsection \<open>The live order\<close>

lemma splice_in_order:
  assumes "distinct order" "i \<in> set order"
  shows "order = splice_in (nat (index_of i order)) i (filter (\<lambda>k. k \<noteq> i) order)"
proof -
  obtain us vs where o: "order = us @ i # vs" "i \<notin> set us" using split_list_first [OF assms(2)] by blast
  have "i \<notin> set vs" using assms(1) o by simp
  then have f: "filter (\<lambda>k. k \<noteq> i) order = us @ vs"
    using o by (simp, metis (mono_tags, lifting) filter_True)
  have "index_of (order ! length us) order = int (length us)"
    by (rule index_of_nth [OF assms(1)]) (simp add: o(1))
  then show ?thesis by (simp add: f splice_in_def) (simp add: o(1))
qed

definition grip_ok :: "grip \<Rightarrow> bool" where
  "grip_ok g \<longleftrightarrow> distinct (gr_order g) \<and> gr_id g \<in> set (gr_order g) \<and>
     length (gr_homes g) = length (gr_order g) \<and>
     (\<exists>n < length (gr_order g). gr_live g = splice_in n (gr_id g) (filter (\<lambda>k. k \<noteq> gr_id g) (gr_order g)))"

lemma grip_layout_simps [simp]:
  "gr_id (grip_layout g) = gr_id g" "gr_order (grip_layout g) = gr_order g"
  "gr_homes (grip_layout g) = gr_homes g" "gr_live (grip_layout g) = gr_live g"
  "gr_start (grip_layout g) = gr_start g"
  by (simp_all add: grip_layout_def)

lemma grip_move_simps [simp]:
  "gr_id (grip_move x g) = gr_id g" "gr_order (grip_move x g) = gr_order g"
  "gr_homes (grip_move x g) = gr_homes g" "gr_start (grip_move x g) = gr_start g"
  by (simp_all add: grip_move_def Let_def)

lemma length_filter_remove:
  "distinct xs \<Longrightarrow> x \<in> set xs \<Longrightarrow> Suc (length (filter (\<lambda>k. k \<noteq> x) xs)) = length xs"
  using mset_filter_remove [of xs x] by (metis size_add_mset size_mset)

lemma grip_ok_down:
  assumes "distinct order" "i \<in> set order" "length homes = length order"
  shows "grip_ok (grip_down i order homes x w ow)"
proof -
  have "nat (index_of i order) < length order"
    using index_of_bounds [of i order] index_of_nonneg [OF assms(2)] by linarith
  with assms splice_in_order [OF assms(1,2)] show ?thesis
    by (auto simp: grip_ok_def grip_down_def)
qed

text \<open>The slot under the dragged card when the pointer is at \<open>x\<close>.\<close>

definition grip_slot :: "jsnum \<Rightarrow> grip \<Rightarrow> nat" where
  "grip_slot x g = nearest_slot (js_add (home_x g) (js_sub x (gr_start g))) (map hm_x (gr_homes g))"

lemma grip_move_live:
  assumes "grip_ok g"
  shows "gr_live (grip_move x g) = splice_in (grip_slot x g) (gr_id g) (filter (\<lambda>k. k \<noteq> gr_id g) (gr_order g))"
    and "grip_ok (grip_move x g)"
proof -
  let ?f = "filter (\<lambda>k. k \<noteq> gr_id g) (gr_order g)"
  have g: "distinct (gr_order g)" "gr_id g \<in> set (gr_order g)" "length (gr_homes g) = length (gr_order g)"
    using assms by (simp_all add: grip_ok_def)
  obtain n where n: "n < length (gr_order g)" "gr_live g = splice_in n (gr_id g) ?f"
    using assms by (auto simp: grip_ok_def)
  have "n \<le> length ?f" using n(1) length_filter_remove [OF g(1,2)] by simp
  then have idx: "index_of (gr_id g) (gr_live g) = int n"
    unfolding n(2) by (intro index_of_splice_in) simp_all
  show live: "gr_live (grip_move x g) = splice_in (grip_slot x g) (gr_id g) ?f"
    using idx n(2) by (auto simp: grip_move_def grip_slot_def home_x_def Let_def)
  have "gr_homes g \<noteq> []" using g(2,3) by auto
  then have "grip_slot x g < length (gr_order g)"
    using nearest_slot_less [of "map hm_x (gr_homes g)"] g(3) by (simp add: grip_slot_def)
  with live g show "grip_ok (grip_move x g)" by (auto simp: grip_ok_def)
qed

lemma grip_ok_moves: "grip_ok g \<Longrightarrow> grip_ok (fold grip_move xs g)"
  by (induction xs arbitrary: g) (simp_all add: grip_move_live(2))

lemma grip_moves_simps [simp]:
  "gr_id (fold grip_move xs g) = gr_id g" "gr_order (fold grip_move xs g) = gr_order g"
  "gr_homes (fold grip_move xs g) = gr_homes g" "gr_start (fold grip_move xs g) = gr_start g"
  by (induction xs arbitrary: g) simp_all

lemma grip_ok_perm: "grip_ok g \<Longrightarrow> mset (gr_live g) = mset (gr_order g)"
  by (auto simp: grip_ok_def mset_splice_in mset_filter_remove simp del: mset_filter)

subsection \<open>Properties of dragging\<close>

text \<open>
  C31. However the pointer has moved before, with the pointer at \<open>x\<close> the live order is the original one
  with the dragged card taken out and put into the slot nearest to its position, the first of the
  nearest ones; it is always a rearrangement of the original order.
\<close>

theorem drag_live_order:
  assumes "distinct order" "i \<in> set order" "length homes = length order"
    and "g = fold grip_move (xs @ [x]) (grip_down i order homes x0 w ow)"
    and "cur = js_add (hm_x (homes ! nat (index_of i order))) (js_sub x x0)"
    and "\<forall>h \<in> set homes. is_finite (slot_dist cur (hm_x h))"
  shows "\<exists>n. first_nearest cur (map hm_x homes) n \<and>
    gr_live g = splice_in n i (filter (\<lambda>k. k \<noteq> i) order) \<and> mset (gr_live g) = mset order"
proof -
  let ?g = "fold grip_move xs (grip_down i order homes x0 w ow)"
  have ok: "grip_ok ?g" by (intro grip_ok_moves grip_ok_down assms(1-3))
  have simps: "gr_id ?g = i" "gr_order ?g = order" "gr_homes ?g = homes" "gr_start ?g = x0"
    by (simp_all add: grip_down_def)
  have g: "g = grip_move x ?g" using assms(4) by simp
  have s: "grip_slot x ?g = nearest_slot cur (map hm_x homes)"
    by (simp only: grip_slot_def home_x_def simps assms(5))
  have "homes \<noteq> []" using assms(2,3) by auto
  then have "first_nearest cur (map hm_x homes) (grip_slot x ?g)"
    unfolding s using assms(6) by (intro nearest_slot_first) auto
  moreover have "gr_live g = splice_in (grip_slot x ?g) i (filter (\<lambda>k. k \<noteq> i) order)"
    unfolding g grip_move_live(1) [OF ok] simps ..
  moreover have "mset (gr_live g) = mset order"
    using grip_ok_perm [OF grip_move_live(2) [OF ok, of x]] unfolding g grip_move_simps simps .
  ultimately show ?thesis by blast
qed

text \<open>
  After a drag in a section whose identifiers contain no vertical bar, the section shows the live
  order of the drag once the card is dropped, and the drop writes nothing when the order did not
  change.
\<close>

theorem drop_commits:
  assumes "order = canvas_slots (saved_of ss sid) children" "distinct order" "i \<in> set order"
    and "length homes = length order" "list_all (\<lambda>k. CHR ''|'' \<notin> set k) order"
    and "g = fold grip_move xs (grip_down i order homes x0 w ow)"
  shows "canvas_slots (saved_of (drop_artboard sid g ss) sid) children = gr_live g \<and>
    (gr_live g = order \<longrightarrow> drop_artboard sid g ss = ss)"
proof -
  have ok: "grip_ok g" unfolding assms(6) by (intro grip_ok_moves grip_ok_down assms(2-4))
  have ord: "gr_order g = order" by (simp add: assms(6) grip_down_def)
  have m: "mset (gr_live g) = mset order" using grip_ok_perm [OF ok] ord by simp
  then have set: "set (gr_live g) = set order" by (metis set_mset_mset)
  have "gr_live g \<noteq> []" "order \<noteq> []" using set assms(3) by auto
  moreover have "list_all (\<lambda>k. CHR ''|'' \<notin> set k) (gr_live g)" using assms(5) set by (simp add: list_all_iff)
  ultimately have up: "grip_up g = (if gr_live g = order then None else Some (gr_live g))"
    using join_inj [of "gr_live g" order "CHR ''|''"] assms(5) by (simp add: grip_up_def ord)
  show ?thesis
  proof (cases "gr_live g = order")
    case True
    then show ?thesis using up assms(1) by (simp add: drop_artboard_def)
  next
    case False
    have "canvas_slots (saved_of (reorder_section sid (gr_live g) ss) sid) children = gr_live g"
      using set assms(1) by (simp add: canvas_slots_def reorder_section_def merge_order_id canvas_src_def
          canvas_hidden_def)
    with False up show ?thesis by (simp add: drop_artboard_def)
  qed
qed

text \<open>
  With identifiers that contain the separator the comparison of the joined orders can miss a change:
  the artboards \<open>a\<close> and \<open>a|a\<close> are exchanged on the screen, but the drop is not committed.
\<close>

theorem drop_lost:
  "gr_live (grip_move (Fin 4) (grip_down ''a'' [''a'', ''a|a'']
      [\<lparr>hm_id = ''a'', hm_x = Fin 0\<rparr>, \<lparr>hm_id = ''a|a'', hm_x = Fin 4\<rparr>] (Fin 0) (Fin 1) (Fin 1)))
     = [''a|a'', ''a''] \<and>
   grip_up (grip_move (Fin 4) (grip_down ''a'' [''a'', ''a|a'']
      [\<lparr>hm_id = ''a'', hm_x = Fin 0\<rparr>, \<lparr>hm_id = ''a|a'', hm_x = Fin 4\<rparr>] (Fin 0) (Fin 1) (Fin 1)))
     = None"
  by code_simp

subsection \<open>The menu\<close>

text \<open>
  The menu of a frame: whether it is open, whether its delete button is armed, and how many times
  \<open>onDelete\<close> was called. Its buttons exist only while it is open; the effect on \<open>menuOpen\<close> disarms
  the button whenever the menu is closed.
\<close>

record menu =
  mn_open :: bool
  mn_confirming :: bool
  mn_deletes :: nat

datatype menu_event = KebabClick | OutsideDown | ExportClick | DeleteClick

definition menu_effect :: "menu \<Rightarrow> menu" where
  "menu_effect m = (if mn_open m then m else m\<lparr>mn_confirming := False\<rparr>)"

fun menu_step :: "menu_event \<Rightarrow> menu \<Rightarrow> menu" where
  "menu_step KebabClick m = menu_effect (m\<lparr>mn_open := \<not> mn_open m\<rparr>)"
| "menu_step OutsideDown m = (if mn_open m then menu_effect (m\<lparr>mn_open := False\<rparr>) else m)"
| "menu_step ExportClick m = (if mn_open m then menu_effect (m\<lparr>mn_open := False\<rparr>) else m)"
| "menu_step DeleteClick m =
     (if \<not> mn_open m then m
      else if mn_confirming m then
        menu_effect (m\<lparr>mn_open := False, mn_deletes := Suc (mn_deletes m)\<rparr>)
      else m\<lparr>mn_confirming := True\<rparr>)"

definition menu_start :: menu where
  "menu_start = \<lparr>mn_open = False, mn_confirming = False, mn_deletes = 0\<rparr>"

lemma menu_states:
  "(mn_confirming (fold menu_step es menu_start) \<longrightarrow>
      mn_open (fold menu_step es menu_start) \<and> (\<exists>es1. es = es1 @ [KebabClick, DeleteClick])) \<and>
   (mn_open (fold menu_step es menu_start) \<and> \<not> mn_confirming (fold menu_step es menu_start) \<longrightarrow>
      (\<exists>es1. es = es1 @ [KebabClick]))"
proof (induction es rule: rev_induct)
  case (snoc e es)
  then show ?case by (cases e) (auto simp: menu_effect_def)
qed (simp add: menu_start_def)

text \<open>
  An artboard is deleted only by a second click on the delete button that directly follows
  the first one and the opening of the menu; everything else disarms the button.
\<close>

theorem delete_needs_two_clicks:
  "mn_deletes (fold menu_step (es @ [e]) menu_start) \<noteq> mn_deletes (fold menu_step es menu_start) \<longleftrightarrow>
   e = DeleteClick \<and> (\<exists>es1. es = es1 @ [KebabClick, DeleteClick] \<and> \<not> mn_open (fold menu_step es1 menu_start))"
proof -
  have step: "mn_deletes (menu_step e m) \<noteq> mn_deletes m \<longleftrightarrow> e = DeleteClick \<and> mn_open m \<and> mn_confirming m" for m
    by (cases e) (auto simp: menu_effect_def)
  have arm: "mn_open (menu_step DeleteClick (menu_step KebabClick m)) \<and>
      mn_confirming (menu_step DeleteClick (menu_step KebabClick m)) \<longleftrightarrow> \<not> mn_open m"
    if "mn_confirming m \<longrightarrow> mn_open m" for m
    using that by (auto simp: menu_effect_def)
  have "mn_open (fold menu_step es menu_start) \<and> mn_confirming (fold menu_step es menu_start) \<longleftrightarrow>
      (\<exists>es1. es = es1 @ [KebabClick, DeleteClick] \<and> \<not> mn_open (fold menu_step es1 menu_start))"
    (is "?l \<longleftrightarrow> ?r")
  proof
    assume ?l
    then obtain es1 where es1: "es = es1 @ [KebabClick, DeleteClick]" using menu_states [of es] by blast
    with \<open>?l\<close> arm [of "fold menu_step es1 menu_start"] menu_states [of es1] show ?r by simp
  next
    assume ?r
    then obtain es1 where es1: "es = es1 @ [KebabClick, DeleteClick]" "\<not> mn_open (fold menu_step es1 menu_start)" by blast
    with arm [of "fold menu_step es1 menu_start"] menu_states [of es1] show ?l by simp
  qed
  with step show ?thesis by simp
qed

subsection \<open>The name of an exported file\<close>

text \<open>\<open>\w\<close>, the dot, the hyphen and the ASCII part of \<open>\s\<close>.\<close>

definition name_char :: "char \<Rightarrow> bool" where
  "name_char c \<longleftrightarrow>
     (let n = of_char c :: nat in
      48 \<le> n \<and> n \<le> 57 \<or> 65 \<le> n \<and> n \<le> 90 \<or> 97 \<le> n \<and> n \<le> 122 \<or> n = 95 \<or> is_ws c \<or> n = 46 \<or> n = 45)"

text \<open>
  \<open>s.replace(/[^\w\s.-]+/g, '_')\<close>; the flag says that the last character was replaced. White space
  outside ASCII is kept as well, all its bytes.
\<close>

function replace_runs :: "bool \<Rightarrow> string \<Rightarrow> string" where
  "replace_runs b [] = []"
| "replace_runs b (c # cs) =
     (if name_char c then c # replace_runs False cs
      else if ws_len (c # cs) \<noteq> 0
      then take (ws_len (c # cs)) (c # cs) @ replace_runs False (drop (ws_len (c # cs)) (c # cs))
      else if b then replace_runs True cs else CHR ''_'' # replace_runs True cs)"
  by pat_completeness auto
termination
  by (relation "measure (\<lambda>(b, s). length s)") (auto simp: ws_len_def split: list.splits if_splits)

definition export_name :: "string option \<Rightarrow> string option \<Rightarrow> string" where
  "export_name label i =
     replace_runs False
       (case some_text label of l # _ \<Rightarrow> l
        | [] \<Rightarrow> (case some_text i of x # _ \<Rightarrow> x | [] \<Rightarrow> ''artboard''))"

lemma name_char_underscore [simp]: "name_char (CHR ''_'')"
  by (simp add: name_char_def)

text \<open>What is kept: those characters, and bytes outside ASCII.\<close>

definition kept_char :: "char \<Rightarrow> bool" where
  "kept_char c \<longleftrightarrow> name_char c \<or> 128 \<le> (of_char c :: nat)"

lemma kept_ws: "list_all kept_char (take (ws_len s) s)"
proof -
  have "kept_char a" if "is_ws a" for a using that by (simp add: kept_char_def name_char_def)
  moreover have "kept_char a \<and> kept_char b" if "is_ws2 a b" for a b using that by (simp add: kept_char_def is_ws2_def)
  moreover have "kept_char a \<and> kept_char b \<and> kept_char c" if "is_ws3 a b c" for a b c
    using that by (auto simp: kept_char_def is_ws3_def)
  ultimately show ?thesis by (auto simp: ws_len_def numeral_2_eq_2 numeral_3_eq_3 split: list.split)
qed

lemma replace_runs_chars: "list_all kept_char (replace_runs b s)"
proof (induction b s rule: replace_runs.induct)
  case (2 b c cs)
  have "name_char c \<Longrightarrow> kept_char c" "kept_char (CHR ''_'')" by (simp_all add: kept_char_def)
  with 2 show ?case using kept_ws [of "c # cs"] by simp
qed simp

lemma replace_runs_id: "list_all name_char s \<Longrightarrow> replace_runs b s = s"
  by (induction s arbitrary: b) auto

lemma replace_runs_nonempty: "s \<noteq> [] \<Longrightarrow> replace_runs False s \<noteq> []"
  by (cases s) auto

text \<open>
  The name of an exported file is never empty and its ASCII characters are letters, digits,
  underscores, white space, dots and hyphens only; a label that has only these is kept as it is.
\<close>

theorem export_name_safe:
  "export_name label i \<noteq> [] \<and> list_all kept_char (export_name label i) \<and>
   (some_text label = [l] \<and> list_all name_char l \<longrightarrow> export_name label i = l)"
  by (auto simp: export_name_def replace_runs_chars replace_runs_id some_text_def
      intro!: replace_runs_nonempty split: option.split list.split option.splits list.splits)

subsection \<open>An instance\<close>

definition demo_homes :: "home list" where
  "demo_homes = [\<lparr>hm_id = ''a'', hm_x = Fin 0\<rparr>, \<lparr>hm_id = ''b'', hm_x = Fin 4\<rparr>, \<lparr>hm_id = ''c'', hm_x = Fin 8\<rparr>]"

theorem drag_live_order_witness:
  "\<exists>n. gr_live (fold grip_move ([Fin 7] @ [Fin 0])
      (grip_down ''a'' [''a'', ''b'', ''c''] demo_homes (Fin 0) (Fin 1) (Fin 1)))
     = splice_in n ''a'' (filter (\<lambda>k. k \<noteq> ''a'') [''a'', ''b'', ''c''])"
proof -
  define cur where "cur = js_add (hm_x (demo_homes ! nat (index_of ''a'' [''a'', ''b'', ''c'']))) (js_sub (Fin 0) (Fin 0))"
  have "cur = Fin 0" unfolding cur_def by code_simp
  moreover have "list_all (\<lambda>h. is_finite (slot_dist (Fin 0) (hm_x h))) demo_homes" by code_simp
  ultimately have "\<forall>h \<in> set demo_homes. is_finite (slot_dist cur (hm_x h))" by (simp add: list_all_iff)
  from drag_live_order [OF _ _ _ refl cur_def this, of "[Fin 7]" "Fin 1" "Fin 1"]
  show ?thesis by (auto simp: demo_homes_def)
qed

theorem drop_commits_witness:
  "canvas_slots (saved_of (drop_artboard ''s''
      (fold grip_move [Fin 7] (grip_down ''a'' [''a'', ''b'', ''c''] demo_homes (Fin 0) (Fin 1) (Fin 1))) Map.empty) ''s'')
      demo_children =
   gr_live (fold grip_move [Fin 7] (grip_down ''a'' [''a'', ''b'', ''c''] demo_homes (Fin 0) (Fin 1) (Fin 1)))"
proof -
  have ord: "[''a'', ''b'', ''c''] = canvas_slots (saved_of Map.empty ''s'') demo_children"
    by (simp add: canvas_slots_def canvas_src_def demo_children_ids canvas_hidden_def saved_of_def
        no_saved_def Let_def merge_order_def)
  show ?thesis
    by (rule drop_commits [THEN conjunct1, OF ord _ _ _ _ refl]) (simp_all add: demo_homes_def)
qed

theorem export_name_safe_witness: "export_name (Some ''a b'') None = ''a b''"
proof -
  have "some_text (Some ''a b'') = [''a b''] \<and> list_all name_char ''a b''" by code_simp
  then show ?thesis using export_name_safe [of "Some ''a b''" None "''a b''"] by blast
qed

end
