(* ===== verification/Jsx.thy ===== *)
theory Jsx
  imports Js_String "HOL-Library.AList"
begin

text \<open>
  What the JSX of the design canvas and of the wireframes evaluates to: elements with properties, a
  style object, event handlers and children. A handler is the list of actions it performs and
  whether it stops the event; an event runs the handlers from its target up to the first that stops
  it. Style objects keep the order of their keys, a spread overwrites in place.
\<close>

datatype css = Num jsnum | Str string | Flag bool

type_synonym style = "(string \<times> css) list"

datatype 'e handler = Handler (stops: bool) (acts: "'e list")

datatype 'e jsx =
    Txt string
  | Elem (tag: string) (props: "(string \<times> css) list") (sty: style)
      (handlers: "(string \<times> 'e handler) list") (kids: "'e jsx list")

abbreviation px :: "rat \<Rightarrow> css" where
  "px q \<equiv> Num (Fin q)"

lemma concat_map_Nil [simp]: "concat (map (\<lambda>x. []) xs) = []"
  by (induction xs) simp_all

subsection \<open>Style objects\<close>

text \<open>\<open>{ ...a, ...b }\<close>\<close>

definition spread :: "style \<Rightarrow> style \<Rightarrow> style" where
  "spread a b = fold (\<lambda>(k, v). AList.update k v) b a"

text \<open>A property whose value is \<open>undefined\<close> is not set by React.\<close>

definition opt_style :: "string \<Rightarrow> css option \<Rightarrow> style" where
  "opt_style k v = (case v of None \<Rightarrow> [] | Some x \<Rightarrow> [(k, x)])"

text \<open>A destructured property with a default: the default stands for a missing value.\<close>

definition dflt :: "'a \<Rightarrow> 'a option \<Rightarrow> 'a" where
  "dflt d v = (case v of None \<Rightarrow> d | Some x \<Rightarrow> x)"

text \<open>\<open>cond && element\<close> among the children.\<close>

definition only_if :: "bool \<Rightarrow> 'a list \<Rightarrow> 'a list" where
  "only_if b xs = (if b then xs else [])"

lemma dflt_simps [simp]: "dflt d None = d" "dflt d (Some x) = x"
  by (simp_all add: dflt_def)

lemma only_if_simps [simp]: "only_if True xs = xs" "only_if False xs = []"
  by (simp_all add: only_if_def)

lemma set_only_if [simp]: "x \<in> set (only_if b xs) \<longleftrightarrow> b \<and> x \<in> set xs"
  by (simp add: only_if_def)

lemma spread_Nil [simp]: "spread a [] = a"
  by (simp add: spread_def)

lemma spread_Cons: "spread a ((k, v) # b) = spread (AList.update k v a) b"
  by (simp add: spread_def)

lemma distinct_spread: "distinct (map fst a) \<Longrightarrow> distinct (map fst (spread a b))"
  by (induction b arbitrary: a) (auto simp: spread_Cons distinct_update)

text \<open>The caller's style wins; what it does not mention stays.\<close>

lemma map_of_spread:
  assumes "distinct (map fst b)"
  shows "map_of (spread a b) = map_of a ++ map_of b"
  using assms
proof (induction b arbitrary: a)
  case (Cons p b)
  obtain k v where p: "p = (k, v)" by (cases p)
  have "map_of (spread a (p # b)) = (map_of a)(k \<mapsto> v) ++ map_of b"
    using Cons by (simp add: p spread_Cons update_conv')
  also have "\<dots> = map_of a ++ map_of (p # b)"
  proof -
    have "map_of b k = None" using Cons.prems p by (auto simp: map_of_eq_None_iff)
    then show ?thesis by (auto simp: p fun_eq_iff map_add_def split: option.split)
  qed
  finally show ?case .
qed simp

lemma spread_keeps: "distinct (map fst b) \<Longrightarrow> k \<notin> fst ` set b \<Longrightarrow> map_of (spread a b) k = map_of a k"
proof -
  assume "distinct (map fst b)" "k \<notin> fst ` set b"
  moreover from this(2) have "map_of b k = None" by (simp add: map_of_eq_None_iff)
  ultimately show ?thesis by (simp add: map_of_spread map_add_def)
qed

lemma spread_wins: "distinct (map fst b) \<Longrightarrow> map_of b k = Some v \<Longrightarrow> map_of (spread a b) k = Some v"
  by (simp add: map_of_spread)

lemma spread_self: "distinct (map fst b) \<Longrightarrow> map_of (spread (spread a b) b) = map_of (spread a b)"
  by (auto simp: map_of_spread fun_eq_iff map_add_def split: option.split)

text \<open>Properties as the caller wrote them: a default for a missing one, and what counts as true.\<close>

definition prop_or :: "(string \<times> css) list \<Rightarrow> string \<Rightarrow> css \<Rightarrow> css" where
  "prop_or ps k d = dflt d (map_of ps k)"

fun css_truthy :: "css \<Rightarrow> bool" where
  "css_truthy (Num x) = truthy x"
| "css_truthy (Str s) = (s \<noteq> [])"
| "css_truthy (Flag b) = b"

definition given :: "(string \<times> css) list \<Rightarrow> string \<Rightarrow> bool" where
  "given ps k = (case map_of ps k of None \<Rightarrow> False | Some v \<Rightarrow> css_truthy v)"

text \<open>A value among the children: booleans render nothing.\<close>

fun css_text :: "css \<Rightarrow> string" where
  "css_text (Num x) = js_to_string x"
| "css_text (Str s) = s"
| "css_text (Flag b) = []"

text \<open>
  Adding a style sheet to the head of the document once; the head is the list of the identifiers and
  texts of its sheets.
\<close>

definition inject_style :: "string \<Rightarrow> string list \<Rightarrow> (string \<times> string) list \<Rightarrow> (string \<times> string) list" where
  "inject_style i sheet_lines head =
     (if i \<in> fst ` set head then head else head @ [(i, join_with [CHR 0x0A] sheet_lines)])"

lemma inject_style_once: "inject_style i ls (inject_style i ls' head) = inject_style i ls' head"
  by (simp add: inject_style_def)

subsection \<open>Events\<close>

fun children_of :: "'e jsx \<Rightarrow> 'e jsx list" where
  "children_of (Txt s) = []"
| "children_of (Elem _ _ _ _ ks) = ks"

fun handler_of :: "string \<Rightarrow> 'e jsx \<Rightarrow> 'e handler" where
  "handler_of ev (Txt s) = Handler False []"
| "handler_of ev (Elem _ _ _ hs _) = dflt (Handler False []) (map_of hs ev)"

text \<open>The actions of an event at the node that the path leads to, and whether it was stopped.\<close>

fun bubble :: "string \<Rightarrow> nat list \<Rightarrow> 'e jsx \<Rightarrow> 'e list \<times> bool" where
  "bubble ev [] t = (acts (handler_of ev t), stops (handler_of ev t))"
| "bubble ev (i # p) t =
     (if i < length (children_of t) then
        let (as, stopped) = bubble ev p (children_of t ! i)
        in if stopped then (as, True)
           else (as @ acts (handler_of ev t), stops (handler_of ev t))
      else (acts (handler_of ev t), stops (handler_of ev t)))"

definition dispatch :: "string \<Rightarrow> nat list \<Rightarrow> 'e jsx \<Rightarrow> 'e list" where
  "dispatch ev p t = fst (bubble ev p t)"

text \<open>The node a path leads to.\<close>

fun node_at :: "nat list \<Rightarrow> 'e jsx \<Rightarrow> 'e jsx option" where
  "node_at [] t = Some t"
| "node_at (i # p) t = (if i < length (children_of t) then node_at p (children_of t ! i) else None)"

fun nodes :: "'e jsx \<Rightarrow> 'e jsx list" where
  "nodes (Txt s) = [Txt s]"
| "nodes (Elem a b c d ks) = Elem a b c d ks # concat (map nodes ks)"

text \<open>Every action an event can cause.\<close>

fun actions :: "string \<Rightarrow> 'e jsx \<Rightarrow> 'e list" where
  "actions ev (Txt s) = []"
| "actions ev (Elem a b c d ks) = acts (dflt (Handler False []) (map_of d ev)) @ concat (map (actions ev) ks)"

lemma actions_split: "set (actions ev t) = set (acts (handler_of ev t)) \<union> (\<Union>k \<in> set (children_of t). set (actions ev k))"
  by (cases t) auto

lemma bubble_actions: "set (fst (bubble ev p t)) \<subseteq> set (actions ev t)"
proof (induction p arbitrary: t)
  case (Cons i p)
  have "set (fst (bubble ev p (children_of t ! i))) \<subseteq> set (actions ev t)" if "i < length (children_of t)"
    using Cons.IH [of "children_of t ! i"] that by (subst actions_split) (auto dest: nth_mem)
  then show ?case by (auto simp: split_beta actions_split [of ev t])
next
  case Nil
  then show ?case by (subst actions_split) simp
qed

lemma dispatch_actions: "set (dispatch ev p t) \<subseteq> set (actions ev t)"
  by (simp add: dispatch_def bubble_actions)

text \<open>Nothing above a node that stops an event hears it.\<close>

lemma bubble_below:
  "node_at p t = Some s \<Longrightarrow> snd (bubble ev q s) \<Longrightarrow> bubble ev (p @ q) t = (fst (bubble ev q s), True)"
proof (induction p arbitrary: t)
  case Nil
  then show ?case by (simp add: prod_eq_iff)
next
  case (Cons i p)
  then show ?case by (auto split: if_splits)
qed

text \<open>The weight of the actions that one event can cause: the heaviest path.\<close>

fun load :: "('e \<Rightarrow> nat) \<Rightarrow> string \<Rightarrow> 'e jsx \<Rightarrow> nat" where
  "load w ev (Txt s) = 0"
| "load w ev (Elem a b c d ks) =
     sum_list (map w (acts (dflt (Handler False []) (map_of d ev)))) + foldr max (map (load w ev) ks) 0"

lemma foldr_max_ge: "x \<in> set xs \<Longrightarrow> x \<le> foldr max xs (0 :: nat)"
  by (induction xs) auto

lemma foldr_max_le: "\<forall>x \<in> set xs. x \<le> b \<Longrightarrow> foldr max xs (0 :: nat) \<le> b"
  by (induction xs) auto

lemma load_split:
  "load w ev t = sum_list (map w (acts (handler_of ev t))) + foldr max (map (load w ev) (children_of t)) 0"
  by (cases t) auto

lemma bubble_load: "sum_list (map w (fst (bubble ev p t))) \<le> load w ev t"
proof (induction p arbitrary: t)
  case (Cons i p)
  have "sum_list (map w (fst (bubble ev p (children_of t ! i)))) \<le> foldr max (map (load w ev) (children_of t)) 0"
    if "i < length (children_of t)"
    using Cons.IH [of "children_of t ! i"] that
    by (intro order_trans [OF _ foldr_max_ge [of "load w ev (children_of t ! i)"]]) auto
  then show ?case by (auto simp: split_beta load_split [of w ev t])
next
  case Nil
  then show ?case by (subst load_split) simp
qed

lemma load_map [simp]: "load w ev (map_jsx f t) = load (w \<circ> f) ev t"
proof (induction t)
  case (Elem a b c d ks)
  have "map_of (map (map_prod id (map_handler f)) d) ev = map_option (map_handler f) (map_of d ev)"
    by (induction d) auto
  moreover have "map (\<lambda>t. load w ev (map_jsx f t)) ks = map (load (\<lambda>a. w (f a)) ev) ks"
    using Elem by (simp add: comp_def)
  then have "foldr max (map (\<lambda>t. load w ev (map_jsx f t)) ks) 0 = foldr max (map (load (\<lambda>a. w (f a)) ev) ks) 0"
    by (rule arg_cong)
  ultimately show ?case by (cases "map_of d ev") (simp_all add: handler.map_sel comp_def)
qed simp

lemma load_zero [simp]: "load (\<lambda>_. 0) ev t = 0"
proof (induction t)
  case (Elem a b c d ks)
  then have "foldr max (map (load (\<lambda>_. 0) ev) ks) (0 :: nat) \<le> 0" by (intro foldr_max_le) auto
  then show ?case by (simp add: map_replicate_const)
qed simp

lemma bubble_stops: "stops (handler_of ev t) \<Longrightarrow> snd (bubble ev q t)"
  by (cases q) (auto simp: split_beta)

subsection \<open>Reading a tree\<close>

fun text_of :: "'e jsx \<Rightarrow> string" where
  "text_of (Txt s) = s"
| "text_of (Elem _ _ _ _ ks) = concat (map text_of ks)"

definition style_of :: "'e jsx \<Rightarrow> string \<Rightarrow> css option" where
  "style_of t k = (case t of Txt _ \<Rightarrow> None | Elem _ _ st _ _ \<Rightarrow> map_of st k)"

definition prop_of :: "'e jsx \<Rightarrow> string \<Rightarrow> css option" where
  "prop_of t k = (case t of Txt _ \<Rightarrow> None | Elem _ ps _ _ _ \<Rightarrow> map_of ps k)"

definition with_prop :: "string \<Rightarrow> 'e jsx \<Rightarrow> css list" where
  "with_prop k t = concat (map (\<lambda>n. case prop_of n k of None \<Rightarrow> [] | Some v \<Rightarrow> [v]) (nodes t))"

lemma with_prop_simps [simp]:
  "with_prop k (Txt s) = []"
  "with_prop k (Elem a b c d ks) =
     (case map_of b k of None \<Rightarrow> [] | Some v \<Rightarrow> [v]) @ concat (map (with_prop k) ks)"
proof -
  show "with_prop k (Txt s) = []" by (simp add: with_prop_def prop_of_def)
  have "concat (map f (concat (map nodes ks))) = concat (map (\<lambda>t. concat (map f (nodes t))) ks)" for f :: "'b jsx \<Rightarrow> css list"
    by (induction ks) simp_all
  then show "with_prop k (Elem a b c d ks) =
     (case map_of b k of None \<Rightarrow> [] | Some v \<Rightarrow> [v]) @ concat (map (with_prop k) ks)"
    by (simp add: with_prop_def prop_of_def) (simp add: with_prop_def [abs_def] prop_of_def)
qed

text \<open>Elements with a class name and no other property, and elements without properties.\<close>

definition cls :: "string \<Rightarrow> (string \<times> css) list" where
  "cls c = [(''className'', Str c)]"

definition el :: "string \<Rightarrow> string \<Rightarrow> style \<Rightarrow> 'e jsx list \<Rightarrow> 'e jsx" where
  "el t c st ks = Elem t (cls c) st [] ks"

definition bare :: "string \<Rightarrow> style \<Rightarrow> 'e jsx list \<Rightarrow> 'e jsx" where
  "bare t st ks = Elem t [] st [] ks"

declare el_def [view_defs] bare_def [view_defs]

end
