(* ===== verification/Canvas_View.thy ===== *)
theory Canvas_View
  imports Canvas_Frame Jsx
begin

text \<open>
  What the design canvas renders and what clicks on it do: the inline editor, the frame of an
  artboard with its menu, a section with its frames in the arranged order. The actions of the
  handlers are those of the components that act on them (\<open>Canvas_Order\<close>, \<open>Canvas_Frame\<close>); the
  content of an artboard is given, with events of its own that are numbered. The order of a section
  is computed from the saved sections; \<open>Canvas_Memo\<close> shows when the one kept by \<open>useMemo\<close> is the same.
\<close>

subsection \<open>Constants\<close>

definition dc_grid :: string where "dc_grid = ''rgba(0,0,0,0.06)''"
definition dc_bg :: string where "dc_bg = ''#f0eee9''"
definition dc_label :: string where "dc_label = ''rgba(60,50,40,0.7)''"
definition dc_title :: string where "dc_title = ''rgba(40,30,20,0.85)''"
definition dc_subtitle :: string where "dc_subtitle = ''rgba(60,50,40,0.6)''"
definition dc_postit_bg :: string where "dc_postit_bg = ''#fef4a8''"
definition dc_postit_text :: string where "dc_postit_text = ''#5a4a2a''"
definition dc_font :: string where
  "dc_font = ''-apple-system, BlinkMacSystemFont, \"Segoe UI\", system-ui, sans-serif''"

text \<open>The style sheet that is added to the page once, line by line.\<close>

definition dc_styles :: "string list" where
  "dc_styles =
     [''.dc-editable{cursor:text;outline:none;white-space:nowrap;border-radius:3px;padding:0 2px;margin:0 -2px}'',
      ''.dc-editable:focus{background:#fff;box-shadow:0 0 0 1.5px #c96442}'',
      ''[data-dc-slot]{transition:transform .18s cubic-bezier(.2,.7,.3,1)}'',
      ''[data-dc-slot].dc-dragging{transition:none;z-index:10;pointer-events:none}'',
      ''[data-dc-slot].dc-dragging .dc-card{box-shadow:0 12px 40px rgba(0,0,0,.25),0 0 0 2px #c96442;transform:scale(1.02)}'',
      ''.dc-card{isolation:isolate;transition:box-shadow .15s,transform .15s}'',
      ''.dc-card *{scrollbar-width:none}'',
      ''.dc-card *::-webkit-scrollbar{display:none}'',
      ''.dc-header{position:absolute;bottom:100%;left:-4px;margin-bottom:calc(4px * var(--dc-inv-zoom,1));z-index:2;'',
      ''  display:flex;align-items:center;container-type:inline-size}'',
      ''.dc-labelrow{display:flex;align-items:center;gap:4px;height:24px;flex:1 1 auto;min-width:0}'',
      ''.dc-grip{flex:0 0 auto;cursor:grab;display:flex;align-items:center;padding:5px 4px;border-radius:4px;transition:background .12s,opacity .12s}'',
      ''.dc-grip:hover{background:rgba(0,0,0,.08)}'',
      ''.dc-grip:active{cursor:grabbing}'',
      ''.dc-labeltext{flex:1 1 auto;min-width:0;cursor:pointer;border-radius:4px;padding:3px 6px;'',
      ''  display:flex;align-items:center;transition:background .12s;overflow:hidden}'',
      ''@container (max-width: 110px){'',
      ''  .dc-labeltext{display:none}'',
      ''  .dc-grip{opacity:0}'',
      ''  [data-dc-slot]:hover .dc-grip{opacity:1}'',
      ''}'',
      ''.dc-labeltext:hover{background:rgba(0,0,0,.05)}'',
      ''.dc-labeltext .dc-editable{overflow:hidden;text-overflow:ellipsis;max-width:100%}'',
      ''.dc-labeltext .dc-editable:focus{overflow:visible;text-overflow:clip}'',
      ''.dc-btns{flex:0 0 auto;margin-left:auto;display:flex;gap:2px;opacity:0;transition:opacity .12s}'',
      ''[data-dc-slot]:hover .dc-btns,.dc-btns:has(.dc-menu){opacity:1}'',
      ''.dc-expand,.dc-kebab{width:22px;height:22px;border-radius:5px;border:none;cursor:pointer;padding:0;'',
      ''  background:transparent;color:rgba(60,50,40,.7);display:flex;align-items:center;justify-content:center;'',
      ''  font:inherit;transition:background .12s,color .12s}'',
      ''.dc-expand:hover,.dc-kebab:hover{background:rgba(0,0,0,.06);color:#2a251f}'',
      ''[data-dc-slot]:has(.dc-menu){z-index:10}'',
      ''.dc-menu{position:absolute;top:100%;right:0;margin-top:4px;background:#fff;border-radius:8px;'',
      ''  box-shadow:0 8px 28px rgba(0,0,0,.18),0 0 0 1px rgba(0,0,0,.05);padding:4px;min-width:160px;z-index:10}'',
      ''.dc-menu button{display:block;width:100%;padding:7px 10px;border:0;background:transparent;'',
      ''  border-radius:5px;font-family:inherit;font-size:13px;font-weight:500;line-height:1.2;'',
      ''  color:#29261b;cursor:pointer;text-align:left;transition:background .12s;white-space:nowrap}'',
      ''.dc-menu button:hover{background:rgba(0,0,0,.05)}'',
      ''.dc-menu hr{border:0;border-top:1px solid rgba(0,0,0,.08);margin:4px 2px}'',
      ''.dc-menu .dc-danger{color:#c96442}'',
      ''.dc-menu .dc-danger:hover{background:rgba(201,100,66,.1)}'',
      ''.dc-header{width:calc((100% + 4px) / var(--dc-inv-zoom,1));'',
      ''  transform:scale(var(--dc-inv-zoom,1));transform-origin:bottom left}'',
      ''.dc-sectionhead{zoom:var(--dc-inv-zoom,1)}'']"

subsection \<open>Artboard frame\<close>

datatype frame_act =
    GripDown
  | FocusMe
  | LabelTo
  | BlurEditor
  | Menu menu_event
  | Inner nat

record artboard =
  ab_id :: "string option"
  ab_label :: "string option"
  ab_width :: "jsnum option"
  ab_height :: "jsnum option"
  ab_style :: style
  ab_kids :: "nat jsx list"

definition halt :: "'e handler" where
  "halt = Handler True []"

text \<open>
  Inline rename: the change is committed on blur, and Enter (the event \<open>keydown Enter\<close>) blurs. The
  caller's click handler is optional.
\<close>

definition dc_editable ::
  "string \<Rightarrow> string option \<Rightarrow> 'e list \<Rightarrow> 'e \<Rightarrow> 'e handler option \<Rightarrow> style \<Rightarrow> 'e jsx" where
  "dc_editable t v on_change blur on_click st =
     Elem t [(''className'', Str ''dc-editable''), (''contentEditable'', Str ''true'')] st
       ((case on_click of None \<Rightarrow> [] | Some h \<Rightarrow> [(''click'', h)])
        @ [(''pointerdown'', halt), (''blur'', Handler False on_change),
           (''keydown Enter'', Handler False [blur])])
       (case v of None \<Rightarrow> [] | Some s \<Rightarrow> [Txt s])"

definition dot :: "string \<Rightarrow> string \<Rightarrow> 'e jsx" where
  "dot x y = Elem ''circle'' [(''cx'', Str x), (''cy'', Str y), (''r'', Str ''1.1'')] [] [] []"

definition grip_icon :: "'e jsx" where
  "grip_icon =
     Elem ''svg'' [(''width'', Str ''9''), (''height'', Str ''13''), (''viewBox'', Str ''0 0 9 13''),
         (''fill'', Str ''currentColor'')] [] []
       [dot ''2'' ''2'', dot ''7'' ''2'', dot ''2'' ''6.5'', dot ''7'' ''6.5'', dot ''2'' ''11'', dot ''7'' ''11'']"

definition kebab_icon :: "'e jsx" where
  "kebab_icon =
     Elem ''svg'' [(''width'', Str ''12''), (''height'', Str ''12''), (''viewBox'', Str ''0 0 12 12''),
         (''fill'', Str ''currentColor'')] [] [] [dot ''2.5'' ''6'', dot ''6'' ''6'', dot ''9.5'' ''6'']"

definition expand_icon :: "'e jsx" where
  "expand_icon =
     Elem ''svg'' [(''width'', Str ''12''), (''height'', Str ''12''), (''viewBox'', Str ''0 0 12 12''),
         (''fill'', Str ''none''), (''stroke'', Str ''currentColor''), (''strokeWidth'', Str ''1.6''),
         (''strokeLinecap'', Str ''round'')] [] []
       [Elem ''path'' [(''d'', Str ''M7 1h4v4M5 11H1V7M11 1L7.5 4.5M1 11l3.5-3.5'')] [] [] []]"

text \<open>The menu, which is in the tree only while it is open.\<close>

definition menu_button :: "string \<Rightarrow> menu_event \<Rightarrow> string \<Rightarrow> frame_act jsx" where
  "menu_button c e label =
     Elem ''button'' (if c = [] then [] else cls c) [] [(''click'', Handler False [Menu e])] [Txt label]"

definition frame_menu :: "menu \<Rightarrow> frame_act jsx list" where
  "frame_menu m =
     only_if (mn_open m)
       [Elem ''div'' (cls ''dc-menu'') [] [(''pointerdown'', halt)]
          [menu_button [] ExportClick ''Download PNG'',
           menu_button [] ExportClick ''Download HTML'',
           bare ''hr'' [] [],
           menu_button ''dc-danger'' DeleteClick
             (if mn_confirming m then ''Click again to delete'' else ''Delete'')]]"

definition frame_header :: "string option \<Rightarrow> menu \<Rightarrow> frame_act jsx" where
  "frame_header label m =
     Elem ''div'' (cls ''dc-header'' @ [(''data-omelette-chrome'', Str [])]) [(''color'', Str dc_label)]
       [(''pointerdown'', halt)]
       [el ''div'' ''dc-labelrow'' []
          [Elem ''div'' (cls ''dc-grip'' @ [(''title'', Str ''Drag to reorder'')]) []
             [(''pointerdown'', Handler True [GripDown])] [grip_icon],
           Elem ''div'' (cls ''dc-labeltext'' @ [(''title'', Str ''Click to focus'')]) []
             [(''click'', Handler False [FocusMe])]
             [dc_editable ''span'' label [LabelTo] BlurEditor (Some halt)
                [(''fontSize'', px 15), (''fontWeight'', px 500), (''color'', Str dc_label), (''lineHeight'', px 1)]]],
        el ''div'' ''dc-btns'' []
          [bare ''div'' [(''position'', Str ''relative'')]
             (Elem ''button'' (cls ''dc-kebab'' @ [(''title'', Str ''More'')]) []
                [(''click'', Handler False [Menu KebabClick])] [kebab_icon]
              # frame_menu m),
           Elem ''button'' (cls ''dc-expand'' @ [(''title'', Str ''Focus'')]) []
             [(''click'', Handler False [FocusMe])] [expand_icon]]]"

definition placeholder :: "style \<Rightarrow> string \<Rightarrow> 'e jsx" where
  "placeholder extra i =
     bare ''div'' ([(''height'', Str ''100%''), (''display'', Str ''flex''), (''alignItems'', Str ''center''),
       (''justifyContent'', Str ''center''), (''color'', Str ''#bbb'')] @ extra) [Txt i]"

definition frame_card :: "string \<Rightarrow> artboard \<Rightarrow> frame_act jsx" where
  "frame_card i ab =
     el ''div'' ''dc-card''
       (spread [(''borderRadius'', px 2),
           (''boxShadow'', Str ''0 1px 3px rgba(0,0,0,.08),0 4px 16px rgba(0,0,0,.06)''),
           (''overflow'', Str ''hidden''), (''width'', Num (dflt (Fin 260) (ab_width ab))),
           (''height'', Num (dflt (Fin 480) (ab_height ab))), (''background'', Str ''#fff'')] (ab_style ab))
       (if ab_kids ab = [] then [placeholder [(''fontSize'', px 13), (''fontFamily'', Str dc_font)] i]
        else map (map_jsx Inner) (ab_kids ab))"

definition frame_view :: "string option \<Rightarrow> menu \<Rightarrow> artboard \<Rightarrow> frame_act jsx" where
  "frame_view label m ab =
     (let i = nullish (ab_id ab) (ab_label ab)
      in Elem ''div'' (opt_style ''data-dc-slot'' (map_option Str i))
           [(''position'', Str ''relative''), (''flexShrink'', px 0)] []
           [frame_header label m, frame_card (dflt [] i) ab])"

subsection \<open>Section\<close>

datatype section_act = TitleTo | BlurTitle | OnFrame string frame_act | OtherAct nat

definition section_children :: "artboard list \<Rightarrow> child list" where
  "section_children arts = map (\<lambda>ab. Artboard (ab_id ab) (ab_label ab)) arts"

text \<open>\<open>Object.fromEntries\<close>: of two artboards with the same identifier the last one counts.\<close>

definition by_id :: "artboard list \<Rightarrow> string \<Rightarrow> artboard option" where
  "by_id arts =
     map_of (rev (concat (map (\<lambda>ab. map (\<lambda>i. (i, ab)) (some_text (nullish (ab_id ab) (ab_label ab)))) arts)))"

text \<open>One frame of the section; \<open>byId[k]\<close> exists for every \<open>k\<close> of the order (shown below).\<close>

definition section_frame :: "saved \<Rightarrow> artboard list \<Rightarrow> (string \<Rightarrow> menu) \<Rightarrow> string \<Rightarrow> section_act jsx list" where
  "section_frame sec arts menus k =
     (case by_id arts k of
        None \<Rightarrow> []
      | Some ab \<Rightarrow> [map_jsx (OnFrame k) (frame_view (nullish (sv_labels sec k) (ab_label ab)) (menus k) ab)])"

definition section_view ::
  "sections \<Rightarrow> string option \<Rightarrow> string option \<Rightarrow> string option \<Rightarrow> jsnum option \<Rightarrow> artboard list \<Rightarrow> nat jsx list
     \<Rightarrow> (string \<Rightarrow> menu) \<Rightarrow> section_act jsx" where
  "section_view ss i title subtitle gap arts rest menus =
     (let sid = nullish i title;
          sec = (case some_text sid of s # _ \<Rightarrow> saved_of ss s | [] \<Rightarrow> no_saved);
          order = section_order sec (section_children arts)
      in Elem ''div'' (opt_style ''data-dc-section'' (map_option Str sid))
           [(''marginBottom'', Str ''calc(80px * var(--dc-inv-zoom, 1))''), (''position'', Str ''relative'')] []
           ([bare ''div'' [(''padding'', Str ''0 60px'')]
               [el ''div'' ''dc-sectionhead'' [(''paddingBottom'', px 36)]
                  (dc_editable ''div'' (nullish (sv_title sec) title) [TitleTo] BlurTitle None
                     [(''fontSize'', px 28), (''fontWeight'', px 600), (''color'', Str dc_title),
                      (''letterSpacing'', px (- 2 / 5)), (''marginBottom'', px 6), (''display'', Str ''inline-block'')]
                   # map (\<lambda>t. bare ''div'' [(''fontSize'', px 16), (''color'', Str dc_subtitle)] [Txt t])
                       (some_text subtitle))],
             bare ''div'' [(''display'', Str ''flex''), (''gap'', Num (dflt (Fin 48) gap)), (''padding'', Str ''0 60px''),
                 (''alignItems'', Str ''flex-start''), (''width'', Str ''max-content'')]
               (concat (map (section_frame sec arts menus) order))]
            @ map (map_jsx OtherAct) rest))"

text \<open>
  What an action of a section does to the canvas and to the menus of its frames; \<open>v\<close> is the text of
  the editor.
\<close>

fun section_effect ::
  "string \<Rightarrow> artboard list \<Rightarrow> string \<Rightarrow> section_act \<Rightarrow> canvas \<times> (string \<Rightarrow> menu) \<Rightarrow> canvas \<times> (string \<Rightarrow> menu)" where
  "section_effect sid arts v TitleTo (c, ms) = (canvas_edit (rename_section sid v) c, ms)"
| "section_effect sid arts v (OnFrame k LabelTo) (c, ms) = (canvas_edit (rename_artboard sid k v) c, ms)"
| "section_effect sid arts v (OnFrame k FocusMe) (c, ms) = (set_focus (Some (slot_id sid k)) c, ms)"
| "section_effect sid arts v (OnFrame k (Menu e)) (c, ms) =
     (if mn_deletes (menu_step e (ms k)) \<noteq> mn_deletes (ms k)
      then canvas_edit (delete_artboard sid (section_children arts) k) c else c,
      ms(k := menu_step e (ms k)))"
| "section_effect sid arts v _ (c, ms) = (c, ms)"

subsection \<open>The tree\<close>

lemma by_id_Some: "by_id arts k = Some ab \<Longrightarrow> nullish (ab_id ab) (ab_label ab) = Some k"
  unfolding by_id_def by (auto dest!: map_of_SomeD simp: some_text_def split: option.splits list.splits)

lemma section_ids_children: "section_ids (section_children arts) = concat (map (\<lambda>ab. some_text (nullish (ab_id ab) (ab_label ab))) arts)"
proof -
  have f: "dc_flatten (section_children arts) = section_children arts"
    by (induction arts) (simp_all add: section_children_def)
  show ?thesis
    unfolding section_ids_eq f by (simp add: section_children_def comp_def)
qed

lemma by_id_order:
  assumes "k \<in> set (section_order sec (section_children arts))"
  shows "by_id arts k \<noteq> None"
proof -
  have "k \<in> set (section_ids (section_children arts))"
    using assms by (auto simp: section_order_def section_src_def Let_def)
  then show ?thesis
    by (auto simp: section_ids_children by_id_def map_of_eq_None_iff image_iff)
qed

lemma with_prop_map [simp]: "with_prop k (map_jsx f t) = with_prop k t"
  by (induction t) (simp_all add: comp_def cong: map_cong)

lemma editable_slot [simp]: "with_prop ''data-dc-slot'' (dc_editable t v oc b h st) = []"
  by (cases v) (simp_all add: dc_editable_def)

lemma frame_slot:
  assumes "\<forall>t \<in> set (ab_kids ab). with_prop ''data-dc-slot'' t = []"
    and "nullish (ab_id ab) (ab_label ab) = Some k"
  shows "with_prop ''data-dc-slot'' (frame_view l m ab) = [Str k]"
proof -
  have "concat (map (with_prop ''data-dc-slot'' \<circ> map_jsx Inner) (ab_kids ab)) = []"
    using assms(1) by (simp add: comp_def)
  then show ?thesis
    using assms(2)
    by (cases l) (simp_all add: frame_view_def frame_header_def frame_card_def frame_menu_def menu_button_def cls_def el_def
        bare_def opt_style_def dc_editable_def grip_icon_def kebab_icon_def expand_icon_def dot_def placeholder_def
        only_if_def)
qed

text \<open>The slots of a section, as the query of a drag finds them.\<close>

lemma section_slots:
  assumes "\<forall>ab \<in> set arts. \<forall>t \<in> set (ab_kids ab). with_prop ''data-dc-slot'' t = []"
    and "\<forall>t \<in> set rest. with_prop ''data-dc-slot'' t = []"
    and "some_text (nullish i title) = [sid]"
  shows "with_prop ''data-dc-slot'' (section_view ss i title subtitle gap arts rest menus) =
           map Str (canvas_slots (saved_of ss sid) (section_children arts)) \<and>
         (\<forall>k \<in> set (canvas_slots (saved_of ss sid) (section_children arts)). by_id arts k \<noteq> None)"
proof -
  let ?sec = "saved_of ss sid"
  let ?order = "section_order ?sec (section_children arts)"
  have fr: "concat (map (with_prop ''data-dc-slot'') (section_frame ?sec arts menus k)) = [Str k]" if k: "k \<in> set ?order" for k
  proof -
    obtain ab where ab: "by_id arts k = Some ab" using by_id_order [OF k] by blast
    then have "ab \<in> set arts" unfolding by_id_def by (auto dest!: map_of_SomeD)
    then show ?thesis using ab by (simp add: section_frame_def frame_slot assms(1) by_id_Some [OF ab])
  qed
  have "concat (map (with_prop ''data-dc-slot'') (concat (map (section_frame ?sec arts menus) ks))) = map Str ks"
    if "set ks \<subseteq> set ?order" for ks
    using that by (induction ks) (simp_all add: fr)
  then have fs: "concat (map (with_prop ''data-dc-slot'') (concat (map (section_frame ?sec arts menus) ?order))) = map Str ?order"
    by simp
  have "concat (map (with_prop ''data-dc-slot'') rest) = []"
    using assms(2) by simp
  moreover have "concat (map (with_prop ''data-dc-slot'' \<circ> (\<lambda>t. bare ''div'' st [Txt t])) ts) = []" for st ts
    by (simp add: comp_def bare_def)
  ultimately have "with_prop ''data-dc-slot'' (section_view ss i title subtitle gap arts rest menus) = map Str ?order"
    using fs assms(3) by (simp del: concat_eq_Nil_conv concat_eq_Nil_conv add: section_view_def Let_def bare_def el_def cls_def opt_style_def comp_def split: option.split)
  then show ?thesis using by_id_order by (simp add: section_order_eq)
qed

text \<open>
  C37. A section renders exactly the artboards of its arranged order, in that order, each under
  its own identifier, so the cards that a drag finds in the document are those the order names; the
  lookup of an artboard by its identifier never fails.
\<close>

theorem section_renders_order:
  assumes "\<forall>ab \<in> set arts. \<forall>t \<in> set (ab_kids ab). with_prop ''data-dc-slot'' t = []"
    and "\<forall>t \<in> set rest. with_prop ''data-dc-slot'' t = []"
    and "some_text (nullish i title) = [sid]"
  shows "with_prop ''data-dc-slot'' (section_view ss i title subtitle gap arts rest menus) =
           map Str (canvas_slots (saved_of ss sid) (section_children arts)) \<and>
         (\<forall>k \<in> set (canvas_slots (saved_of ss sid) (section_children arts)). by_id arts k \<noteq> None)"
  using assms by (rule section_slots)

subsection \<open>Clicks on a section\<close>

text \<open>How much an action can change: an edit of a text 2, a menu event 1.\<close>

fun frame_weight :: "frame_act \<Rightarrow> nat" where
  "frame_weight LabelTo = 2"
| "frame_weight (Menu e) = 1"
| "frame_weight _ = 0"

fun section_weight :: "section_act \<Rightarrow> nat" where
  "section_weight TitleTo = 2"
| "section_weight (OnFrame k a) = frame_weight a"
| "section_weight _ = 0"

lemma section_weight_comp [simp]:
  "section_weight \<circ> OnFrame k = frame_weight" "section_weight \<circ> OtherAct = (\<lambda>_. 0)"
  "frame_weight \<circ> Inner = (\<lambda>_. 0)"
  by (simp_all add: fun_eq_iff)

lemma load_text_list [simp]: "foldr max (map (load w ev) (map Txt ts)) 0 = (0 :: nat)"
  by (induction ts) simp_all

lemma load_editable:
  "load w ''click'' (dc_editable t v oc b h st) = (case h of None \<Rightarrow> 0 | Some x \<Rightarrow> sum_list (map w (acts x)))"
  by (cases v; cases h) (simp_all add: dc_editable_def halt_def)

lemma load_el [simp]:
  "load w ev (el t c st ks) = foldr max (map (load w ev) ks) 0"
  "load w ev (bare t st ks) = foldr max (map (load w ev) ks) 0"
  by (simp_all add: el_def bare_def)

lemma load_icons [simp]:
  "load w ev grip_icon = 0" "load w ev kebab_icon = 0" "load w ev expand_icon = 0"
  by (simp_all add: grip_icon_def kebab_icon_def expand_icon_def dot_def)

lemma load_frame_card: "load frame_weight ev (frame_card i ab) = 0"
proof -
  have "foldr max (map (load frame_weight ev) (map (map_jsx Inner) ks)) 0 = 0" for ks
    by (induction ks) simp_all
  then show ?thesis by (simp add: frame_card_def placeholder_def del: map_map)
qed

lemma load_frame_menu:
  "foldr max (map (load frame_weight ''click'') (frame_menu m)) 0 = (if mn_open m then 1 else 0)"
  by (simp add: frame_menu_def menu_button_def halt_def)

lemma load_frame: "load frame_weight ''click'' (frame_view l m ab) \<le> 1"
  by (simp add: frame_view_def Let_def frame_header_def load_frame_card load_frame_menu load_editable halt_def)

lemma load_section: "load section_weight ''click'' (section_view ss i title subtitle gap arts rest menus) \<le> 1"
proof -
  have f: "\<forall>t \<in> set (section_frame sec arts menus k). load section_weight ''click'' t \<le> 1" for sec k
    using load_frame by (auto simp: section_frame_def split: option.split)
  have fs: "foldr max (map (load section_weight ''click'') (concat (map (section_frame sec arts menus) ks))) 0 \<le> 1" for sec ks
    by (rule foldr_max_le) (use f in auto)
  have r: "foldr max (map (load section_weight ''click'') (map (map_jsx OtherAct) rest)) 0 = 0"
    by (induction rest) simp_all
  have s: "foldr max (map (load section_weight ''click'') (map (\<lambda>t. bare ''div'' st [Txt t]) ts)) 0 = 0" for st ts
    by (induction ts) simp_all
  show ?thesis
    using fs r s by (simp add: section_view_def Let_def load_editable del: map_map)
qed

lemma weightless:
  assumes "section_weight a = 0"
  obtains d where "section_effect sid arts v a (c, ms) = (d, ms)" "cv_sections d = cv_sections c"
proof (cases a)
  case (OnFrame k b)
  then show ?thesis using assms that by (cases b) (auto simp: set_focus_def)
qed (use assms that in auto)

lemma menu_action:
  assumes "section_weight a = 1"
  obtains k e where "a = OnFrame k (Menu e)"
proof (cases a)
  case (OnFrame k b)
  then show ?thesis using assms that by (cases b) auto
qed (use assms in auto)

lemma section_quiet:
  "sum_list (map section_weight as) = 0 \<Longrightarrow> fold (section_effect sid arts v) as (c, ms) = (c', ms') \<Longrightarrow>
     cv_sections c' = cv_sections c \<and> ms' = ms"
proof (induction as arbitrary: c)
  case (Cons a as)
  then have "section_weight a = 0" by simp
  then obtain d where "section_effect sid arts v a (c, ms) = (d, ms)" "cv_sections d = cv_sections c"
    by (rule weightless)
  then show ?case using Cons by simp
qed simp

lemma section_one_change:
  "sum_list (map section_weight as) \<le> 1 \<Longrightarrow> fold (section_effect sid arts v) as (c, ms) = (c', ms') \<Longrightarrow>
     cv_sections c' = cv_sections c \<or>
     (\<exists>k. mn_open (ms k) \<and> mn_confirming (ms k) \<and>
        cv_sections c' = delete_artboard sid (section_children arts) k (cv_sections c))"
proof (induction as arbitrary: c)
  case (Cons a as)
  show ?case
  proof (cases "section_weight a = 0")
    case True
    then obtain d where "section_effect sid arts v a (c, ms) = (d, ms)" "cv_sections d = cv_sections c"
      by (rule weightless)
    then show ?thesis using Cons.IH [of d] Cons.prems True by simp
  next
    case False
    then have "section_weight a = 1" using Cons.prems(1) by simp
    then obtain k e where a: "a = OnFrame k (Menu e)" by (rule menu_action)
    then have q: "cv_sections c' = cv_sections (fst (section_effect sid arts v a (c, ms)))"
      using section_quiet [of as sid arts v "fst (section_effect sid arts v a (c, ms))" _ c' ms'] Cons.prems by simp
    show ?thesis
    proof (cases "mn_deletes (menu_step e (ms k)) = mn_deletes (ms k)")
      case False
      then have "mn_open (ms k) \<and> mn_confirming (ms k)"
        by (cases e) (auto simp: menu_effect_def split: if_splits)
      then show ?thesis using q False a by (auto simp: canvas_edit_def)
    qed (use q a in simp)
  qed
qed simp

text \<open>
  Wherever a section is clicked, the saved sections stay as they are, unless the menu of one
  artboard was open with its delete row armed; then exactly that artboard is deleted. In particular
  a click into a title or a label neither renames nor moves anything.
\<close>

theorem section_click_safe:
  assumes "fold (section_effect sid arts v)
      (dispatch ''click'' p (section_view ss i title subtitle gap arts rest menus)) (c, menus) = (c', menus')"
  shows "cv_sections c' = cv_sections c \<or>
     (\<exists>k. mn_open (menus k) \<and> mn_confirming (menus k) \<and>
        cv_sections c' = delete_artboard sid (section_children arts) k (cv_sections c))"
proof (rule section_one_change [OF _ assms])
  show "sum_list (map section_weight (dispatch ''click'' p (section_view ss i title subtitle gap arts rest menus))) \<le> 1"
    unfolding dispatch_def by (rule order_trans [OF bubble_load load_section])
qed


subsection \<open>An instance\<close>

definition demo_arts :: "artboard list" where
  "demo_arts = map (\<lambda>k. \<lparr>ab_id = Some k, ab_label = None, ab_width = None, ab_height = None, ab_style = [],
     ab_kids = [Txt k]\<rparr>) [''a'', ''b'', ''c'']"

definition demo_saved :: sections where
  "demo_saved = reorder_section ''s'' [''c'', ''a'', ''b''] Map.empty"

theorem section_renders_order_witness:
  "with_prop ''data-dc-slot'' (section_view demo_saved (Some ''s'') None None None demo_arts [Txt ''note''] (\<lambda>_. menu_start))
     = map Str [''c'', ''a'', ''b'']"
proof -
  have "canvas_slots (saved_of demo_saved ''s'') (section_children demo_arts) = [''c'', ''a'', ''b'']" by code_simp
  then show ?thesis
    using section_renders_order [of demo_arts "[Txt ''note'']" "Some ''s''" None "''s''"]
    by (simp add: demo_arts_def nullish_def some_text_def)
qed

text \<open>The path leads to the delete row of the first frame, whose menu is open and armed.\<close>

theorem section_click_safe_witness:
  "let ms = (\<lambda>_. \<lparr>mn_open = True, mn_confirming = True, mn_deletes = 0\<rparr>); c0 = canvas_mount None;
       c1 = fst (fold (section_effect ''s'' demo_arts ''x'')
                  (dispatch ''click'' [1, 0, 0, 1, 0, 1, 3] (section_view Map.empty (Some ''s'') None None None demo_arts [] ms))
                  (c0, ms))
   in cv_sections c1 = cv_sections c0 \<or>
      (\<exists>k. cv_sections c1 = delete_artboard ''s'' (section_children demo_arts) k (cv_sections c0))"
  unfolding Let_def
  using section_click_safe [OF surjective_pairing, of "''s''" demo_arts "''x''"] by blast

end
