(* ===== verification/Js_Uri.thy ===== *)
theory Js_Uri
  imports Js_String
begin

text \<open>
  \<open>encodeURIComponent\<close> on strings kept as UTF-8 bytes: the unreserved characters stay, every other
  byte becomes a percent sign and two hexadecimal digits. The browser undoes this when it loads a
  data URL, which is \<open>percent_decode\<close>.
\<close>

definition unreserved :: "char \<Rightarrow> bool" where
  "unreserved c \<longleftrightarrow>
     (let n = of_char c :: nat in
      48 \<le> n \<and> n \<le> 57 \<or> 65 \<le> n \<and> n \<le> 90 \<or> 97 \<le> n \<and> n \<le> 122 \<or> c \<in> set ''-_.!~*()'' \<or> n = 39)"

definition hex_char :: "nat \<Rightarrow> char" where
  "hex_char d = (if d < 10 then char_of (48 + d) else char_of (55 + d))"

definition encode_char :: "char \<Rightarrow> string" where
  "encode_char c =
     (if unreserved c then [c]
      else let n = of_char c :: nat in [CHR ''%'', hex_char (n div 16), hex_char (n mod 16)])"

definition encode_uri_component :: "string \<Rightarrow> string" where
  "encode_uri_component s = concat (map encode_char s)"

definition hex_val :: "char \<Rightarrow> nat" where
  "hex_val c = (let n = of_char c :: nat in if n < 58 then n - 48 else n - 55)"

fun percent_decode :: "string \<Rightarrow> string" where
  "percent_decode [] = []"
| "percent_decode (c # cs) =
     (if c = CHR ''%'' then
        (case cs of a # b # r \<Rightarrow> char_of (16 * hex_val a + hex_val b) # percent_decode r | _ \<Rightarrow> c # percent_decode cs)
      else c # percent_decode cs)"

lemma of_hex_char: "d < 16 \<Longrightarrow> (of_char (hex_char d) :: nat) = (if d < 10 then 48 + d else 55 + d)"
  by (simp add: hex_char_def of_char_of)

lemma hex_val_char [simp]: "d < 16 \<Longrightarrow> hex_val (hex_char d) = d"
  by (simp add: hex_val_def Let_def of_hex_char)

lemma percent_not_unreserved [simp]: "\<not> unreserved (CHR ''%'')"
  by (simp add: unreserved_def)

lemma of_char_256: "(of_char c :: nat) < 256"
  by (cases c) (simp add: of_char_def, (simp add: of_bool_def)?)

lemma high_digit: "(of_char c :: nat) div 16 < 16"
  using of_char_256 [of c] by (intro less_mult_imp_div_less) simp

lemma decode_encode_char: "percent_decode (encode_char c @ s) = c # percent_decode s"
proof (cases "unreserved c")
  case True
  then have "c \<noteq> CHR ''%''" by auto
  then show ?thesis using True by (simp add: encode_char_def)
next
  case False
  have "16 * hex_val (hex_char (of_char c div 16)) + hex_val (hex_char (of_char c mod 16)) = (of_char c :: nat)"
    by (simp add: high_digit)
  then show ?thesis using False by (simp add: encode_char_def Let_def)
qed

lemma decode_encode: "percent_decode (encode_uri_component s) = s"
  unfolding encode_uri_component_def
  by (induction s) (simp_all add: decode_encode_char)

lemma encoded_chars: "c \<in> set (encode_uri_component s) \<Longrightarrow> unreserved c \<or> c = CHR ''%''"
proof -
  assume "c \<in> set (encode_uri_component s)"
  then obtain x where c: "c \<in> set (encode_char x)" by (auto simp: encode_uri_component_def)
  have h: "unreserved (hex_char d)" if "d < 16" for d
    using that by (simp add: unreserved_def Let_def of_hex_char)
  have "(of_char x :: nat) div 16 < 16" "(of_char x :: nat) mod 16 < 16" by (simp_all add: high_digit)
  with c h show ?thesis by (auto simp: encode_char_def Let_def split: if_splits)
qed

end
