(* ===== verification/Canvas_Overlay.thy ===== *)
theory Canvas_Overlay
  imports Canvas_View Js_Uri
begin

text \<open>
  The rest of what the design canvas renders: the viewport with its grid, the focus overlay with its
  drop-down, card, arrows and dots, post-it notes, and the canvas that puts them together. The
  overlay's handlers stop the clicks that must not reach the backdrop, whose click closes it.
\<close>

subsection \<open>Viewport and notes\<close>

definition grid_svg :: string where
  "grid_svg =
     ''url(\"data:image/svg+xml,%3Csvg width='120' height='120' xmlns='http://www.w3.org/2000/svg'%3E%3Cpath d='M120 0H0v120' fill='none' stroke=''
     @ [CHR 39] @ encode_uri_component dc_grid @ ''' stroke-width='1'/%3E%3C/svg%3E\")''"

definition viewport_view :: "style \<Rightarrow> 'e jsx list \<Rightarrow> 'e jsx" where
  "viewport_view st children =
     el ''div'' ''design-canvas''
       (spread [(''height'', Str ''100vh''), (''width'', Str ''100vw''), (''background'', Str dc_bg),
           (''overflow'', Str ''hidden''), (''overscrollBehavior'', Str ''none''), (''touchAction'', Str ''none''),
           (''position'', Str ''relative''), (''fontFamily'', Str dc_font), (''boxSizing'', Str ''border-box'')] st)
       [bare ''div''
          [(''position'', Str ''absolute''), (''top'', px 0), (''left'', px 0), (''transformOrigin'', Str ''0 0''),
           (''willChange'', Str ''transform''), (''width'', Str ''max-content''), (''minWidth'', Str ''100%''),
           (''minHeight'', Str ''100%''), (''padding'', Str ''60px 0 80px'')]
          (bare ''div''
             [(''position'', Str ''absolute''), (''inset'', px (- 6000)), (''backgroundImage'', Str grid_svg),
              (''backgroundSize'', Str ''120px 120px''), (''pointerEvents'', Str ''none''), (''zIndex'', px (- 1))] []
           # children)]"

definition postit_view ::
  "css option \<Rightarrow> css option \<Rightarrow> css option \<Rightarrow> css option \<Rightarrow> jsnum option \<Rightarrow> jsnum option \<Rightarrow> 'e jsx list \<Rightarrow> 'e jsx" where
  "postit_view top_pos left_pos right_pos bottom_pos tilt width children =
     bare ''div''
       ([(''position'', Str ''absolute'')] @ opt_style ''top'' top_pos @ opt_style ''left'' left_pos @ opt_style ''right'' right_pos
        @ opt_style ''bottom'' bottom_pos @
        [(''width'', Num (dflt (Fin 180) width)), (''background'', Str dc_postit_bg), (''padding'', Str ''14px 16px''),
         (''fontFamily'', Str ''\"Comic Sans MS\", \"Marker Felt\", \"Segoe Print\", cursive''),
         (''fontSize'', px 14), (''lineHeight'', px (7 / 5)), (''color'', Str dc_postit_text),
         (''boxShadow'', Str ''0 2px 8px rgba(0,0,0,0.12), 0 1px 2px rgba(0,0,0,0.08)''),
         (''transform'', Str (''rotate('' @ js_to_string (dflt (Fin (- 2)) tilt) @ ''deg)'')),
         (''zIndex'', px 5)])
       children"

subsection \<open>Focus overlay\<close>

datatype overlay_act =
    CloseFocus
  | Go int
  | ToggleList
  | PickSection string
  | PickSlot string
  | Shade string
  | InCard nat

text \<open>The arrows; the style key is the direction.\<close>

definition arrow :: "string \<Rightarrow> int \<Rightarrow> overlay_act jsx" where
  "arrow dir d =
     Elem ''button'' []
       [(''position'', Str ''absolute''), (''top'', Str ''50%''), (dir, px 28), (''transform'', Str ''translateY(-50%)''),
        (''border'', Str ''none''), (''background'', Str ''rgba(255,255,255,.08)''), (''color'', Str ''rgba(255,255,255,.9)''),
        (''width'', px 44), (''height'', px 44), (''borderRadius'', px 22), (''fontSize'', px 18), (''cursor'', Str ''pointer''),
        (''display'', Str ''flex''), (''alignItems'', Str ''center''), (''justifyContent'', Str ''center''),
        (''transition'', Str ''background .15s'')]
       [(''click'', Handler True [Go d]), (''mouseenter'', Handler False [Shade ''rgba(255,255,255,.18)'']),
        (''mouseleave'', Handler False [Shade ''rgba(255,255,255,.08)''])]
       [Elem ''svg'' [(''width'', Str ''18''), (''height'', Str ''18''), (''viewBox'', Str ''0 0 18 18''), (''fill'', Str ''none''),
           (''stroke'', Str ''currentColor''), (''strokeWidth'', Str ''2''), (''strokeLinecap'', Str ''round'')] [] []
          [Elem ''path'' [(''d'', Str (if dir = ''left'' then ''M11 3L5 9l6 6'' else ''M7 3l6 6-6 6''))] [] [] []]]"

definition title_of :: "registries \<Rightarrow> string \<Rightarrow> string option" where
  "title_of rg sid = (case rg_meta rg sid of None \<Rightarrow> None | Some m \<Rightarrow> mt_title m)"

definition opt_text :: "string option \<Rightarrow> 'e jsx list" where
  "opt_text t = (case t of None \<Rightarrow> [] | Some s \<Rightarrow> [Txt s])"

text \<open>One row of the drop-down.\<close>

definition section_row :: "registries \<Rightarrow> slot_entry \<Rightarrow> string \<Rightarrow> overlay_act jsx" where
  "section_row rg en sid =
     Elem ''button'' []
       [(''display'', Str ''block''), (''width'', Str ''100%''), (''textAlign'', Str ''left''), (''border'', Str ''none''),
        (''cursor'', Str ''pointer''),
        (''background'', Str (if sid = en_section en then ''rgba(255,255,255,.1)'' else ''transparent'')),
        (''color'', Str ''#fff''), (''padding'', Str ''8px 12px''), (''borderRadius'', px 5), (''fontSize'', px 14),
        (''fontWeight'', px (if sid = en_section en then 600 else 400)), (''fontFamily'', Str ''inherit'')]
       [(''click'', Handler False [PickSection sid])] (opt_text (title_of rg sid))"

definition listed_sections :: "registries \<Rightarrow> string list" where
  "listed_sections rg = filter (\<lambda>sid. slots_of rg sid \<noteq> []) (rg_order rg)"

definition section_list :: "registries \<Rightarrow> slot_entry \<Rightarrow> overlay_act jsx" where
  "section_list rg en =
     bare ''div''
       [(''position'', Str ''absolute''), (''top'', Str ''100%''), (''left'', px 0), (''marginTop'', px 4),
        (''background'', Str ''#2a251f''), (''borderRadius'', px 8), (''boxShadow'', Str ''0 8px 32px rgba(0,0,0,.4)''),
        (''padding'', px 4), (''minWidth'', px 200), (''zIndex'', px 10)]
       (map (section_row rg en) (listed_sections rg))"

definition overlay_bar :: "registries \<Rightarrow> slot_entry \<Rightarrow> string option \<Rightarrow> bool \<Rightarrow> overlay_act jsx" where
  "overlay_bar rg en subtitle dd =
     Elem ''div'' []
       [(''position'', Str ''absolute''), (''top'', px 0), (''left'', px 0), (''right'', px 0), (''height'', px 72),
        (''display'', Str ''flex''), (''alignItems'', Str ''flex-start''), (''padding'', Str ''16px 20px 0''), (''gap'', px 16)]
       [(''click'', halt)]
       [bare ''div'' [(''position'', Str ''relative'')]
          (Elem ''button'' []
             [(''border'', Str ''none''), (''background'', Str ''transparent''), (''color'', Str ''#fff''),
              (''cursor'', Str ''pointer''), (''padding'', Str ''6px 8px''), (''borderRadius'', px 6),
              (''textAlign'', Str ''left''), (''fontFamily'', Str ''inherit'')]
             [(''click'', Handler False [ToggleList])]
             (bare ''span'' [(''display'', Str ''flex''), (''alignItems'', Str ''center''), (''gap'', px 8)]
                [bare ''span'' [(''fontSize'', px 18), (''fontWeight'', px 600), (''letterSpacing'', px (- 3 / 10))]
                   (opt_text (title_of rg (en_section en))),
                 Elem ''svg'' [(''width'', Str ''11''), (''height'', Str ''11''), (''viewBox'', Str ''0 0 11 11''),
                     (''fill'', Str ''none''), (''stroke'', Str ''currentColor''), (''strokeWidth'', Str ''1.8''),
                     (''strokeLinecap'', Str ''round'')] [(''opacity'', px (7 / 10))] []
                   [Elem ''path'' [(''d'', Str ''M2 4l3.5 3.5L9 4'')] [] [] []]]
              # map (\<lambda>s. bare ''span'' [(''display'', Str ''block''), (''fontSize'', px 13), (''opacity'', px (6 / 10)),
                    (''fontWeight'', px 400), (''marginTop'', px 2)] [Txt s]) (some_text subtitle))
           # only_if dd [section_list rg en]),
        bare ''div'' [(''flex'', px 1)] [],
        Elem ''button'' []
          [(''border'', Str ''none''), (''background'', Str ''transparent''), (''color'', Str ''rgba(255,255,255,.7)''),
           (''width'', px 32), (''height'', px 32), (''borderRadius'', px 16), (''fontSize'', px 20),
           (''cursor'', Str ''pointer''), (''lineHeight'', px 1), (''transition'', Str ''background .12s'')]
          [(''click'', Handler False [CloseFocus]), (''mouseenter'', Handler False [Shade ''rgba(255,255,255,.12)'']),
           (''mouseleave'', Handler False [Shade ''transparent''])]
          [Txt [CHR 0xC3, CHR 0x97]]]"

text \<open>The card at the overlay's scale, and below it the label and the position in the section.\<close>

definition overlay_card :: "slot_entry \<Rightarrow> artboard \<Rightarrow> jsnum \<Rightarrow> jsnum \<Rightarrow> overlay_act jsx" where
  "overlay_card en ab vw vh =
     (let w = dflt (Fin 260) (ab_width ab); h = dflt (Fin 480) (ab_height ab); k = overlay_scale vw vh w h
      in Elem ''div'' [] [(''width'', Num (js_mul w k)), (''height'', Num (js_mul h k)), (''position'', Str ''relative'')]
           [(''click'', halt)]
           [bare ''div''
              [(''width'', Num w), (''height'', Num h), (''transform'', Str (''scale('' @ js_to_string k @ '')'')),
               (''transformOrigin'', Str ''top left''), (''background'', Str ''#fff''), (''borderRadius'', px 2),
               (''overflow'', Str ''hidden''), (''boxShadow'', Str ''0 20px 80px rgba(0,0,0,.4)'')]
              (if ab_kids ab = [] then [placeholder [] (en_artboard en)] else map (map_jsx InCard) (ab_kids ab))])"

definition overlay_caption :: "registries \<Rightarrow> slot_entry \<Rightarrow> saved \<Rightarrow> artboard \<Rightarrow> overlay_act jsx" where
  "overlay_caption rg en sec ab =
     (let peers = slots_of rg (en_section en)
      in Elem ''div'' []
           [(''fontSize'', px 14), (''fontWeight'', px 500), (''opacity'', px (85 / 100)), (''textAlign'', Str ''center'')]
           [(''click'', halt)]
           (opt_text (nullish (sv_labels sec (en_artboard en)) (ab_label ab))
            @ [bare ''span'' [(''opacity'', px (5 / 10)), (''marginLeft'', px 10), (''fontVariantNumeric'', Str ''tabular-nums'')]
                 [Txt (js_to_string (num_of_int (index_of (en_artboard en) peers + 1))), Txt '' / '',
                  Txt (js_to_string (num_of_int (int (length peers))))]]))"

definition overlay_dot :: "slot_entry \<Rightarrow> string list \<Rightarrow> nat \<Rightarrow> string \<Rightarrow> overlay_act jsx" where
  "overlay_dot en peers i p =
     Elem ''button'' []
       [(''border'', Str ''none''), (''padding'', px 0), (''cursor'', Str ''pointer''), (''width'', px 6), (''height'', px 6),
        (''borderRadius'', px 3),
        (''background'', Str (if int i = index_of (en_artboard en) peers then ''#fff'' else ''rgba(255,255,255,.3)''))]
       [(''click'', Handler False [PickSlot (slot_id (en_section en) p)])] []"

definition overlay_dots :: "registries \<Rightarrow> slot_entry \<Rightarrow> overlay_act jsx" where
  "overlay_dots rg en =
     (let peers = slots_of rg (en_section en)
      in Elem ''div'' []
           [(''position'', Str ''absolute''), (''bottom'', px 20), (''left'', Str ''50%''), (''transform'', Str ''translateX(-50%)''),
            (''display'', Str ''flex''), (''gap'', px 8)]
           [(''click'', halt)]
           (map (\<lambda>(i, p). overlay_dot en peers i p) (enumerate 0 peers)))"

definition overlay_view ::
  "registries \<Rightarrow> slot_entry \<Rightarrow> saved \<Rightarrow> artboard \<Rightarrow> string option \<Rightarrow> jsnum \<Rightarrow> jsnum \<Rightarrow> bool \<Rightarrow> overlay_act jsx" where
  "overlay_view rg en sec ab subtitle vw vh dd =
     Elem ''div'' []
       [(''position'', Str ''fixed''), (''inset'', px 0), (''zIndex'', px 100), (''background'', Str ''rgba(24,20,16,.6)''),
        (''backdropFilter'', Str ''blur(14px)''), (''fontFamily'', Str dc_font), (''color'', Str ''#fff'')]
       [(''click'', Handler False [CloseFocus])]
       [overlay_bar rg en subtitle dd,
        bare ''div''
          [(''position'', Str ''absolute''), (''top'', px 64), (''bottom'', px 56), (''left'', px 100), (''right'', px 100),
           (''display'', Str ''flex''), (''flexDirection'', Str ''column''), (''alignItems'', Str ''center''),
           (''justifyContent'', Str ''center''), (''gap'', px 16)]
          [overlay_card en ab vw vh, overlay_caption rg en sec ab],
        arrow ''left'' (- 1), arrow ''right'' 1, overlay_dots rg en]"

text \<open>What the actions do; the flag is \<open>ddOpen\<close>. Hovering and the artboard's own events change neither.\<close>

fun overlay_effect :: "registries \<Rightarrow> slot_entry \<Rightarrow> overlay_act \<Rightarrow> canvas \<times> bool \<Rightarrow> canvas \<times> bool" where
  "overlay_effect rg en CloseFocus (c, dd) = (set_focus None c, dd)"
| "overlay_effect rg en (Go d) (c, dd) =
     (case go rg en d of None \<Rightarrow> c | Some s \<Rightarrow> set_focus (Some s) c, dd)"
| "overlay_effect rg en ToggleList (c, dd) = (c, \<not> dd)"
| "overlay_effect rg en (PickSection sid) (c, dd) =
     (case first_slot rg sid of None \<Rightarrow> c | Some s \<Rightarrow> set_focus (Some s) c, False)"
| "overlay_effect rg en (PickSlot s) (c, dd) = (set_focus (Some s) c, dd)"
| "overlay_effect rg en _ (c, dd) = (c, dd)"

definition overlay_click ::
  "registries \<Rightarrow> slot_entry \<Rightarrow> saved \<Rightarrow> artboard \<Rightarrow> string option \<Rightarrow> jsnum \<Rightarrow> jsnum \<Rightarrow> nat list \<Rightarrow> canvas \<times> bool
     \<Rightarrow> canvas \<times> bool" where
  "overlay_click rg en sec ab subtitle vw vh p st =
     fold (overlay_effect rg en) (dispatch ''click'' p (overlay_view rg en sec ab subtitle vw vh (snd st))) st"

text \<open>\<open>DesignCanvas\<close>: the viewport, with the children once ready, and the overlay while an entry is focused.\<close>

definition canvas_view ::
  "registries \<Rightarrow> canvas \<Rightarrow> style \<Rightarrow> overlay_act jsx list \<Rightarrow> (string \<Rightarrow> artboard) \<Rightarrow> (string \<Rightarrow> string option)
     \<Rightarrow> jsnum \<Rightarrow> jsnum \<Rightarrow> bool \<Rightarrow> overlay_act jsx list" where
  "canvas_view rg c st children art subtitle vw vh dd =
     viewport_view st (only_if (cv_ready c) children)
     # (case focused rg c of
          None \<Rightarrow> []
        | Some en \<Rightarrow>
            [overlay_view rg en (saved_of (cv_sections c) (en_section en)) (art (slot_id (en_section en) (en_artboard en)))
               (subtitle (en_section en)) vw vh dd])"


subsection \<open>Clicks on the overlay\<close>

definition overlay_acts :: "registries \<Rightarrow> slot_entry \<Rightarrow> overlay_act set" where
  "overlay_acts rg en =
     {CloseFocus, ToggleList, Go 1, Go (- 1)} \<union> range PickSection \<union> range InCard \<union>
     (\<lambda>p. PickSlot (slot_id (en_section en) p)) ` set (slots_of rg (en_section en))"

lemma actions_inner: "set (actions ev (map_jsx f t)) \<subseteq> range f"
proof (induction t)
  case (Elem a b c d ks)
  have "map_of (map (map_prod id (map_handler f)) d) ev = map_option (map_handler f) (map_of d ev)"
    by (induction d) auto
  moreover have "set (concat (map (actions ev) (map (map_jsx f) ks))) \<subseteq> range f" using Elem by auto
  ultimately show ?case by (cases "map_of d ev") (auto simp: handler.map_sel)
qed simp

lemma actions_simps [simp]:
  "actions ev (el t c st ks) = concat (map (actions ev) ks)"
  "actions ev (bare t st ks) = concat (map (actions ev) ks)"
  by (simp_all add: el_def bare_def)

lemma actions_opt_text [simp]: "concat (map (actions ev) (opt_text t)) = []"
  by (cases t) (simp_all add: opt_text_def)

lemma actions_arrow [simp]: "actions ''click'' (arrow dir d) = [Go d]"
  by (simp add: arrow_def)

lemma actions_bar: "set (actions ''click'' (overlay_bar rg en subtitle dd)) \<subseteq> {CloseFocus, ToggleList} \<union> range PickSection"
proof -
  have "actions ''click'' (section_row rg en sid) = [PickSection sid]" for sid
    by (simp add: section_row_def)
  then have "set (actions ''click'' (section_list rg en)) \<subseteq> range PickSection"
    by (auto simp: section_list_def)
  then show ?thesis by (auto simp: overlay_bar_def halt_def)
qed

lemma actions_card: "set (actions ''click'' (overlay_card en ab vw vh)) \<subseteq> range InCard"
proof -
  have "set (concat (map (actions ''click'') (map (map_jsx InCard) ks))) \<subseteq> range InCard" for ks
    using actions_inner by fastforce
  then show ?thesis by (simp add: overlay_card_def Let_def halt_def placeholder_def del: map_map set_concat)
qed

lemma actions_caption [simp]: "actions ''click'' (overlay_caption rg en sec ab) = []"
  by (simp add: overlay_caption_def Let_def halt_def)

lemma actions_dots:
  "set (actions ''click'' (overlay_dots rg en)) \<subseteq>
     (\<lambda>p. PickSlot (slot_id (en_section en) p)) ` set (slots_of rg (en_section en))"
  by (auto simp: overlay_dots_def overlay_dot_def halt_def Let_def enumerate_eq_zip dest: set_zip_rightD)

lemma actions_overlay:
  "set (actions ''click'' (overlay_view rg en sec ab subtitle vw vh dd)) \<subseteq> overlay_acts rg en"
  using actions_bar [of rg en subtitle dd] actions_card [of en ab vw vh] actions_dots [of rg en]
  by (auto simp: overlay_view_def overlay_acts_def)

text \<open>The focus is closed or on an artboard that is registered and shown.\<close>

definition focus_ok :: "registries \<Rightarrow> canvas \<Rightarrow> bool" where
  "focus_ok rg c \<longleftrightarrow> cv_focus c = None \<or> (\<exists>en. focused rg c = Some en \<and> valid_entry rg en)"

lemma focus_ok_slot:
  assumes "registered rg" "aid \<in> set (slots_of rg sid)"
  shows "focus_ok rg (set_focus (Some (slot_id sid aid)) c)"
  using focused_slot [OF assms] assms(2) by (simp add: focus_ok_def valid_entry_def)

lemma overlay_effect_ok:
  assumes "registered rg" "valid_entry rg en" "a \<in> overlay_acts rg en" "focus_ok rg c"
  shows "focus_ok rg (fst (overlay_effect rg en a (c, dd))) \<and>
    cv_sections (fst (overlay_effect rg en a (c, dd))) = cv_sections c"
proof -
  have go: "focus_ok rg (set_focus (Some s) c)" if "go rg en d = Some s" "d = 1 \<or> d = - 1" for d s
    using go_target [OF assms(2) that(2,1)] focus_ok_slot [OF assms(1)] by blast
  have first: "focus_ok rg (set_focus (Some s) c)" if "first_slot rg sid = Some s" for s sid
    using that by (rule first_slot_Some) (use focus_ok_slot [OF assms(1)] in blast)
  have slot: "focus_ok rg (set_focus (Some (slot_id (en_section en) p)) c)" if "p \<in> set (slots_of rg (en_section en))" for p
    using that by (rule focus_ok_slot [OF assms(1)])
  from assms(3) show ?thesis
    by (auto simp: overlay_acts_def assms(4) go first slot split: option.split)
      (auto simp: set_focus_def focus_ok_def)
qed

lemma overlay_effects_ok:
  assumes "registered rg" "valid_entry rg en"
  shows "set as \<subseteq> overlay_acts rg en \<Longrightarrow> focus_ok rg (fst st) \<Longrightarrow>
    focus_ok rg (fst (fold (overlay_effect rg en) as st)) \<and>
    cv_sections (fst (fold (overlay_effect rg en) as st)) = cv_sections (fst st)"
proof (induction as arbitrary: st)
  case (Cons a as)
  have 1: "focus_ok rg (fst (overlay_effect rg en a st)) \<and>
      cv_sections (fst (overlay_effect rg en a st)) = cv_sections (fst st)"
    using overlay_effect_ok [OF assms, of a "fst st" "snd st"] Cons.prems by simp
  with Cons.IH [of "overlay_effect rg en a st"] Cons.prems show ?case by simp
qed simp

lemma inner_effects: "set as \<subseteq> range InCard \<Longrightarrow> fold (overlay_effect rg en) as st = st"
proof (induction as arbitrary: st)
  case (Cons a as)
  then show ?case by (cases st) auto
qed simp


text \<open>
  A click anywhere on the focus overlay closes it or leaves the focus on an artboard that is
  registered and shown by its section, and never changes the saved sections; section identifiers
  must not contain a slash.
\<close>

theorem overlay_click_safe:
  assumes "section_ids_ok children" "rg = registries_of ss children"
    and "focused rg c = Some en" "valid_entry rg en"
    and "overlay_click rg en sec ab subtitle vw vh p (c, dd) = (c', dd')"
  shows "(cv_focus c' = None \<or> (\<exists>en'. focused rg c' = Some en' \<and> valid_entry rg en')) \<and>
    cv_sections c' = cv_sections c"
proof -
  let ?as = "dispatch ''click'' p (overlay_view rg en sec ab subtitle vw vh dd)"
  have reg: "registered rg" unfolding assms(2) by (rule registered_of [OF assms(1)])
  have "set ?as \<subseteq> overlay_acts rg en"
    using dispatch_actions actions_overlay by (rule order_trans)
  moreover have "focus_ok rg c" using assms(3,4) by (simp add: focus_ok_def)
  ultimately show ?thesis
    using overlay_effects_ok [OF reg assms(4), of ?as "(c, dd)"] assms(5)
    by (simp add: overlay_click_def focus_ok_def)
qed

text \<open>A part whose elements have no handlers hears nothing, and an element around such parts its own.\<close>

definition quiet :: "string \<Rightarrow> 'e jsx \<Rightarrow> bool" where
  "quiet ev t \<longleftrightarrow> (\<forall>q. bubble ev q t = ([], False))"

lemma bubble_own:
  assumes "\<forall>k \<in> set (children_of t). quiet ev k"
  shows "bubble ev q t = (acts (handler_of ev t), stops (handler_of ev t))"
  using assms by (cases q) (auto simp: quiet_def dest: nth_mem)

lemma quiet_simps [simp]:
  "quiet ev (Txt s)" "\<forall>k \<in> set ks. quiet ev k \<Longrightarrow> quiet ev (Elem t ps st [] ks)"
  "\<forall>k \<in> set ks. quiet ev k \<Longrightarrow> quiet ev (bare t st ks)"
  by (simp_all add: quiet_def bubble_own bare_def)

lemma quiet_opt_text [simp]: "k \<in> set (opt_text t) \<Longrightarrow> quiet ev k"
  by (auto simp: opt_text_def split: option.splits)

lemma bubble_arrow: "bubble ''click'' q (arrow dir d) = ([Go d], True)"
  by (subst bubble_own) (simp_all add: arrow_def)

text \<open>
  C38. What a click on each part of the overlay does, on anything inside the part as well: on the
  backdrop and around the card it closes; on the card, the caption, the bar, the drop-down between
  its rows and the strip of the dots nothing; on the left and right arrow it goes to the artboard
  before and after the one that is shown, around the ends of the section; on the cross it closes; on
  the title it opens or closes the drop-down; on the \<open>i\<close>-th dot it focuses the \<open>i\<close>-th artboard; and on
  the \<open>j\<close>-th row of the open drop-down the first artboard of the \<open>j\<close>-th section that has any, and the
  drop-down closes.
\<close>

theorem overlay_click_targets:
  assumes "peers = slots_of rg (en_section en)" "index_of (en_artboard en) peers = int k"
    and "i < length peers" "j < length (listed_sections rg)"
    and "click = overlay_click rg en sec ab subtitle vw vh"
    and "shown = (\<lambda>p. set_focus (Some (slot_id (en_section en) p)) c)"
  shows "click [] (c, dd) = (set_focus None c, dd) \<and> click [1] (c, dd) = (set_focus None c, dd) \<and>
    click (1 # 0 # q) (c, dd) = (c, dd) \<and> click (1 # 1 # q) (c, dd) = (c, dd) \<and>
    click [0] (c, dd) = (c, dd) \<and> click [0, 0] (c, dd) = (c, dd) \<and> click [0, 1] (c, dd) = (c, dd) \<and>
    click [0, 0, 1] (c, True) = (c, True) \<and> click [4] (c, dd) = (c, dd) \<and>
    click (2 # q) (c, dd) = (shown (peers ! ((k + length peers - 1) mod length peers)), dd) \<and>
    click (3 # q) (c, dd) = (shown (peers ! ((k + 1) mod length peers)), dd) \<and>
    click (0 # 2 # q) (c, dd) = (set_focus None c, dd) \<and> click (0 # 0 # 0 # q) (c, dd) = (c, \<not> dd) \<and>
    click [4, i] (c, dd) = (shown (peers ! i), dd) \<and>
    click (0 # 0 # 1 # j # q) (c, True) =
      (case first_slot rg (listed_sections rg ! j) of None \<Rightarrow> c | Some s \<Rightarrow> set_focus (Some s) c, False)"
proof -
  let ?v = "overlay_view rg en sec ab subtitle vw vh"
  note run = assms(5) overlay_click_def dispatch_def snd_conv
  have card: "bubble ''click'' (1 # 0 # q) (?v dd) = (fst (bubble ''click'' q (overlay_card en ab vw vh)), True)"
    using bubble_below [of "[1, 0]" "?v dd" "overlay_card en ab vw vh" "''click''" q]
      bubble_stops [of "''click''" "overlay_card en ab vw vh" q]
    by (simp add: overlay_view_def bare_def overlay_card_def Let_def halt_def)
  have caption: "bubble ''click'' (1 # 1 # q) (?v dd) = (fst (bubble ''click'' q (overlay_caption rg en sec ab)), True)"
    using bubble_below [of "[1, 1]" "?v dd" "overlay_caption rg en sec ab" "''click''" q]
      bubble_stops [of "''click''" "overlay_caption rg en sec ab" q]
    by (simp add: overlay_view_def bare_def overlay_caption_def Let_def halt_def)
  have "set (fst (bubble ''click'' q (overlay_card en ab vw vh))) \<subseteq> range InCard"
    using bubble_actions actions_card by (rule order_trans)
  then have c1: "click (1 # 0 # q) (c, dd) = (c, dd)"
    unfolding run card fst_conv by (rule inner_effects)
  have "fst (bubble ''click'' q (overlay_caption rg en sec ab)) = []"
    using bubble_actions [of "''click''" q "overlay_caption rg en sec ab"] by simp
  then have c2: "click (1 # 1 # q) (c, dd) = (c, dd)"
    unfolding run caption fst_conv by simp
  have c3: "click [] (c, dd) = (set_focus None c, dd)" "click [1] (c, dd) = (set_focus None c, dd)"
    by (simp_all add: run overlay_view_def bare_def)
  have c4: "click [4, i] (c, dd) = (shown (peers ! i), dd)" "click [4] (c, dd) = (c, dd)"
    using assms(1,3)
    by (simp_all add: run assms(6) overlay_view_def overlay_dots_def overlay_dot_def Let_def halt_def nth_enumerate_eq)
  have c5: "click [0] (c, dd) = (c, dd)" "click [0, 0] (c, dd) = (c, dd)" "click [0, 1] (c, dd) = (c, dd)"
    "click [0, 0, 1] (c, True) = (c, True)"
    by (simp_all add: run overlay_view_def overlay_bar_def section_list_def bare_def halt_def)
  have "go rg en (- 1) = Some (slot_id (en_section en) (peers ! ((k + length peers - 1) mod length peers)))"
    "go rg en 1 = Some (slot_id (en_section en) (peers ! ((k + 1) mod length peers)))"
  proof -
    have "int k + - 1 + int (length peers) = int (k + length peers - 1)" using assms(3) by linarith
    moreover have "(int k + 1 + int (length peers)) mod int (length peers) = int ((k + 1) mod length peers)"
      unfolding of_nat_mod of_nat_add of_nat_1 by (rule mod_add_self2)
    ultimately show "go rg en (- 1) = Some (slot_id (en_section en) (peers ! ((k + length peers - 1) mod length peers)))"
      "go rg en 1 = Some (slot_id (en_section en) (peers ! ((k + 1) mod length peers)))"
      using assms(3) unfolding go_def Let_def assms(1) [symmetric] assms(2)
      by (auto simp only: of_nat_mod [symmetric] nat_int list.size(3) split: if_splits)
  qed
  then have c6: "click (2 # q) (c, dd) = (shown (peers ! ((k + length peers - 1) mod length peers)), dd)"
    "click (3 # q) (c, dd) = (shown (peers ! ((k + 1) mod length peers)), dd)"
    by (simp_all add: run assms(6) overlay_view_def bubble_arrow)
  have c7: "click (0 # 2 # q) (c, dd) = (set_focus None c, dd)" "click (0 # 0 # 0 # q) (c, dd) = (c, \<not> dd)"
    by (simp_all add: run overlay_view_def overlay_bar_def bare_def halt_def bubble_own)
  have c8: "click (0 # 0 # 1 # j # q) (c, True) =
      (case first_slot rg (listed_sections rg ! j) of None \<Rightarrow> c | Some s \<Rightarrow> set_focus (Some s) c, False)"
    using assms(4)
    by (simp add: run overlay_view_def overlay_bar_def section_list_def section_row_def bare_def halt_def bubble_own)
  show ?thesis by (intro conjI c1 c2 c3 c4 c5 c6 c7 c8)
qed

subsection \<open>Instances\<close>

lemma focus_demo_entry:
  "section_ids_ok focus_children" "focused focus_regs (set_focus (Some ''s/a'') (canvas_mount None)) = Some \<lparr>en_section = ''s'', en_artboard = ''a''\<rparr>"
  "valid_entry focus_regs \<lparr>en_section = ''s'', en_artboard = ''a''\<rparr>"
  by code_simp+


definition demo_card :: artboard where
  "demo_card = \<lparr>ab_id = Some ''a'', ab_label = Some ''A'', ab_width = None, ab_height = None, ab_style = [], ab_kids = []\<rparr>"

definition demo_click :: "nat list \<Rightarrow> canvas \<times> bool \<Rightarrow> canvas \<times> bool" where
  "demo_click = overlay_click focus_regs \<lparr>en_section = ''s'', en_artboard = ''a''\<rparr> no_saved demo_card None (Fin 1000) (Fin 800)"

theorem overlay_click_safe_witness:
  "let c' = fst (demo_click [2, 0] (set_focus (Some ''s/a'') (canvas_mount None), False))
   in cv_focus c' = None \<or> (\<exists>en'. focused focus_regs c' = Some en' \<and> valid_entry focus_regs en')"
  using overlay_click_safe [OF focus_demo_entry(1) focus_regs_def focus_demo_entry(2,3) surjective_pairing]
  by (simp add: Let_def demo_click_def)

theorem overlay_click_targets_witness:
  "cv_focus (fst (demo_click [2, 0] (canvas_mount None, False))) = Some (slot_id ''s'' ''c'') \<and>
   cv_focus (fst (demo_click [3, 0] (canvas_mount None, False))) = Some (slot_id ''s'' ''b'')"
proof -
  have "listed_sections focus_regs = [''s'', ''t'']" "index_of ''a'' [''a'', ''b'', ''c''] = int 0" by code_simp+
  then show ?thesis
    using overlay_click_targets [of _ focus_regs "\<lparr>en_section = ''s'', en_artboard = ''a''\<rparr>" 0 2 1 demo_click _ _ _ _ _ _ "canvas_mount None" False "[0]"]
    by (simp add: focus_demo(2) demo_click_def set_focus_def)
qed

end
