(* ===== verification/Canvas_Board.thy ===== *)
theory Canvas_Board
  imports Canvas_Overlay
begin

text \<open>
  The design canvas as a whole: the state of \<open>DesignCanvas\<close> with its sidecar, the menus of the frames,
  the drop-down of the overlay, the inline editor that has the focus, the drags in progress and the
  drops that wait for their settle animation. Every event a user, a timer, the network or React can
  cause is one step; it is made of the operations of \<open>Canvas_State\<close>, \<open>Canvas_Frame\<close>, \<open>Canvas_View\<close> and
  \<open>Canvas_Overlay\<close>. The viewport (\<open>Canvas_Viewport\<close>) shares no state with them. The children of the
  canvas stay the same, as on the pages that use it, so the order a section keeps in its memo is the
  one computed from the sections (\<open>session_shows_order\<close> in \<open>Canvas_Memo\<close>).
\<close>

subsection \<open>The canvas\<close>

text \<open>A \<open>DCSection\<close> among the children of the canvas.\<close>

record dsection =
  ds_id :: "string option"
  ds_title :: "string option"
  ds_subtitle :: "string option"
  ds_gap :: "jsnum option"
  ds_arts :: "artboard list"
  ds_rest :: "nat jsx list"

definition board_children :: "dsection list \<Rightarrow> child list" where
  "board_children secs = map (\<lambda>s. Section (ds_id s) (ds_title s) (section_children (ds_arts s))) secs"

text \<open>\<open>id ?? title\<close> as a property name: a missing one is written \<open>undefined\<close>.\<close>

definition section_key :: "dsection \<Rightarrow> string" where
  "section_key s = dflt ''undefined'' (nullish (ds_id s) (ds_title s))"

text \<open>\<open>(ctx && sid && ctx.section(sid)) || {}\<close>\<close>

definition section_saved :: "sections \<Rightarrow> dsection \<Rightarrow> saved" where
  "section_saved ss s = (case some_text (nullish (ds_id s) (ds_title s)) of k # _ \<Rightarrow> saved_of ss k | [] \<Rightarrow> no_saved)"

definition shown_slots :: "sections \<Rightarrow> dsection \<Rightarrow> string list" where
  "shown_slots ss s = section_order (section_saved ss s) (section_children (ds_arts s))"

text \<open>The inline editors: of a section's title and of an artboard's label.\<close>

datatype editor = TitleEditor nat | LabelEditor nat string

record board =
  bd_canvas :: canvas
  bd_menus :: "nat \<Rightarrow> string \<Rightarrow> menu"
  bd_list :: bool
  bd_editor :: "(editor \<times> string) option"
  bd_grips :: "(string \<times> grip) list"
  bd_drops :: "(nat \<times> string \<times> grip) list"

definition board_mount :: "sections option \<Rightarrow> board" where
  "board_mount file = \<lparr>bd_canvas = canvas_mount file, bd_menus = (\<lambda>_ _. menu_start), bd_list = False,
     bd_editor = None, bd_grips = [], bd_drops = []\<rparr>"

definition board_regs :: "dsection list \<Rightarrow> canvas \<Rightarrow> registries" where
  "board_regs secs c = registries_of (cv_sections c) (board_children secs)"

text \<open>A frame is in the document once the canvas is ready and while its section shows it.\<close>

definition frame_shown :: "dsection list \<Rightarrow> canvas \<Rightarrow> nat \<Rightarrow> string \<Rightarrow> bool" where
  "frame_shown secs c i k \<longleftrightarrow> cv_ready c \<and> i < length secs \<and> k \<in> set (shown_slots (cv_sections c) (secs ! i))"

fun editor_shown :: "dsection list \<Rightarrow> canvas \<Rightarrow> editor \<Rightarrow> bool" where
  "editor_shown secs c (TitleEditor i) \<longleftrightarrow> cv_ready c \<and> i < length secs"
| "editor_shown secs c (LabelEditor i k) \<longleftrightarrow> frame_shown secs c i k"

text \<open>The text an editor shows while nobody types into it.\<close>

fun editor_value :: "dsection list \<Rightarrow> sections \<Rightarrow> editor \<Rightarrow> string" where
  "editor_value secs ss (TitleEditor i) =
     dflt [] (nullish (sv_title (section_saved ss (secs ! i))) (ds_title (secs ! i)))"
| "editor_value secs ss (LabelEditor i k) =
     dflt [] (nullish (sv_labels (section_saved ss (secs ! i)) k)
                (case by_id (ds_arts (secs ! i)) k of None \<Rightarrow> None | Some ab \<Rightarrow> ab_label ab))"

subsection \<open>Handlers\<close>

text \<open>\<open>onBlur\<close> of an editor: its text is committed, whether or not it was changed.\<close>

fun commit_editor :: "dsection list \<Rightarrow> editor \<Rightarrow> string \<Rightarrow> canvas \<Rightarrow> canvas" where
  "commit_editor secs (TitleEditor i) v c =
     (case some_text (nullish (ds_id (secs ! i)) (ds_title (secs ! i))) of
        k # _ \<Rightarrow> canvas_edit (rename_section k v) c
      | [] \<Rightarrow> c)"
| "commit_editor secs (LabelEditor i k) v c = canvas_edit (rename_artboard (section_key (secs ! i)) k v) c"

definition leave_editor :: "dsection list \<Rightarrow> board \<Rightarrow> board" where
  "leave_editor secs b =
     (case bd_editor b of
        None \<Rightarrow> b
      | Some (ed, v) \<Rightarrow> b\<lparr>bd_canvas := commit_editor secs ed v (bd_canvas b), bd_editor := None\<rparr>)"

text \<open>
  Where a pointer goes down: in an editor, in the menu of a frame, on the grip of a frame (with the
  left edges of the cards, the two widths of the frame and the position), or elsewhere.
\<close>

datatype place =
    InEditor editor
  | InMenu nat string
  | OnGrip nat string "jsnum list" jsnum jsnum jsnum
  | Elsewhere

text \<open>
  The cards that \<open>[data-dc-section="sid"] [data-dc-slot]\<close> selects, in document order, and their left
  edges. The identifier is put into the selector as it is: with a quote or a line end in it the
  selector is refused and the handler ends before it listens to the pointer; with a backslash, or for
  a section without an identifier, whose element has no such attribute, nothing is selected, and the
  moves and the release of the pointer fail on the missing home of the card before they do anything.
  In all these cases no drag takes place (an identifier with a quote that completes another selector
  is not modelled).
\<close>

definition plain_selector :: "string \<Rightarrow> bool" where
  "plain_selector sid \<longleftrightarrow> list_all (\<lambda>c. c \<notin> {CHR 0x22, CHR 0x5C, CHR 0x0A, CHR 0x0C, CHR 0x0D, CHR 0x00}) sid"

definition drag_selects :: "dsection \<Rightarrow> bool" where
  "drag_selects s = (case nullish (ds_id s) (ds_title s) of None \<Rightarrow> False | Some sid \<Rightarrow> plain_selector sid)"

definition section_cards :: "dsection list \<Rightarrow> sections \<Rightarrow> string \<Rightarrow> string list" where
  "section_cards secs ss sid =
     concat (map (shown_slots ss) (filter (\<lambda>s. nullish (ds_id s) (ds_title s) = Some sid) secs))"

definition card_homes :: "string list \<Rightarrow> jsnum list \<Rightarrow> home list" where
  "card_homes cards left = map2 (\<lambda>k x. \<lparr>hm_id = k, hm_x = x\<rparr>) cards left"

definition start_drag :: "dsection list \<Rightarrow> nat \<Rightarrow> string \<Rightarrow> jsnum list \<Rightarrow> jsnum \<Rightarrow> jsnum \<Rightarrow> jsnum \<Rightarrow> board \<Rightarrow> board" where
  "start_drag secs i k left w ow x b =
     (let ss = cv_sections (bd_canvas b); sid = section_key (secs ! i); cards = section_cards secs ss sid
      in if frame_shown secs (bd_canvas b) i k \<and> drag_selects (secs ! i) \<and> length left = length cards
         then b\<lparr>bd_grips := bd_grips b @ [(sid, grip_down k (shown_slots ss (secs ! i)) (card_homes cards left) x w ow)]\<rparr>
         else b)"

text \<open>
  A pointer goes down. First the listeners of the document: an editor it is not in loses the focus,
  and the menus it is not in close. Then the target: an editor takes the focus, a grip starts a drag.
\<close>

definition down_blur :: "dsection list \<Rightarrow> place \<Rightarrow> board \<Rightarrow> board" where
  "down_blur secs pl b =
     (case bd_editor b of
        None \<Rightarrow> b
      | Some (ed, v) \<Rightarrow> if pl = InEditor ed then b else leave_editor secs b)"

definition down_menus :: "place \<Rightarrow> board \<Rightarrow> board" where
  "down_menus pl b =
     b\<lparr>bd_menus := (\<lambda>i k. if pl = InMenu i k then bd_menus b i k else menu_step OutsideDown (bd_menus b i k))\<rparr>"

definition down_target :: "dsection list \<Rightarrow> place \<Rightarrow> board \<Rightarrow> board" where
  "down_target secs pl b =
     (case pl of
        InEditor ed \<Rightarrow>
          if bd_editor b = None \<and> editor_shown secs (bd_canvas b) ed
          then b\<lparr>bd_editor := Some (ed, editor_value secs (cv_sections (bd_canvas b)) ed)\<rparr> else b
      | OnGrip i k left w ow x \<Rightarrow> start_drag secs i k left w ow x b
      | _ \<Rightarrow> b)"

definition pointer_down :: "dsection list \<Rightarrow> place \<Rightarrow> board \<Rightarrow> board" where
  "pointer_down secs pl b = down_target secs pl (down_menus pl (down_blur secs pl b))"

definition board_click :: "dsection list \<Rightarrow> nat \<Rightarrow> nat list \<Rightarrow> board \<Rightarrow> board" where
  "board_click secs i p b =
     (if i < length secs \<and> cv_ready (bd_canvas b) then
        let s = secs ! i; ms = bd_menus b i;
            as = dispatch ''click'' p (section_view (cv_sections (bd_canvas b)) (ds_id s) (ds_title s) (ds_subtitle s)
                   (ds_gap s) (ds_arts s) (ds_rest s) ms);
            st = fold (section_effect (section_key s) (ds_arts s) []) as (bd_canvas b, ms)
        in b\<lparr>bd_canvas := fst st, bd_menus := (bd_menus b)(i := snd st)\<rparr>
      else b)"

text \<open>The artboard and the subtitle of the entry that the overlay shows.\<close>

definition entry_artboard :: "dsection list \<Rightarrow> slot_entry \<Rightarrow> artboard option" where
  "entry_artboard secs en =
     by_id (concat (map ds_arts (filter (\<lambda>s. section_key s = en_section en) secs))) (en_artboard en)"

definition entry_subtitle :: "dsection list \<Rightarrow> slot_entry \<Rightarrow> string option" where
  "entry_subtitle secs en =
     (case rev (filter (\<lambda>s. section_key s = en_section en) secs) of s # _ \<Rightarrow> ds_subtitle s | [] \<Rightarrow> None)"

definition click_overlay :: "dsection list \<Rightarrow> jsnum \<Rightarrow> jsnum \<Rightarrow> nat list \<Rightarrow> board \<Rightarrow> board" where
  "click_overlay secs vw vh p b =
     (let c = bd_canvas b; rg = board_regs secs c
      in case focused rg c of
           None \<Rightarrow> b
         | Some en \<Rightarrow>
             (case entry_artboard secs en of
                None \<Rightarrow> b
              | Some ab \<Rightarrow>
                  let st = overlay_click rg en (saved_of (cv_sections c) (en_section en)) ab (entry_subtitle secs en) vw vh p
                             (c, bd_list b)
                  in b\<lparr>bd_canvas := fst st, bd_list := snd st\<rparr>))"

text \<open>Releasing the pointer ends all drags; their drops are committed 180 milliseconds later.\<close>

definition pointer_up :: "board \<Rightarrow> board" where
  "pointer_up b =
     b\<lparr>bd_grips := [],
       bd_drops := bd_drops b @ map (\<lambda>(sid, g). (cv_now (bd_canvas b) + 180, sid, g)) (bd_grips b)\<rparr>"

definition commit_drop :: "nat \<times> string \<times> grip \<Rightarrow> canvas \<Rightarrow> canvas" where
  "commit_drop d c =
     (case d of (due, sid, g) \<Rightarrow>
        (case grip_up g of None \<Rightarrow> c | Some nxt \<Rightarrow> canvas_edit (reorder_section sid nxt) c))"

definition board_elapse :: "nat \<Rightarrow> board \<Rightarrow> board" where
  "board_elapse dt b =
     (let c = canvas_elapse dt (bd_canvas b)
      in b\<lparr>bd_canvas := fold commit_drop (filter (\<lambda>d. fst d \<le> cv_now c) (bd_drops b)) c,
           bd_drops := filter (\<lambda>d. \<not> fst d \<le> cv_now c) (bd_drops b)\<rparr>)"

datatype board_event =
    SettleRead "sections option"
  | ShowTimer
  | FlushEffects
  | Elapse nat
  | SectionClick nat "nat list"
  | OverlayClick jsnum jsnum "nat list"
  | KeyDown nav_key
  | DownAt place
  | MoveTo jsnum
  | Release
  | TypeText string
  | LeaveEditor

fun board_act :: "dsection list \<Rightarrow> board_event \<Rightarrow> board \<Rightarrow> board" where
  "board_act secs (SettleRead r) b = b\<lparr>bd_canvas := read_settled r (bd_canvas b)\<rparr>"
| "board_act secs ShowTimer b = b\<lparr>bd_canvas := show_unread (bd_canvas b)\<rparr>"
| "board_act secs FlushEffects b = b\<lparr>bd_canvas := flush_effect (bd_canvas b)\<rparr>"
| "board_act secs (Elapse dt) b = board_elapse dt b"
| "board_act secs (SectionClick i p) b = board_click secs i p b"
| "board_act secs (OverlayClick vw vh p) b = click_overlay secs vw vh p b"
| "board_act secs (KeyDown k) b = b\<lparr>bd_canvas := nav (board_regs secs (bd_canvas b)) k (bd_canvas b)\<rparr>"
| "board_act secs (DownAt pl) b = pointer_down secs pl b"
| "board_act secs (MoveTo x) b = b\<lparr>bd_grips := map (\<lambda>(sid, g). (sid, grip_move x g)) (bd_grips b)\<rparr>"
| "board_act secs Release b = pointer_up b"
| "board_act secs (TypeText v) b =
     b\<lparr>bd_editor := (case bd_editor b of None \<Rightarrow> None | Some (ed, _) \<Rightarrow> Some (ed, v))\<rparr>"
| "board_act secs LeaveEditor b = leave_editor secs b"

text \<open>
  What React unmounts after an event loses its state: the menu of a frame that is gone, the drop-down
  of a closed overlay, an editor that is gone (its removal fires no blur event).
\<close>

definition unmount_gone :: "dsection list \<Rightarrow> board \<Rightarrow> board" where
  "unmount_gone secs b =
     (let c = bd_canvas b
      in b\<lparr>bd_menus := (\<lambda>i k. if frame_shown secs c i k then bd_menus b i k else menu_start),
           bd_list := (bd_list b \<and> focused (board_regs secs c) c \<noteq> None),
           bd_editor := (case bd_editor b of
              None \<Rightarrow> None | Some (ed, v) \<Rightarrow> if editor_shown secs c ed then Some (ed, v) else None)\<rparr>)"

definition board_step :: "dsection list \<Rightarrow> board_event \<Rightarrow> board \<Rightarrow> board" where
  "board_step secs e b = unmount_gone secs (board_act secs e b)"

subsection \<open>What every step keeps\<close>

text \<open>
  A law of the canvas: it survives focus changes, timers and every edit that the components make, and
  flushes too if \<open>flushed\<close>; an order is committed only if it is of the given kind. Then every step of
  the board keeps it.
\<close>

definition drops_ok :: "(string list \<Rightarrow> bool) \<Rightarrow> board \<Rightarrow> bool" where
  "drops_ok kind b \<longleftrightarrow> list_all (\<lambda>(due, sid, g). kind (gr_live g)) (bd_drops b)"

lemma drops_ok_all [simp]: "drops_ok (\<lambda>_. True) b"
  by (simp add: drops_ok_def list_all_iff)

fun is_read :: "board_event \<Rightarrow> bool" where
  "is_read (SettleRead _) = True"
| "is_read _ = False"

locale edit_law =
  fixes law :: "canvas \<Rightarrow> bool" and kind :: "string list \<Rightarrow> bool" and flushed :: bool
  assumes title: "law c \<Longrightarrow> law (canvas_edit (rename_section sid v) c)"
    and label: "law c \<Longrightarrow> law (canvas_edit (rename_artboard sid k v) c)"
    and order: "law c \<Longrightarrow> kind nxt \<Longrightarrow> law (canvas_edit (reorder_section sid nxt) c)"
    and focus: "law c \<Longrightarrow> law (set_focus s c)"
    and flush: "flushed \<Longrightarrow> law c \<Longrightarrow> law (flush_effect c)"
    and elapse: "law c \<Longrightarrow> law (canvas_elapse dt c)"
    and shown: "law c \<Longrightarrow> law (show_unread c)"
begin

lemma law_overlay_effects: "law (fst st) \<Longrightarrow> law (fst (fold (overlay_effect rg en) as st))"
proof (induction as arbitrary: st)
  case (Cons a as)
  have "law (fst (overlay_effect rg en a st))"
    using Cons.prems by (cases "(rg, en, a, st)" rule: overlay_effect.cases)
      (simp_all add: focus split: option.split)
  then show ?case using Cons.IH by simp
qed simp

lemma law_nav: "law c \<Longrightarrow> law (nav rg k c)"
  by (auto simp: nav_def Let_def focus split: option.split)

lemma law_leave: "law (bd_canvas b) \<Longrightarrow> law (bd_canvas (leave_editor secs b))"
proof -
  assume "law (bd_canvas b)"
  then have "law (commit_editor secs ed v (bd_canvas b))" for ed v
    by (cases ed) (auto simp: title label split: list.split)
  with \<open>law (bd_canvas b)\<close> show ?thesis by (auto simp: leave_editor_def split: option.split)
qed

lemma law_drops: "law c \<Longrightarrow> list_all (\<lambda>(due, sid, g). kind (gr_live g)) ds \<Longrightarrow> law (fold commit_drop ds c)"
proof (induction ds arbitrary: c)
  case (Cons d ds)
  then have "law (commit_drop d c)"
    by (auto simp: commit_drop_def grip_up_def order split: prod.split)
  with Cons show ?case by simp
qed simp

lemma law_edit_step:
  assumes "law (bd_canvas b)" "drops_ok kind b" "\<not> is_read e" "e = FlushEffects \<longrightarrow> flushed" "\<And>i p. e \<noteq> SectionClick i p"
  shows "law (bd_canvas (board_step secs e b))"
proof -
  have "law (bd_canvas (board_act secs e b))"
  proof (cases e)
    case (Elapse dt)
    have "list_all (\<lambda>(due, sid, g). kind (gr_live g)) (filter P (bd_drops b))" for P
      using assms(2) by (auto simp: drops_ok_def list_all_iff)
    then show ?thesis using Elapse assms(1) by (simp add: board_elapse_def Let_def law_drops elapse)
  next
    case (OverlayClick vw vh p)
    then show ?thesis using assms(1)
      by (simp add: click_overlay_def overlay_click_def Let_def law_overlay_effects split: option.split)
  next
    case (DownAt pl)
    have "bd_canvas (down_target secs pl b') = bd_canvas b'" for b'
      by (simp add: down_target_def start_drag_def Let_def split: place.split)
    then show ?thesis using DownAt assms(1) law_leave [OF assms(1), of secs]
      by (simp add: pointer_down_def down_menus_def down_blur_def split: option.split)
  qed (use assms in \<open>auto simp: shown flush law_nav law_leave pointer_up_def\<close>)
  then show ?thesis by (simp add: board_step_def unmount_gone_def Let_def)
qed

end

text \<open>A law that deletions keep as well.\<close>

locale canvas_law = edit_law +
  assumes delete: "law c \<Longrightarrow> law (canvas_edit (delete_artboard sid children k) c)"
begin

lemma law_section_effects: "law (fst st) \<Longrightarrow> law (fst (fold (section_effect sid arts v) as st))"
proof (induction as arbitrary: st)
  case (Cons a as)
  have "law (fst (section_effect sid arts v a st))"
    using Cons.prems by (cases "(sid, arts, v, a, st)" rule: section_effect.cases)
      (simp_all add: title label delete focus)
  then show ?case using Cons.IH by simp
qed simp

lemma law_step:
  assumes "law (bd_canvas b)" "drops_ok kind b" "\<not> is_read e" "e = FlushEffects \<longrightarrow> flushed"
  shows "law (bd_canvas (board_step secs e b))"
proof (cases "\<exists>i p. e = SectionClick i p")
  case True
  then show ?thesis
    using assms(1) by (auto simp: board_step_def board_click_def unmount_gone_def Let_def law_section_effects)
qed (use law_edit_step [OF assms] in blast)

end

text \<open>Once the read has settled, what is saved follows the sections (\<open>tracked\<close>), whatever happens.\<close>

interpretation saving: canvas_law tracked "\<lambda>_. True" True
proof -
  have edit: "tracked c \<Longrightarrow> tracked (canvas_edit f c)" for f c using tracked_step [of c "Edit f"] by simp
  show "canvas_law tracked (\<lambda>_. True) True"
    using tracked_step [of _ "Focus _"] tracked_step [of _ Flush] tracked_step [of _ "Wait _"] tracked_step [of _ ShowUnread]
    by unfold_locales (simp_all add: edit)
qed

text \<open>Before it has settled, nothing is written.\<close>

definition early :: "sections option \<Rightarrow> canvas \<Rightarrow> bool" where
  "early file c \<longleftrightarrow> unread file c \<and> cv_mounted c \<and> \<not> cv_skip c"

interpretation reading: canvas_law "early saved_file" "\<lambda>_. True" True for saved_file
  by unfold_locales (auto simp: early_def unread_def canvas_edit_def set_focus_def flush_effect_def
      canvas_elapse_def show_unread_def Let_def)

text \<open>The clock does not go back.\<close>

interpretation clock: canvas_law "\<lambda>c. t \<le> cv_now c" "\<lambda>_. True" True for t
  by unfold_locales (auto simp: canvas_edit_def set_focus_def flush_effect_def
      canvas_elapse_def show_unread_def Let_def split: option.split)

text \<open>
  Between the read of a sidecar and the next flush, the change that the read made is still marked and
  the flag that skips its write is set.
\<close>

definition hydrating :: "sections \<Rightarrow> canvas \<Rightarrow> bool" where
  "hydrating ss c \<longleftrightarrow> cv_did_read c \<and> cv_skip c \<and> cv_mounted c \<and> cv_changed c \<and> cv_write c = None \<and> cv_file c = Some ss"

interpretation waiting: canvas_law "hydrating ss" "\<lambda>_. True" False for ss
  by unfold_locales (auto simp: hydrating_def canvas_edit_def set_focus_def canvas_elapse_def show_unread_def Let_def)

text \<open>A canvas without a sidecar stays as it is until the first edit, and is saved from then on.\<close>

definition untouched :: "canvas \<Rightarrow> bool" where
  "untouched c \<longleftrightarrow> cv_did_read c \<and> \<not> cv_skip c \<and> cv_mounted c \<and> \<not> cv_changed c \<and> cv_write c = None \<and>
     cv_file c = None \<and> cv_sections c = Map.empty"

interpretation starting: canvas_law "\<lambda>c. tracked c \<or> untouched c" "\<lambda>_. True" True
proof -
  have "tracked (canvas_edit f c)" if "untouched c" for f c
    using that by (simp add: untouched_def tracked_def canvas_edit_def)
  moreover have "untouched (set_focus s c)" "untouched (flush_effect c)" "untouched (canvas_elapse dt c)"
      "untouched (show_unread c)" if "untouched c" for s dt c
    using that by (simp_all add: untouched_def set_focus_def flush_effect_def canvas_elapse_def show_unread_def Let_def)
  ultimately show "canvas_law (\<lambda>c. tracked c \<or> untouched c) (\<lambda>_. True) True"
    by unfold_locales (elim disjE; simp add: saving.title saving.label saving.order saving.delete saving.focus
        saving.flush saving.elapse saving.shown)+
qed

lemma starting_run:
  "tracked (bd_canvas b) \<or> untouched (bd_canvas b) \<Longrightarrow> list_all (\<lambda>e. \<not> is_read e) es \<Longrightarrow>
     tracked (bd_canvas (fold (board_step secs) es b)) \<or> untouched (bd_canvas (fold (board_step secs) es b))"
  by (induction es arbitrary: b) (simp_all add: starting.law_step)

lemma waiting_run:
  "hydrating ss (bd_canvas b) \<Longrightarrow> list_all (\<lambda>e. \<not> is_read e) es \<Longrightarrow> FlushEffects \<notin> set es \<Longrightarrow>
     hydrating ss (bd_canvas (fold (board_step secs) es b))"
  by (induction es arbitrary: b) (auto simp: waiting.law_step)

lemma saving_run:
  "tracked (bd_canvas b) \<Longrightarrow> list_all (\<lambda>e. \<not> is_read e) es \<Longrightarrow> tracked (bd_canvas (fold (board_step secs) es b))"
  by (induction es arbitrary: b) (simp_all add: saving.law_step)

lemma reading_run:
  "early file (bd_canvas b) \<Longrightarrow> list_all (\<lambda>e. \<not> is_read e) es \<Longrightarrow> early file (bd_canvas (fold (board_step secs) es b))"
  by (induction es arbitrary: b) (simp_all add: reading.law_step)

text \<open>A drop waits for at most 180 milliseconds.\<close>

definition drops_due :: "board \<Rightarrow> bool" where
  "drops_due b \<longleftrightarrow> (\<forall>d \<in> set (bd_drops b). fst d \<le> cv_now (bd_canvas b) + 180)"

lemma bd_drops_simps [simp]:
  "bd_drops (unmount_gone secs b) = bd_drops b" "bd_drops (leave_editor secs b) = bd_drops b"
  "bd_drops (board_click secs i p b) = bd_drops b" "bd_drops (click_overlay secs vw vh p b) = bd_drops b"
  "bd_drops (pointer_down secs pl b) = bd_drops b"
proof -
  show leave: "bd_drops (leave_editor secs b) = bd_drops b" for b
    by (simp add: leave_editor_def split: option.split)
  show "bd_drops (pointer_down secs pl b) = bd_drops b"
    by (simp add: pointer_down_def down_target_def down_menus_def down_blur_def start_drag_def leave Let_def
        split: option.split place.split)
qed (auto simp: unmount_gone_def board_click_def click_overlay_def Let_def split: option.split)

lemma drops_due_step:
  assumes "drops_due b"
  shows "drops_due (board_step secs e b)"
proof (cases "is_read e")
  case True
  then obtain r where "e = SettleRead r" by (cases e) auto
  then show ?thesis
    using assms by (auto simp: drops_due_def board_step_def unmount_gone_def read_settled_def Let_def split: option.split)
next
  case False
  let ?b = "board_step secs e b"
  have now: "t \<le> cv_now (bd_canvas ?b)" if "t \<le> cv_now (bd_canvas b)" for t
    using clock.law_step [OF that _ False] by simp
  have "set (bd_drops ?b) \<subseteq> set (bd_drops b) \<union> {d. fst d = cv_now (bd_canvas b) + 180}"
    by (cases e) (auto simp: board_step_def board_elapse_def pointer_up_def Let_def)
  with assms now show ?thesis by (fastforce simp: drops_due_def)
qed

lemma drops_due_run: "drops_due b \<Longrightarrow> drops_due (fold (board_step secs) es b)"
  by (induction es arbitrary: b) (simp_all add: drops_due_step)

subsection \<open>A reload shows what was left\<close>

text \<open>
  Nothing that the read and its first flush would lose was edited: with a sidecar the sections at that
  flush are those just read, and without one nothing was edited before the read had settled.
\<close>

definition undisturbed :: "sections option \<Rightarrow> canvas \<Rightarrow> canvas \<Rightarrow> bool" where
  "undisturbed saved_file at_read at_flush =
     (case saved_file of None \<Rightarrow> cv_sections at_read = Map.empty | Some ss \<Rightarrow> cv_sections at_flush = ss)"

lemma bd_canvas_plain [simp]:
  "bd_canvas (board_step secs (SettleRead r) b) = read_settled r (bd_canvas b)"
  "bd_canvas (board_step secs FlushEffects b) = flush_effect (bd_canvas b)"
  by (simp_all add: board_step_def unmount_gone_def Let_def)

lemma first_flush:
  assumes "early saved_file (bd_canvas b0)" "list_all (\<lambda>e. \<not> is_read e) gap" "FlushEffects \<notin> set gap"
    and "b1 = fold (board_step secs) (SettleRead saved_file # gap) b0"
    and "undisturbed saved_file (bd_canvas b0) (bd_canvas b1)"
  shows "tracked (flush_effect (bd_canvas b1)) \<or> (saved_file = None \<and> untouched (flush_effect (bd_canvas b1)))"
proof (cases saved_file)
  case None
  have "tracked (bd_canvas (board_step secs (SettleRead None) b0)) \<or>
      untouched (bd_canvas (board_step secs (SettleRead None) b0))"
    using assms(1,5)
    by (simp add: None early_def unread_def undisturbed_def tracked_def untouched_def read_settled_def Let_def)
  from starting_run [OF this assms(2), of secs] have "tracked (bd_canvas b1) \<or> untouched (bd_canvas b1)"
    by (simp add: assms(4) None)
  then show ?thesis using starting.flush None by blast
next
  case (Some ss)
  have "hydrating ss (bd_canvas (board_step secs (SettleRead (Some ss)) b0))"
    using assms(1) by (simp add: Some early_def unread_def hydrating_def read_settled_def Let_def)
  from waiting_run [OF this assms(2,3), of secs] have "hydrating ss (bd_canvas b1)" by (simp add: assms(4) Some)
  then show ?thesis
    using assms(5) by (simp add: Some undisturbed_def hydrating_def tracked_def flush_effect_def Let_def)
qed

text \<open>After the last drop is committed and the effects have run, 250 milliseconds suffice.\<close>

lemma settled_canvas:
  assumes "drops_due b" "180 \<le> d1" "b1 = board_step secs (Elapse d1) b"
    and "b' = fold (board_step secs) [Elapse d1, FlushEffects, Elapse d2] b"
  shows "bd_canvas b' = canvas_elapse d2 (flush_effect (bd_canvas b1))"
proof -
  have "cv_now (canvas_elapse d1 c) = cv_now c + d1" for c
    by (simp add: canvas_elapse_def Let_def split: option.split prod.split)
  then have d: "bd_drops b1 = []"
    using assms(1,2) by (force simp: assms(3) board_step_def board_elapse_def Let_def drops_due_def filter_empty_conv)
  moreover have "b' = board_step secs (Elapse d2) (board_step secs FlushEffects b1)" by (simp add: assms(3,4))
  ultimately show ?thesis
    by (simp add: board_step_def [of secs FlushEffects] board_step_def [of secs "Elapse d2"]
        board_elapse_def unmount_gone_def [of secs "_\<lparr>bd_canvas := _\<rparr>"] Let_def)
      (simp add: unmount_gone_def Let_def)
qed

lemma settled_saves:
  assumes "tracked c" "250 \<le> dt" "c' = canvas_elapse dt (flush_effect c)"
  shows "cv_file c' = Some (cv_sections c')"
proof -
  have "cv_sections (canvas_elapse dt c) = cv_sections c" "cv_sections (flush_effect c) = cv_sections c" for dt c
    by (simp_all add: canvas_elapse_def flush_effect_def Let_def split: option.split prod.split)
  then show ?thesis using tracked_saves [OF assms(1,2)] by (simp add: assms(3))
qed

lemma settled_untouched: "untouched c \<Longrightarrow> untouched (canvas_elapse dt (flush_effect c))"
  by (simp add: untouched_def flush_effect_def canvas_elapse_def Let_def)

lemma canvas_at_end:
  assumes "tracked (bd_canvas b) \<or> untouched (bd_canvas b)" "drops_due b" "list_all (\<lambda>e. \<not> is_read e) es"
    and "180 \<le> d1" "250 \<le> d2"
    and "c = bd_canvas (fold (board_step secs) (es @ [Elapse d1, FlushEffects, Elapse d2]) b)"
  shows "cv_file c = Some (cv_sections c) \<or> untouched c"
proof -
  let ?b = "fold (board_step secs) es b"
  let ?b1 = "board_step secs (Elapse d1) ?b"
  have "tracked (bd_canvas ?b1) \<or> untouched (bd_canvas ?b1)"
    using starting_run [OF assms(1), of "es @ [Elapse d1]" secs] assms(3) by simp
  moreover have "c = canvas_elapse d2 (flush_effect (bd_canvas ?b1))"
    using settled_canvas [OF drops_due_run [OF assms(2)] assms(4) refl refl] by (simp add: assms(6))
  ultimately show ?thesis using settled_saves [OF _ assms(5)] settled_untouched by metis
qed

text \<open>
  C2. Suppose the read of the sidecar succeeds, or finds that there is none; and what the user edits
  before it settles, and between it and the first flush of React's effects after it, is nothing that
  they lose: with a sidecar the sections at that flush are the ones just read, without one nothing was
  edited before the read settled (\<open>undisturbed\<close>; \<open>edit_in_hydration_flush\<close> and \<open>early_edits_unsaved\<close> in
  \<open>Canvas_State\<close> are what happens otherwise). Then whatever the user does from then on - clicks, key
  presses, drags, renames, deletions, in any interleaving with timers and flushes - once the last drop
  has settled, the effects have run and 250 milliseconds have passed, the sidecar holds the sections
  as they are, and the page loaded again, when its read has succeeded, has exactly the same order,
  titles, labels and deletions, however long that read takes. The one other outcome is that there was
  no sidecar, nothing was ever edited and there still is none.
\<close>

theorem board_reload:
  assumes "list_all (\<lambda>e. \<not> is_read e) (es0 @ gap @ es @ fs)" "FlushEffects \<notin> set gap" "180 \<le> d1" "250 \<le> d2"
    and "b0 = fold (board_step secs) es0 (board_mount saved_file)"
    and "b1 = fold (board_step secs) (SettleRead saved_file # gap) b0"
    and "undisturbed saved_file (bd_canvas b0) (bd_canvas b1)"
    and "b = fold (board_step secs) (FlushEffects # es @ [Elapse d1, FlushEffects, Elapse d2]) b1"
    and "r = fold (board_step secs) (fs @ [SettleRead (cv_file (bd_canvas b))]) (board_mount (cv_file (bd_canvas b)))"
  shows "cv_file (bd_canvas b) = Some (cv_sections (bd_canvas b)) \<and> cv_sections (bd_canvas r) = cv_sections (bd_canvas b) \<or>
    saved_file = None \<and> cv_file (bd_canvas b) = None \<and> cv_sections (bd_canvas b) = Map.empty"
proof -
  have mount: "early x (bd_canvas (board_mount x))" "drops_due (board_mount x)" for x
    by (simp_all add: early_def unread_def board_mount_def canvas_mount_def drops_due_def)
  let ?b2 = "board_step secs FlushEffects b1"
  have early: "early saved_file (bd_canvas b0)"
    unfolding assms(5) by (rule reading_run [OF mount(1)]) (use assms(1) in simp)
  have "list_all (\<lambda>e. \<not> is_read e) gap" using assms(1) by simp
  from first_flush [OF early this assms(2,6,7)]
  have flushed: "tracked (bd_canvas ?b2) \<or> saved_file = None \<and> untouched (bd_canvas ?b2)" by simp
  have b: "bd_canvas b = bd_canvas (fold (board_step secs) (es @ [Elapse d1, FlushEffects, Elapse d2]) ?b2)"
    by (simp add: assms(8))
  have due: "drops_due ?b2" unfolding assms(5,6) by (intro drops_due_step drops_due_run mount(2))
  have es: "list_all (\<lambda>e. \<not> is_read e) es" using assms(1) by simp
  have "cv_file (bd_canvas b) = Some (cv_sections (bd_canvas b)) \<or> saved_file = None \<and> untouched (bd_canvas b)"
  proof (cases "tracked (bd_canvas ?b2)")
    case True
    have "tracked (bd_canvas (board_step secs (Elapse d1) (fold (board_step secs) es ?b2)))"
      using saving_run [OF True, of "es @ [Elapse d1]" secs] es by simp
    from settled_saves [OF this assms(4) refl] show ?thesis
      using settled_canvas [OF drops_due_run [OF due] assms(3) refl refl] by (simp add: b)
  next
    case False
    then show ?thesis using flushed canvas_at_end [OF _ due es assms(3,4) b] by blast
  qed
  moreover have "early (cv_file (bd_canvas b)) (bd_canvas (fold (board_step secs) fs (board_mount (cv_file (bd_canvas b)))))"
    by (rule reading_run [OF mount(1)]) (use assms(1) in simp)
  then have "cv_sections (bd_canvas r) = ss" if "cv_file (bd_canvas b) = Some ss" for ss
    using that by (simp add: assms(9) early_def read_settled_def Let_def)
  ultimately show ?thesis by (auto simp: untouched_def)
qed

subsection \<open>Sections with proper identifiers\<close>

text \<open>
  Every section has a non-empty identifier, no two have the same one, and no section has two artboards
  with the same identifier.
\<close>

definition secs_ok :: "dsection list \<Rightarrow> bool" where
  "secs_ok secs \<longleftrightarrow> distinct (map section_key secs) \<and>
     list_all (\<lambda>s. some_text (nullish (ds_id s) (ds_title s)) = [section_key s] \<and>
       distinct (canvas_ids (section_children (ds_arts s)))) secs"

lemma secs_ok_nth:
  assumes "secs_ok secs" "i < length secs"
  shows "some_text (nullish (ds_id (secs ! i)) (ds_title (secs ! i))) = [section_key (secs ! i)]"
    and "distinct (canvas_ids (section_children (ds_arts (secs ! i))))"
    and "filter (\<lambda>s. section_key s = section_key (secs ! i)) secs = [secs ! i]"
    and "filter (\<lambda>s. nullish (ds_id s) (ds_title s) = Some (section_key (secs ! i))) secs = [secs ! i]"
proof -
  have "nullish (ds_id s) (ds_title s) = Some (section_key s)" if "s \<in> set secs" for s
  proof -
    have "some_text (nullish (ds_id s) (ds_title s)) = [section_key s]"
      using assms(1) that by (simp add: secs_ok_def list_all_iff)
    then show ?thesis by (simp add: some_text_def split: option.splits list.splits)
  qed
  then have same: "filter (\<lambda>s. nullish (ds_id s) (ds_title s) = Some (section_key (secs ! i))) secs =
      filter (\<lambda>s. section_key s = section_key (secs ! i)) secs"
    by (intro filter_cong) auto
  show "some_text (nullish (ds_id (secs ! i)) (ds_title (secs ! i))) = [section_key (secs ! i)]"
    "distinct (canvas_ids (section_children (ds_arts (secs ! i))))"
    using assms by (auto simp: secs_ok_def list_all_iff)
  have "distinct (map section_key secs)" using assms(1) by (simp add: secs_ok_def)
  then show one: "filter (\<lambda>s. section_key s = section_key (secs ! i)) secs = [secs ! i]"
    using assms(2)
  proof (induction secs arbitrary: i)
    case (Cons s ss)
    then show ?case
    proof (cases i)
      case 0
      have "filter (\<lambda>x. section_key x = section_key s) ss = []"
        using Cons.prems(1) by (auto simp: filter_empty_conv image_iff)
      then show ?thesis using 0 by simp
    next
      case (Suc j)
      with Cons.prems have "section_key s \<noteq> section_key (ss ! j)" "j < length ss" by (auto simp: image_iff)
      then show ?thesis using Suc Cons by simp
    qed
  qed simp
  then show "filter (\<lambda>s. nullish (ds_id s) (ds_title s) = Some (section_key (secs ! i))) secs = [secs ! i]"
    unfolding same .
qed

lemma shown_slots_eq:
  "some_text (nullish (ds_id s) (ds_title s)) = [section_key s] \<Longrightarrow>
     shown_slots ss s = canvas_slots (saved_of ss (section_key s)) (section_children (ds_arts s))"
  by (simp add: shown_slots_def section_saved_def section_order_eq)

subsection \<open>Only an armed delete row removes an artboard\<close>

lemma shown_set:
  "sv_hidden (section_saved ss s) = sv_hidden (section_saved ss' s) \<Longrightarrow>
   sv_key (section_saved ss s) = sv_key (section_saved ss' s) \<Longrightarrow>
     set (shown_slots ss s) = set (shown_slots ss' s)"
  by (simp add: shown_slots_def section_order_eq canvas_slots_def canvas_src_def canvas_hidden_def)

text \<open>An artboard that is shown stays shown through everything but clicks on sections.\<close>

interpretation standing: edit_law "\<lambda>c. k \<in> set (shown_slots (cv_sections c) s)" "\<lambda>_. True" True for k s
proof -
  have same: "set (shown_slots (f ss) s) = set (shown_slots ss s)"
    if "\<And>sid. sv_hidden (saved_of (f ss) sid) = sv_hidden (saved_of ss sid)"
      "\<And>sid. sv_key (saved_of (f ss) sid) = sv_key (saved_of ss sid)" for f ss
    by (rule shown_set) (simp_all add: section_saved_def that split: list.split)
  have "set (shown_slots (rename_section sid v ss) s) = set (shown_slots ss s)"
    "set (shown_slots (rename_artboard sid a v ss) s) = set (shown_slots ss s)"
    "set (shown_slots (reorder_section sid nxt ss) s) = set (shown_slots ss s)" for sid v a nxt ss
    by (rule same; simp add: rename_section_def rename_artboard_def reorder_section_def)+
  then show "edit_law (\<lambda>c. k \<in> set (shown_slots (cv_sections c) s)) (\<lambda>_. True) True"
    by unfold_locales (simp_all add: canvas_edit_def set_focus_def flush_effect_def canvas_elapse_def show_unread_def
        Let_def split: option.split prod.split)
qed

lemma click_removes:
  assumes "secs_ok secs" "i < length secs" "k \<in> set (shown_slots (cv_sections (bd_canvas b)) (secs ! i))"
    and "k \<notin> set (shown_slots (cv_sections (bd_canvas (board_click secs j p b))) (secs ! i))"
  shows "j = i \<and> mn_open (bd_menus b i k) \<and> mn_confirming (bd_menus b i k)"
proof -
  let ?c = "bd_canvas b" and ?s = "secs ! j" and ?ms = "bd_menus b j"
  let ?v = "section_view (cv_sections ?c) (ds_id ?s) (ds_title ?s) (ds_subtitle ?s) (ds_gap ?s) (ds_arts ?s) (ds_rest ?s) ?ms"
  let ?st = "fold (section_effect (section_key ?s) (ds_arts ?s) []) (dispatch ''click'' p ?v) (?c, ?ms)"
  have j: "j < length secs" and new: "bd_canvas (board_click secs j p b) = fst ?st"
    using assms(3,4) by (auto simp: board_click_def Let_def split: if_splits)
  have "sum_list (map section_weight (dispatch ''click'' p ?v)) \<le> 1"
    unfolding dispatch_def by (rule order_trans [OF bubble_load load_section])
  from section_one_change [OF this surjective_pairing, of "section_key ?s" "ds_arts ?s" "[]" ?c ?ms]
  have "cv_sections (fst ?st) = cv_sections ?c \<or>
      (\<exists>a. mn_open (?ms a) \<and> mn_confirming (?ms a) \<and>
        cv_sections (fst ?st) = delete_artboard (section_key ?s) (section_children (ds_arts ?s)) a (cv_sections ?c))" .
  moreover have "cv_sections (fst ?st) \<noteq> cv_sections ?c" using assms(3,4) new by metis
  ultimately obtain a where a: "mn_open (?ms a)" "mn_confirming (?ms a)"
    "cv_sections (fst ?st) = delete_artboard (section_key ?s) (section_children (ds_arts ?s)) a (cv_sections ?c)"
    by blast
  note shown = shown_slots_eq [OF secs_ok_nth(1) [OF assms(1,2)]]
  have "section_key ?s = section_key (secs ! i)"
  proof (rule ccontr)
    assume "section_key ?s \<noteq> section_key (secs ! i)"
    then have "saved_of (cv_sections (fst ?st)) (section_key (secs ! i)) = saved_of (cv_sections ?c) (section_key (secs ! i))"
      by (simp add: a(3) delete_artboard_def)
    with assms(3,4) new shown show False by simp
  qed
  then have "j = i"
    using assms(1,2) j by (auto simp: secs_ok_def distinct_conv_nth)
  moreover have "a = k"
    using assms(3,4) new a(3) shown \<open>j = i\<close> by (auto simp: delete_slots)
  ultimately show ?thesis using a(1,2) by simp
qed

text \<open>
  C4. No event removes an artboard from the canvas except a click into its own section while the
  delete row of its own menu is armed, and the arrival of the saved sections. In particular drags,
  renames, keys, the overlay, timers and clicks elsewhere never do.
\<close>

theorem board_delete_only:
  assumes "secs_ok secs" "i < length secs"
    and "k \<in> set (shown_slots (cv_sections (bd_canvas b)) (secs ! i))"
    and "k \<notin> set (shown_slots (cv_sections (bd_canvas (board_step secs e b))) (secs ! i))"
  shows "is_read e \<or> (\<exists>p. e = SectionClick i p \<and> mn_open (bd_menus b i k) \<and> mn_confirming (bd_menus b i k))"
proof (cases "\<exists>j p. e = SectionClick j p")
  case True
  then obtain j p where e: "e = SectionClick j p" by blast
  have "bd_canvas (board_step secs e b) = bd_canvas (board_click secs j p b)"
    by (simp add: e board_step_def unmount_gone_def Let_def)
  then show ?thesis using click_removes [OF assms(1-3), of j p] assms(4) e by auto
next
  case False
  then show ?thesis using standing.law_edit_step [OF assms(3), of e secs] assms(4) by auto
qed

subsection \<open>Orders, drags and menus\<close>

definition orders_ok :: "sections \<Rightarrow> bool" where
  "orders_ok ss \<longleftrightarrow> (\<forall>sid. distinct (sv_order (saved_of ss sid)))"

interpretation orders: canvas_law "\<lambda>c. orders_ok (cv_sections c)" distinct True
  by unfold_locales (auto simp: orders_ok_def canvas_edit_def set_focus_def flush_effect_def canvas_elapse_def
      show_unread_def rename_section_def rename_artboard_def reorder_section_def delete_artboard_def Let_def
      split: option.split prod.split)

fun read_ok :: "board_event \<Rightarrow> bool" where
  "read_ok (SettleRead (Some ss)) = orders_ok ss"
| "read_ok _ = True"

definition board_ok :: "board \<Rightarrow> bool" where
  "board_ok b \<longleftrightarrow> orders_ok (cv_sections (bd_canvas b)) \<and> drops_ok distinct b \<and>
     list_all (\<lambda>(sid, g). grip_ok g) (bd_grips b) \<and>
     (\<forall>i k. mn_confirming (bd_menus b i k) \<longrightarrow> mn_open (bd_menus b i k))"

lemma distinct_shown:
  assumes "orders_ok ss" "secs_ok secs" "i < length secs"
  shows "distinct (shown_slots ss (secs ! i))"
  using assms(1) secs_ok_nth(2) [OF assms(2,3)]
  by (simp add: shown_slots_eq [OF secs_ok_nth(1) [OF assms(2,3)]] canvas_slots_def canvas_src_def Let_def
      orders_ok_def distinct_merge_order)

text \<open>A section shows each artboard that is not deleted exactly once.\<close>

lemma shown_arranged:
  assumes "orders_ok ss" "secs_ok secs" "s \<in> set secs"
  shows "mset (shown_slots ss s) = mset (canvas_src (section_saved ss s) (section_children (ds_arts s)))"
proof -
  have "distinct (canvas_ids (section_children (ds_arts s)))" using assms(2,3) by (auto simp: secs_ok_def list_all_iff)
  moreover have "distinct (sv_order (section_saved ss s))"
    using assms(1) by (simp add: orders_ok_def section_saved_def no_saved_def split: list.split)
  ultimately show ?thesis
    by (simp add: shown_slots_def section_order_eq canvas_slots_def canvas_src_def Let_def mset_merge_order del: mset_filter)
qed

lemma grip_ok_distinct: "grip_ok g \<Longrightarrow> distinct (gr_live g)"
  using grip_ok_perm [of g] by (auto simp: grip_ok_def dest: mset_eq_imp_distinct_iff)

lemma grip_ok_start:
  assumes "secs_ok secs" "orders_ok (cv_sections (bd_canvas b))" "(sid, g) \<in> set (bd_grips (start_drag secs i k left w ow x b))"
  shows "(sid, g) \<in> set (bd_grips b) \<or> grip_ok g"
proof -
  let ?ss = "cv_sections (bd_canvas b)"
  let ?cards = "section_cards secs ?ss (section_key (secs ! i))"
  have "grip_ok (grip_down k (shown_slots ?ss (secs ! i)) (card_homes ?cards left) x w ow)"
    if "frame_shown secs (bd_canvas b) i k" "length left = length ?cards"
  proof (rule grip_ok_down)
    have i: "i < length secs" "k \<in> set (shown_slots ?ss (secs ! i))" using that by (simp_all add: frame_shown_def)
    show "distinct (shown_slots ?ss (secs ! i))" by (rule distinct_shown [OF assms(2,1) i(1)])
    show "k \<in> set (shown_slots ?ss (secs ! i))" by (rule i(2))
    show "length (card_homes ?cards left) = length (shown_slots ?ss (secs ! i))"
      using that(2) by (simp add: card_homes_def section_cards_def secs_ok_nth(4) [OF assms(1) i(1)])
  qed
  then show ?thesis using assms(3) by (auto simp: start_drag_def Let_def split: if_splits)
qed

lemma bd_grips_simps [simp]:
  "bd_grips (unmount_gone secs b) = bd_grips b" "bd_grips (leave_editor secs b) = bd_grips b"
  "bd_grips (board_click secs i p b) = bd_grips b" "bd_grips (click_overlay secs vw vh p b) = bd_grips b"
  by (auto simp: unmount_gone_def leave_editor_def board_click_def click_overlay_def Let_def split: option.split)

lemma grips_down:
  assumes "secs_ok secs" "orders_ok (cv_sections (bd_canvas b))" "(sid, g) \<in> set (bd_grips (pointer_down secs pl b))"
  shows "(sid, g) \<in> set (bd_grips b) \<or> grip_ok g"
proof -
  let ?b = "down_menus pl (down_blur secs pl b)"
  have o: "orders_ok (cv_sections (bd_canvas ?b))" and g: "bd_grips ?b = bd_grips b"
    using assms(2) orders.law_leave by (auto simp: down_menus_def down_blur_def split: option.split)
  have "(sid, g) \<in> set (bd_grips ?b) \<or> grip_ok g"
    using assms(3) grip_ok_start [OF assms(1) o]
    by (auto simp: pointer_down_def down_target_def split: place.splits if_splits)
  with g show ?thesis by simp
qed

lemma menu_step_armed: "(mn_confirming m \<longrightarrow> mn_open m) \<Longrightarrow> mn_confirming (menu_step e m) \<longrightarrow> mn_open (menu_step e m)"
  by (cases e) (auto simp: menu_effect_def)

lemma section_effects_armed:
  "\<forall>k. mn_confirming (snd st k) \<longrightarrow> mn_open (snd st k) \<Longrightarrow>
     \<forall>k. mn_confirming (snd (fold (section_effect sid arts v) as st) k) \<longrightarrow> mn_open (snd (fold (section_effect sid arts v) as st) k)"
proof (induction as arbitrary: st)
  case (Cons a as)
  have "\<forall>k. mn_confirming (snd (section_effect sid arts v a st) k) \<longrightarrow> mn_open (snd (section_effect sid arts v a st) k)"
    using Cons.prems menu_step_armed by (cases "(sid, arts, v, a, st)" rule: section_effect.cases) auto
  then show ?case using Cons.IH by simp
qed simp

lemma menus_act:
  assumes "\<forall>i k. mn_confirming (bd_menus b i k) \<longrightarrow> mn_open (bd_menus b i k)"
  shows "\<forall>i k. mn_confirming (bd_menus (board_act secs e b) i k) \<longrightarrow> mn_open (bd_menus (board_act secs e b) i k)"
proof -
  have leave: "bd_menus (leave_editor secs b) = bd_menus b" "bd_menus (start_drag secs i k left w ow x b) = bd_menus b"
    for b i k left w ow x
    by (auto simp: leave_editor_def start_drag_def Let_def split: option.split)
  show ?thesis
  proof (cases e)
    case (SectionClick i p)
    then show ?thesis using assms section_effects_armed by (auto simp: board_click_def Let_def)
  next
    case (DownAt pl)
    have stay: "bd_menus (down_target secs pl x) = bd_menus x" "bd_menus (down_blur secs pl x) = bd_menus x" for x
      by (simp_all add: down_target_def down_blur_def leave split: place.split option.split)
    have "bd_menus (pointer_down secs pl b) = (\<lambda>i k. if pl = InMenu i k then bd_menus b i k else menu_step OutsideDown (bd_menus b i k))"
      by (simp only: pointer_down_def stay) (simp only: down_menus_def stay, simp)
    then show ?thesis using DownAt assms by (auto simp: menu_effect_def)
  qed (use assms leave in \<open>auto simp: board_elapse_def click_overlay_def pointer_up_def Let_def split: option.split\<close>)
qed

lemma drops_act:
  assumes "drops_ok distinct b" "list_all (\<lambda>(sid, g). grip_ok g) (bd_grips b)"
  shows "drops_ok distinct (board_act secs e b)"
  using assms
  by (cases e) (auto simp: drops_ok_def board_elapse_def pointer_up_def list_all_iff Let_def grip_ok_distinct)

lemma grips_act:
  assumes "secs_ok secs" "orders_ok (cv_sections (bd_canvas b))" "list_all (\<lambda>(sid, g). grip_ok g) (bd_grips b)"
  shows "list_all (\<lambda>(sid, g). grip_ok g) (bd_grips (board_act secs e b))"
proof (cases e)
  case (DownAt pl)
  then show ?thesis using grips_down [OF assms(1,2)] assms(3) by (fastforce simp: list_all_iff)
qed (use assms(3) in \<open>auto simp: list_all_iff board_elapse_def pointer_up_def Let_def grip_move_live(2)\<close>)

lemma board_ok_step:
  assumes "secs_ok secs" "read_ok e" "board_ok b"
  shows "board_ok (board_step secs e b)"
proof -
  have o: "orders_ok (cv_sections (bd_canvas b))" and d: "drops_ok distinct b"
    and g: "list_all (\<lambda>(sid, g). grip_ok g) (bd_grips b)"
    and m: "\<forall>i k. mn_confirming (bd_menus b i k) \<longrightarrow> mn_open (bd_menus b i k)"
    using assms(3) by (simp_all add: board_ok_def)
  have "orders_ok (cv_sections (bd_canvas (board_step secs e b)))"
  proof (cases "is_read e")
    case True
    then obtain r where "e = SettleRead r" by (cases e) auto
    then show ?thesis using o assms(2)
      by (cases r) (auto simp: board_step_def unmount_gone_def read_settled_def Let_def)
  qed (use orders.law_step [OF o d] in simp)
  moreover have "drops_ok distinct (board_step secs e b)" using drops_act [OF d g] by (simp add: board_step_def drops_ok_def)
  moreover have "\<forall>i k. mn_confirming (bd_menus (board_step secs e b) i k) \<longrightarrow> mn_open (bd_menus (board_step secs e b) i k)"
    using menus_act [OF m, of secs e] by (simp add: board_step_def unmount_gone_def Let_def menu_start_def)
  ultimately show ?thesis using grips_act [OF assms(1) o g, of e] by (simp add: board_ok_def board_step_def)
qed

lemma board_ok_run: "secs_ok secs \<Longrightarrow> list_all read_ok es \<Longrightarrow> board_ok b \<Longrightarrow> board_ok (fold (board_step secs) es b)"
  by (induction es arbitrary: b) (simp_all add: board_ok_step)

lemma board_ok_mount: "board_ok (board_mount x)"
  by (simp add: board_ok_def board_mount_def canvas_mount_def orders_ok_def saved_of_def no_saved_def drops_ok_def
      menu_start_def)

subsection \<open>What the overlay shows\<close>

text \<open>Every registered entry is an artboard that its section shows.\<close>

definition own_entries :: "registries \<Rightarrow> bool" where
  "own_entries rg \<longleftrightarrow> dom (rg_meta rg) \<subseteq> set (rg_order rg) \<and>
     (\<forall>k en. rg_registry rg k = Some en \<longrightarrow> en_artboard en \<in> set (slots_of rg (en_section en)))"

lemma slots_of_order: "own_entries rg \<Longrightarrow> a \<in> set (slots_of rg sid) \<Longrightarrow> sid \<in> set (rg_order rg)"
  by (cases "rg_meta rg sid") (auto simp: own_entries_def slots_of_def)

lemma register_section:
  assumes "some_text (nullish (ds_id s) (ds_title s)) = [section_key s]" "own_entries rg" "section_key s \<notin> set (rg_order rg)"
    and "rg' = register_child ss (Section (ds_id s) (ds_title s) (section_children (ds_arts s))) rg"
  shows "own_entries rg' \<and> slots_of rg' (section_key s) = shown_slots ss s \<and>
    (\<forall>sid. sid \<noteq> section_key s \<longrightarrow> slots_of rg' sid = slots_of rg sid) \<and> rg_order rg' = rg_order rg @ [section_key s]"
proof -
  let ?p = "saved_of ss (section_key s)" and ?cs = "section_children (ds_arts s)"
  have slots: "slots_of rg' (section_key s) = canvas_slots ?p ?cs" "rg_order rg' = rg_order rg @ [section_key s]"
    and others: "\<forall>sid. sid \<noteq> section_key s \<longrightarrow> slots_of rg' sid = slots_of rg sid"
    using assms(1) by (simp_all add: assms(4) register_child_def slots_of_def)
  have reg: "rg_registry rg' = fold (register_slot (section_key s)) (canvas_src ?p ?cs) (rg_registry rg)"
    using assms(1) by (simp add: assms(4) register_child_def)
  have own: "en_artboard en \<in> set (slots_of rg' (en_section en))" if "rg_registry rg' k = Some en" for k en
  proof (cases "k \<in> slot_id (section_key s) ` set (canvas_src ?p ?cs)")
    case True
    then show ?thesis using that slots(1) by (auto simp: reg register_slots slot_id_def canvas_slots_def)
  next
    case False
    then have "en_artboard en \<in> set (slots_of rg (en_section en))"
      using that assms(2) by (simp add: reg register_slots own_entries_def)
    moreover from this have "en_section en \<noteq> section_key s" using slots_of_order [OF assms(2)] assms(3) by metis
    ultimately show ?thesis using others by simp
  qed
  moreover have "dom (rg_meta rg') \<subseteq> set (rg_order rg')"
    using assms(1,2) by (auto simp: assms(4) register_child_def own_entries_def split: if_splits)
  ultimately show ?thesis
    using slots others shown_slots_eq [OF assms(1), of ss] by (simp add: own_entries_def)
qed

lemma register_sections:
  assumes "distinct (map section_key secs)"
    and "list_all (\<lambda>s. some_text (nullish (ds_id s) (ds_title s)) = [section_key s]) secs"
    and "own_entries rg" "set (map section_key secs) \<inter> set (rg_order rg) = {}"
    and "rg' = fold (register_child ss) (board_children secs) rg"
  shows "own_entries rg' \<and> (\<forall>s \<in> set secs. slots_of rg' (section_key s) = shown_slots ss s) \<and>
    (\<forall>sid. sid \<notin> section_key ` set secs \<longrightarrow> slots_of rg' sid = slots_of rg sid) \<and>
    rg_order rg' = rg_order rg @ map section_key secs"
  using assms
proof (induction secs arbitrary: rg rg')
  case (Cons s secs)
  let ?rg = "register_child ss (Section (ds_id s) (ds_title s) (section_children (ds_arts s))) rg"
  have one: "own_entries ?rg \<and> slots_of ?rg (section_key s) = shown_slots ss s \<and>
      (\<forall>sid. sid \<noteq> section_key s \<longrightarrow> slots_of ?rg sid = slots_of rg sid) \<and> rg_order ?rg = rg_order rg @ [section_key s]"
    by (rule register_section) (use Cons.prems in auto)
  have "own_entries rg' \<and> (\<forall>s \<in> set secs. slots_of rg' (section_key s) = shown_slots ss s) \<and>
      (\<forall>sid. sid \<notin> section_key ` set secs \<longrightarrow> slots_of rg' sid = slots_of ?rg sid) \<and>
      rg_order rg' = rg_order ?rg @ map section_key secs"
    by (rule Cons.IH) (use Cons.prems one in \<open>auto simp: board_children_def\<close>)
  with one Cons.prems(1) show ?case by auto
qed (simp add: board_children_def)

lemma board_regs_own:
  assumes "secs_ok secs"
  shows "own_entries (board_regs secs c)"
    and "s \<in> set secs \<Longrightarrow> slots_of (board_regs secs c) (section_key s) = shown_slots (cv_sections c) s"
    and "rg_order (board_regs secs c) = map section_key secs"
proof -
  have "dc_flatten (board_children secs) = board_children secs"
    by (induction secs) (simp_all add: board_children_def)
  then have "board_regs secs c = fold (register_child (cv_sections c)) (board_children secs) no_registries"
    by (simp add: board_regs_def registries_of_def)
  from register_sections [OF _ _ _ _ this] assms
  show "own_entries (board_regs secs c)"
    "s \<in> set secs \<Longrightarrow> slots_of (board_regs secs c) (section_key s) = shown_slots (cv_sections c) s"
    "rg_order (board_regs secs c) = map section_key secs"
    by (auto simp: secs_ok_def list_all_iff own_entries_def no_registries_def)
qed

lemma overlay_valid:
  assumes "secs_ok secs" "focused (board_regs secs c) c = Some en"
  shows "valid_entry (board_regs secs c) en" "entry_artboard secs en \<noteq> None"
proof -
  let ?rg = "board_regs secs c"
  show v: "valid_entry ?rg en"
    using assms board_regs_own(1) by (auto simp: focused_def own_entries_def valid_entry_def split: option.splits list.splits)
  then have "en_section en \<in> set (map section_key secs)"
    using slots_of_order [OF board_regs_own(1) [OF assms(1)]] board_regs_own(3) [OF assms(1)]
    by (metis valid_entry_def)
  then obtain i where i: "i < length secs" "en_section en = section_key (secs ! i)"
    by (auto simp: in_set_conv_nth)
  have "en_artboard en \<in> set (section_order (section_saved (cv_sections c) (secs ! i)) (section_children (ds_arts (secs ! i))))"
    using v board_regs_own(2) [OF assms(1) nth_mem [OF i(1)]] i(2) by (simp add: valid_entry_def shown_slots_def)
  then show "entry_artboard secs en \<noteq> None"
    using by_id_order secs_ok_nth(3) [OF assms(1) i(1)] i(2) by (simp add: entry_artboard_def)
qed

text \<open>
  C8. After any events on a canvas whose sections and artboards have distinct identifiers, with any
  saved sections whose orders have no repetitions: a section shows each artboard that is not
  deleted exactly once; the overlay shows, if it is open, an artboard that its section shows; a
  drag in progress shows a rearrangement of its section; and a delete row is armed only in an open
  menu of an artboard that is shown.
\<close>

theorem board_consistent:
  assumes "secs_ok secs" "list_all read_ok es"
    and "b = fold (board_step secs) (es @ [e]) (board_mount file_sections)" "read_ok e"
    and "c = bd_canvas b"
  shows "(\<forall>s \<in> set secs. mset (shown_slots (cv_sections c) s) =
        mset (canvas_src (section_saved (cv_sections c) s) (section_children (ds_arts s)))) \<and>
    (\<forall>en. focused (board_regs secs c) c = Some en \<longrightarrow>
        valid_entry (board_regs secs c) en \<and> entry_artboard secs en \<noteq> None) \<and>
    (\<forall>(sid, g) \<in> set (bd_grips b). mset (gr_live g) = mset (gr_order g)) \<and>
    (\<forall>i k. mn_confirming (bd_menus b i k) \<longrightarrow> mn_open (bd_menus b i k) \<and> frame_shown secs c i k)"
proof (intro conjI)
  have ok: "board_ok b"
    unfolding assms(3) by (rule board_ok_run [OF assms(1) _ board_ok_mount]) (use assms(2,4) in simp)
  show "\<forall>s \<in> set secs. mset (shown_slots (cv_sections c) s) =
      mset (canvas_src (section_saved (cv_sections c) s) (section_children (ds_arts s)))"
    using shown_arranged [OF _ assms(1)] ok by (simp add: board_ok_def assms(5))
  show "\<forall>en. focused (board_regs secs c) c = Some en \<longrightarrow>
      valid_entry (board_regs secs c) en \<and> entry_artboard secs en \<noteq> None"
    using overlay_valid [OF assms(1)] by blast
  show "\<forall>(sid, g) \<in> set (bd_grips b). mset (gr_live g) = mset (gr_order g)"
    using ok by (auto simp: board_ok_def list_all_iff grip_ok_perm)
  have "\<not> mn_confirming (bd_menus b i k)" if "\<not> frame_shown secs c i k" for i k
    using that by (simp add: assms(3,5) board_step_def unmount_gone_def Let_def menu_start_def)
  then show "\<forall>i k. mn_confirming (bd_menus b i k) \<longrightarrow> mn_open (bd_menus b i k) \<and> frame_shown secs c i k"
    using ok by (auto simp: board_ok_def)
qed

subsection \<open>An instance\<close>

definition demo_secs :: "dsection list" where
  "demo_secs =
     [\<lparr>ds_id = Some ''s'', ds_title = None, ds_subtitle = None, ds_gap = None, ds_arts = demo_arts, ds_rest = []\<rparr>,
      \<lparr>ds_id = None, ds_title = Some ''t'', ds_subtitle = Some ''u'', ds_gap = None, ds_arts = [demo_card], ds_rest = []\<rparr>]"

text \<open>Opening the menu of \<open>b\<close>, arming and committing the deletion; then a drag of \<open>a\<close> behind \<open>c\<close>, and a rename.\<close>

definition demo_events :: "board_event list" where
  "demo_events =
     [SectionClick 0 [1, 1, 0, 1, 0, 0], SectionClick 0 [1, 1, 0, 1, 0, 1, 3], SectionClick 0 [1, 1, 0, 1, 0, 1, 3],
      DownAt (OnGrip 0 ''a'' [Fin 0, Fin 300] (Fin 260) (Fin 260) (Fin 10)), MoveTo (Fin 400), Release,
      DownAt (InEditor (TitleEditor 1)), TypeText ''T'', DownAt Elsewhere]"

lemma demo_secs_ok: "secs_ok demo_secs" by code_simp

lemma demo_board_runs:
  "shown_slots (cv_sections (bd_canvas (fold (board_step demo_secs)
     ([SettleRead (Some Map.empty), FlushEffects] @ demo_events @ [Elapse 180]) (board_mount None)))) (demo_secs ! 0) = [''c'', ''a'']"
  by code_simp

theorem board_reload_witness:
  "let b = fold (board_step demo_secs) (FlushEffects # demo_events @ [Elapse 180, FlushEffects, Elapse 250])
       (fold (board_step demo_secs) [SettleRead (Some Map.empty), MoveTo (Fin 5)]
         (fold (board_step demo_secs) [ShowTimer] (board_mount (Some Map.empty))))
   in cv_file (bd_canvas b) = Some (cv_sections (bd_canvas b))"
proof -
  let ?b1 = "fold (board_step demo_secs) [SettleRead (Some Map.empty), MoveTo (Fin 5)]
         (fold (board_step demo_secs) [ShowTimer] (board_mount (Some Map.empty)))"
  have "cv_sections (bd_canvas ?b1) = Map.empty"
    by (simp add: board_step_def unmount_gone_def read_settled_def board_mount_def canvas_mount_def show_unread_def Let_def)
  then have "undisturbed (Some Map.empty) (bd_canvas (fold (board_step demo_secs) [ShowTimer] (board_mount (Some Map.empty)))) (bd_canvas ?b1)"
    by (simp add: undisturbed_def)
  from board_reload [OF _ _ _ _ refl refl this refl refl, of demo_events "[]" 180 250]
  show ?thesis by (simp add: demo_events_def Let_def)
qed

theorem board_consistent_witness:
  "let b = fold (board_step demo_secs) (([SettleRead (Some Map.empty), FlushEffects] @ demo_events) @ [ShowTimer])
      (board_mount None)
   in mset (shown_slots (cv_sections (bd_canvas b)) (demo_secs ! 0)) =
      mset (canvas_src (section_saved (cv_sections (bd_canvas b)) (demo_secs ! 0)) (section_children (ds_arts (demo_secs ! 0))))"
proof -
  have "list_all read_ok ([SettleRead (Some Map.empty), FlushEffects] @ demo_events)"
    by (simp add: orders_ok_def saved_of_def no_saved_def demo_events_def)
  from board_consistent [OF demo_secs_ok this refl _ refl, of ShowTimer None, THEN conjunct1, rule_format, of "demo_secs ! 0"]
  show ?thesis by (simp add: demo_secs_def Let_def)
qed

theorem board_delete_only_witness:
  "let b = fold (board_step demo_secs) ([SettleRead (Some Map.empty), FlushEffects] @ take 2 demo_events) (board_mount None)
   in mn_open (bd_menus b 0 ''b'') \<and> mn_confirming (bd_menus b 0 ''b'')"
proof -
  define b where "b = fold (board_step demo_secs) ([SettleRead (Some Map.empty), FlushEffects] @ take 2 demo_events) (board_mount None)"
  have i: "0 < length demo_secs" by (simp add: demo_secs_def)
  have "''b'' \<in> set (shown_slots (cv_sections (bd_canvas b)) (demo_secs ! 0))"
    "''b'' \<notin> set (shown_slots (cv_sections (bd_canvas (board_step demo_secs (SectionClick 0 [1, 1, 0, 1, 0, 1, 3]) b))) (demo_secs ! 0))"
    unfolding b_def by code_simp+
  from board_delete_only [OF demo_secs_ok i this] show ?thesis by (simp add: b_def)
qed

end
