(* ===== verification/Canvas_Catalogue.thy ===== *)
theory Canvas_Catalogue
  imports Canvas_Board
begin

text \<open>
  What the canvas is for, without menus, drags, timers and saved arrangements: a catalogue. It has one
  shelf for each section, with a title and the labelled cards of its artboards in the order in which
  they are shown. Users retitle shelves, relabel, arrange and remove cards. The board of \<open>Canvas_Board\<close>
  refines this specification: each of its events fulfils the intents that \<open>intents\<close> reads off it.
\<close>

subsection \<open>The catalogue\<close>

record shelf =
  cg_title :: string
  cg_cards :: "(string \<times> string) list"

type_synonym catalogue = "shelf list"

datatype intent =
    Retitle nat string
  | Relabel nat string string
  | Arrange nat "string list"
  | Remove nat string

definition card_names :: "shelf \<Rightarrow> string list" where
  "card_names s = map fst (cg_cards s)"

definition on_shelf :: "nat \<Rightarrow> (shelf \<Rightarrow> shelf) \<Rightarrow> catalogue \<Rightarrow> catalogue" where
  "on_shelf i f c = c[i := f (c ! i)]"

fun fulfil :: "intent \<Rightarrow> catalogue \<Rightarrow> catalogue" where
  "fulfil (Retitle i v) c = on_shelf i (\<lambda>s. s\<lparr>cg_title := v\<rparr>) c"
| "fulfil (Relabel i k v) c = on_shelf i (\<lambda>s. s\<lparr>cg_cards := map (\<lambda>(j, l). (j, if j = k then v else l)) (cg_cards s)\<rparr>) c"
| "fulfil (Arrange i nxt) c =
     on_shelf i (\<lambda>s. s\<lparr>cg_cards := map (\<lambda>k. (k, the (map_of (cg_cards s) k))) (filter (\<lambda>k. k \<in> set (card_names s)) nxt)\<rparr>) c"
| "fulfil (Remove i k) c = on_shelf i (\<lambda>s. s\<lparr>cg_cards := filter (\<lambda>(j, l). j \<noteq> k) (cg_cards s)\<rparr>) c"

text \<open>An arrangement has to name every card of the shelf once; the others have to name one that is there.\<close>

fun sensible :: "intent \<Rightarrow> catalogue \<Rightarrow> bool" where
  "sensible (Retitle i v) c \<longleftrightarrow> i < length c"
| "sensible (Relabel i k v) c \<longleftrightarrow> i < length c \<and> k \<in> set (card_names (c ! i))"
| "sensible (Arrange i nxt) c \<longleftrightarrow> i < length c \<and> distinct nxt \<and> set (card_names (c ! i)) \<subseteq> set nxt"
| "sensible (Remove i k) c \<longleftrightarrow> i < length c \<and> k \<in> set (card_names (c ! i))"

inductive serves :: "catalogue \<Rightarrow> intent list \<Rightarrow> catalogue \<Rightarrow> bool" where
  served: "serves c [] c"
| serve: "sensible t c \<Longrightarrow> serves (fulfil t c) ts c' \<Longrightarrow> serves c (t # ts) c'"

inductive_simps serves_simps [simp]: "serves c [] c'" "serves c (t # ts) c'"

lemma serves_append: "serves c ts c' \<Longrightarrow> serves c' us c'' \<Longrightarrow> serves c (ts @ us) c''"
  by (induction rule: serves.induct) simp_all

text \<open>Serving intents only removes cards that were to be removed, and never adds or doubles one.\<close>

lemma names_after:
  "card_names (s\<lparr>cg_title := v\<rparr>) = card_names s"
  "card_names (s\<lparr>cg_cards := map (\<lambda>(j, l). (j, f j l)) (cg_cards s)\<rparr>) = card_names s"
  "card_names (s\<lparr>cg_cards := map (\<lambda>k. (k, g k)) ks\<rparr>) = ks"
  "card_names (s\<lparr>cg_cards := filter (\<lambda>(j, l). P j) (cg_cards s)\<rparr>) = filter P (card_names s)"
  by (simp_all add: card_names_def comp_def split_def filter_map)

lemma sensible_cards:
  assumes "sensible t c"
  shows "length (fulfil t c) = length c"
    and "set (card_names (fulfil t c ! i)) = set (card_names (c ! i)) - {k. t = Remove i k}"
    and "distinct (card_names (c ! i)) \<Longrightarrow> distinct (card_names (fulfil t c ! i))"
  using assms by (cases t; cases "i < length c"; auto simp: on_shelf_def nth_list_update names_after)+

lemma serves_cards:
  "serves c ts c' \<Longrightarrow> length c' = length c \<and>
     set (card_names (c' ! i)) = set (card_names (c ! i)) - {k. Remove i k \<in> set ts} \<and>
     (distinct (card_names (c ! i)) \<longrightarrow> distinct (card_names (c' ! i)))"
  by (induction rule: serves.induct) (auto simp: sensible_cards)

subsection \<open>The catalogue of a canvas\<close>

definition shelf_of :: "saved \<Rightarrow> dsection \<Rightarrow> shelf" where
  "shelf_of sv s =
     \<lparr>cg_title = dflt [] (nullish (sv_title sv) (ds_title s)),
      cg_cards = map (\<lambda>k. (k, dflt [] (nullish (sv_labels sv k)
                    (case by_id (ds_arts s) k of None \<Rightarrow> None | Some ab \<Rightarrow> ab_label ab))))
        (section_order sv (section_children (ds_arts s)))\<rparr>"

definition catalogue_of :: "dsection list \<Rightarrow> sections \<Rightarrow> catalogue" where
  "catalogue_of secs ss = map (\<lambda>s. shelf_of (section_saved ss s) s) secs"

lemma catalogue_nth [simp]:
  "length (catalogue_of secs ss) = length secs"
  "i < length secs \<Longrightarrow> catalogue_of secs ss ! i = shelf_of (section_saved ss (secs ! i)) (secs ! i)"
  by (simp_all add: catalogue_of_def)

lemma card_names_shelf [simp]: "card_names (shelf_of sv s) = section_order sv (section_children (ds_arts s))"
  by (simp add: card_names_def shelf_of_def comp_def)

lemma card_names_catalogue: "i < length secs \<Longrightarrow> card_names (catalogue_of secs ss ! i) = shown_slots ss (secs ! i)"
  by (simp add: shown_slots_def)

lemma section_saved_key:
  "secs_ok secs \<Longrightarrow> i < length secs \<Longrightarrow> section_saved ss (secs ! i) = saved_of ss (section_key (secs ! i))"
  by (simp add: section_saved_def secs_ok_nth(1))

text \<open>A patch of one section changes one shelf.\<close>

lemma catalogue_patch:
  assumes "secs_ok secs" "i < length secs"
  shows "catalogue_of secs (patch_section (section_key (secs ! i)) f ss) =
    (catalogue_of secs ss)[i := shelf_of (f (saved_of ss (section_key (secs ! i)))) (secs ! i)]"
proof (rule nth_equalityI)
  fix j assume "j < length (catalogue_of secs (patch_section (section_key (secs ! i)) f ss))"
  then have j: "j < length secs" by simp
  moreover have "section_key (secs ! j) = section_key (secs ! i) \<longleftrightarrow> j = i"
    using assms j by (auto simp: secs_ok_def distinct_conv_nth)
  ultimately show "catalogue_of secs (patch_section (section_key (secs ! i)) f ss) ! j =
      (catalogue_of secs ss)[i := shelf_of (f (saved_of ss (section_key (secs ! i)))) (secs ! i)] ! j"
    using assms by (auto simp: nth_list_update section_saved_key)
qed simp

text \<open>What each operation on the saved sections means.\<close>

lemma catalogue_ops:
  assumes "secs_ok secs" "i < length secs" and "sid = section_key (secs ! i)"
  shows "catalogue_of secs (rename_section sid v ss) = fulfil (Retitle i v) (catalogue_of secs ss)"
    and "catalogue_of secs (rename_artboard sid k v ss) = fulfil (Relabel i k v) (catalogue_of secs ss)"
    and "set (shown_slots ss (secs ! i)) \<subseteq> set nxt \<Longrightarrow>
      catalogue_of secs (reorder_section sid nxt ss) = fulfil (Arrange i nxt) (catalogue_of secs ss)"
    and "catalogue_of secs (delete_artboard sid (section_children (ds_arts (secs ! i))) k ss) =
      fulfil (Remove i k) (catalogue_of secs ss)"
proof -
  let ?cs = "section_children (ds_arts (secs ! i))" and ?sv = "saved_of ss sid"
  note patch = catalogue_patch [OF assms(1,2), folded assms(3)]
  have old: "catalogue_of secs ss ! i = shelf_of ?sv (secs ! i)"
    using assms by (simp add: section_saved_key)
  have slots: "canvas_slots (?sv\<lparr>sv_title := a\<rparr>) ?cs = canvas_slots ?sv ?cs" "canvas_slots (?sv\<lparr>sv_labels := m\<rparr>) ?cs = canvas_slots ?sv ?cs"
    for a m by (simp_all add: canvas_slots_def canvas_src_def canvas_hidden_def Let_def)
  show "catalogue_of secs (rename_section sid v ss) = fulfil (Retitle i v) (catalogue_of secs ss)"
    by (simp add: rename_section_def patch on_shelf_def old) (simp add: shelf_of_def section_order_eq slots nullish_def dflt_def)
  show "catalogue_of secs (rename_artboard sid k v ss) = fulfil (Relabel i k v) (catalogue_of secs ss)"
    by (simp add: rename_artboard_def patch on_shelf_def old)
      (auto simp: shelf_of_def section_order_eq slots nullish_def dflt_def intro!: arg_cong2 [where f = "list_update _"])
  show "catalogue_of secs (reorder_section sid nxt ss) = fulfil (Arrange i nxt) (catalogue_of secs ss)"
    if "set (shown_slots ss (secs ! i)) \<subseteq> set nxt"
  proof -
    have src: "canvas_src (?sv\<lparr>sv_order := nxt\<rparr>) ?cs = canvas_src ?sv ?cs"
      by (simp add: canvas_src_def canvas_hidden_def Let_def)
    have "set (canvas_src ?sv ?cs) \<subseteq> set nxt"
      using that assms by (simp add: shown_slots_eq secs_ok_nth(1) canvas_slots_def)
    then have "canvas_slots (?sv\<lparr>sv_order := nxt\<rparr>) ?cs = filter (\<lambda>k. k \<in> set (canvas_slots ?sv ?cs)) nxt"
      unfolding canvas_slots_def src set_merge_order
      by (auto simp: merge_order_def Let_def filter_empty_conv)
    then show ?thesis
      by (simp add: reorder_section_def patch on_shelf_def old)
        (auto simp: shelf_of_def section_order_eq map_of_map_restrict restrict_map_def card_names_def comp_def
          intro!: arg_cong2 [where f = "list_update _"])
  qed
  show "catalogue_of secs (delete_artboard sid ?cs k ss) = fulfil (Remove i k) (catalogue_of secs ss)"
  proof -
    obtain f where f: "delete_artboard sid ?cs k = patch_section sid f"
      "sv_title (f ?sv) = sv_title ?sv" "sv_labels (f ?sv) = sv_labels ?sv"
      unfolding delete_artboard_def by fastforce
    have "canvas_slots (f ?sv) ?cs = filter (\<lambda>x. x \<noteq> k) (canvas_slots ?sv ?cs)"
      using delete_slots [of sid ?cs k ss] by (simp add: f(1))
    then show ?thesis
      by (simp add: f(1) patch on_shelf_def old) (simp add: shelf_of_def section_order_eq f(2,3) filter_map comp_def)
  qed
qed

subsection \<open>What an event means\<close>

fun editor_intent :: "editor \<Rightarrow> string \<Rightarrow> intent" where
  "editor_intent (TitleEditor i) v = Retitle i v"
| "editor_intent (LabelEditor i k) v = Relabel i k v"

definition drop_intents :: "dsection list \<Rightarrow> nat \<times> string \<times> grip \<Rightarrow> intent list" where
  "drop_intents secs d =
     (case d of (due, sid, g) \<Rightarrow>
        (case grip_up g of
           None \<Rightarrow> []
         | Some nxt \<Rightarrow> map (\<lambda>i. Arrange i nxt) (filter (\<lambda>i. section_key (secs ! i) = sid) [0..<length secs])))"

definition click_intents :: "nat \<Rightarrow> (string \<Rightarrow> menu) \<Rightarrow> section_act \<Rightarrow> intent list" where
  "click_intents i ms a =
     (case a of
        OnFrame k (Menu DeleteClick) \<Rightarrow> if mn_open (ms k) \<and> mn_confirming (ms k) then [Remove i k] else []
      | _ \<Rightarrow> [])"

text \<open>
  Leaving an editor retitles or relabels, a drop that is due arranges, and a click that reaches an armed
  delete row removes. Nothing else means anything to the catalogue.
\<close>

fun intents :: "dsection list \<Rightarrow> board_event \<Rightarrow> board \<Rightarrow> intent list" where
  "intents secs (DownAt pl) b =
     (case bd_editor b of None \<Rightarrow> [] | Some (ed, v) \<Rightarrow> if pl = InEditor ed then [] else [editor_intent ed v])"
| "intents secs LeaveEditor b = (case bd_editor b of None \<Rightarrow> [] | Some (ed, v) \<Rightarrow> [editor_intent ed v])"
| "intents secs (Elapse dt) b =
     concat (map (drop_intents secs) (filter (\<lambda>d. fst d \<le> cv_now (bd_canvas b) + dt) (bd_drops b)))"
| "intents secs (SectionClick i p) b =
     (if i < length secs \<and> cv_ready (bd_canvas b) then
        let s = secs ! i
        in concat (map (click_intents i (bd_menus b i))
             (dispatch ''click'' p (section_view (cv_sections (bd_canvas b)) (ds_id s) (ds_title s) (ds_subtitle s)
                (ds_gap s) (ds_arts s) (ds_rest s) (bd_menus b i))))
      else [])"
| "intents secs _ b = []"

fun run_intents :: "dsection list \<Rightarrow> board_event list \<Rightarrow> board \<Rightarrow> intent list" where
  "run_intents secs [] b = []"
| "run_intents secs (e # es) b = intents secs e b @ run_intents secs es (board_step secs e b)"

definition board_catalogue :: "dsection list \<Rightarrow> board \<Rightarrow> catalogue" where
  "board_catalogue secs b = catalogue_of secs (cv_sections (bd_canvas b))"

lemma canvas_sections [simp]:
  "cv_sections (canvas_edit f c) = f (cv_sections c)" "cv_sections (set_focus s c) = cv_sections c"
  "cv_sections (flush_effect c) = cv_sections c" "cv_sections (canvas_elapse dt c) = cv_sections c"
  "cv_sections (show_unread c) = cv_sections c" "cv_now (canvas_elapse dt c) = cv_now c + dt"
  by (simp_all add: canvas_edit_def set_focus_def flush_effect_def canvas_elapse_def show_unread_def Let_def
      split: option.split prod.split)

subsection \<open>Handlers\<close>

lemma serves_editor:
  assumes "secs_ok secs" "editor_shown secs c ed"
  shows "serves (catalogue_of secs (cv_sections c)) [editor_intent ed v]
    (catalogue_of secs (cv_sections (commit_editor secs ed v c)))"
proof (cases ed)
  case (TitleEditor i)
  then have i: "i < length secs" using assms(2) by simp
  then show ?thesis using TitleEditor catalogue_ops(1) [OF assms(1) i refl] by (simp add: secs_ok_nth(1) [OF assms(1) i])
next
  case (LabelEditor i k)
  then have i: "i < length secs" "k \<in> set (shown_slots (cv_sections c) (secs ! i))"
    using assms(2) by (simp_all add: frame_shown_def)
  then show ?thesis using LabelEditor catalogue_ops(2) [OF assms(1) i(1) refl] card_names_catalogue [of i secs] by simp
qed

text \<open>A drop names every card its section still shows.\<close>

definition covers :: "dsection list \<Rightarrow> sections \<Rightarrow> string \<Rightarrow> grip \<Rightarrow> bool" where
  "covers secs ss sid g \<longleftrightarrow>
     (\<forall>i < length secs. section_key (secs ! i) = sid \<longrightarrow> set (shown_slots ss (secs ! i)) \<subseteq> set (gr_live g))"

lemma covers_serves:
  assumes "covers secs ss sid g" "serves (catalogue_of secs ss) ts (catalogue_of secs ss')"
  shows "covers secs ss' sid g"
proof -
  have "set (shown_slots ss' (secs ! i)) \<subseteq> set (shown_slots ss (secs ! i))" if "i < length secs" for i
    using serves_cards [OF assms(2), of i] that by (auto simp: card_names_catalogue simp del: catalogue_nth(2))
  then show ?thesis using assms(1) unfolding covers_def by blast
qed

lemma filter_index: "i < n \<Longrightarrow> filter (\<lambda>j. j = i) [0..<n] = [i]"
  by (induction n) (auto simp: filter_empty_conv less_Suc_eq)

lemma serves_drop:
  assumes "secs_ok secs" "covers secs (cv_sections c) sid g" "distinct (gr_live g)"
  shows "serves (catalogue_of secs (cv_sections c)) (drop_intents secs (due, sid, g))
    (catalogue_of secs (cv_sections (commit_drop (due, sid, g) c)))"
proof (cases "grip_up g")
  case None
  then show ?thesis by (simp add: drop_intents_def commit_drop_def)
next
  case (Some nxt)
  then have nxt: "nxt = gr_live g" by (auto simp: grip_up_def split: if_splits)
  show ?thesis
  proof (cases "sid \<in> section_key ` set secs")
    case True
    then obtain i where i: "i < length secs" "section_key (secs ! i) = sid" by (auto simp: in_set_conv_nth)
    then have sub: "set (shown_slots (cv_sections c) (secs ! i)) \<subseteq> set nxt"
      using assms(2) by (simp add: covers_def nxt)
    have "filter (\<lambda>j. section_key (secs ! j) = sid) [0..<length secs] = [i]"
    proof -
      have "section_key (secs ! j) = sid \<longleftrightarrow> j = i" if "j < length secs" for j
        using assms(1) i that by (auto simp: secs_ok_def distinct_conv_nth)
      then have "filter (\<lambda>j. section_key (secs ! j) = sid) [0..<length secs] = filter (\<lambda>j. j = i) [0..<length secs]"
        by (intro filter_cong) auto
      also have "\<dots> = [i]" using i(1) by (rule filter_index)
      finally show ?thesis .
    qed
    then show ?thesis
      using Some i(1) sub assms(3) nxt catalogue_ops(3) [OF assms(1) i(1) i(2) [symmetric] sub]
      by (simp add: drop_intents_def commit_drop_def card_names_catalogue del: catalogue_nth(2))
  next
    case False
    have "catalogue_of secs (reorder_section sid nxt ss) = catalogue_of secs ss" for ss
    proof (rule nth_equalityI)
      fix j assume "j < length (catalogue_of secs (reorder_section sid nxt ss))"
      then show "catalogue_of secs (reorder_section sid nxt ss) ! j = catalogue_of secs ss ! j"
        using False assms(1) by (auto simp: section_saved_key reorder_section_def)
    qed simp
    moreover have "filter (\<lambda>j. section_key (secs ! j) = sid) [0..<length secs] = []"
      using False by (auto simp: filter_empty_conv)
    ultimately show ?thesis using Some by (simp add: drop_intents_def commit_drop_def)
  qed
qed

lemma serves_drops:
  assumes "secs_ok secs" "list_all (\<lambda>(due, sid, g). covers secs (cv_sections c) sid g \<and> distinct (gr_live g)) ds"
  shows "serves (catalogue_of secs (cv_sections c)) (concat (map (drop_intents secs) ds))
    (catalogue_of secs (cv_sections (fold commit_drop ds c)))"
  using assms(2)
proof (induction ds arbitrary: c)
  case (Cons d ds)
  obtain due sid g where d: "d = (due, sid, g)" by (cases d)
  have one: "serves (catalogue_of secs (cv_sections c)) (drop_intents secs d) (catalogue_of secs (cv_sections (commit_drop d c)))"
    using Cons.prems serves_drop [OF assms(1)] by (simp add: d)
  then have "list_all (\<lambda>(due, sid, g). covers secs (cv_sections (commit_drop d c)) sid g \<and> distinct (gr_live g)) ds"
    using Cons.prems covers_serves [OF _ one] by (fastforce simp: list_all_iff)
  from serves_append [OF one Cons.IH [OF this]] show ?case by simp
qed (simp add: served)

lemma weightless_means_nothing: "section_weight a = 0 \<Longrightarrow> click_intents i ms a = []"
  by (cases a) (auto simp: click_intents_def split: frame_act.split)

lemma weightless_all:
  "sum_list (map section_weight as) = 0 \<Longrightarrow> concat (map (click_intents i ms) as) = []"
  by (induction as) (auto simp: weightless_means_nothing)

lemma menu_deletes: "mn_deletes (menu_step e m) \<noteq> mn_deletes m \<longleftrightarrow> e = DeleteClick \<and> mn_open m \<and> mn_confirming m"
  by (cases e) (auto simp: menu_effect_def)

lemma serves_click:
  assumes "secs_ok secs" "i < length secs" "sum_list (map section_weight as) \<le> 1"
    and "\<And>k. mn_confirming (ms k) \<Longrightarrow> k \<in> set (shown_slots (cv_sections c) (secs ! i))"
  shows "serves (catalogue_of secs (cv_sections c)) (concat (map (click_intents i ms) as))
    (catalogue_of secs (cv_sections (fst (fold (section_effect (section_key (secs ! i)) (ds_arts (secs ! i)) v) as (c, ms)))))"
  using assms(3,4)
proof (induction as arbitrary: c)
  case (Cons a as)
  show ?case
  proof (cases "section_weight a = 0")
    case True
    then obtain d where d: "section_effect (section_key (secs ! i)) (ds_arts (secs ! i)) v a (c, ms) = (d, ms)"
      "cv_sections d = cv_sections c"
      by (rule weightless)
    then show ?thesis using Cons.IH [of d] Cons.prems True by (simp add: weightless_means_nothing)
  next
    case False
    have "section_weight a + sum_list (map section_weight as) \<le> 1" using Cons.prems(1) by simp
    with False have w: "section_weight a = 1" "sum_list (map section_weight as) = 0" by linarith+
    obtain k e where a: "a = OnFrame k (Menu e)" using w(1) by (rule menu_action)
    let ?st = "section_effect (section_key (secs ! i)) (ds_arts (secs ! i)) v a (c, ms)"
    have rest: "cv_sections (fst (fold (section_effect (section_key (secs ! i)) (ds_arts (secs ! i)) v) as ?st)) = cv_sections (fst ?st)"
      using section_quiet [OF w(2)] by (metis prod.collapse)
    have head: "click_intents i ms a = (if e = DeleteClick \<and> mn_open (ms k) \<and> mn_confirming (ms k) then [Remove i k] else [])"
      by (auto simp: a click_intents_def split: menu_event.split)
    have st: "cv_sections (fst ?st) = (if e = DeleteClick \<and> mn_open (ms k) \<and> mn_confirming (ms k)
        then delete_artboard (section_key (secs ! i)) (section_children (ds_arts (secs ! i))) k (cv_sections c) else cv_sections c)"
      using menu_deletes [of e "ms k"] by (simp add: a del: menu_step.simps)
    show ?thesis
    proof (cases "e = DeleteClick \<and> mn_open (ms k) \<and> mn_confirming (ms k)")
      case True
      then have "k \<in> set (card_names (catalogue_of secs (cv_sections c) ! i))"
        using Cons.prems(2) assms(2) by (simp add: card_names_catalogue del: catalogue_nth(2))
      with True show ?thesis
        using rest assms(2) catalogue_ops(4) [OF assms(1,2) refl, of k]
        by (simp add: weightless_all [OF w(2)] head st del: catalogue_nth(2))
    qed (use rest in \<open>auto simp: weightless_all [OF w(2)] head st\<close>)
  qed
qed simp

subsection \<open>One event\<close>

definition tidy :: "dsection list \<Rightarrow> board \<Rightarrow> bool" where
  "tidy secs b \<longleftrightarrow> board_ok b \<and>
     (case bd_editor b of None \<Rightarrow> True | Some (ed, v) \<Rightarrow> editor_shown secs (bd_canvas b) ed) \<and>
     (\<forall>i k. mn_confirming (bd_menus b i k) \<longrightarrow> frame_shown secs (bd_canvas b) i k) \<and>
     list_all (\<lambda>(sid, g). covers secs (cv_sections (bd_canvas b)) sid g) (bd_grips b @ map snd (bd_drops b))"

lemma canvas_unmount [simp]: "bd_canvas (unmount_gone secs b) = bd_canvas b"
  by (simp add: unmount_gone_def Let_def)

lemma sections_nav [simp]: "cv_sections (nav rg k c) = cv_sections c"
  by (auto simp: nav_def Let_def split: option.split)

lemma sections_overlay [simp]: "cv_sections (bd_canvas (click_overlay secs vw vh p b)) = cv_sections (bd_canvas b)"
proof -
  have "cv_sections (fst (fold (overlay_effect rg en) as st)) = cv_sections (fst st)" for rg en as st
  proof (induction as arbitrary: st)
    case (Cons a as)
    have "cv_sections (fst (overlay_effect rg en a st)) = cv_sections (fst st)"
      by (cases "(rg, en, a, st)" rule: overlay_effect.cases) (simp_all split: option.split)
    then show ?case using Cons.IH by simp
  qed simp
  then show ?thesis by (simp add: click_overlay_def overlay_click_def Let_def split: option.split)
qed

lemma canvas_down [simp]: "bd_canvas (pointer_down secs pl b) = bd_canvas (down_blur secs pl b)"
proof -
  have "bd_canvas (down_target secs pl b') = bd_canvas b'" for b'
    by (simp add: down_target_def start_drag_def Let_def split: place.split)
  then show ?thesis by (simp add: pointer_down_def down_menus_def)
qed

lemma board_serves:
  assumes "secs_ok secs" "tidy secs b" "\<not> is_read e"
  shows "serves (board_catalogue secs b) (intents secs e b) (board_catalogue secs (board_step secs e b))"
proof -
  have ed: "editor_shown secs (bd_canvas b) ed" if "bd_editor b = Some (ed, v)" for ed v
    using assms(2) that by (simp add: tidy_def)
  have leave: "serves (board_catalogue secs b) [editor_intent ed v] (board_catalogue secs (leave_editor secs b))"
    if "bd_editor b = Some (ed, v)" for ed v
    using serves_editor [OF assms(1) ed [OF that]] that by (simp add: board_catalogue_def leave_editor_def)
  have "serves (board_catalogue secs b) (intents secs e b) (board_catalogue secs (board_act secs e b))"
  proof (cases e)
    case (Elapse dt)
    let ?due = "filter (\<lambda>d. fst d \<le> cv_now (bd_canvas b) + dt) (bd_drops b)"
    have "covers secs (cv_sections (bd_canvas b)) sid g \<and> distinct (gr_live g)" if "(due, sid, g) \<in> set (bd_drops b)" for due sid g
    proof -
      have "(sid, g) \<in> set (map snd (bd_drops b))" using that by force
      then show ?thesis using assms(2) that by (auto simp: tidy_def board_ok_def drops_ok_def list_all_iff)
    qed
    then have "list_all (\<lambda>(due, sid, g). covers secs (cv_sections (canvas_elapse dt (bd_canvas b))) sid g \<and> distinct (gr_live g)) ?due"
      by (auto simp: list_all_iff)
    from serves_drops [OF assms(1) this] show ?thesis
      by (simp add: Elapse board_catalogue_def board_elapse_def Let_def)
  next
    case (SectionClick i p)
    show ?thesis
    proof (cases "i < length secs \<and> cv_ready (bd_canvas b)")
      case True
      then have i: "i < length secs" by simp
      let ?s = "secs ! i"
      let ?as = "dispatch ''click'' p (section_view (cv_sections (bd_canvas b)) (ds_id ?s) (ds_title ?s) (ds_subtitle ?s)
                (ds_gap ?s) (ds_arts ?s) (ds_rest ?s) (bd_menus b i))"
      have "sum_list (map section_weight ?as) \<le> 1"
        unfolding dispatch_def by (rule order_trans [OF bubble_load load_section])
      moreover have "k \<in> set (shown_slots (cv_sections (bd_canvas b)) (secs ! i))" if "mn_confirming (bd_menus b i k)" for k
        using assms(2) that by (simp add: tidy_def frame_shown_def)
      ultimately have "serves (catalogue_of secs (cv_sections (bd_canvas b))) (concat (map (click_intents i (bd_menus b i)) ?as))
          (catalogue_of secs (cv_sections (fst (fold (section_effect (section_key ?s) (ds_arts ?s) []) ?as (bd_canvas b, bd_menus b i)))))"
        by (rule serves_click [OF assms(1) i])
      moreover have "intents secs e b = concat (map (click_intents i (bd_menus b i)) ?as)"
        unfolding SectionClick intents.simps Let_def by (rule if_P [OF True])
      moreover have "bd_canvas (board_click secs i p b) =
          fst (fold (section_effect (section_key ?s) (ds_arts ?s) []) ?as (bd_canvas b, bd_menus b i))"
        unfolding board_click_def Let_def if_P [OF True] by simp
      ultimately show ?thesis by (simp only: SectionClick board_act.simps board_catalogue_def)
    next
      case False
      show ?thesis
        unfolding SectionClick intents.simps board_act.simps board_click_def if_not_P [OF False] by (rule served)
    qed
  next
    case (DownAt pl)
    show ?thesis
    proof (cases "bd_editor b")
      case None
      then show ?thesis by (simp add: DownAt board_catalogue_def down_blur_def)
    next
      case (Some x)
      then show ?thesis
        using leave [of "fst x" "snd x"] by (cases x) (simp add: DownAt board_catalogue_def down_blur_def del: serves_simps(2))
    qed
  next
    case LeaveEditor
    show ?thesis
    proof (cases "bd_editor b")
      case None
      then show ?thesis by (simp add: LeaveEditor leave_editor_def)
    next
      case (Some x)
      then show ?thesis
        using leave [of "fst x" "snd x"] by (cases x) (simp add: LeaveEditor del: serves_simps(2))
    qed
  qed (use assms(3) in \<open>simp_all add: board_catalogue_def pointer_up_def\<close>)
  then show ?thesis by (simp add: board_step_def board_catalogue_def)
qed

text \<open>A grip that appears names every card of its section.\<close>

lemma covers_down:
  "secs_ok secs \<Longrightarrow> i < length secs \<Longrightarrow>
     covers secs ss (section_key (secs ! i)) (grip_down k (shown_slots ss (secs ! i)) hs x w ow)"
  by (auto simp: covers_def grip_down_def secs_ok_def distinct_conv_nth)

lemma grips_target:
  assumes "secs_ok secs" "(sid, g) \<in> set (bd_grips (down_target secs pl b))"
  shows "(sid, g) \<in> set (bd_grips b) \<or> covers secs (cv_sections (bd_canvas b)) sid g"
proof (cases pl)
  case (OnGrip i k left w ow x)
  show ?thesis
  proof (cases "frame_shown secs (bd_canvas b) i k")
    case True
    then have "i < length secs" by (simp add: frame_shown_def)
    then show ?thesis
      using assms(2) covers_down [OF assms(1)] by (auto simp: OnGrip down_target_def start_drag_def Let_def split: if_splits)
  qed (use assms(2) in \<open>simp add: OnGrip down_target_def start_drag_def Let_def\<close>)
qed (use assms(2) in \<open>simp_all add: down_target_def split: if_splits\<close>)

lemma grips_cover:
  assumes "secs_ok secs" "(sid, g) \<in> set (bd_grips (board_act secs e b))" "list_all (\<lambda>(sid, g). grip_ok g) (bd_grips b)"
  shows "(\<exists>g'. (sid, g') \<in> set (bd_grips b) \<and> set (gr_live g) = set (gr_live g')) \<or>
    covers secs (cv_sections (bd_canvas (board_act secs e b))) sid g"
proof (cases e)
  case (DownAt pl)
  let ?b = "down_menus pl (down_blur secs pl b)"
  have same: "bd_grips ?b = bd_grips b" "bd_canvas ?b = bd_canvas (down_blur secs pl b)"
    by (simp_all add: down_menus_def down_blur_def split: option.split)
  have "(sid, g) \<in> set (bd_grips ?b) \<or> covers secs (cv_sections (bd_canvas ?b)) sid g"
    using assms(2) by (intro grips_target [OF assms(1), of _ _ pl]) (simp add: DownAt pointer_down_def)
  then show ?thesis unfolding same DownAt by auto
next
  case (MoveTo x)
  then obtain g' where g': "(sid, g') \<in> set (bd_grips b)" "g = grip_move x g'" using assms(2) by auto
  then have "grip_ok g'" using assms(3) by (auto simp: list_all_iff)
  then have "mset (gr_live g) = mset (gr_live g')"
    using grip_ok_perm [of g'] grip_ok_perm [OF grip_move_live(2)] by (simp add: g'(2))
  then have "set (gr_live g) = set (gr_live g')" by (rule mset_eq_setD)
  with g'(1) show ?thesis by blast
qed (use assms(2) in \<open>auto simp: board_elapse_def pointer_up_def Let_def\<close>)

lemma drops_from:
  "d \<in> set (bd_drops (board_act secs e b)) \<Longrightarrow> d \<in> set (bd_drops b) \<or> snd d \<in> set (bd_grips b)"
  by (cases e) (auto simp: board_elapse_def pointer_up_def Let_def)

lemma unmounted:
  "case bd_editor (board_step secs e b) of None \<Rightarrow> True | Some (ed, v) \<Rightarrow> editor_shown secs (bd_canvas (board_step secs e b)) ed"
  "mn_confirming (bd_menus (board_step secs e b) i k) \<Longrightarrow> frame_shown secs (bd_canvas (board_step secs e b)) i k"
  by (auto simp: board_step_def unmount_gone_def Let_def menu_start_def split: option.splits if_splits)

lemma tidy_step:
  assumes "secs_ok secs" "tidy secs b" "\<not> is_read e"
  shows "tidy secs (board_step secs e b)"
proof -
  let ?b = "board_step secs e b"
  have "read_ok e" using assms(3) by (cases e) simp_all
  then have ok: "board_ok ?b" using assms(2) by (simp add: board_ok_step [OF assms(1)] tidy_def)
  note sv = board_serves [OF assms, unfolded board_catalogue_def]
  have old: "covers secs (cv_sections (bd_canvas b)) sid g" if "(sid, g) \<in> set (bd_grips b) \<union> snd ` set (bd_drops b)" for sid g
    using assms(2) that by (auto simp: tidy_def list_all_iff)
  have live: "covers secs ss sid g = covers secs ss sid g'" if "set (gr_live g) = set (gr_live g')" for ss sid g g'
    using that by (simp add: covers_def)
  have kept: "covers secs (cv_sections (bd_canvas ?b)) sid g" if "(sid, g) \<in> set (bd_grips b) \<union> snd ` set (bd_drops b)" for sid g
    using covers_serves [OF old [OF that] sv] .
  have "covers secs (cv_sections (bd_canvas ?b)) sid g" if "(sid, g) \<in> set (bd_grips ?b)" for sid g
  proof -
    have "(sid, g) \<in> set (bd_grips (board_act secs e b))" using that by (simp add: board_step_def)
    moreover have "list_all (\<lambda>(sid, g). grip_ok g) (bd_grips b)"
      using assms(2) by (simp add: tidy_def board_ok_def)
    ultimately have "(\<exists>g'. (sid, g') \<in> set (bd_grips b) \<and> set (gr_live g) = set (gr_live g')) \<or>
        covers secs (cv_sections (bd_canvas (board_act secs e b))) sid g"
      by (rule grips_cover [OF assms(1)])
    then show ?thesis
    proof
      assume "\<exists>g'. (sid, g') \<in> set (bd_grips b) \<and> set (gr_live g) = set (gr_live g')"
      then obtain g' where g': "(sid, g') \<in> set (bd_grips b)" "set (gr_live g) = set (gr_live g')" by blast
      from kept [of sid g'] g'(1) show ?thesis unfolding live [OF g'(2)] by simp
    qed (simp add: board_step_def)
  qed
  moreover have "covers secs (cv_sections (bd_canvas ?b)) sid g" if "(due, sid, g) \<in> set (bd_drops ?b)" for due sid g
  proof (rule kept)
    show "(sid, g) \<in> set (bd_grips b) \<union> snd ` set (bd_drops b)"
      using that drops_from [of "(due, sid, g)" secs e b] by (force simp: board_step_def)
  qed
  ultimately show ?thesis
    using ok unmounted [of secs e b] unfolding tidy_def by (auto simp: list_all_iff)
qed

lemma tidy_idle:
  assumes "secs_ok secs" "list_all read_ok fs" "b = fold (board_step secs) fs (board_mount file)"
    and "bd_grips b = []" "bd_drops b = []"
  shows "tidy secs b"
proof -
  have "board_ok b" unfolding assms(3) by (rule board_ok_run [OF assms(1,2) board_ok_mount])
  moreover have "(case bd_editor b of None \<Rightarrow> True | Some (ed, v) \<Rightarrow> editor_shown secs (bd_canvas b) ed) \<and>
    (\<forall>i k. mn_confirming (bd_menus b i k) \<longrightarrow> frame_shown secs (bd_canvas b) i k)"
  proof (cases fs rule: rev_cases)
    case Nil
    then show ?thesis by (simp add: assms(3) board_mount_def menu_start_def)
  next
    case (snoc fs' e)
    then have "b = board_step secs e (fold (board_step secs) fs' (board_mount file))" by (simp add: assms(3))
    then show ?thesis using unmounted [of secs e "fold (board_step secs) fs' (board_mount file)"] by blast
  qed
  ultimately show ?thesis using assms(4,5) by (simp add: tidy_def)
qed

subsection \<open>The refinement\<close>

text \<open>
  C3. Once the saved sections are there and nothing is being dragged, the canvas with its menus, drags, editors,
  timers and saved arrangements is an implementation of the catalogue: whatever happens, the titles, labels
  and arrangements that are shown are those of the catalogue after the intents of the events, and every one of
  these is sensible - it names a shelf and a card that are there, and an arrangement names every card once.
\<close>

theorem board_refines:
  assumes "secs_ok secs" "list_all read_ok fs" "b = fold (board_step secs) fs (board_mount file)"
    and "bd_grips b = []" "bd_drops b = []" "list_all (\<lambda>e. \<not> is_read e) es"
  shows "serves (board_catalogue secs b) (run_intents secs es b) (board_catalogue secs (fold (board_step secs) es b))"
proof -
  have "tidy secs b" by (rule tidy_idle [OF assms(1-5)])
  then show ?thesis
    using assms(6)
    by (induction es arbitrary: b) (auto intro!: serves_append [OF board_serves] tidy_step assms(1))
qed

text \<open>The demonstration of \<open>Canvas_Board\<close> as the catalogue sees it: a removal, a title, and then the drop.\<close>

lemma demo_intents:
  "run_intents demo_secs (demo_events @ [Elapse 180]) (fold (board_step demo_secs) [SettleRead (Some Map.empty), FlushEffects] (board_mount None))
    = [Remove 0 ''b'', Retitle 1 ''T'', Arrange 0 [''c'', ''a'']]"
  by code_simp

theorem board_refines_witness:
  "serves (board_catalogue demo_secs (fold (board_step demo_secs) [SettleRead (Some Map.empty), FlushEffects] (board_mount None)))
     [Remove 0 ''b'', Retitle 1 ''T'', Arrange 0 [''c'', ''a'']]
     (board_catalogue demo_secs (fold (board_step demo_secs) (demo_events @ [Elapse 180])
        (fold (board_step demo_secs) [SettleRead (Some Map.empty), FlushEffects] (board_mount None))))"
  unfolding demo_intents [symmetric]
  by (rule board_refines [OF demo_secs_ok _ refl])
    (simp_all add: orders_ok_def saved_of_def no_saved_def demo_events_def, simp_all add: board_step_def board_mount_def)

end
