(* ===== verification/Canvas_Memo.thy ===== *)
theory Canvas_Memo
  imports Canvas_Order
begin

text \<open>
  The order of a section from render to render. \<open>DesignCanvas\<close> computes it anew each time; \<open>DCSection\<close>
  keeps the last one (\<open>useMemo\<close>) while the array \<open>sec.order\<close> is the same object and the text
  \<open>srcOrder.join('|')\<close> is the same. An array is known by its identity: edits of other properties pass
  it on, a committed order and a read of the sidecar bring a new one, and a missing order is
  \<open>undefined\<close>, equal to itself. Below: when the two orders agree, and when they do not.
\<close>

subsection \<open>The memo\<close>

record memo =
  mm_ref :: "nat option"
  mm_key :: string
  mm_order :: "string list"

definition memo_key :: "string list \<Rightarrow> string" where
  "memo_key src = join_with ''|'' src"

definition memo_order :: "memo option \<Rightarrow> nat option \<Rightarrow> saved \<Rightarrow> child list \<Rightarrow> memo" where
  "memo_order last_memo ref sec children =
     (let key = memo_key (section_src sec children);
          new = \<lparr>mm_ref = ref, mm_key = key, mm_order = section_order sec children\<rparr>
      in case last_memo of
           None \<Rightarrow> new
         | Some m \<Rightarrow> if mm_ref m = ref \<and> mm_key m = key then m else new)"

subsection \<open>A mounted section\<close>

text \<open>
  The saved sections, the identity of the section's own order in them, the next unused identity, the
  children and those of the last render (whose handlers are the ones in the document), and the memo.
\<close>

record mounted =
  sx_sections :: sections
  sx_ref :: "nat option"
  sx_next :: nat
  sx_children :: "child list"
  sx_rendered :: "child list"
  sx_memo :: "memo option"

definition new_section :: "child list \<Rightarrow> mounted" where
  "new_section children =
     \<lparr>sx_sections = Map.empty, sx_ref = None, sx_next = 0, sx_children = children, sx_rendered = children, sx_memo = None\<rparr>"

definition section_render :: "string \<Rightarrow> mounted \<Rightarrow> mounted" where
  "section_render sid st =
     st\<lparr>sx_memo := Some (memo_order (sx_memo st) (sx_ref st) (saved_of (sx_sections st) sid) (sx_children st)),
        sx_rendered := sx_children st\<rparr>"

text \<open>
  What can happen between two renders: the saved sections arrive (the flag says whether an empty order
  of this section is in the file or missing), the section is edited through its handlers, another
  section is edited, the page renders the section with other children.
\<close>

datatype section_event =
    ReadSaved sections bool
  | Retitled string
  | Relabelled string string
  | Reordered "string list"
  | Removed string
  | EditOther string "saved \<Rightarrow> saved"
  | NewChildren "child list"
  | Render

definition read_ref :: "string \<Rightarrow> sections \<Rightarrow> bool \<Rightarrow> nat \<Rightarrow> nat option" where
  "read_ref sid ss present n = (if present \<or> sv_order (saved_of ss sid) \<noteq> [] then Some n else None)"

fun section_step :: "string \<Rightarrow> section_event \<Rightarrow> mounted \<Rightarrow> mounted" where
  "section_step sid (ReadSaved ss present) st =
     st\<lparr>sx_sections := ss, sx_ref := read_ref sid ss present (sx_next st), sx_next := Suc (sx_next st)\<rparr>"
| "section_step sid (Retitled v) st = st\<lparr>sx_sections := rename_section sid v (sx_sections st)\<rparr>"
| "section_step sid (Relabelled k v) st = st\<lparr>sx_sections := rename_artboard sid k v (sx_sections st)\<rparr>"
| "section_step sid (Reordered nxt) st =
     st\<lparr>sx_sections := reorder_section sid nxt (sx_sections st), sx_ref := Some (sx_next st), sx_next := Suc (sx_next st)\<rparr>"
| "section_step sid (Removed k) st = st\<lparr>sx_sections := delete_artboard sid (sx_rendered st) k (sx_sections st)\<rparr>"
| "section_step sid (EditOther t p) st =
     (if t = sid then st else st\<lparr>sx_sections := patch_section t p (sx_sections st)\<rparr>)"
| "section_step sid (NewChildren cs) st = st\<lparr>sx_children := cs\<rparr>"
| "section_step sid Render st = section_render sid st"

definition shown_order :: "mounted \<Rightarrow> string list" where
  "shown_order st = (case sx_memo st of None \<Rightarrow> [] | Some m \<Rightarrow> mm_order m)"

lemma section_order_merge: "section_order sec cs = merge_order (sv_order sec) (section_src sec cs)"
  by (simp add: section_order_def merge_order_def Let_def)

lemma section_src_eq: "section_src sec cs = canvas_src sec cs"
  by (simp add: section_src_def canvas_src_def canvas_hidden_def section_canvas_ids Let_def)

lemma section_src_texts: "[] \<notin> set (section_src sec cs)"
  using canvas_ids_texts [of cs] by (simp add: section_src_def section_canvas_ids Let_def)

subsection \<open>When the memo is current\<close>

text \<open>
  The identities: an order that is missing is empty, and every identity in use was handed out.
\<close>

definition refs_ok :: "string \<Rightarrow> mounted \<Rightarrow> bool" where
  "refs_ok sid st \<longleftrightarrow>
     (sx_ref st = None \<longrightarrow> sv_order (saved_of (sx_sections st) sid) = []) \<and>
     (\<forall>r. sx_ref st = Some r \<longrightarrow> r < sx_next st) \<and>
     (\<forall>m r. sx_memo st = Some m \<longrightarrow> mm_ref m = Some r \<longrightarrow> r < sx_next st)"

text \<open>
  The memo was computed from some artboards of a given kind, and if its array is the present one, from
  the present saved order and from artboards that stand in a given relation to the present ones; a
  memo without an array, from an empty order.
\<close>

definition memo_from ::
  "(string list \<Rightarrow> bool) \<Rightarrow> (string list \<Rightarrow> string list \<Rightarrow> bool) \<Rightarrow> string \<Rightarrow> mounted \<Rightarrow> bool" where
  "memo_from good rel sid st \<longleftrightarrow>
     (\<forall>m. sx_memo st = Some m \<longrightarrow>
        (\<exists>so src. mm_order m = merge_order so src \<and> mm_key m = memo_key src \<and> good src \<and> (mm_ref m = None \<longrightarrow> so = []) \<and>
           (mm_ref m = sx_ref st \<longrightarrow>
              so = sv_order (saved_of (sx_sections st) sid) \<and>
              rel src (section_src (saved_of (sx_sections st) sid) (sx_children st)))))"

lemma refs_ok_new: "refs_ok sid (new_section cs)"
  by (simp add: refs_ok_def new_section_def saved_of_def no_saved_def)

lemma memo_from_new: "memo_from good rel sid (new_section cs)"
  by (simp add: memo_from_def new_section_def)

lemma kept_order [simp]:
  "sv_order (saved_of (rename_section sid v ss) t) = sv_order (saved_of ss t)"
  "sv_order (saved_of (rename_artboard sid k v ss) t) = sv_order (saved_of ss t)"
  "sv_order (saved_of (delete_artboard sid cs k ss) t) = sv_order (saved_of ss t)"
  by (simp_all add: rename_section_def rename_artboard_def delete_artboard_def)

lemma kept_src [simp]:
  "section_src (saved_of (rename_section sid v ss) t) cs = section_src (saved_of ss t) cs"
  "section_src (saved_of (rename_artboard sid k v ss) t) cs = section_src (saved_of ss t) cs"
  "section_src (saved_of (reorder_section sid nxt ss) t) cs = section_src (saved_of ss t) cs"
  by (simp_all add: rename_section_def rename_artboard_def reorder_section_def section_src_def)

lemma refs_ok_step: "refs_ok sid st \<Longrightarrow> refs_ok sid (section_step sid e st)"
  by (cases e) (auto simp: refs_ok_def read_ref_def section_render_def memo_order_def reorder_section_def Let_def
      less_Suc_eq split: option.splits if_splits)

text \<open>Rendering, if related artboards of the kind with the same key are the same.\<close>

lemma memo_from_render:
  assumes "memo_from good rel sid st" "refs_ok sid st" "\<And>src. rel src src" "st' = section_render sid st"
    and "cur = section_src (saved_of (sx_sections st) sid) (sx_children st)" "good cur"
    and "\<And>src. good src \<Longrightarrow> rel src cur \<Longrightarrow> memo_key src = memo_key cur \<Longrightarrow> src = cur"
  shows "memo_from good rel sid st'" and "shown_order st' = canvas_slots (saved_of (sx_sections st) sid) (sx_children st)"
proof -
  let ?sec = "saved_of (sx_sections st) sid"
  let ?new = "\<lparr>mm_ref = sx_ref st, mm_key = memo_key cur, mm_order = merge_order (sv_order ?sec) cur\<rparr>"
  have "sx_memo st' = Some ?new"
  proof (cases "sx_memo st")
    case (Some m)
    then obtain so src where m: "mm_order m = merge_order so src" "mm_key m = memo_key src" "good src"
      "mm_ref m = sx_ref st \<longrightarrow> so = sv_order ?sec \<and> rel src cur"
      using assms(1) by (auto simp: memo_from_def assms(5))
    have "m = ?new" if "mm_ref m = sx_ref st" "mm_key m = memo_key cur"
    proof -
      have "src = cur" using assms(7) m(2-4) that by simp
      then show ?thesis using m that by simp
    qed
    then show ?thesis
      using Some by (auto simp: assms(4,5) section_render_def memo_order_def section_order_merge Let_def)
  qed (simp add: assms(4,5) section_render_def memo_order_def section_order_merge Let_def)
  moreover have "sx_sections st' = sx_sections st" "sx_ref st' = sx_ref st" "sx_children st' = sx_children st"
    by (simp_all add: assms(4) section_render_def)
  ultimately show "memo_from good rel sid st'" "shown_order st' = canvas_slots ?sec (sx_children st)"
    using assms(2,3,5,6)
    by (auto simp: memo_from_def refs_ok_def shown_order_def section_order_eq [symmetric] section_order_merge)
qed

text \<open>Any other step: it keeps the array and the order, or brings a new array, or reads sections without one.\<close>

lemma memo_from_step:
  assumes "memo_from good rel sid st" "refs_ok sid st" "e \<noteq> Render" "st' = section_step sid e st"
    and "\<And>src. good src \<Longrightarrow> rel src (section_src (saved_of (sx_sections st) sid) (sx_children st)) \<Longrightarrow>
      (\<And>ss b. e \<noteq> ReadSaved ss b) \<Longrightarrow> rel src (section_src (saved_of (sx_sections st') sid) (sx_children st'))"
    and "\<And>src ss b. e = ReadSaved ss b \<Longrightarrow> \<not> b \<Longrightarrow> sv_order (saved_of ss sid) = [] \<Longrightarrow> good src \<Longrightarrow>
      rel src (section_src (saved_of ss sid) (sx_children st'))"
  shows "memo_from good rel sid st'"
  unfolding memo_from_def
proof (intro allI impI)
  fix m assume "sx_memo st' = Some m"
  then have m: "sx_memo st = Some m" using assms(3,4) by (cases e) (auto split: if_splits)
  then obtain so src where src: "mm_order m = merge_order so src" "mm_key m = memo_key src" "good src"
    "mm_ref m = None \<longrightarrow> so = []" "mm_ref m = sx_ref st \<longrightarrow> so = sv_order (saved_of (sx_sections st) sid) \<and>
       rel src (section_src (saved_of (sx_sections st) sid) (sx_children st))"
    using assms(1) by (auto simp: memo_from_def)
  have used: "r < sx_next st" if "mm_ref m = Some r" for r using assms(2) m that by (auto simp: refs_ok_def)
  have "so = sv_order (saved_of (sx_sections st') sid) \<and> rel src (section_src (saved_of (sx_sections st') sid) (sx_children st'))"
    if "mm_ref m = sx_ref st'"
  proof (cases "\<exists>ss b. e = ReadSaved ss b")
    case True
    then obtain ss b where e: "e = ReadSaved ss b" by blast
    with that used have "\<not> b" "sv_order (saved_of ss sid) = []" "mm_ref m = None"
      by (auto simp: assms(4) read_ref_def split: if_splits)
    then show ?thesis using assms(6) [OF e] src(3,4) by (simp add: e assms(4))
  next
    case False
    then have "mm_ref m = sx_ref st \<and> sv_order (saved_of (sx_sections st') sid) = sv_order (saved_of (sx_sections st) sid)"
      using that used assms(3) by (cases e) (auto simp: assms(4) split: if_splits)
    then show ?thesis using src(3,5) assms(5) False by auto
  qed
  then show "\<exists>so src. mm_order m = merge_order so src \<and> mm_key m = memo_key src \<and> good src \<and> (mm_ref m = None \<longrightarrow> so = []) \<and>
      (mm_ref m = sx_ref st' \<longrightarrow> so = sv_order (saved_of (sx_sections st') sid) \<and>
         rel src (section_src (saved_of (sx_sections st') sid) (sx_children st')))"
    using src(1-4) by (intro exI [of _ so] exI [of _ src]) simp
qed

subsection \<open>Identifiers without the separator\<close>

definition no_bar :: "string list \<Rightarrow> bool" where
  "no_bar ks \<longleftrightarrow> [] \<notin> set ks \<and> list_all (\<lambda>k. CHR ''|'' \<notin> set k) ks"

fun plain_event :: "section_event \<Rightarrow> bool" where
  "plain_event (NewChildren cs) = no_bar (canvas_ids cs)"
| "plain_event _ = True"

definition plain_section :: "string \<Rightarrow> mounted \<Rightarrow> bool" where
  "plain_section sid st \<longleftrightarrow> refs_ok sid st \<and> no_bar (canvas_ids (sx_children st)) \<and> memo_from no_bar (\<lambda>_ _. True) sid st"

lemma no_bar_src: "no_bar (canvas_ids cs) \<Longrightarrow> no_bar (section_src sec cs)"
  by (auto simp: no_bar_def section_src_eq canvas_src_def list_all_iff Let_def)

lemma no_bar_key: "no_bar xs \<Longrightarrow> no_bar ys \<Longrightarrow> memo_key xs = memo_key ys \<Longrightarrow> xs = ys"
  unfolding memo_key_def no_bar_def using join_key_inj [of xs ys "CHR ''|''"] by simp

lemma no_bar_render:
  assumes "plain_section sid st" "st' = section_render sid st"
  shows "plain_section sid st'" "shown_order st' = canvas_slots (saved_of (sx_sections st) sid) (sx_children st)"
proof -
  let ?cur = "section_src (saved_of (sx_sections st) sid) (sx_children st)"
  have inv: "memo_from no_bar (\<lambda>_ _. True) sid st" "refs_ok sid st" "no_bar ?cur"
    using assms(1) no_bar_src by (simp_all add: plain_section_def)
  note render = memo_from_render [OF inv(1,2) _ assms(2) refl inv(3)]
  show "shown_order st' = canvas_slots (saved_of (sx_sections st) sid) (sx_children st)"
    by (rule render(2)) (use no_bar_key inv(3) in blast)+
  have "memo_from no_bar (\<lambda>_ _. True) sid st'" by (rule render(1)) (use no_bar_key inv(3) in blast)+
  moreover have "refs_ok sid st'" using refs_ok_step [OF inv(2), of Render] by (simp add: assms(2))
  ultimately show "plain_section sid st'"
    using assms(1) by (simp add: plain_section_def assms(2) section_render_def)
qed

lemma no_bar_step: "plain_section sid st \<Longrightarrow> plain_event e \<Longrightarrow> plain_section sid (section_step sid e st)"
proof (cases "e = Render")
  case False
  assume st: "plain_section sid st" "plain_event e"
  then have "memo_from no_bar (\<lambda>_ _. True) sid (section_step sid e st)"
    using False by (intro memo_from_step [OF _ _ _ refl]) (simp_all add: plain_section_def)
  moreover have "no_bar (canvas_ids (sx_children (section_step sid e st)))"
    using st False by (cases e) (auto simp: plain_section_def)
  ultimately show ?thesis using st(1) refs_ok_step by (simp add: plain_section_def)
qed (simp add: no_bar_render(1))

lemma no_bar_run: "plain_section sid st \<Longrightarrow> list_all plain_event es \<Longrightarrow> plain_section sid (fold (section_step sid) es st)"
  by (induction es arbitrary: st) (simp_all add: no_bar_step)

text \<open>
  C9. \<open>DesignCanvas\<close> and \<open>DCSection\<close> compute the order of a section independently, the one anew in
  each render, the other through its memo. As long as no identifier of an artboard contains the
  separator \<open>|\<close>, they agree after every render, whatever happened before it - reads of the sidecar,
  edits of the section and of others, other children, in any sequence with other renders; and when
  the identifiers and the saved order have no repetition, the order shown is an arrangement of the
  artboards that are not deleted: those of the saved order first, in that order, and the new ones
  after them in source order.
\<close>

theorem canvas_orders_agree:
  assumes "no_bar (canvas_ids children)" "list_all plain_event es"
    and "st = fold (section_step sid) (es @ [Render]) (new_section children)"
    and "sec = saved_of (sx_sections st) sid" "cs = sx_children st"
  shows "shown_order st = canvas_slots sec cs \<and>
   (distinct (canvas_ids cs) \<and> distinct (sv_order sec) \<longrightarrow>
      mset (shown_order st) = mset (canvas_src sec cs) \<and>
      shown_order st =
        filter (\<lambda>k. k \<in> set (canvas_src sec cs)) (sv_order sec) @ filter (\<lambda>k. k \<notin> set (sv_order sec)) (canvas_src sec cs))"
proof -
  let ?st = "fold (section_step sid) es (new_section children)"
  have "plain_section sid (new_section children)"
    using assms(1) by (simp add: plain_section_def refs_ok_new memo_from_new) (simp add: new_section_def)
  then have "plain_section sid ?st" using assms(2) by (rule no_bar_run)
  from no_bar_render(2) [OF this refl] have "shown_order st = canvas_slots sec cs"
    by (simp add: assms(3-5)) (simp add: section_render_def)
  then show ?thesis using slots_arranged [of cs sec] by simp
qed

subsection \<open>One session with the same children\<close>

text \<open>
  What the canvas of a page does: its sections keep their children. Then deletions only take artboards
  away, and a text of fewer identifiers is shorter, so the memo is current whatever the identifiers.
\<close>

fun session_event :: "string \<Rightarrow> section_event \<Rightarrow> bool" where
  "session_event sid (NewChildren cs) = False"
| "session_event sid (ReadSaved ss present) = (present \<or> sv_order (saved_of ss sid) \<noteq> [])"
| "session_event sid _ = True"

definition part_of :: "string list \<Rightarrow> string list \<Rightarrow> bool" where
  "part_of src src' \<longleftrightarrow> (\<exists>P. src' = filter P src)"

definition session_ok :: "string \<Rightarrow> mounted \<Rightarrow> bool" where
  "session_ok sid st \<longleftrightarrow> refs_ok sid st \<and> sx_rendered st = sx_children st \<and> memo_from (\<lambda>src. [] \<notin> set src) part_of sid st"

lemma part_of_refl: "part_of src src"
  unfolding part_of_def by (rule exI [of _ "\<lambda>_. True"]) simp

lemma part_of_filter: "part_of src src' \<Longrightarrow> part_of src (filter P src')"
  by (auto simp: part_of_def filter_filter)

lemma part_of_key:
  assumes "[] \<notin> set xs" "part_of xs ys" "memo_key xs = memo_key ys"
  shows "xs = ys"
proof (rule ccontr)
  assume "xs \<noteq> ys"
  obtain P where ys: "ys = filter P xs" using assms(2) by (auto simp: part_of_def)
  have len: "length (memo_key zs) = sum_list (map length zs) + (length zs - 1)" for zs
    unfolding memo_key_def by (induction zs rule: induct_list012) simp_all
  have "sum_list (map length (filter P xs)) + length xs \<le> sum_list (map length xs) + length (filter P xs)"
    using assms(1)
  proof (induction xs)
    case (Cons x xs)
    then have "x \<noteq> []" "[] \<notin> set xs" by auto
    with Cons.IH show ?case by (cases x; cases "P x") auto
  qed simp
  moreover have "length (filter P xs) < length xs"
    using \<open>xs \<noteq> ys\<close> length_filter_less [of _ xs P] unfolding ys by (metis filter_True)
  ultimately have "length (memo_key ys) < length (memo_key xs)" unfolding len ys by linarith
  with assms(3) show False by simp
qed

lemma removed_src:
  "section_src (saved_of (delete_artboard sid cs k ss) sid) cs = filter (\<lambda>x. x \<noteq> k) (section_src (saved_of ss sid) cs)"
  by (auto simp: delete_artboard_def section_src_def Let_def intro!: filter_cong)

lemma session_render:
  assumes "session_ok sid st" "st' = section_render sid st"
  shows "session_ok sid st'" "shown_order st' = canvas_slots (saved_of (sx_sections st) sid) (sx_children st)"
proof -
  let ?cur = "section_src (saved_of (sx_sections st) sid) (sx_children st)"
  have inv: "memo_from (\<lambda>src. [] \<notin> set src) part_of sid st" "refs_ok sid st"
    using assms(1) by (simp_all add: session_ok_def)
  note render = memo_from_render [OF inv _ assms(2) refl]
  show "shown_order st' = canvas_slots (saved_of (sx_sections st) sid) (sx_children st)"
    by (rule render(2)) (fact part_of_refl section_src_texts | erule (2) part_of_key)+
  have "memo_from (\<lambda>src. [] \<notin> set src) part_of sid st'"
    by (rule render(1)) (fact part_of_refl section_src_texts | erule (2) part_of_key)+
  moreover have "refs_ok sid st'" using refs_ok_step [OF inv(2), of Render] by (simp add: assms(2))
  ultimately show "session_ok sid st'"
    using assms by (simp add: session_ok_def section_render_def)
qed

lemma session_step: "session_ok sid st \<Longrightarrow> session_event sid e \<Longrightarrow> session_ok sid (section_step sid e st)"
proof (cases "e = Render")
  case False
  assume st: "session_ok sid st" "session_event sid e"
  have "part_of src (section_src (saved_of (sx_sections (section_step sid e st)) sid) (sx_children (section_step sid e st)))"
    if "part_of src (section_src (saved_of (sx_sections st) sid) (sx_children st))" "\<And>ss b. e \<noteq> ReadSaved ss b" for src
    using st that False by (cases e) (auto simp: session_ok_def removed_src part_of_filter)
  then have "memo_from (\<lambda>src. [] \<notin> set src) part_of sid (section_step sid e st)"
    using st False by (intro memo_from_step [OF _ _ _ refl]) (auto simp: session_ok_def)
  moreover have "sx_rendered (section_step sid e st) = sx_children (section_step sid e st)"
    using st False by (cases e) (auto simp: session_ok_def)
  ultimately show ?thesis using st(1) refs_ok_step by (simp add: session_ok_def)
qed (simp add: session_render(1))

text \<open>So a canvas whose sections keep their children may read the order off the sections (\<open>Canvas_View\<close>).\<close>

lemma session_shows_order:
  assumes "list_all (session_event sid) es" "st = fold (section_step sid) (es @ [Render]) (new_section children)"
  shows "shown_order st = section_order (saved_of (sx_sections st) sid) children"
proof -
  let ?st = "fold (section_step sid) es (new_section children)"
  have "session_ok sid (new_section children)"
    by (simp add: session_ok_def refs_ok_new memo_from_new) (simp add: new_section_def)
  then have "session_ok sid (fold (section_step sid) es st)" if "session_ok sid st" for st
    using that assms(1) by (induction es arbitrary: st) (simp_all add: session_step)
  with \<open>session_ok sid (new_section children)\<close> have ok: "session_ok sid ?st" by blast
  have same: "sx_children (fold (section_step sid) es st) = sx_children st" for st
    using assms(1)
  proof (induction es arbitrary: st)
    case (Cons e es)
    have "sx_children (section_step sid e st) = sx_children st"
      using Cons.prems by (cases e) (simp_all add: section_render_def)
    with Cons show ?case by simp
  qed simp
  from session_render(2) [OF ok refl] same show ?thesis
    by (simp add: assms(2) section_order_eq) (simp add: section_render_def new_section_def)
qed

subsection \<open>Identifiers with the separator\<close>







subsection \<open>An instance\<close>

text \<open>A read, a drag, a rename, a deletion and an artboard more.\<close>

definition demo_section_events :: "section_event list" where
  "demo_section_events =
     [Render, ReadSaved Map.empty False, Render, Reordered [''c'', ''a'', ''b''], Render, Relabelled ''a'' ''A'', Render,
      Removed ''a'', NewChildren (Artboard (Some ''d'') None # demo_children)]"

theorem canvas_orders_agree_witness:
  "shown_order (fold (section_step ''s'') (demo_section_events @ [Render]) (new_section demo_children)) = [''c'', ''a'', ''b'', ''d'']"
proof -
  have "no_bar (canvas_ids demo_children)" "list_all plain_event demo_section_events" by code_simp+
  from canvas_orders_agree [OF this refl refl refl, of "''s''", THEN conjunct1]
  have "shown_order (fold (section_step ''s'') (demo_section_events @ [Render]) (new_section demo_children)) =
    (let st = fold (section_step ''s'') (demo_section_events @ [Render]) (new_section demo_children)
     in canvas_slots (saved_of (sx_sections st) ''s'') (sx_children st))" by (simp only: Let_def)
  also have "\<dots> = [''c'', ''a'', ''b'', ''d'']" by code_simp
  finally show ?thesis .
qed


end
