(* ===== verification/Canvas_Export.thy ===== *)
theory Canvas_Export
  imports Canvas_Frame Js_Uri "HOL-Library.AList"
begin

text \<open>
  \<open>dcExport\<close>: collecting the font rules of all style sheets, with fetches that arrive in any order;
  inlining what the rules and the images refer to; the styled clone of an artboard; the HTML and SVG
  documents that are saved. What the browser does (fetching, resolving and encoding URLs, computed
  styles, serialising a tree) is a parameter.
\<close>

subsection \<open>Global matches of a pattern\<close>

definition strip :: "string \<Rightarrow> string \<Rightarrow> string option" where
  "strip p s = (if take (length p) s = p then Some (drop (length p) s) else None)"

text \<open>
  \<open>s.match(/re/g)\<close>: \<open>m\<close> matches at the front and gives the match and the rest. A match that takes
  nothing does not occur in this code and is skipped.
\<close>

function scan_all :: "(string \<Rightarrow> ('a \<times> string) option) \<Rightarrow> string \<Rightarrow> 'a list" where
  "scan_all m [] = []"
| "scan_all m (c # cs) =
     (case m (c # cs) of
        Some (x, r) \<Rightarrow> if length r \<le> length cs then x # scan_all m r else scan_all m cs
      | None \<Rightarrow> scan_all m cs)"
  by pat_completeness auto
termination by (relation "measure (\<lambda>(m, s). length s)") auto

text \<open>\<open>/@font-face\s*{[^}]*}/\<close>\<close>

definition match_font_face :: "string \<Rightarrow> (string \<times> string) option" where
  "match_font_face s =
     (case strip ''@font-face'' s of
        None \<Rightarrow> None
      | Some r \<Rightarrow>
          (case skip_ws r of
             c # r1 \<Rightarrow>
               if c \<noteq> CHR 0x7B then None
               else (case dropWhile (\<lambda>x. x \<noteq> CHR 0x7D) r1 of
                       [] \<Rightarrow> None
                     | _ # rest \<Rightarrow> Some (take (length s - length rest) s, rest))
           | [] \<Rightarrow> None))"

text \<open>\<open>/@import\s+(?:url\()?['"]?([^'")\s;]+)/\<close>, the group; \<open>url(\<close> itself is taken when nothing follows it.\<close>

definition import_char :: "char \<Rightarrow> bool" where
  "import_char c \<longleftrightarrow> c \<noteq> CHR 39 \<and> c \<noteq> CHR 34 \<and> c \<noteq> CHR '')'' \<and> c \<noteq> CHR '';''"

fun import_text :: "string \<Rightarrow> string" where
  "import_text [] = []"
| "import_text (c # s) = (if import_char c \<and> ws_len (c # s) = 0 then c # import_text s else [])"

definition drop_quote :: "string \<Rightarrow> string" where
  "drop_quote s = (case s of c # r \<Rightarrow> if c = CHR 39 \<or> c = CHR 34 then r else s | [] \<Rightarrow> [])"

definition import_group :: "string \<Rightarrow> (string \<times> string) option" where
  "import_group s =
     (let t = drop_quote s; g = import_text t
      in if g = [] then None else Some (g, drop (length g) t))"

definition match_import :: "string \<Rightarrow> (string \<times> string) option" where
  "match_import s =
     (case strip ''@import'' s of
        Some r \<Rightarrow>
          if ws_len r = 0 then None
          else let r1 = skip_ws r
               in (case strip ''url('' r1 of
                     Some r2 \<Rightarrow> (case import_group r2 of Some x \<Rightarrow> Some x | None \<Rightarrow> import_group r1)
                   | None \<Rightarrow> import_group r1)
      | None \<Rightarrow> None)"

subsection \<open>Collecting the font rules\<close>

datatype css_rule =
    FontFace string
  | Import "string option" "css_rule list option"
  | Group "css_rule list"
  | Plain

text \<open>
  The collected rules with the URL they are relative to, the sheets seen, the array of promises that
  are waited for (named by their sheets), and the fetches that have not arrived.
\<close>

record scrape =
  sp_rules :: "(string \<times> string) list"
  sp_seen :: "string list"
  sp_pending :: "string list"
  sp_open :: "string list"

definition scrape_css :: "string \<Rightarrow> scrape \<Rightarrow> scrape" where
  "scrape_css href st =
     (if href \<in> set (sp_seen st) then st
      else st\<lparr>sp_seen := sp_seen st @ [href], sp_pending := sp_pending st @ [href], sp_open := sp_open st @ [href]\<rparr>)"

text \<open>\<open>walk\<close>: rules whose sheet may not be read (\<open>None\<close>) are fetched as text.\<close>

fun walk_rule :: "string \<Rightarrow> css_rule \<Rightarrow> scrape \<Rightarrow> scrape" and
    walk_rules :: "string \<Rightarrow> css_rule list \<Rightarrow> scrape \<Rightarrow> scrape" where
  "walk_rule base (FontFace css) st = st\<lparr>sp_rules := sp_rules st @ [(css, base)]\<rparr>"
| "walk_rule base (Import href rules) st =
     (let ibase = (case some_text href of h # _ \<Rightarrow> h | [] \<Rightarrow> base)
      in case rules of Some rs \<Rightarrow> walk_rules ibase rs st | None \<Rightarrow> scrape_css ibase st)"
| "walk_rule base (Group rs) st = walk_rules base rs st"
| "walk_rule base Plain st = st"
| "walk_rules base [] st = st"
| "walk_rules base (r # rs) st = walk_rules base rs (walk_rule base r st)"

text \<open>The loop over \<open>document.styleSheets\<close>: the address of a sheet and its rules, if they may be read.\<close>

definition scrape_sheet :: "string \<Rightarrow> string option \<times> css_rule list option \<Rightarrow> scrape \<Rightarrow> scrape" where
  "scrape_sheet location ss st =
     (case ss of (href, rules) \<Rightarrow>
        (case rules of
           Some rs \<Rightarrow> walk_rules (case some_text href of h # _ \<Rightarrow> h | [] \<Rightarrow> location) rs st
         | None \<Rightarrow> (case some_text href of h # _ \<Rightarrow> scrape_css h st | [] \<Rightarrow> st)))"

definition no_scrape :: scrape where
  "no_scrape = \<lparr>sp_rules = [], sp_seen = [], sp_pending = [], sp_open = []\<rparr>"

definition scrape_start :: "string \<Rightarrow> (string option \<times> css_rule list option) list \<Rightarrow> scrape" where
  "scrape_start location sheets = fold (scrape_sheet location) sheets no_scrape"

text \<open>
  The imports of a fetched text: resolved one after the other, up to the first address that cannot be
  resolved (\<open>new URL\<close> throws and the promise's \<open>catch\<close> ends the loop).
\<close>

fun resolve_all :: "(string \<Rightarrow> string \<Rightarrow> string option) \<Rightarrow> string \<Rightarrow> string list \<Rightarrow> string list" where
  "resolve_all resolve href [] = []"
| "resolve_all resolve href (m # ms) =
     (case resolve m href of None \<Rightarrow> [] | Some a \<Rightarrow> a # resolve_all resolve href ms)"

definition sheet_fonts :: "(string \<Rightarrow> string option) \<Rightarrow> string \<Rightarrow> (string \<times> string) list" where
  "sheet_fonts fetch href =
     (case fetch href of None \<Rightarrow> [] | Some css \<Rightarrow> map (\<lambda>m. (m, href)) (scan_all match_font_face css))"

definition sheet_imports :: "(string \<Rightarrow> string option) \<Rightarrow> (string \<Rightarrow> string \<Rightarrow> string option) \<Rightarrow> string \<Rightarrow> string list" where
  "sheet_imports fetch resolve href =
     (case fetch href of None \<Rightarrow> [] | Some css \<Rightarrow> resolve_all resolve href (scan_all match_import css))"

text \<open>The callback of a fetch that settles.\<close>

definition arrive :: "(string \<Rightarrow> string option) \<Rightarrow> (string \<Rightarrow> string \<Rightarrow> string option) \<Rightarrow> string \<Rightarrow> scrape \<Rightarrow> scrape" where
  "arrive fetch resolve href st =
     fold scrape_css (sheet_imports fetch resolve href)
       (st\<lparr>sp_rules := sp_rules st @ sheet_fonts fetch href, sp_open := remove1 href (sp_open st)\<rparr>)"

text \<open>One step: a fetch settles, or \<open>await pending.shift()\<close> goes on with a promise that has settled.\<close>

inductive scrape_step ::
  "(string \<Rightarrow> string option) \<Rightarrow> (string \<Rightarrow> string \<Rightarrow> string option) \<Rightarrow> scrape \<Rightarrow> scrape \<Rightarrow> bool"
  for fetch resolve where
    Settle: "href \<in> set (sp_open st) \<Longrightarrow> scrape_step fetch resolve st (arrive fetch resolve href st)"
  | Shift: "sp_pending st = href # hs \<Longrightarrow> href \<notin> set (sp_open st) \<Longrightarrow>
      scrape_step fetch resolve st (st\<lparr>sp_pending := hs\<rparr>)"

inductive scrape_steps ::
  "(string \<Rightarrow> string option) \<Rightarrow> (string \<Rightarrow> string \<Rightarrow> string option) \<Rightarrow> nat \<Rightarrow> scrape \<Rightarrow> scrape \<Rightarrow> bool"
  for fetch resolve where
    Done: "scrape_steps fetch resolve 0 st st"
  | More: "scrape_steps fetch resolve n st st' \<Longrightarrow> scrape_step fetch resolve st' st'' \<Longrightarrow>
      scrape_steps fetch resolve (Suc n) st st''"

inductive_simps scrape_step_iff: "scrape_step fetch resolve st st'"

text \<open>The sheets that \<open>@import\<close> leads to.\<close>

inductive_set reached ::
  "(string \<Rightarrow> string option) \<Rightarrow> (string \<Rightarrow> string \<Rightarrow> string option) \<Rightarrow> string set \<Rightarrow> string set"
  for fetch resolve roots where
    Root: "h \<in> roots \<Longrightarrow> h \<in> reached fetch resolve roots"
  | Link: "h \<in> reached fetch resolve roots \<Longrightarrow> k \<in> set (sheet_imports fetch resolve h) \<Longrightarrow>
      k \<in> reached fetch resolve roots"


subsection \<open>What the collection finds\<close>

lemma scrape_css_simps [simp]:
  "sp_rules (scrape_css h st) = sp_rules st"
  "set (sp_seen (scrape_css h st)) = insert h (set (sp_seen st))"
  by (auto simp: scrape_css_def)

lemma scrapes_simps [simp]:
  "sp_rules (fold scrape_css hs st) = sp_rules st"
  "set (sp_seen (fold scrape_css hs st)) = set hs \<union> set (sp_seen st)"
  by (induction hs arbitrary: st) auto

text \<open>
  The bookkeeping: what is open is waited for, what is waited for was seen, nothing twice, and so
  many steps were taken as sheets have settled and promises were waited for.
\<close>

definition scrape_books :: "nat \<Rightarrow> scrape \<Rightarrow> bool" where
  "scrape_books n st \<longleftrightarrow> distinct (sp_seen st) \<and> distinct (sp_pending st) \<and> distinct (sp_open st) \<and>
     set (sp_open st) \<subseteq> set (sp_pending st) \<and> set (sp_pending st) \<subseteq> set (sp_seen st) \<and>
     n + length (sp_open st) + length (sp_pending st) = 2 * length (sp_seen st)"

lemma books_css: "scrape_books n st \<Longrightarrow> scrape_books n (scrape_css h st)"
  by (auto simp: scrape_books_def scrape_css_def)

lemma books_csss: "scrape_books n st \<Longrightarrow> scrape_books n (fold scrape_css hs st)"
  by (induction hs arbitrary: st) (simp_all add: books_css)

lemma books_rules [simp]: "scrape_books n (st\<lparr>sp_rules := r\<rparr>) = scrape_books n st"
  by (simp add: scrape_books_def)

lemma books_walk:
  "scrape_books 0 st \<Longrightarrow> scrape_books 0 (walk_rule base r st)"
  "scrape_books 0 st \<Longrightarrow> scrape_books 0 (walk_rules base rs st)"
  by (induction base r st and base rs st rule: walk_rule_walk_rules.induct)
    (auto simp: books_css Let_def split: option.splits)

lemma books_start: "scrape_books 0 (scrape_start location sheets)"
proof -
  have "scrape_books 0 (scrape_sheet location ss st)" if "scrape_books 0 st" for ss st
    using that by (auto simp: scrape_sheet_def books_walk books_css split: prod.split option.split list.split)
  then have "scrape_books 0 (fold (scrape_sheet location) sheets st)" if "scrape_books 0 st" for st
    using that by (induction sheets arbitrary: st) auto
  then show ?thesis by (simp add: scrape_start_def scrape_books_def no_scrape_def)
qed

lemma books_step:
  assumes "scrape_step fetch resolve st st'" "scrape_books n st"
  shows "scrape_books (Suc n) st'"
  using assms(1)
proof (cases rule: scrape_step.cases)
  case (Settle href)
  let ?s = "st\<lparr>sp_rules := sp_rules st @ sheet_fonts fetch href, sp_open := remove1 href (sp_open st)\<rparr>"
  obtain m where m: "length (sp_open st) = Suc m" using Settle(2) by (cases "sp_open st") auto
  then have "scrape_books (Suc n) ?s"
    using assms(2) Settle(2) by (auto simp: scrape_books_def length_remove1 set_remove1_eq)
  then show ?thesis using Settle(1) by (simp add: arrive_def books_csss)
next
  case (Shift href hs)
  then show ?thesis using assms(2) by (auto simp: scrape_books_def)
qed

lemma books_steps:
  "scrape_steps fetch resolve n st st' \<Longrightarrow> scrape_books 0 st \<Longrightarrow> scrape_books n st'"
  by (induction rule: scrape_steps.induct) (auto intro: books_step)

text \<open>
  What has been found: only sheets that imports lead to, all imports of the settled ones, and of
  those exactly the fonts.
\<close>

definition scrape_found ::
  "(string \<Rightarrow> string option) \<Rightarrow> (string \<Rightarrow> string \<Rightarrow> string option) \<Rightarrow> scrape \<Rightarrow> scrape \<Rightarrow> bool" where
  "scrape_found fetch resolve st0 st \<longleftrightarrow>
     set (sp_seen st0) \<subseteq> set (sp_seen st) \<and>
     set (sp_seen st) \<subseteq> reached fetch resolve (set (sp_seen st0)) \<and>
     (\<forall>h \<in> set (sp_seen st) - set (sp_open st). set (sheet_imports fetch resolve h) \<subseteq> set (sp_seen st)) \<and>
     mset (sp_rules st) = mset (sp_rules st0) +
       (\<Sum>h \<in> set (sp_seen st) - set (sp_open st). mset (sheet_fonts fetch h))"

lemma scrapes_open:
  "set (sp_open st) \<subseteq> set (sp_seen st) \<Longrightarrow>
     set (sp_seen (fold scrape_css hs st)) - set (sp_open (fold scrape_css hs st)) =
       set (sp_seen st) - set (sp_open st) \<and>
     set (sp_open (fold scrape_css hs st)) \<subseteq> set (sp_seen (fold scrape_css hs st))"
proof (induction hs arbitrary: st)
  case (Cons h hs)
  have "set (sp_seen (scrape_css h st)) - set (sp_open (scrape_css h st)) = set (sp_seen st) - set (sp_open st)"
    "set (sp_open (scrape_css h st)) \<subseteq> set (sp_seen (scrape_css h st))"
    using Cons.prems by (auto simp: scrape_css_def)
  then show ?case using Cons.IH [of "scrape_css h st"] by simp
qed simp

lemma found_step:
  assumes "scrape_step fetch resolve st st'" "scrape_found fetch resolve st0 st" "scrape_books n st"
  shows "scrape_found fetch resolve st0 st'"
  using assms(1)
proof (cases rule: scrape_step.cases)
  case (Settle href)
  let ?im = "sheet_imports fetch resolve href"
  let ?s = "st\<lparr>sp_rules := sp_rules st @ sheet_fonts fetch href, sp_open := remove1 href (sp_open st)\<rparr>"
  have b: "distinct (sp_open st)" "set (sp_open st) \<subseteq> set (sp_seen st)"
    using assms(3) by (auto simp: scrape_books_def)
  have h: "href \<in> set (sp_seen st)" using Settle(2) b(2) by blast
  have sub: "set (sp_open ?s) \<subseteq> set (sp_seen ?s)" using b by auto
  have settled: "set (sp_seen ?s) - set (sp_open ?s) = insert href (set (sp_seen st) - set (sp_open st))"
    using b h by auto
  have st': "set (sp_seen st') = set ?im \<union> set (sp_seen st)"
      "set (sp_seen st') - set (sp_open st') = insert href (set (sp_seen st) - set (sp_open st))"
      "sp_rules st' = sp_rules st @ sheet_fonts fetch href"
    using Settle(1) scrapes_open [OF sub, of ?im] settled by (simp_all add: arrive_def)
  have fin: "finite (set (sp_seen st) - set (sp_open st))" "href \<notin> set (sp_seen st) - set (sp_open st)"
    using Settle(2) by auto
  have "set ?im \<subseteq> reached fetch resolve (set (sp_seen st0))"
    using assms(2) h by (auto simp: scrape_found_def intro: reached.Link)
  then show ?thesis
    using assms(2) fin unfolding scrape_found_def unfolding st'(2) unfolding st'(1,3) by (auto simp: union_ac)
next
  case (Shift href hs)
  then show ?thesis using assms(2) by (simp add: scrape_found_def)
qed

lemma found_steps:
  assumes "scrape_steps fetch resolve n st st'" "scrape_books 0 st" "set (sp_open st) = set (sp_seen st)"
  shows "scrape_found fetch resolve st st'"
  using assms
proof (induction rule: scrape_steps.induct)
  case (Done st)
  then show ?case by (auto simp: scrape_found_def intro: reached.Root)
next
  case (More n st st' st'')
  then show ?case using books_steps found_step by blast
qed

lemma all_open_start: "set (sp_open (scrape_start location sheets)) = set (sp_seen (scrape_start location sheets))"
proof -
  have w: "set (sp_open st) = set (sp_seen st) \<Longrightarrow> set (sp_open (walk_rule base r st)) = set (sp_seen (walk_rule base r st))"
    "set (sp_open st) = set (sp_seen st) \<Longrightarrow> set (sp_open (walk_rules base rs st)) = set (sp_seen (walk_rules base rs st))" for base r rs st
    by (induction base r st and base rs st rule: walk_rule_walk_rules.induct)
      (auto simp: scrape_css_def Let_def split: option.splits)
  have "set (sp_open (scrape_sheet location ss st)) = set (sp_seen (scrape_sheet location ss st))"
    if "set (sp_open st) = set (sp_seen st)" for ss st
    using that by (auto simp: scrape_sheet_def w scrape_css_def split: prod.split option.split list.split)
  then have "set (sp_open (fold (scrape_sheet location) sheets st)) = set (sp_seen (fold (scrape_sheet location) sheets st))"
    if "set (sp_open st) = set (sp_seen st)" for st
    using that by (induction sheets arbitrary: st) auto
  then show ?thesis by (simp add: scrape_start_def no_scrape_def)
qed

text \<open>
  C12. Whatever the order in which fetches settle, when nothing is waited for any more the
  sheets fetched are exactly those that \<open>@import\<close> leads to from the sheets that could not be read,
  each fetched once, and the rules are those read directly and all fonts of each of these sheets.
\<close>

theorem export_fonts_complete:
  assumes "scrape_steps fetch resolve n (scrape_start location sheets) st" "sp_pending st = []"
  shows "set (sp_seen st) = reached fetch resolve (set (sp_seen (scrape_start location sheets))) \<and> distinct (sp_seen st) \<and>
    mset (sp_rules st) = mset (sp_rules (scrape_start location sheets)) +
      (\<Sum>h \<in> reached fetch resolve (set (sp_seen (scrape_start location sheets))). mset (sheet_fonts fetch h))"
proof -
  let ?st0 = "scrape_start location sheets"
  have b: "scrape_books n st" by (rule books_steps [OF assms(1) books_start])
  have f: "scrape_found fetch resolve ?st0 st" by (rule found_steps [OF assms(1) books_start all_open_start])
  have o: "set (sp_open st) = {}" using b assms(2) by (auto simp: scrape_books_def)
  have "h \<in> set (sp_seen st)" if "h \<in> reached fetch resolve (set (sp_seen ?st0))" for h
    using that by induction (use f o in \<open>auto simp: scrape_found_def\<close>)
  then have "set (sp_seen st) = reached fetch resolve (set (sp_seen ?st0))"
    using f by (auto simp: scrape_found_def)
  with b f o show ?thesis by (auto simp: scrape_books_def scrape_found_def)
qed

text \<open>
  C11. If the imports lead to finitely many sheets, cycles of imports included, the loop
  ends: no run takes more than two steps per sheet, and as long as something is waited for there is
  a next step.
\<close>

theorem export_fonts_terminates:
  assumes "finite (reached fetch resolve (set (sp_seen (scrape_start location sheets))))"
    and "scrape_steps fetch resolve n (scrape_start location sheets) st"
  shows "n \<le> 2 * card (reached fetch resolve (set (sp_seen (scrape_start location sheets)))) \<and>
    (sp_pending st \<noteq> [] \<longrightarrow> (\<exists>st'. scrape_step fetch resolve st st'))"
proof
  let ?R = "reached fetch resolve (set (sp_seen (scrape_start location sheets)))"
  have b: "scrape_books n st" by (rule books_steps [OF assms(2) books_start])
  have "set (sp_seen st) \<subseteq> ?R"
    using found_steps [OF assms(2) books_start all_open_start] by (simp add: scrape_found_def)
  then have "card (set (sp_seen st)) \<le> card ?R" by (rule card_mono [OF assms(1)])
  moreover have "card (set (sp_seen st)) = length (sp_seen st)"
    using b by (simp add: scrape_books_def distinct_card)
  ultimately show "n \<le> 2 * card ?R" using b by (simp add: scrape_books_def)
  show "sp_pending st \<noteq> [] \<longrightarrow> (\<exists>st'. scrape_step fetch resolve st st')"
  proof
    assume "sp_pending st \<noteq> []"
    then show "\<exists>st'. scrape_step fetch resolve st st'"
      unfolding scrape_step_iff by (cases "sp_pending st") auto
  qed
qed


subsection \<open>Inlining the addresses of a font rule\<close>

text \<open>\<open>s.split(old).join(new)\<close> for a non-empty \<open>old\<close>.\<close>

function replace_all :: "string \<Rightarrow> string \<Rightarrow> string \<Rightarrow> string" where
  "replace_all old new [] = []"
| "replace_all old new (c # cs) =
     (case strip old (c # cs) of
        Some r \<Rightarrow> if old = [] then c # cs else new @ replace_all old new r
      | None \<Rightarrow> c # replace_all old new cs)"
  by pat_completeness auto
termination
  by (relation "measure (\<lambda>(old, new, s). length s)") (auto simp: strip_def split: if_splits list.splits)

definition url_char :: "char \<Rightarrow> bool" where
  "url_char c \<longleftrightarrow> c \<noteq> CHR 39 \<and> c \<noteq> CHR 34 \<and> c \<noteq> CHR '')''"

text \<open>\<open>/url\((['"]?)([^'")]+)\1\)/\<close>: the whole match and the address.\<close>

definition match_url :: "string \<Rightarrow> ((string \<times> string) \<times> string) option" where
  "match_url s =
     (case strip ''url('' s of
        None \<Rightarrow> None
      | Some r \<Rightarrow>
          let q = (case r of c # _ \<Rightarrow> if c = CHR 39 \<or> c = CHR 34 then [c] else [] | [] \<Rightarrow> []);
              r1 = drop (length q) r;
              u = takeWhile url_char r1
          in if u = [] then None
             else (case strip (q @ '')'') (dropWhile url_char r1) of
                     None \<Rightarrow> None
                   | Some rest \<Rightarrow> Some ((take (length s - length rest) s, u), rest)))"

definition is_data :: "string \<Rightarrow> bool" where
  "is_data u \<longleftrightarrow> strip ''data:'' u \<noteq> None"

text \<open>One rule: every address that is not a data URL and can be resolved is replaced by its data.\<close>

definition inline_rule ::
  "(string \<Rightarrow> string \<Rightarrow> string option) \<Rightarrow> (string \<Rightarrow> string) \<Rightarrow> string \<times> string \<Rightarrow> string" where
  "inline_rule resolve to_data rule =
     fold (\<lambda>(tok, u) out.
         if is_data u then out
         else (case resolve u (snd rule) of
                 None \<Rightarrow> out
               | Some a \<Rightarrow> replace_all tok (''url(\"'' @ to_data a @ ''\")'') out))
       (scan_all match_url (fst rule)) (fst rule)"

definition font_css ::
  "(string \<Rightarrow> string \<Rightarrow> string option) \<Rightarrow> (string \<Rightarrow> string) \<Rightarrow> (string \<times> string) list \<Rightarrow> string" where
  "font_css resolve to_data rules = join_with [CHR 0x0A] (map (inline_rule resolve to_data) rules)"

subsection \<open>The styled clone\<close>

text \<open>
  A node of the page: an element has its tag, its attributes, its computed style and, for a canvas
  that may be read, its pixels as a data URL.
\<close>

datatype xnode =
    XText string
  | XComment string
  | XElem (x_tag: string) (x_attrs: "(string \<times> string) list") (x_style: "(string \<times> string) list")
      (x_pixels: "string option") (x_kids: "xnode list")

definition style_text :: "(string \<times> string) list \<Rightarrow> string" where
  "style_text cs = concat (map (\<lambda>(k, v). k @ '':'' @ v @ '';'') cs)"

fun clone_styled :: "xnode \<Rightarrow> xnode" where
  "clone_styled (XText s) = XText s"
| "clone_styled (XComment s) = XText []"
| "clone_styled (XElem t as cs px ks) =
     (if t = ''SCRIPT'' then XText []
      else if t = ''CANVAS'' \<and> px \<noteq> None then
        XElem ''IMG'' (AList.update ''style'' (style_text cs) [(''src'', the px)]) [] None []
      else
        XElem t (AList.update ''style'' (style_text cs @ ''animation:none;transition:none;'') as) cs None
          (map clone_styled ks))"

subsection \<open>The documents that are saved\<close>

definition export_html :: "string \<Rightarrow> string \<Rightarrow> string \<Rightarrow> string" where
  "export_html name fonts xml =
     ''<!doctype html><html><head><meta charset=\"utf-8\"><title>'' @ name @ ''</title>''
     @ (if fonts = [] then [] else ''<style>'' @ fonts @ ''</style>'')
     @ ''</head><body style=\"margin:0\">'' @ xml @ ''</body></html>''"

definition export_svg :: "jsnum \<Rightarrow> jsnum \<Rightarrow> string \<Rightarrow> string \<Rightarrow> string" where
  "export_svg w h fonts xml =
     ''<svg xmlns=\"http://www.w3.org/2000/svg\" width=\"'' @ js_to_string (js_mul w (Fin 3)) @ ''\" height=\"''
     @ js_to_string (js_mul h (Fin 3)) @ ''\" viewBox=\"0 0 '' @ js_to_string w @ '' '' @ js_to_string h
     @ ''\"><foreignObject width=\"'' @ js_to_string w @ ''\" height=\"'' @ js_to_string h @ ''\">''
     @ (if fonts = [] then [] else ''<style><![CDATA['' @ fonts @ '']]></style>'') @ xml @ ''</foreignObject></svg>''"

definition export_image_url :: "string \<Rightarrow> string" where
  "export_image_url svg = ''data:image/svg+xml;charset=utf-8,'' @ encode_uri_component svg"

text \<open>\<open>save\<close>: the file name of the download; a missing blob saves nothing.\<close>

definition save_name :: "string \<Rightarrow> 'b option \<Rightarrow> string \<Rightarrow> string option" where
  "save_name name blob ext = (case blob of None \<Rightarrow> None | Some _ \<Rightarrow> Some (name @ ''.'' @ ext))"

subsection \<open>What the clone and the documents are\<close>

fun all_nodes :: "xnode \<Rightarrow> xnode list" where
  "all_nodes (XElem t as cs px ks) = XElem t as cs px ks # concat (map all_nodes ks)"
| "all_nodes n = [n]"

text \<open>The text a reader sees: scripts, comments and the inside of a readable canvas excluded.\<close>

fun seen_text :: "xnode \<Rightarrow> string" where
  "seen_text (XText s) = s"
| "seen_text (XComment s) = []"
| "seen_text (XElem t as cs px ks) =
     (if t = ''SCRIPT'' \<or> t = ''CANVAS'' \<and> px \<noteq> None then [] else concat (map seen_text ks))"

definition self_styled :: "xnode \<Rightarrow> bool" where
  "self_styled n = (case n of XElem t as cs px ks \<Rightarrow> t \<noteq> ''SCRIPT'' \<and> map_of as ''style'' \<noteq> None | XText s \<Rightarrow> True | XComment s \<Rightarrow> False)"

lemma clone_nodes: "n \<in> set (all_nodes (clone_styled src)) \<Longrightarrow> self_styled n"
proof (induction src)
  case (XElem t as cs px ks)
  then show ?case by (auto simp: self_styled_def update_conv' split: if_splits)
qed (auto simp: self_styled_def)

lemma clone_text: "seen_text (clone_styled src) = seen_text src"
proof (induction src)
  case (XElem t as cs px ks)
  have "concat (map (\<lambda>k. seen_text (clone_styled k)) ks) = concat (map seen_text ks)"
    by (rule arg_cong [where f = concat]) (use XElem in simp)
  then show ?case by (cases px) (auto simp: comp_def)
qed simp_all

text \<open>
  C36. The clone that is exported has no scripts and no comments at any depth, every element
  of it carries its style inline, and it shows the text that the page shows.
\<close>

theorem clone_is_self_contained:
  "list_all self_styled (all_nodes (clone_styled src)) \<and> seen_text (clone_styled src) = seen_text src"
  using clone_nodes clone_text by (auto simp: list_all_iff)

lemma name_has_no_markup: "CHR ''<'' \<notin> set (replace_runs b s)"
  using replace_runs_chars [of b s] by (auto simp: list_all_iff kept_char_def name_char_def is_ws_def Let_def)

text \<open>
  The title of the exported page is the name of the artboard as it was cleaned and nothing of
  it is read as markup; the address that the image is loaded from decodes to exactly the picture;
  the downloaded file has the cleaned name.
\<close>

theorem export_documents:
  "takeWhile (\<lambda>c. c \<noteq> CHR ''<'')
      (drop (length ''<!doctype html><html><head><meta charset=\"utf-8\"><title>'')
        (export_html (export_name label i) fonts xml)) = export_name label i \<and>
   percent_decode (drop (length ''data:image/svg+xml;charset=utf-8,'') (export_image_url svg)) = svg \<and>
   save_name (export_name label i) (Some blob) ext = Some (export_name label i @ ''.'' @ ext)"
proof -
  have t: "takeWhile (\<lambda>c. c \<noteq> CHR ''<'') (export_name label i @ CHR ''<'' # r) = export_name label i" for r
    by (subst takeWhile_append2) (auto simp: export_name_def name_has_no_markup split: list.split)
  show ?thesis by (simp add: export_html_def t export_image_url_def decode_encode save_name_def)
qed


subsection \<open>An instance: two sheets that import each other\<close>

definition demo_fetch :: "string \<Rightarrow> string option" where
  "demo_fetch = [''a'' \<mapsto> ''@import url(b);'', ''b'' \<mapsto> ''@import a; @font-face {x}'']"

abbreviation demo_resolve :: "string \<Rightarrow> string \<Rightarrow> string option" where
  "demo_resolve m h \<equiv> Some m"

definition demo_start :: scrape where
  "demo_start = scrape_start ''l'' [(Some ''a'', None)]"

definition demo_end :: scrape where
  "demo_end = \<lparr>sp_rules = [(''@font-face {x}'', ''b'')], sp_seen = [''a'', ''b''], sp_pending = [], sp_open = []\<rparr>"

lemma demo_run: "scrape_steps demo_fetch demo_resolve 4 demo_start demo_end"
proof -
  let ?a = "arrive demo_fetch demo_resolve ''a''" and ?b = "arrive demo_fetch demo_resolve ''b''"
  have o: "''a'' \<in> set (sp_open demo_start)" "''b'' \<in> set (sp_open (?a demo_start))"
    "sp_pending (?b (?a demo_start)) = [''a'', ''b'']" "sp_open (?b (?a demo_start)) = []"
    "?b (?a demo_start)\<lparr>sp_pending := []\<rparr> = demo_end" by code_simp+
  have 1: "scrape_steps demo_fetch demo_resolve (Suc (Suc 0)) demo_start (?b (?a demo_start))"
    by (rule scrape_steps.More [OF scrape_steps.More [OF scrape_steps.Done]]; rule scrape_step.Settle, rule o)
  let ?c = "?b (?a demo_start)\<lparr>sp_pending := [''b'']\<rparr>"
  have 2: "scrape_step demo_fetch demo_resolve (?b (?a demo_start)) ?c"
    by (rule scrape_step.Shift) (simp_all add: o)
  have 3: "scrape_step demo_fetch demo_resolve ?c (?c\<lparr>sp_pending := []\<rparr>)"
    by (rule scrape_step.Shift) (simp_all add: o)
  have "?c\<lparr>sp_pending := []\<rparr> = demo_end" using o(5) by simp
  then show ?thesis
    using scrape_steps.More [OF scrape_steps.More [OF 1 2] 3] by (simp add: numeral_eq_Suc)
qed

lemma demo_reached: "reached demo_fetch demo_resolve (set (sp_seen demo_start)) = {''a'', ''b''}"
proof -
  have i: "set (sheet_imports demo_fetch demo_resolve ''a'') = {''b''}" "set (sheet_imports demo_fetch demo_resolve ''b'') = {''a''}"
    "set (sp_seen demo_start) = {''a''}" by code_simp+
  have "h \<in> {''a'', ''b''}" if "h \<in> reached demo_fetch demo_resolve {''a''}" for h
    using that by induction (use i in auto)
  moreover have "''a'' \<in> reached demo_fetch demo_resolve {''a''}" by (rule reached.Root) simp
  moreover from this have "''b'' \<in> reached demo_fetch demo_resolve {''a''}" by (rule reached.Link) (simp add: i)
  ultimately show ?thesis unfolding i(3) by blast
qed

theorem export_fonts_complete_witness:
  "set (sp_seen demo_end) = reached demo_fetch demo_resolve (set (sp_seen demo_start)) \<and> length (sp_rules demo_end) = 1"
  using export_fonts_complete [OF demo_run [unfolded demo_start_def]]
  by (simp add: demo_end_def demo_start_def)

theorem export_fonts_terminates_witness:
  "4 \<le> 2 * card (reached demo_fetch demo_resolve (set (sp_seen demo_start)))"
  using export_fonts_terminates [of demo_fetch demo_resolve "''l''" "[(Some ''a'', None)]" 4 demo_end] demo_run demo_reached
  by (simp add: demo_start_def)

end
