(* ===== verification/Canvas_Inline.thy ===== *)
theory Canvas_Inline
  imports Canvas_Export "HOL-Library.Multiset"
begin

text \<open>
  The second half of \<open>dcExport\<close>: the images and the background images of the clone, whose fetches
  settle in any order and each write to the clone when they do, and the two ways in which an export
  ends. The style of an element is the text of its \<open>style\<close> attribute, read and written through the
  browser's style object: \<open>get_bg\<close> and \<open>set_bg\<close> are its \<open>backgroundImage\<close>, \<open>flush_style\<close> the two assignments
  to the style of the root.
\<close>

subsection \<open>Addresses as data\<close>

text \<open>
  \<open>toDataURL\<close>: a fetch or a reader that fails gives the address back. \<open>fetch\<close> gives the body whatever
  the status of the response, as the code reads it.
\<close>

definition to_data_url :: "(string \<Rightarrow> 'b option) \<Rightarrow> ('b \<Rightarrow> string option) \<Rightarrow> string \<Rightarrow> string" where
  "to_data_url fetch_body read_body url =
     (case fetch_body url of
        None \<Rightarrow> url
      | Some body \<Rightarrow> (case read_body body of None \<Rightarrow> url | Some d \<Rightarrow> d))"

text \<open>\<open>/url\(["']?([^"')]+)["']?\)/\<close>: the whole match and the address.\<close>

definition match_bg :: "string \<Rightarrow> ((string \<times> string) \<times> string) option" where
  "match_bg s =
     (case strip ''url('' s of
        None \<Rightarrow> None
      | Some r \<Rightarrow>
          let r1 = drop_quote r; u = takeWhile url_char r1
          in if u = [] then None
             else (case strip '')'' (drop_quote (dropWhile url_char r1)) of
                     None \<Rightarrow> None
                   | Some rest \<Rightarrow> Some ((take (length s - length rest) s, u), rest)))"

definition bg_tokens :: "string \<Rightarrow> (string \<times> string) list" where
  "bg_tokens bg = filter (\<lambda>(tok, u). \<not> is_data u) (scan_all match_bg bg)"

definition url_token :: "string \<Rightarrow> string" where
  "url_token d = ''url(\"'' @ d @ ''\")''"

subsection \<open>The elements of the clone\<close>

type_synonym attributes = "(string \<times> string) list"

text \<open>The elements below a node in document order, each with the path that leads to it.\<close>

fun elements_at :: "nat list \<Rightarrow> xnode \<Rightarrow> (nat list \<times> string \<times> attributes) list" and
    elements_of :: "nat list \<Rightarrow> nat \<Rightarrow> xnode list \<Rightarrow> (nat list \<times> string \<times> attributes) list" where
  "elements_at p (XElem t as cs pix ks) = (p, t, as) # elements_of p 0 ks"
| "elements_at p (XText s) = []"
| "elements_at p (XComment s) = []"
| "elements_of p i [] = []"
| "elements_of p i (k # ks) = elements_at (p @ [i]) k @ elements_of p (Suc i) ks"

fun update_attrs :: "nat list \<Rightarrow> (attributes \<Rightarrow> attributes) \<Rightarrow> xnode \<Rightarrow> xnode" where
  "update_attrs [] f (XElem t as cs pix ks) = XElem t (f as) cs pix ks"
| "update_attrs (i # p) f (XElem t as cs pix ks) =
     XElem t as cs pix (if i < length ks then ks[i := update_attrs p f (ks ! i)] else ks)"
| "update_attrs _ f n = n"

fun attrs_at :: "nat list \<Rightarrow> xnode \<Rightarrow> attributes option" where
  "attrs_at [] (XElem t as cs pix ks) = Some as"
| "attrs_at (i # p) (XElem t as cs pix ks) = (if i < length ks then attrs_at p (ks ! i) else None)"
| "attrs_at _ n = None"

definition style_attr :: "attributes \<Rightarrow> string" where
  "style_attr as = (case map_of as ''style'' of None \<Rightarrow> [] | Some s \<Rightarrow> s)"

text \<open>\<open>xmlns\<close> on the root, and its shadow and rounding taken off.\<close>

definition flush_root :: "(string \<Rightarrow> string) \<Rightarrow> xnode \<Rightarrow> xnode" where
  "flush_root flush_style clone =
     update_attrs [] (\<lambda>as. let as1 = AList.update ''xmlns'' ''http://www.w3.org/1999/xhtml'' as
                           in AList.update ''style'' (flush_style (style_attr as1)) as1) clone"

subsection \<open>Jobs\<close>

datatype job =
    ImageJob (job_path: "nat list") string
  | BgJob (job_path: "nat list") string string

text \<open>The job of an image, unless its source is data or missing; the jobs of a background.\<close>

fun image_job :: "(string \<Rightarrow> string) \<Rightarrow> nat list \<times> string \<times> attributes \<Rightarrow> job list" where
  "image_job absolute (p, t, as) =
     (if t = ''IMG'' \<and> p \<noteq> [] then
        (case map_of as ''src'' of
           None \<Rightarrow> []
         | Some s \<Rightarrow> if s \<noteq> [] \<and> \<not> is_data s then [ImageJob p (absolute s)] else [])
      else [])"

fun bg_job :: "(string \<Rightarrow> string) \<Rightarrow> nat list \<times> string \<times> attributes \<Rightarrow> job list" where
  "bg_job get_bg (p, t, as) = map (\<lambda>(tok, u). BgJob p tok u) (bg_tokens (get_bg (style_attr as)))"

text \<open>\<open>clone.querySelectorAll('img')\<close>, where the root is not among them, and \<open>[clone, ...clone.querySelectorAll('*')]\<close>.\<close>

definition image_jobs :: "(string \<Rightarrow> string) \<Rightarrow> xnode \<Rightarrow> job list" where
  "image_jobs absolute clone = concat (map (image_job absolute) (elements_at [] clone))"

definition bg_jobs :: "(string \<Rightarrow> string) \<Rightarrow> xnode \<Rightarrow> job list" where
  "bg_jobs get_bg clone = concat (map (bg_job get_bg) (elements_at [] clone))"

text \<open>What a job does when its fetch has settled.\<close>

fun job_effect :: "(string \<Rightarrow> string) \<Rightarrow> (string \<Rightarrow> string \<Rightarrow> string) \<Rightarrow> (string \<Rightarrow> string) \<Rightarrow> job \<Rightarrow> attributes \<Rightarrow> attributes" where
  "job_effect get_bg set_bg to_data (ImageJob p u) as = AList.update ''src'' (to_data u) as"
| "job_effect get_bg set_bg to_data (BgJob p tok u) as =
     AList.update ''style''
       (set_bg (style_attr as) (replace_all tok (url_token (to_data u)) (get_bg (style_attr as)))) as"

definition run_job :: "(string \<Rightarrow> string) \<Rightarrow> (string \<Rightarrow> string \<Rightarrow> string) \<Rightarrow> (string \<Rightarrow> string) \<Rightarrow> job \<Rightarrow> xnode \<Rightarrow> xnode" where
  "run_job get_bg set_bg to_data j = update_attrs (job_path j) (job_effect get_bg set_bg to_data j)"

subsection \<open>How an export ends\<close>

datatype export_kind = AsHtml | AsPng

datatype export_result =
    Downloaded string
  | NothingSaved
  | ExportFailed string

text \<open>
  \<open>loads\<close> says whether the browser can load the picture from an address, \<open>draw\<close> what \<open>toBlob\<close> gives for
  the picture on a canvas of the given size.
\<close>

definition png_export ::
  "(string \<Rightarrow> bool) \<Rightarrow> (string \<Rightarrow> jsnum \<Rightarrow> jsnum \<Rightarrow> 'b option) \<Rightarrow> string \<Rightarrow> jsnum \<Rightarrow> jsnum \<Rightarrow> string \<Rightarrow> string
     \<Rightarrow> export_result" where
  "png_export loads draw name w h fonts xml =
     (let src = export_image_url (export_svg w h fonts xml)
      in if \<not> loads src then ExportFailed ''svg load failed''
         else (case save_name name (draw src (js_mul w (Fin 3)) (js_mul h (Fin 3))) ''png'' of
                 None \<Rightarrow> NothingSaved
               | Some f \<Rightarrow> Downloaded f))"

definition html_export :: "string \<Rightarrow> string \<Rightarrow> string \<Rightarrow> export_result" where
  "html_export name fonts xml =
     (case save_name name (Some (export_html name fonts xml)) ''html'' of
        None \<Rightarrow> NothingSaved
      | Some f \<Rightarrow> Downloaded f)"

definition export_jobs :: "(string \<Rightarrow> string) \<Rightarrow> (string \<Rightarrow> string) \<Rightarrow> xnode \<Rightarrow> job list" where
  "export_jobs absolute get_bg clone = image_jobs absolute clone @ bg_jobs get_bg clone"

text \<open>\<open>dcExport\<close> from the finished clone on; \<open>js\<close> are the jobs in the order in which they settle.\<close>

definition finish_export ::
  "(string \<Rightarrow> string) \<Rightarrow> (string \<Rightarrow> string \<Rightarrow> string) \<Rightarrow> (string \<Rightarrow> string) \<Rightarrow> (xnode \<Rightarrow> string) \<Rightarrow> (string \<Rightarrow> bool)
     \<Rightarrow> (string \<Rightarrow> jsnum \<Rightarrow> jsnum \<Rightarrow> 'b option) \<Rightarrow> export_kind \<Rightarrow> string \<Rightarrow> jsnum \<Rightarrow> jsnum \<Rightarrow> string \<Rightarrow> job list \<Rightarrow> xnode
     \<Rightarrow> export_result" where
  "finish_export get_bg set_bg to_data serialise loads draw kind name w h fonts js clone =
     (let xml = serialise (fold (run_job get_bg set_bg to_data) js clone)
      in case kind of
           AsHtml \<Rightarrow> html_export name fonts xml
         | AsPng \<Rightarrow> png_export loads draw name w h fonts xml)"

subsection \<open>Background images in serialised form\<close>

text \<open>
  The value of \<open>backgroundImage\<close> as style objects give it: addresses in double quotes, and between them
  text that refers to nothing.
\<close>

datatype piece = Lit string | Url string

fun render_piece :: "piece \<Rightarrow> string" where
  "render_piece (Lit l) = l"
| "render_piece (Url u) = url_token u"

definition render :: "piece list \<Rightarrow> string" where
  "render ps = concat (map render_piece ps)"

fun no_url :: "string \<Rightarrow> bool" where
  "no_url [] = True"
| "no_url (c # cs) = (strip ''url('' (c # cs) = None \<and> no_url cs)"

fun piece_ok :: "piece \<Rightarrow> bool" where
  "piece_ok (Lit l) = no_url l"
| "piece_ok (Url u) = (u \<noteq> [] \<and> list_all url_char u)"

text \<open>No two literals in a row, so that the pieces are those of the value.\<close>

fun pieces_ok :: "piece list \<Rightarrow> bool" where
  "pieces_ok (Lit l # Lit l' # ps) = False"
| "pieces_ok (p # ps) = (piece_ok p \<and> pieces_ok ps)"
| "pieces_ok [] = True"

fun piece_urls :: "piece list \<Rightarrow> string list" where
  "piece_urls [] = []"
| "piece_urls (Lit l # ps) = piece_urls ps"
| "piece_urls (Url u # ps) = u # piece_urls ps"

definition subst_url :: "string \<Rightarrow> string \<Rightarrow> piece \<Rightarrow> piece" where
  "subst_url u d p = (if p = Url u then Url d else p)"

lemma strip_append [simp]: "strip p (p @ s) = Some s"
  by (simp add: strip_def)

lemma strip_url: "strip ''url('' (c # s) = (if take 4 (c # s) = ''url('' then Some (drop 4 (c # s)) else None)"
  by (simp add: strip_def eval_nat_numeral)

text \<open>What follows a literal is the end or a token; no occurrence of \<open>url(\<close> starts inside the literal.\<close>

lemma strip_lit:
  assumes "no_url (c # l)" "r = [] \<or> (\<exists>r'. r = ''url('' @ r')"
  shows "strip ''url('' ((c # l) @ r) = None"
proof (cases "length (c # l) < 4")
  case True
  then consider "l = []" | a where "l = [a]" | a b where "l = [a, b]"
    by (cases l; cases "tl l"; cases "tl (tl l)") auto
  then show ?thesis using assms(2) by cases (auto simp: strip_url)
next
  case False
  then have "take 4 (c # l @ r) = take 4 (c # l)" by simp
  with assms(1) show ?thesis by (auto simp: strip_url split: if_splits)
qed

lemma pieces_ok_Cons: "pieces_ok (p # ps) \<Longrightarrow> piece_ok p \<and> pieces_ok ps"
  by (cases p; cases ps; cases "hd ps") auto

lemma after_lit: "pieces_ok (Lit l # ps) \<Longrightarrow> render ps = [] \<or> (\<exists>r. render ps = ''url('' @ r)"
  by (cases ps; cases "hd ps") (auto simp: render_def url_token_def)

lemma render_simps [simp]:
  "render [] = []" "render (p # ps) = render_piece p @ render ps"
  by (simp_all add: render_def)

text \<open>Scanning a rendered value finds the tokens of its addresses, in order.\<close>

lemma scan_lit:
  assumes "no_url l" "r = [] \<or> (\<exists>r'. r = ''url('' @ r')"
  shows "scan_all match_bg (l @ r) = scan_all match_bg r"
  using assms(1)
proof (induction l)
  case (Cons c l)
  have "match_bg ((c # l) @ r) = None"
    using strip_lit [OF Cons.prems assms(2)] by (simp add: match_bg_def)
  then show ?case using Cons by simp
qed simp

lemma match_token:
  assumes "u \<noteq> []" "list_all url_char u"
  shows "match_bg (url_token u @ r) = Some ((url_token u, u), r)"
proof -
  have q: "drop_quote (CHR 34 # s) = s" for s by (simp add: drop_quote_def)
  have t: "takeWhile url_char (u @ CHR 34 # s) = u" "dropWhile url_char (u @ CHR 34 # s) = CHR 34 # s" for s
    using assms(2) by (auto simp: list_all_iff takeWhile_append dropWhile_append url_char_def)
  have "strip ''url('' (url_token u @ r) = Some (CHR 34 # u @ CHR 34 # CHR '')'' # r)"
    using strip_append [of "''url(''" "CHR 34 # u @ CHR 34 # CHR '')'' # r"] by (simp add: url_token_def)
  moreover have "strip '')'' (CHR '')'' # r) = Some r"
    using strip_append [of "'')''" r] by simp
  moreover have "take (length (url_token u @ r) - length r) (url_token u @ r) = url_token u" by simp
  ultimately show ?thesis using assms(1) by (simp add: match_bg_def Let_def q t)
qed

lemma scan_render: "pieces_ok ps \<Longrightarrow> scan_all match_bg (render ps) = map (\<lambda>u. (url_token u, u)) (piece_urls ps)"
proof (induction ps)
  case (Cons p ps)
  then have ok: "piece_ok p" "pieces_ok ps" using pieces_ok_Cons by blast+
  show ?case
  proof (cases p)
    case (Lit l)
    then show ?thesis using Cons ok after_lit [of l ps] scan_lit [of l "render ps"] by simp
  next
    case (Url u)
    obtain c s where c: "url_token u @ render ps = c # s" "length (render ps) \<le> length s"
      by (cases "url_token u @ render ps") (auto simp: url_token_def)
    then show ?thesis using Url Cons.IH [OF ok(2)] ok(1) match_token [of u "render ps"] by simp
  qed
qed simp

text \<open>Replacing the token of one address replaces it wherever it occurs, and nothing else.\<close>

lemma strip_trans: "strip p s = None \<Longrightarrow> strip (p @ q) s = None"
proof -
  assume "strip p s = None"
  then have "take (length p) s \<noteq> p" by (simp add: strip_def split: if_splits)
  moreover have "take (length p) (take (length (p @ q)) s) = take (length p) s" by simp
  ultimately have "take (length (p @ q)) s \<noteq> p @ q" by (metis append_eq_conv_conj)
  then show ?thesis by (simp add: strip_def)
qed

lemma replace_lit:
  assumes "no_url l" "r = [] \<or> (\<exists>r'. r = ''url('' @ r')"
  shows "replace_all (url_token u) new (l @ r) = l @ replace_all (url_token u) new r"
  using assms(1)
proof (induction l)
  case (Cons c l)
  have "strip (url_token u) ((c # l) @ r) = None"
    using strip_trans [OF strip_lit [OF Cons.prems assms(2)]] by (simp add: url_token_def)
  then show ?case using Cons by simp
qed simp

lemma token_prefix:
  assumes "list_all url_char u" "list_all url_char v"
  shows "strip (url_token u) (url_token v @ r) = (if u = v then Some r else None)"
proof (cases "u = v")
  case False
  have "takeWhile url_char (w @ CHR 34 # s) = w" if "list_all url_char w" for w s
    using that by (auto simp: list_all_iff takeWhile_append url_char_def)
  then have "u @ CHR 34 # s \<noteq> v @ CHR 34 # s'" for s s'
    using False assms by metis
  then have "url_token u @ s \<noteq> url_token v @ r" for s by (simp add: url_token_def)
  then have "take (length (url_token u)) (url_token v @ r) \<noteq> url_token u" by (metis append_take_drop_id)
  with False show ?thesis by (simp add: strip_def)
qed simp

text \<open>Nothing starts inside another token.\<close>

lemma strip_inner:
  assumes "list_all url_char w" "u \<noteq> []" "list_all url_char u"
  shows "strip (url_token u) (w @ CHR 34 # CHR '')'' # r) = None"
proof -
  have "url_token u @ s \<noteq> w @ CHR 34 # CHR '')'' # r" for s
  proof
    assume eq: "url_token u @ s = w @ CHR 34 # CHR '')'' # r"
    have "dropWhile url_char (url_token u @ s) = CHR 34 # u @ ''\")'' @ s"
      by (simp add: url_token_def url_char_def)
    moreover have "dropWhile url_char (w @ CHR 34 # CHR '')'' # r) = CHR 34 # CHR '')'' # r"
      using assms(1) by (auto simp: list_all_iff dropWhile_append url_char_def)
    ultimately have "u @ ''\")'' @ s = CHR '')'' # r" using eq by simp
    then show False using assms(2,3) by (cases u) (auto simp: url_char_def)
  qed
  then have "take (length (url_token u)) (w @ CHR 34 # CHR '')'' # r) \<noteq> url_token u" by (metis append_take_drop_id)
  then show ?thesis by (simp add: strip_def)
qed

lemma strip_head: "c \<noteq> CHR ''u'' \<Longrightarrow> strip (url_token u) (c # s) = None"
  by (simp add: strip_def url_token_def)

lemma replace_inner:
  assumes "list_all url_char w" "u \<noteq> []" "list_all url_char u"
  shows "replace_all (url_token u) new (w @ CHR 34 # CHR '')'' # r) =
    w @ CHR 34 # CHR '')'' # replace_all (url_token u) new r"
  using assms(1)
proof (induction w)
  case (Cons c w)
  then show ?case using strip_inner [OF Cons.prems assms(2,3), of r] by simp
qed (simp add: strip_head)

lemma replace_other:
  assumes "u \<noteq> v" "u \<noteq> []" "list_all url_char u" "list_all url_char v"
  shows "replace_all (url_token u) new (url_token v @ r) = url_token v @ replace_all (url_token u) new r"
proof -
  have "strip (url_token u) (url_token v @ r) = None" using token_prefix [OF assms(3,4)] assms(1) by simp
  then show ?thesis
    using replace_inner [OF assms(4,2,3)] by (simp add: url_token_def [of v] strip_head)
qed

lemma replace_render:
  assumes "u \<noteq> []" "list_all url_char u" "pieces_ok ps"
  shows "replace_all (url_token u) (url_token d) (render ps) = render (map (subst_url u d) ps)"
  using assms(3)
proof (induction ps)
  case (Cons p ps)
  then have ok: "piece_ok p" "pieces_ok ps" using pieces_ok_Cons by blast+
  show ?case
  proof (cases p)
    case (Lit l)
    then show ?thesis
      using Cons ok after_lit [of l ps] replace_lit [of l "render ps" u "url_token d"] by (simp add: subst_url_def)
  next
    case (Url v)
    have "url_token u \<noteq> []" by (simp add: url_token_def)
    show ?thesis
    proof (cases "u = v")
      case True
      obtain c s where c: "url_token v @ render ps = c # s" by (cases "url_token v @ render ps") (simp add: url_token_def)
      have "strip (url_token u) (c # s) = Some (render ps)"
        using token_prefix [of u v "render ps"] assms(2) True unfolding c by simp
      then have "replace_all (url_token u) (url_token d) (c # s) = url_token d @ replace_all (url_token u) (url_token d) (render ps)"
        using \<open>url_token u \<noteq> []\<close> by simp
      then show ?thesis using Url True Cons.IH [OF ok(2)] by (simp add: subst_url_def c)
    next
      case False
      then show ?thesis
        using Url ok(1) Cons.IH [OF ok(2)] replace_other [OF False assms(1,2)] by (simp add: subst_url_def)
    qed
  qed
qed simp

subsection \<open>Attributes and jobs\<close>

lemma attrs_update:
  "attrs_at q (update_attrs p f n) = (if p = q then map_option f (attrs_at q n) else attrs_at q n)"
proof (induction p f n arbitrary: q rule: update_attrs.induct)
  case (1 f t as cs pix ks)
  then show ?case by (cases q) auto
next
  case (2 i p f t as cs pix ks)
  then show ?case by (cases q) (auto simp: nth_list_update)
qed (auto split: option.split)

lemma attrs_run:
  "attrs_at q (fold (run_job get_bg set_bg to_data) js n) =
     map_option (fold (job_effect get_bg set_bg to_data) (filter (\<lambda>j. job_path j = q) js)) (attrs_at q n)"
proof (induction js arbitrary: n)
  case (Cons j js)
  then show ?case by (auto simp: run_job_def attrs_update option.map_comp comp_def)
qed (simp add: option.map_id)

lemma elements_attrs:
  "(p, t, as) \<in> set (elements_at r n) \<Longrightarrow> \<exists>q. p = r @ q \<and> attrs_at q n = Some as"
  "(p, t, as) \<in> set (elements_of r i ks) \<Longrightarrow> \<exists>j q. p = r @ (i + j) # q \<and> j < length ks \<and> attrs_at q (ks ! j) = Some as"
proof (induction r n and r i ks arbitrary: p t as and p t as rule: elements_at_elements_of.induct)
  case (1 r t' as' cs pix ks)
  show ?case
  proof (cases "(p, t, as) = (r, t', as')")
    case False
    with 1 obtain j q where "p = r @ j # q" "j < length ks" "attrs_at q (ks ! j) = Some as" by fastforce
    then show ?thesis by (intro exI [of _ "j # q"]) simp
  qed (auto intro: exI [of _ "[]"])
next
  case (5 r i k ks)
  show ?case
  proof (cases "(p, t, as) \<in> set (elements_at (r @ [i]) k)")
    case True
    with 5(1) obtain q where "p = (r @ [i]) @ q" "attrs_at q k = Some as" by blast
    then show ?thesis by (intro exI [of _ 0] exI [of _ q]) simp
  next
    case False
    with 5(2,3) obtain j q where "p = r @ (Suc i + j) # q" "j < length ks" "attrs_at q (ks ! j) = Some as" by fastforce
    then show ?thesis by (intro exI [of _ "Suc j"] exI [of _ q]) simp
  qed
qed auto

lemma element_at: "(p, t, as) \<in> set (elements_at [] n) \<Longrightarrow> attrs_at p n = Some as"
  using elements_attrs(1) [of p t as "[]" n] by simp

lemma elements_distinct:
  "distinct (map fst (elements_at r n))" "distinct (map fst (elements_of r i ks))"
proof (induction r n and r i ks rule: elements_at_elements_of.induct)
  case (1 r t as cs pix ks)
  have "r \<noteq> fst x" if "x \<in> set (elements_of r 0 ks)" for x
    using elements_attrs(2) [of "fst x" "fst (snd x)" "snd (snd x)" r 0 ks] that by auto
  with 1 show ?case by auto
next
  case (5 r i k ks)
  have "fst x \<noteq> fst y" if "x \<in> set (elements_at (r @ [i]) k)" "y \<in> set (elements_of r (Suc i) ks)" for x y
    using elements_attrs(1) [of "fst x" "fst (snd x)" "snd (snd x)" "r @ [i]" k]
      elements_attrs(2) [of "fst y" "fst (snd y)" "snd (snd y)" r "Suc i" ks] that by auto
  with 5 show ?case by (auto simp: image_iff disjoint_iff)
qed simp_all

subsection \<open>Jobs settle in any order\<close>

text \<open>
  What the code relies on of style objects (CSSOM). \<open>valid ps\<close> says that the text of \<open>ps\<close>, with the
  addresses of \<open>ps\<close>, is a background the browser accepts, as it serialises it; nothing is said of
  other texts, which a style object ignores. Such a value is kept when it is assigned; an address in
  it may be replaced by a data URL; and the assignment leaves the other declarations alone.
\<close>

definition plain_url_char :: "char \<Rightarrow> bool" where
  "plain_url_char c \<longleftrightarrow> url_char c \<and> c \<noteq> CHR 0x5C \<and> 32 \<le> (of_char c :: nat) \<and> (of_char c :: nat) < 127"

definition style_laws ::
  "(string \<Rightarrow> string) \<Rightarrow> (string \<Rightarrow> string \<Rightarrow> string) \<Rightarrow> (string \<Rightarrow> 'd) \<Rightarrow> (piece list \<Rightarrow> bool) \<Rightarrow> bool" where
  "style_laws get_bg set_bg others valid \<longleftrightarrow>
     (\<forall>st ps. valid ps \<longrightarrow> get_bg (set_bg st (render ps)) = render ps) \<and>
     (\<forall>ps u d. valid ps \<and> is_data d \<and> list_all plain_url_char d \<longrightarrow> valid (map (subst_url u d) ps)) \<and>
     (\<forall>st v. others (set_bg st v) = others st)"

text \<open>A reader gives data URLs of printable ASCII without quotes, parentheses and backslashes.\<close>

definition reads_data :: "('b \<Rightarrow> string option) \<Rightarrow> bool" where
  "reads_data read_body \<longleftrightarrow> (\<forall>body d. read_body body = Some d \<longrightarrow> is_data d \<and> list_all plain_url_char d)"

lemma plain_url_chars: "list_all plain_url_char d \<Longrightarrow> list_all url_char d"
  by (auto simp: list_all_iff plain_url_char_def)

lemma to_data_cases: "reads_data read_body \<Longrightarrow> to_data_url f read_body u = u \<or>
    is_data (to_data_url f read_body u) \<and> list_all plain_url_char (to_data_url f read_body u)"
  by (auto simp: to_data_url_def reads_data_def split: option.split)

lemma subst_url_same [simp]: "map (subst_url u u) ps = ps"
  by (rule map_idI) (simp add: subst_url_def)

lemma valid_subst:
  assumes "style_laws get_bg set_bg others valid" "reads_data read_body" "valid ps"
  shows "valid (map (subst_url u (to_data_url f read_body u)) ps)"
proof (cases "to_data_url f read_body u = u")
  case False
  then have "is_data (to_data_url f read_body u) \<and> list_all plain_url_char (to_data_url f read_body u)"
    using to_data_cases [OF assms(2)] by blast
  then show ?thesis using assms(1,3) by (simp add: style_laws_def)
qed (simp add: assms(3))

lemma is_data_nonempty: "is_data d \<Longrightarrow> d \<noteq> []"
  by (auto simp: is_data_def strip_def)

definition inlined :: "(string \<Rightarrow> string) \<Rightarrow> string set \<Rightarrow> piece \<Rightarrow> piece" where
  "inlined to_data us p = (case p of Lit l \<Rightarrow> Lit l | Url u \<Rightarrow> if u \<in> us then Url (to_data u) else Url u)"

lemma fold_subst:
  assumes "\<forall>u \<in> set us. to_data u = u \<or> to_data u \<notin> set us"
  shows "fold (\<lambda>u. map (subst_url u (to_data u))) us ps = map (inlined to_data (set us)) ps"
  using assms
proof (induction us arbitrary: ps)
  case Nil
  then show ?case by (auto simp: inlined_def intro!: map_idI [symmetric] split: piece.split)
next
  case (Cons u us)
  have "inlined to_data (set us) (subst_url u (to_data u) p) = inlined to_data (set (u # us)) p" for p
    using Cons.prems by (cases p) (auto simp: inlined_def subst_url_def)
  moreover have "fold (\<lambda>u. map (subst_url u (to_data u))) us qs = map (inlined to_data (set us)) qs" for qs
    by (rule Cons.IH) (use Cons.prems in auto)
  ultimately show ?case by simp
qed

lemma pieces_ok_subst:
  assumes "pieces_ok ps" "piece_ok (Url d)"
  shows "pieces_ok (map (subst_url u d) ps)"
  using assms(1)
  by (induction ps rule: pieces_ok.induct) (use assms(2) in \<open>auto simp: subst_url_def dest: pieces_ok_Cons\<close>)

text \<open>The jobs of one element: its image, and addresses of its background.\<close>

fun own_job :: "job \<Rightarrow> bool" where
  "own_job (ImageJob p u) = True"
| "own_job (BgJob p tok u) = (tok = url_token u \<and> u \<noteq> [] \<and> list_all url_char u \<and> \<not> is_data u)"

fun bg_urls :: "job list \<Rightarrow> string list" where
  "bg_urls [] = []"
| "bg_urls (ImageJob p u # js) = bg_urls js"
| "bg_urls (BgJob p tok u # js) = u # bg_urls js"

lemma style_attr_update [simp]:
  "style_attr (AList.update ''src'' v as) = style_attr as" "style_attr (AList.update ''style'' v as) = v"
  by (simp_all add: style_attr_def update_conv')

lemma bg_run:
  assumes "style_laws get_bg set_bg others valid" "reads_data read_body" "to_data = to_data_url f read_body"
    and "list_all own_job js" "pieces_ok ps" "valid ps" "get_bg (style_attr as) = render ps"
  shows "get_bg (style_attr (fold (job_effect get_bg set_bg to_data) js as)) =
    render (fold (\<lambda>u. map (subst_url u (to_data u))) (bg_urls js) ps)"
  using assms(4-7)
proof (induction js arbitrary: ps as)
  case (Cons j js)
  show ?case
  proof (cases j)
    case (BgJob p tok u)
    with Cons.prems(1) have u: "tok = url_token u" "u \<noteq> []" "list_all url_char u" by simp_all
    then have "piece_ok (Url (to_data u))"
      using to_data_cases [OF assms(2), of f u] assms(3) is_data_nonempty plain_url_chars by auto
    then have ok: "pieces_ok (map (subst_url u (to_data u)) ps)" using pieces_ok_subst Cons.prems(2) by blast
    have v: "valid (map (subst_url u (to_data u)) ps)"
      unfolding assms(3) by (rule valid_subst [OF assms(1,2) Cons.prems(3)])
    then have "get_bg (style_attr (job_effect get_bg set_bg to_data j as)) = render (map (subst_url u (to_data u)) ps)"
      using assms(1) replace_render [OF u(2,3) Cons.prems(2)] by (simp add: BgJob u(1) Cons.prems(4) style_laws_def)
    with Cons.IH [OF _ ok v] Cons.prems(1) show ?thesis by (simp add: BgJob)
  qed (use Cons in simp)
qed simp

text \<open>No job touches another declaration of the style.\<close>

lemma others_run:
  "style_laws get_bg set_bg others valid \<Longrightarrow>
     others (style_attr (fold (job_effect get_bg set_bg to_data) js as)) = others (style_attr as)"
proof (induction js arbitrary: as)
  case (Cons j js)
  then show ?case by (cases j) (simp_all add: style_laws_def)
qed simp

lemma src_run:
  assumes "\<forall>j \<in> set js. \<forall>p u. j = ImageJob p u \<longrightarrow> u = a"
  shows "map_of (fold (job_effect get_bg set_bg to_data) js as) ''src'' =
    (if \<exists>p. ImageJob p a \<in> set js then Some (to_data a) else map_of as ''src'')"
  using assms
proof (induction js arbitrary: as)
  case (Cons j js)
  then show ?case by (cases j) (auto simp: update_conv')
qed simp

lemma other_attrs_run:
  "k \<noteq> ''src'' \<Longrightarrow> k \<noteq> ''style'' \<Longrightarrow> map_of (fold (job_effect get_bg set_bg to_data) js as) k = map_of as k"
proof (induction js arbitrary: as)
  case (Cons j js)
  then show ?case by (cases j) (auto simp: update_conv')
qed simp

text \<open>The jobs of an element and what they find.\<close>

lemma bg_tokens_render:
  "pieces_ok ps \<Longrightarrow> bg_tokens (render ps) = map (\<lambda>u. (url_token u, u)) (filter (\<lambda>u. \<not> is_data u) (piece_urls ps))"
  by (simp add: bg_tokens_def scan_render filter_map comp_def)

lemma piece_urls_ok: "pieces_ok ps \<Longrightarrow> u \<in> set (piece_urls ps) \<Longrightarrow> u \<noteq> [] \<and> list_all url_char u"
proof (induction ps)
  case (Cons p ps)
  then show ?case using pieces_ok_Cons [of p ps] by (cases p) auto
qed simp

lemma piece_urls_iff: "u \<in> set (piece_urls ps) \<longleftrightarrow> Url u \<in> set ps"
  by (induction ps rule: piece_urls.induct) auto

lemma image_job_iff:
  "j \<in> set (image_job absolute (p, t, as)) \<longleftrightarrow>
     t = ''IMG'' \<and> p \<noteq> [] \<and> (\<exists>s. map_of as ''src'' = Some s \<and> s \<noteq> [] \<and> \<not> is_data s \<and> j = ImageJob p (absolute s))"
proof -
  have "j \<in> set (if a then (case x of None \<Rightarrow> [] | Some s \<Rightarrow> if f s then [g s] else []) else []) \<longleftrightarrow>
      a \<and> (\<exists>s. x = Some s \<and> f s \<and> j = g s)" for a x f and g :: "string \<Rightarrow> job"
    by (cases a; cases x; simp only: if_True if_False option.case list.set empty_iff option.inject simp_thms ex_simps
        option.distinct split: if_split) auto
  from this [where a = "t = ''IMG'' \<and> p \<noteq> []" and x = "map_of as ''src''" and f = "\<lambda>s. s \<noteq> [] \<and> \<not> is_data s"
      and g = "\<lambda>s. ImageJob p (absolute s)"]
  show ?thesis unfolding image_job.simps by (simp only: conj_assoc)
qed

lemma bg_job_iff:
  assumes "pieces_ok ps" "get_bg (style_attr as) = render ps"
  shows "j \<in> set (bg_job get_bg (p, t, as)) \<longleftrightarrow>
    (\<exists>u \<in> set (piece_urls ps). \<not> is_data u \<and> j = BgJob p (url_token u) u)"
  using assms by (auto simp: bg_tokens_render)

declare image_job.simps [simp del] bg_job.simps [simp del]

lemma jobs_at:
  assumes "(p, t, as) \<in> set (elements_at [] clone)"
    and "pieces_ok ps" "get_bg (style_attr as) = render ps"
  shows "job_path j = p \<and> j \<in> set (export_jobs absolute get_bg clone) \<longleftrightarrow>
    (\<exists>u \<in> set (piece_urls ps). \<not> is_data u \<and> j = BgJob p (url_token u) u) \<or>
    t = ''IMG'' \<and> p \<noteq> [] \<and> (\<exists>s. map_of as ''src'' = Some s \<and> s \<noteq> [] \<and> \<not> is_data s \<and> j = ImageJob p (absolute s))"
proof -
  let ?jobs = "\<lambda>x. set (image_job absolute x) \<union> set (bg_job get_bg x)"
  have path: "job_path j = fst x" if "j \<in> ?jobs x" for x
    using that by (cases x) (auto simp: image_job_iff bg_job.simps)
  have same: "x = (p, t, as)" if "x \<in> set (elements_at [] clone)" "fst x = p" for x
    using eq_key_imp_eq_value [OF elements_distinct(1) assms(1), of "snd x"] that by (cases x) auto
  have "j \<in> set (export_jobs absolute get_bg clone) \<longleftrightarrow> (\<exists>x \<in> set (elements_at [] clone). j \<in> ?jobs x)"
    by (auto simp: export_jobs_def image_jobs_def bg_jobs_def)
  then have "job_path j = p \<and> j \<in> set (export_jobs absolute get_bg clone) \<longleftrightarrow> j \<in> ?jobs (p, t, as)"
    using path same assms(1) by (metis fst_conv)
  then show ?thesis
    by (auto simp: image_job_iff bg_job_iff [where get_bg = get_bg, OF assms(2,3)])
qed

lemma set_bg_urls: "set (bg_urls js) = {u. \<exists>p tok. BgJob p tok u \<in> set js}"
  by (induction js rule: bg_urls.induct) auto

text \<open>
  C13. In whatever order the fetches of the images settle: when all have settled, every element of the
  exported clone whose background the browser accepts, with double-quoted addresses that hold no
  quote and no closing parenthesis and no other text \<open>url(\<close>, has that background with each address
  replaced by its data, at every place where it occurs and with nothing else of the value touched;
  the other declarations of its style are as before, and so are its attributes other than \<open>src\<close>; every
  image below the root has its data for its source. An address whose fetch fails stays; data URLs stay.
  (Addresses with a parenthesis are cut by the pattern: \<open>paren_address_cut\<close> below.)
\<close>

theorem export_inlines:
  assumes "style_laws get_bg set_bg others valid" "reads_data read_body"
    and "to_data = to_data_url fetch_body read_body" "mset js = mset (export_jobs absolute get_bg clone)"
    and "final = fold (run_job get_bg set_bg to_data) js clone"
    and "(p, t, as) \<in> set (elements_at [] clone)" "pieces_ok ps" "valid ps" "get_bg (style_attr as) = render ps"
  shows "\<exists>as'. attrs_at p final = Some as' \<and>
    get_bg (style_attr as') = render (map (inlined to_data {u. \<not> is_data u}) ps) \<and>
    others (style_attr as') = others (style_attr as) \<and>
    map_of as' ''src'' =
      (if t = ''IMG'' \<and> p \<noteq> []
       then map_option (\<lambda>s. if s = [] \<or> is_data s then s else to_data (absolute s)) (map_of as ''src'')
       else map_of as ''src'') \<and>
    (\<forall>k. k \<noteq> ''src'' \<and> k \<noteq> ''style'' \<longrightarrow> map_of as' k = map_of as k)"
proof -
  let ?js = "filter (\<lambda>j. job_path j = p) js"
  let ?as = "fold (job_effect get_bg set_bg to_data) ?js as"
  have "set js = set (export_jobs absolute get_bg clone)" using assms(4) by (metis set_mset_mset)
  then have jobs: "j \<in> set ?js \<longleftrightarrow>
      (\<exists>u \<in> set (piece_urls ps). \<not> is_data u \<and> j = BgJob p (url_token u) u) \<or>
      t = ''IMG'' \<and> p \<noteq> [] \<and> (\<exists>s. map_of as ''src'' = Some s \<and> s \<noteq> [] \<and> \<not> is_data s \<and> j = ImageJob p (absolute s))" for j
    using jobs_at [where get_bg = get_bg, OF assms(6,7,9), of j absolute] by auto
  have at: "attrs_at p final = Some ?as"
    by (simp add: assms(5) attrs_run element_at [OF assms(6)])
  have own: "list_all own_job ?js" using jobs piece_urls_ok [OF assms(7)] by (auto simp: list_all_iff)
  have urls: "set (bg_urls ?js) = {u \<in> set (piece_urls ps). \<not> is_data u}"
    unfolding set_bg_urls using jobs by auto
  have "\<forall>u \<in> set (bg_urls ?js). to_data u = u \<or> to_data u \<notin> set (bg_urls ?js)"
    using to_data_cases [OF assms(2), of fetch_body] assms(3) urls by blast
  then have "get_bg (style_attr ?as) = render (map (inlined to_data (set (bg_urls ?js))) ps)"
    using bg_run [OF assms(1,2,3) own assms(7,8,9)] by (simp add: fold_subst)
  moreover have "map (inlined to_data (set (bg_urls ?js))) ps = map (inlined to_data {u. \<not> is_data u}) ps"
    unfolding urls by (auto simp: inlined_def piece_urls_iff split: piece.split)
  moreover have "map_of ?as ''src'' =
      (if t = ''IMG'' \<and> p \<noteq> []
       then map_option (\<lambda>s. if s = [] \<or> is_data s then s else to_data (absolute s)) (map_of as ''src'')
       else map_of as ''src'')"
  proof -
    have "u = absolute (the (map_of as ''src''))" if "ImageJob q u \<in> set ?js" for q u
      using that unfolding jobs [of "ImageJob q u"] by auto
    then have one: "\<forall>j \<in> set ?js. \<forall>q u. j = ImageJob q u \<longrightarrow> u = absolute (the (map_of as ''src''))"
      by blast
    have "(\<exists>q. ImageJob q (absolute (the (map_of as ''src''))) \<in> set ?js) \<longleftrightarrow>
        t = ''IMG'' \<and> p \<noteq> [] \<and> (\<exists>s. map_of as ''src'' = Some s \<and> s \<noteq> [] \<and> \<not> is_data s)"
      unfolding jobs by auto
    then show ?thesis
      using src_run [OF one, of get_bg set_bg to_data as]
      by (cases "map_of as ''src''") auto
  qed
  ultimately show ?thesis using at other_attrs_run others_run [OF assms(1)] by auto
qed

subsection \<open>How an export ends\<close>

text \<open>
  An HTML export always saves the page under the cleaned name. A PNG export fails exactly if the
  browser cannot load the picture, and saves nothing exactly if the canvas gives no blob.
\<close>

lemma export_outcomes:
  "finish_export get_bg set_bg to_data serialise loads draw AsHtml name w h fonts js clone = Downloaded (name @ ''.html'')"
  "finish_export get_bg set_bg to_data serialise loads draw AsPng name w h fonts js clone =
     (let src = export_image_url (export_svg w h fonts (serialise (fold (run_job get_bg set_bg to_data) js clone)))
      in if loads src
         then (case draw src (js_mul w (Fin 3)) (js_mul h (Fin 3)) of None \<Rightarrow> NothingSaved | Some _ \<Rightarrow> Downloaded (name @ ''.png''))
         else ExportFailed ''svg load failed'')"
  by (simp_all add: finish_export_def html_export_def png_export_def save_name_def Let_def split: option.split)

text \<open>
  An address with a parenthesis is cut at it: the browser gives the value in quotes, but the pattern
  ends an address at the first parenthesis, so another address is fetched.
\<close>

lemma paren_address_cut:
  "scan_all match_bg (url_token ''a(1).png'') = [(''url(\"a(1)'', ''a(1'')]"
  by code_simp

subsection \<open>An instance\<close>

definition demo_clone :: xnode where
  "demo_clone = XElem ''DIV'' [(''style'', ''linear-gradient(red, blue), url(\"a.png\")'')] [] None
     [XElem ''IMG'' [(''src'', ''b.png''), (''style'', ''url(\"a.png\"), url(\"c.png\")'' @ CHR 0x0A # ''color:red'')] [] None [], XText ''x'']"

text \<open>
  A style object that keeps the background in the first line of its text and the other declarations
  below it, and fetches that succeed except for \<open>c.png\<close>.
\<close>

definition demo_get :: "string \<Rightarrow> string" where
  "demo_get st = takeWhile (\<lambda>c. c \<noteq> CHR 0x0A) st"

definition demo_others :: "string \<Rightarrow> string" where
  "demo_others st = dropWhile (\<lambda>c. c \<noteq> CHR 0x0A) st"

definition demo_set :: "string \<Rightarrow> string \<Rightarrow> string" where
  "demo_set st v = takeWhile (\<lambda>c. c \<noteq> CHR 0x0A) v @ demo_others st"

definition one_line :: "piece list \<Rightarrow> bool" where
  "one_line ps \<longleftrightarrow> list_all (\<lambda>c. c \<noteq> CHR 0x0A) (render ps)"

lemma line_ends:
  "takeWhile P (dropWhile P s) = []" "dropWhile P (takeWhile P v @ dropWhile P s) = dropWhile P s"
  "takeWhile P (takeWhile P v @ dropWhile P s) = takeWhile P v"
proof -
  show t: "takeWhile P (dropWhile P s) = []" by (induction s) simp_all
  have "dropWhile P (dropWhile P s) = dropWhile P s" by (induction s) simp_all
  then show "dropWhile P (takeWhile P v @ dropWhile P s) = dropWhile P s" by (induction v) simp_all
  show "takeWhile P (takeWhile P v @ dropWhile P s) = takeWhile P v" using t by (induction v) simp_all
qed

lemma one_line_subst:
  assumes "one_line ps" "list_all plain_url_char d"
  shows "one_line (map (subst_url u d) ps)"
proof -
  let ?P = "\<lambda>c. c \<noteq> CHR 0x0A"
  have "\<not> plain_url_char (CHR 0x0A)" unfolding plain_url_char_def by simp
  then have d: "list_all ?P d" using assms(2) unfolding list_all_iff by metis
  have "list_all ?P (render_piece (subst_url u d q))" if "list_all ?P (render_piece q)" for q
  proof (cases "q = Url u")
    case True
    then show ?thesis
      using that d by (simp only: subst_url_def if_True simp_thms render_piece.simps url_token_def list_all_append)
  qed (use that in \<open>simp only: subst_url_def if_False\<close>)
  with assms(1) show ?thesis
    unfolding one_line_def render_def by (induction ps) (simp_all only: list.map concat.simps list_all_append)
qed

lemma demo_style_laws: "style_laws demo_get demo_set demo_others one_line"
proof -
  have "takeWhile (\<lambda>c. c \<noteq> CHR 0x0A) (render ps) = render ps" if "one_line ps" for ps
    using that unfolding one_line_def takeWhile_eq_all_conv list_all_iff by blast
  then show ?thesis
    unfolding style_laws_def demo_get_def demo_set_def demo_others_def line_ends
    using one_line_subst by blast
qed

definition demo_body :: "string \<Rightarrow> string option" where
  "demo_body u = (if u = ''c.png'' then None else Some u)"

definition demo_data :: "string \<Rightarrow> string" where
  "demo_data = to_data_url demo_body (\<lambda>b. Some ''data:image/png;base64,AA=='')"

theorem export_inlines_witness:
  "\<exists>as'. attrs_at [0] (fold (run_job demo_get demo_set demo_data) (rev (export_jobs (\<lambda>u. u) demo_get demo_clone)) demo_clone)
      = Some as' \<and>
    demo_get (style_attr as') = ''url(\"data:image/png;base64,AA==\"), url(\"c.png\")'' \<and>
    demo_others (style_attr as') = CHR 0x0A # ''color:red'' \<and>
    map_of as' ''src'' = Some ''data:image/png;base64,AA==''"
proof -
  let ?as = "[(''src'', ''b.png''), (''style'', ''url(\"a.png\"), url(\"c.png\")'' @ CHR 0x0A # ''color:red'')]"
  let ?ps = "[Url ''a.png'', Lit '', '', Url ''c.png'']"
  have r: "reads_data (\<lambda>b. Some ''data:image/png;base64,AA=='')"
    by (simp add: reads_data_def is_data_def strip_def url_char_def plain_url_char_def)
  have e: "([0], ''IMG'', ?as) \<in> set (elements_at [] demo_clone)" by (simp add: demo_clone_def)
  have p: "pieces_ok ?ps" "one_line ?ps" "demo_get (style_attr ?as) = render ?ps"
      "demo_others (style_attr ?as) = CHR 0x0A # ''color:red''" by code_simp+
  note * = export_inlines [where absolute = "\<lambda>u. u", OF demo_style_laws r demo_data_def mset_rev refl e p(1-3)]
  have "render (map (inlined demo_data {u. \<not> is_data u}) ?ps) = ''url(\"data:image/png;base64,AA==\"), url(\"c.png\")''"
    by (simp add: inlined_def demo_data_def to_data_url_def demo_body_def is_data_def strip_def url_token_def)
  moreover have "map_option (\<lambda>s. if s = [] \<or> is_data s then s else demo_data s) (map_of ?as ''src'') = Some ''data:image/png;base64,AA==''"
    by (simp add: demo_data_def to_data_url_def demo_body_def is_data_def strip_def)
  ultimately show ?thesis using * p(4) by auto
qed

end
