(* ===== verification/Canvas_Viewport.thy ===== *)
theory Canvas_Viewport
  imports Js_String
begin

text \<open>
  The pan and zoom state of \<open>DCViewport\<close>: the transform and the styles written from it, the wheel, gesture,
  pointer and host-message handlers, the scale reported to the host, the transform kept in \<open>localStorage\<close>
  with its 200-millisecond debounce, and a change of the bounds. The browser's \<open>Math.exp\<close> and its layout
  are parameters: \<open>expf\<close>, and the screen tops of the marker element before and after a scale change that
  an event carries.
\<close>

record tf =
  tf_x :: jsnum
  tf_y :: jsnum
  tf_scale :: jsnum

record drag =
  dg_id :: int
  dg_lx :: jsnum
  dg_ly :: jsnum

datatype host_post = PostZoom jsnum | PostPresent

record viewport =
  vp_tf :: tf
  vp_min :: jsnum
  vp_max :: jsnum
  vp_world :: "string \<times> string"
  vp_last :: "jsnum option"
  vp_posts :: "host_post list"
  vp_gs_base :: jsnum
  vp_gesturing :: bool
  vp_drag :: "drag option"
  vp_cursor :: string
  vp_save :: "nat option"
  vp_now :: nat
  vp_can_store :: bool
  vp_store :: "(jsnum option \<times> jsnum option \<times> jsnum option) option"

subsection \<open>Applying and saving the transform\<close>

text \<open>A number written by \<open>JSON.stringify\<close> and read back: what is not finite becomes \<open>null\<close>.\<close>

fun json_num :: "jsnum \<Rightarrow> jsnum option" where
  "json_num (Fin q) = Some (Fin q)"
| "json_num NegZero = Some (Fin 0)"
| "json_num _ = None"

text \<open>A storage that refuses the write throws, and the exception is swallowed.\<close>

definition vp_write :: "viewport \<Rightarrow> viewport" where
  "vp_write v =
     (if vp_can_store v
      then v\<lparr>vp_store := Some (json_num (tf_x (vp_tf v)), json_num (tf_y (vp_tf v)), json_num (tf_scale (vp_tf v)))\<rparr>
      else v)"

text \<open>The texts written to the world's \<open>transform\<close> and \<open>--dc-inv-zoom\<close>.\<close>

definition world_style :: "tf \<Rightarrow> string \<times> string" where
  "world_style t =
     (''translate3d('' @ js_to_string (tf_x t) @ ''px, '' @ js_to_string (tf_y t) @ ''px, 0) scale('' @
        js_to_string (tf_scale t) @ '')'',
      js_to_string (js_div (Fin 1) (tf_scale t)))"

text \<open>
  \<open>apply\<close>: the styles, the post to the host when the scale is not the one last posted (\<open>!==\<close>, so
  \<open>NaN\<close> always is), and the timer that saves, in place of the one that was waiting.
\<close>

definition vp_apply :: "viewport \<Rightarrow> viewport" where
  "vp_apply v =
     (let s = tf_scale (vp_tf v);
          same = (case vp_last v of None \<Rightarrow> False | Some l \<Rightarrow> js_eq l s);
          v1 = v\<lparr>vp_world := world_style (vp_tf v)\<rparr>;
          v2 = (if same then v1 else v1\<lparr>vp_last := Some s, vp_posts := vp_posts v1 @ [PostZoom s]\<rparr>)
      in v2\<lparr>vp_save := Some (vp_now v2 + 200)\<rparr>)"

definition vp_elapse :: "nat \<Rightarrow> viewport \<Rightarrow> viewport" where
  "vp_elapse dt v =
     (let v1 = v\<lparr>vp_now := vp_now v + dt\<rparr>
      in case vp_save v of
           None \<Rightarrow> v1
         | Some due \<Rightarrow> if due \<le> vp_now v1 then (vp_write v1)\<lparr>vp_save := None\<rparr> else v1)"

text \<open>On \<open>pagehide\<close> and on unmounting.\<close>

definition vp_flush :: "viewport \<Rightarrow> viewport" where
  "vp_flush v = vp_write (v\<lparr>vp_save := None\<rparr>)"

definition clamp_scale :: "viewport \<Rightarrow> jsnum \<Rightarrow> jsnum" where
  "clamp_scale v s = js_min (vp_max v) (js_max (vp_min v) s)"

text \<open>The layout effect that restores the saved transform.\<close>

definition vp_restore :: "viewport \<Rightarrow> viewport" where
  "vp_restore v =
     (case vp_store v of
        Some (Some x, Some y, Some s) \<Rightarrow>
          if is_finite x \<and> is_finite y \<and> is_finite s
          then vp_apply (v\<lparr>vp_tf := \<lparr>tf_x = x, tf_y = y, tf_scale = clamp_scale v s\<rparr>\<rparr>) else v
      | _ \<Rightarrow> v)"

subsection \<open>Zooming\<close>

record layout =
  ly_left :: jsnum
  ly_top :: jsnum
  ly_width :: jsnum
  ly_height :: jsnum
  ly_marker :: "(jsnum \<times> jsnum) option"

text \<open>\<open>zoomAt(cx, cy, factor)\<close>.\<close>

definition zoom_at :: "layout \<Rightarrow> jsnum \<Rightarrow> jsnum \<Rightarrow> jsnum \<Rightarrow> viewport \<Rightarrow> viewport" where
  "zoom_at ly cx cy factor v =
     (let px = js_sub cx (ly_left ly); py = js_sub cy (ly_top ly); t = vp_tf v;
          nxt = clamp_scale v (js_mul (tf_scale t) factor);
          k = js_div nxt (tf_scale t);
          marker = (if js_eq k (Fin 1) then None else ly_marker ly);
          v1 = vp_apply (v\<lparr>vp_tf := \<lparr>
                 tf_x = js_sub px (js_mul (js_sub px (tf_x t)) k),
                 tf_y = js_sub py (js_mul (js_sub py (tf_y t)) k),
                 tf_scale = nxt\<rparr>\<rparr>)
      in case marker of
           None \<Rightarrow> v1
         | Some (y0, y1) \<Rightarrow>
             let drift = js_sub y1 (js_add cy (js_mul (js_sub y0 cy) k))
             in if js_lt (Fin (fl (1 / 10))) (js_abs drift)
                then vp_apply (v1\<lparr>vp_tf := (vp_tf v1)\<lparr>tf_y := js_sub (tf_y (vp_tf v1)) drift\<rparr>\<rparr>)
                else v1)"

subsection \<open>The handlers\<close>

record wheel =
  wh_mode :: int
  wh_dx :: jsnum
  wh_dy :: jsnum
  wh_ctrl :: bool
  wh_x :: jsnum
  wh_y :: jsnum

definition is_mouse_wheel :: "wheel \<Rightarrow> bool" where
  "is_mouse_wheel e \<longleftrightarrow>
     wh_mode e \<noteq> 0 \<or>
     js_eq (wh_dx e) (Fin 0) \<and> js_is_integer (wh_dy e) \<and> js_le (Fin 40) (js_abs (wh_dy e))"

definition vp_pan :: "jsnum \<Rightarrow> jsnum \<Rightarrow> viewport \<Rightarrow> viewport" where
  "vp_pan x y v = vp_apply (v\<lparr>vp_tf := (vp_tf v)\<lparr>tf_x := x, tf_y := y\<rparr>\<rparr>)"

definition on_wheel :: "(jsnum \<Rightarrow> jsnum) \<Rightarrow> layout \<Rightarrow> wheel \<Rightarrow> viewport \<Rightarrow> viewport" where
  "on_wheel expf ly e v =
     (if vp_gesturing v then v
      else if wh_ctrl e \<and> \<not> is_mouse_wheel e then
        zoom_at ly (wh_x e) (wh_y e) (expf (js_mul (js_neg (wh_dy e)) (Fin (fl (1 / 100))))) v
      else if is_mouse_wheel e then
        zoom_at ly (wh_x e) (wh_y e) (expf (js_mul (js_neg (js_sign (wh_dy e))) (Fin (fl (18 / 100))))) v
      else vp_pan (js_sub (tf_x (vp_tf v)) (wh_dx e)) (js_sub (tf_y (vp_tf v)) (wh_dy e)) v)"

definition on_gesture_start :: "viewport \<Rightarrow> viewport" where
  "on_gesture_start v = v\<lparr>vp_gesturing := True, vp_gs_base := tf_scale (vp_tf v)\<rparr>"

definition on_gesture_change :: "layout \<Rightarrow> jsnum \<Rightarrow> jsnum \<Rightarrow> jsnum \<Rightarrow> viewport \<Rightarrow> viewport" where
  "on_gesture_change ly x y scale v =
     zoom_at ly x y (js_div (js_mul (vp_gs_base v) scale) (tf_scale (vp_tf v))) v"

definition on_gesture_end :: "viewport \<Rightarrow> viewport" where
  "on_gesture_end v = v\<lparr>vp_gesturing := False\<rparr>"

text \<open>\<open>on_bg\<close>: the target is neither an artboard nor an inline editor.\<close>

definition on_pointer_down :: "int \<Rightarrow> int \<Rightarrow> bool \<Rightarrow> jsnum \<Rightarrow> jsnum \<Rightarrow> viewport \<Rightarrow> viewport" where
  "on_pointer_down pid button on_bg x y v =
     (if \<not> (button = 1 \<or> button = 0 \<and> on_bg) then v
      else v\<lparr>vp_drag := Some \<lparr>dg_id = pid, dg_lx = x, dg_ly = y\<rparr>, vp_cursor := ''grabbing''\<rparr>)"

definition on_pointer_move :: "int \<Rightarrow> jsnum \<Rightarrow> jsnum \<Rightarrow> viewport \<Rightarrow> viewport" where
  "on_pointer_move pid x y v =
     (case vp_drag v of
        None \<Rightarrow> v
      | Some d \<Rightarrow>
          if pid \<noteq> dg_id d then v
          else vp_pan (js_add (tf_x (vp_tf v)) (js_sub x (dg_lx d))) (js_add (tf_y (vp_tf v)) (js_sub y (dg_ly d)))
                 (v\<lparr>vp_drag := Some (d\<lparr>dg_lx := x, dg_ly := y\<rparr>)\<rparr>))"

definition on_pointer_up :: "int \<Rightarrow> viewport \<Rightarrow> viewport" where
  "on_pointer_up pid v =
     (case vp_drag v of None \<Rightarrow> v | Some d \<Rightarrow> if pid \<noteq> dg_id d then v else v\<lparr>vp_drag := None, vp_cursor := []\<rparr>)"

definition announce :: "viewport \<Rightarrow> viewport" where
  "announce v = vp_apply (v\<lparr>vp_posts := vp_posts v @ [PostPresent], vp_last := None\<rparr>)"

datatype host_msg = SetZoom jsnum | Probe | OtherMsg

definition on_host_msg :: "layout \<Rightarrow> host_msg \<Rightarrow> viewport \<Rightarrow> viewport" where
  "on_host_msg ly m v =
     (case m of
        SetZoom s \<Rightarrow>
          zoom_at ly (js_add (ly_left ly) (js_div (ly_width ly) (Fin 2)))
            (js_add (ly_top ly) (js_div (ly_height ly) (Fin 2))) (js_div s (tf_scale (vp_tf v))) v
      | Probe \<Rightarrow> announce v
      | OtherMsg \<Rightarrow> v)"

text \<open>
  The bounds change: React runs the effect again. Its listeners and the variables they share are made
  anew, so that a drag and a gesture in progress are forgotten, and the canvas announces itself again.
  Equal bounds (\<open>Object.is\<close>) do nothing. Neither the scale nor the cursor is touched.
\<close>

definition vp_rebind :: "jsnum \<Rightarrow> jsnum \<Rightarrow> viewport \<Rightarrow> viewport" where
  "vp_rebind mn mx v =
     (if mn = vp_min v \<and> mx = vp_max v then v
      else announce (v\<lparr>vp_min := mn, vp_max := mx, vp_gs_base := Fin 1, vp_gesturing := False, vp_drag := None\<rparr>))"

datatype vp_event =
  Wheel layout wheel
| GestureStart
| GestureChange layout jsnum jsnum jsnum
| GestureEnd
| PointerDown int int bool jsnum jsnum
| PointerMove int jsnum jsnum
| PointerUp int
| HostMsg layout host_msg
| SetBounds jsnum jsnum
| VpWait nat
| PageHide

fun vp_step :: "(jsnum \<Rightarrow> jsnum) \<Rightarrow> vp_event \<Rightarrow> viewport \<Rightarrow> viewport" where
  "vp_step expf (Wheel ly e) v = on_wheel expf ly e v"
| "vp_step expf GestureStart v = on_gesture_start v"
| "vp_step expf (GestureChange ly x y s) v = on_gesture_change ly x y s v"
| "vp_step expf GestureEnd v = on_gesture_end v"
| "vp_step expf (PointerDown i b g x y) v = on_pointer_down i b g x y v"
| "vp_step expf (PointerMove i x y) v = on_pointer_move i x y v"
| "vp_step expf (PointerUp i) v = on_pointer_up i v"
| "vp_step expf (HostMsg ly m) v = on_host_msg ly m v"
| "vp_step expf (SetBounds mn mx) v = vp_rebind mn mx v"
| "vp_step expf (VpWait dt) v = vp_elapse dt v"
| "vp_step expf PageHide v = vp_flush v"

text \<open>Mounting: the initial transform, the restored one, and the announcement to the host.\<close>

definition vp_mount :: "jsnum \<Rightarrow> jsnum \<Rightarrow> bool \<Rightarrow> (jsnum option \<times> jsnum option \<times> jsnum option) option \<Rightarrow> viewport" where
  "vp_mount mn mx can store =
     announce (vp_restore \<lparr>vp_tf = \<lparr>tf_x = Fin 0, tf_y = Fin 0, tf_scale = Fin 1\<rparr>, vp_min = mn, vp_max = mx,
       vp_world = ([], []), vp_last = None, vp_posts = [], vp_gs_base = Fin 1, vp_gesturing = False, vp_drag = None,
       vp_cursor = [], vp_save = None, vp_now = 0, vp_can_store = can, vp_store = store\<rparr>)"

subsection \<open>The clamp\<close>

lemma vp_apply_simps [simp]:
  "vp_tf (vp_apply v) = vp_tf v" "vp_min (vp_apply v) = vp_min v" "vp_max (vp_apply v) = vp_max v"
  "vp_gs_base (vp_apply v) = vp_gs_base v" "vp_gesturing (vp_apply v) = vp_gesturing v"
  "vp_drag (vp_apply v) = vp_drag v" "vp_now (vp_apply v) = vp_now v" "vp_store (vp_apply v) = vp_store v"
  "vp_cursor (vp_apply v) = vp_cursor v" "vp_world (vp_apply v) = world_style (vp_tf v)"
  "vp_can_store (vp_apply v) = vp_can_store v"
  "vp_save (vp_apply v) = Some (vp_now v + 200)"
  by (simp_all add: vp_apply_def Let_def)

text \<open>Sensible bounds, and a scale between them.\<close>

definition bounds_ok :: "viewport \<Rightarrow> bool" where
  "bounds_ok v \<longleftrightarrow> is_finite (vp_min v) \<and> is_finite (vp_max v) \<and> 0 < val (vp_min v) \<and> val (vp_min v) \<le> val (vp_max v)"

definition scale_ok :: "viewport \<Rightarrow> bool" where
  "scale_ok v \<longleftrightarrow> is_finite (tf_scale (vp_tf v)) \<and> val (vp_min v) \<le> val (tf_scale (vp_tf v)) \<and>
     val (tf_scale (vp_tf v)) \<le> val (vp_max v)"

lemma clamp_scale_range:
  assumes "bounds_ok v" "s \<noteq> NaN"
  shows "is_finite (clamp_scale v s)" "val (vp_min v) \<le> val (clamp_scale v s)" "val (clamp_scale v s) \<le> val (vp_max v)"
proof -
  have b: "is_finite (vp_min v)" "is_finite (vp_max v)" "val (vp_min v) \<le> val (vp_max v)"
    using assms(1) by (simp_all add: bounds_ok_def)
  have "is_finite (clamp_scale v s) \<and> val (vp_min v) \<le> val (clamp_scale v s) \<and> val (clamp_scale v s) \<le> val (vp_max v)"
  proof (cases "is_finite s")
    case True
    with b show ?thesis by (simp add: clamp_scale_def js_min_finite js_max_finite)
  next
    case False
    with assms(2) consider "s = Inf" | "s = NegInf" by (cases s) auto
    then show ?thesis
    proof cases
      case 1
      then have "js_max (vp_min v) s = Inf" using b(1) by (cases "vp_min v") (auto simp: js_max_def)
      moreover have "js_min (vp_max v) Inf = vp_max v" using b(2) by (cases "vp_max v") (auto simp: js_min_def)
      ultimately show ?thesis using b by (simp add: clamp_scale_def)
    next
      case 2
      then have "js_max (vp_min v) s = vp_min v" using b(1) by (cases "vp_min v") (auto simp: js_max_def)
      then show ?thesis using b by (simp add: clamp_scale_def js_min_finite)
    qed
  qed
  then show "is_finite (clamp_scale v s)" "val (vp_min v) \<le> val (clamp_scale v s)" "val (clamp_scale v s) \<le> val (vp_max v)"
    by simp_all
qed

lemma zoom_at_fields [simp]:
  "tf_scale (vp_tf (zoom_at ly cx cy f v)) = clamp_scale v (js_mul (tf_scale (vp_tf v)) f)"
  "vp_min (zoom_at ly cx cy f v) = vp_min v" "vp_max (zoom_at ly cx cy f v) = vp_max v"
  "vp_gesturing (zoom_at ly cx cy f v) = vp_gesturing v" "vp_gs_base (zoom_at ly cx cy f v) = vp_gs_base v"
  "vp_drag (zoom_at ly cx cy f v) = vp_drag v" "vp_store (zoom_at ly cx cy f v) = vp_store v"
  "vp_cursor (zoom_at ly cx cy f v) = vp_cursor v" "vp_world (zoom_at ly cx cy f v) = world_style (vp_tf (zoom_at ly cx cy f v))"
  by (simp_all add: zoom_at_def Let_def split: option.split prod.split)

lemma js_mul_not_NaN:
  "is_finite a \<Longrightarrow> val a \<noteq> 0 \<Longrightarrow> b \<noteq> NaN \<Longrightarrow> js_mul a b \<noteq> NaN"
  by (cases b) (auto simp: js_mul_def Let_def of_exact_def)

lemma js_div_not_NaN:
  "is_finite b \<Longrightarrow> val b \<noteq> 0 \<Longrightarrow> a \<noteq> NaN \<Longrightarrow> js_div a b \<noteq> NaN"
  by (cases a) (auto simp: js_div_def Let_def of_exact_def)

lemma zoom_at_scale_ok:
  assumes "bounds_ok v" "is_finite (tf_scale (vp_tf v))" "val (tf_scale (vp_tf v)) \<noteq> 0" "f \<noteq> NaN"
  shows "bounds_ok (zoom_at ly cx cy f v) \<and> scale_ok (zoom_at ly cx cy f v)"
proof -
  have "val (tf_scale (vp_tf v)) \<noteq> 0" "is_finite (tf_scale (vp_tf v))"
    using assms(2,3) by simp_all
  then have "js_mul (tf_scale (vp_tf v)) f \<noteq> NaN" using assms(4) js_mul_not_NaN by blast
  from clamp_scale_range [OF assms(1) this] assms(1) show ?thesis
    by (simp add: scale_ok_def bounds_ok_def)
qed

subsection \<open>The readout of the host\<close>

fun readout :: "host_post list \<Rightarrow> jsnum option" where
  "readout [] = None"
| "readout (PostZoom s # r) = (case readout r of None \<Rightarrow> Some s | Some t \<Rightarrow> Some t)"
| "readout (PostPresent # r) = readout r"

lemma readout_append [simp]:
  "readout (ps @ [PostZoom s]) = Some s" "readout (ps @ [PostPresent]) = readout ps"
  by (induction ps rule: readout.induct) auto

text \<open>What the code last posted is what the host shows, unless a post is due.\<close>

definition posted :: "viewport \<Rightarrow> bool" where
  "posted v \<longleftrightarrow> (\<exists>l. vp_last v = Some l \<and> js_eq l (tf_scale (vp_tf v)) \<and> readout (vp_posts v) = Some l)"

lemma posted_apply:
  assumes "vp_last v = None \<or> readout (vp_posts v) = vp_last v" "tf_scale (vp_tf v) \<noteq> NaN"
  shows "posted (vp_apply v)"
  using assms by (auto simp: posted_def vp_apply_def Let_def js_eq_def split: option.splits)

lemma posted_last: "posted v \<Longrightarrow> readout (vp_posts v) = vp_last v"
  by (auto simp: posted_def)

lemma posted_zoom:
  assumes "posted v" "clamp_scale v (js_mul (tf_scale (vp_tf v)) f) \<noteq> NaN"
  shows "posted (zoom_at ly cx cy f v)"
proof -
  have 1: "posted (vp_apply (v\<lparr>vp_tf := t\<rparr>))" if "tf_scale t \<noteq> NaN" for t
    using that posted_last [OF assms(1)] by (intro posted_apply) simp_all
  have 2: "posted (vp_apply (w\<lparr>vp_tf := t\<rparr>))" if "posted w" "tf_scale t \<noteq> NaN" for t w
    using that posted_last [OF that(1)] by (intro posted_apply) simp_all
  show ?thesis
    using assms(2) by (auto simp: zoom_at_def Let_def intro!: 1 2 split: option.split prod.split)
qed

subsection \<open>The invariant\<close>

text \<open>
  \<open>rebound\<close> says that the bounds may have changed since the last zoom: then the scale need not be
  between them, and the cursor may still be that of a drag that was forgotten.
\<close>

definition viewport_ok :: "bool \<Rightarrow> viewport \<Rightarrow> bool" where
  "viewport_ok rebound v \<longleftrightarrow>
     bounds_ok v \<and> is_finite (tf_scale (vp_tf v)) \<and> 0 < val (tf_scale (vp_tf v)) \<and>
     is_finite (vp_gs_base v) \<and> val (vp_gs_base v) \<noteq> 0 \<and> posted v \<and> vp_world v = world_style (vp_tf v) \<and>
     (rebound \<or> scale_ok v \<and> vp_cursor v = (if vp_drag v = None then [] else ''grabbing''))"

text \<open>Events whose numbers are numbers.\<close>

fun event_ok :: "vp_event \<Rightarrow> bool" where
  "event_ok (Wheel ly e) = (wh_dy e \<noteq> NaN)"
| "event_ok (GestureChange ly x y s) = (s \<noteq> NaN)"
| "event_ok (HostMsg ly (SetZoom s)) = (s \<noteq> NaN)"
| "event_ok (SetBounds mn mx) = (is_finite mn \<and> is_finite mx \<and> 0 < val mn \<and> val mn \<le> val mx)"
| "event_ok _ = True"

fun rebinds :: "vp_event \<Rightarrow> bool" where
  "rebinds (SetBounds _ _) = True"
| "rebinds _ = False"

lemma viewport_okD:
  "viewport_ok r v \<Longrightarrow> is_finite (tf_scale (vp_tf v)) \<and> val (tf_scale (vp_tf v)) \<noteq> 0"
  by (auto simp: viewport_ok_def)

lemma scale_ok_pos: "bounds_ok v \<Longrightarrow> scale_ok v \<Longrightarrow> is_finite (tf_scale (vp_tf v)) \<and> 0 < val (tf_scale (vp_tf v))"
  by (auto simp: bounds_ok_def scale_ok_def)

lemma viewport_ok_zoom:
  assumes "viewport_ok r v" "f \<noteq> NaN"
  shows "viewport_ok r (zoom_at ly cx cy f v)"
proof -
  have "js_mul (tf_scale (vp_tf v)) f \<noteq> NaN"
    using viewport_okD [OF assms(1)] assms(2) by (intro js_mul_not_NaN) simp_all
  then have "is_finite (clamp_scale v (js_mul (tf_scale (vp_tf v)) f))"
    using assms(1) by (intro clamp_scale_range) (simp_all add: viewport_ok_def)
  then have "posted (zoom_at ly cx cy f v)"
    using assms(1) by (intro posted_zoom) (auto simp: viewport_ok_def finite_not_NaN)
  moreover have ok: "bounds_ok (zoom_at ly cx cy f v)" "scale_ok (zoom_at ly cx cy f v)"
    using zoom_at_scale_ok [of v f ly cx cy] viewport_okD [OF assms(1)] assms by (simp_all add: viewport_ok_def)
  ultimately show ?thesis
    using scale_ok_pos [OF ok] assms(1) unfolding viewport_ok_def by auto
qed

lemma viewport_ok_pan:
  assumes "viewport_ok r v"
  shows "viewport_ok r (vp_pan x y v)"
    and "vp_drag v = Some d' \<Longrightarrow> viewport_ok r (vp_pan x y (v\<lparr>vp_drag := Some d\<rparr>))"
proof -
  have "posted (vp_apply w)" if "vp_last w = vp_last v" "vp_posts w = vp_posts v"
    "tf_scale (vp_tf w) = tf_scale (vp_tf v)" for w
    using assms that viewport_okD [OF assms] posted_last [of v]
    by (intro posted_apply) (auto simp: viewport_ok_def finite_not_NaN)
  with assms show "viewport_ok r (vp_pan x y v)"
    and "vp_drag v = Some d' \<Longrightarrow> viewport_ok r (vp_pan x y (v\<lparr>vp_drag := Some d\<rparr>))"
    by (auto simp: viewport_ok_def vp_pan_def bounds_ok_def scale_ok_def)
qed

lemma viewport_ok_announce:
  assumes "bounds_ok v" "is_finite (tf_scale (vp_tf v))" "0 < val (tf_scale (vp_tf v))"
    and "is_finite (vp_gs_base v)" "val (vp_gs_base v) \<noteq> 0"
    and "r \<or> scale_ok v \<and> vp_cursor v = (if vp_drag v = None then [] else ''grabbing'')"
  shows "viewport_ok r (announce v)"
proof -
  have "posted (announce v)"
    unfolding announce_def using assms(2) by (intro posted_apply) (auto simp: finite_not_NaN)
  with assms show ?thesis by (auto simp: viewport_ok_def announce_def bounds_ok_def scale_ok_def)
qed

lemma viewport_ok_cong:
  assumes "viewport_ok r v"
    and eq: "vp_tf w = vp_tf v" "vp_min w = vp_min v" "vp_max w = vp_max v" "vp_last w = vp_last v"
      "vp_posts w = vp_posts v" "vp_world w = vp_world v"
    and base: "vp_gs_base w = vp_gs_base v \<or> vp_gs_base w = tf_scale (vp_tf v)"
    and drag: "vp_cursor w = vp_cursor v \<and> vp_drag w = vp_drag v \<or>
      vp_cursor w = (if vp_drag w = None then [] else ''grabbing'')"
  shows "viewport_ok r w"
proof -
  have "is_finite (vp_gs_base w) \<and> val (vp_gs_base w) \<noteq> 0"
    using base assms(1) by (auto simp: viewport_ok_def)
  moreover have "r \<or> scale_ok w \<and> vp_cursor w = (if vp_drag w = None then [] else ''grabbing'')"
    using drag assms(1) by (cases r) (auto simp only: viewport_ok_def scale_ok_def eq)
  ultimately show ?thesis
    using assms(1) by (simp add: viewport_ok_def bounds_ok_def posted_def eq)
qed

lemma fl_hundredth: "fl (1 / 100) \<noteq> 0" "fl (18 / 100) \<noteq> 0"
proof -
  have "is_dbl (1 / 128)" unfolding is_dbl_def by (rule exI [of _ 1], rule exI [of _ "-7"]) simp
  then have "1 / 128 \<le> fl (1 / 100)" "1 / 128 \<le> fl (18 / 100)"
    by (rule b64.rnd_ge, simp)+
  then show "fl (1 / 100) \<noteq> 0" "fl (18 / 100) \<noteq> 0" by auto
qed

lemma wheel_factor_not_NaN:
  assumes "\<And>x. x \<noteq> NaN \<Longrightarrow> expf x \<noteq> NaN" "d \<noteq> NaN"
  shows "expf (js_mul (js_neg d) (Fin (fl (1 / 100)))) \<noteq> NaN"
    and "expf (js_mul (js_neg (js_sign d)) (Fin (fl (18 / 100)))) \<noteq> NaN"
proof -
  have n: "js_neg d \<noteq> NaN" "js_neg (js_sign d) \<noteq> NaN" using assms(2) by (cases d; simp)+
  have "js_mul a (Fin q) \<noteq> NaN" if "a \<noteq> NaN" "q \<noteq> 0" for a q
    using that by (cases a) (auto simp: js_mul_def Let_def of_exact_def)
  with n fl_hundredth show "expf (js_mul (js_neg d) (Fin (fl (1 / 100)))) \<noteq> NaN"
    and "expf (js_mul (js_neg (js_sign d)) (Fin (fl (18 / 100)))) \<noteq> NaN"
    by (simp_all add: assms(1))
qed

lemma viewport_ok_step:
  assumes "viewport_ok r v" "event_ok e" "\<And>x. x \<noteq> NaN \<Longrightarrow> expf x \<noteq> NaN" "r \<or> \<not> rebinds e"
  shows "viewport_ok r (vp_step expf e v)"
proof (cases e)
  case (Wheel ly w)
  have n: "wh_dy w \<noteq> NaN" using assms(2) Wheel by simp
  note f = wheel_factor_not_NaN [of expf, OF assms(3) n]
  show ?thesis
    using assms(1) viewport_ok_zoom [OF assms(1) f(1)] viewport_ok_zoom [OF assms(1) f(2)]
      viewport_ok_pan [OF assms(1)]
    by (simp add: Wheel on_wheel_def)
next
  case (GestureChange ly x y s)
  have "js_mul (vp_gs_base v) s \<noteq> NaN"
    using assms(1,2) GestureChange by (intro js_mul_not_NaN) (simp_all add: viewport_ok_def)
  then have "js_div (js_mul (vp_gs_base v) s) (tf_scale (vp_tf v)) \<noteq> NaN"
    using viewport_okD [OF assms(1)] by (intro js_div_not_NaN) simp_all
  then show ?thesis
    by (simp add: GestureChange on_gesture_change_def viewport_ok_zoom [OF assms(1)])
next
  case (HostMsg ly m)
  show ?thesis
  proof (cases m)
    case (SetZoom s)
    then have "js_div s (tf_scale (vp_tf v)) \<noteq> NaN"
      using viewport_okD [OF assms(1)] assms(2) HostMsg by (intro js_div_not_NaN) simp_all
    then show ?thesis
      by (simp add: HostMsg SetZoom on_host_msg_def viewport_ok_zoom [OF assms(1)])
  next
    case Probe
    then show ?thesis
      using assms(1) viewport_ok_announce [of v r] by (simp add: HostMsg on_host_msg_def) (simp add: viewport_ok_def)
  next
    case OtherMsg
    then show ?thesis using assms(1) by (simp add: HostMsg on_host_msg_def)
  qed
next
  case (SetBounds mn mx)
  have "viewport_ok r (announce (v\<lparr>vp_min := mn, vp_max := mx, vp_gs_base := Fin 1, vp_gesturing := False, vp_drag := None\<rparr>))"
    using assms(1,2,4) SetBounds by (intro viewport_ok_announce) (auto simp: viewport_ok_def bounds_ok_def)
  with assms(1) show ?thesis by (simp add: SetBounds vp_rebind_def)
next
  case (PointerMove i x y)
  then show ?thesis
    using assms(1) viewport_ok_pan [OF assms(1)] by (simp add: on_pointer_move_def split: option.split)
next
  case (VpWait dt)
  then show ?thesis
    using viewport_ok_cong [OF assms(1)]
    by (simp add: vp_elapse_def vp_write_def Let_def split: option.split)
qed (use viewport_ok_cong [OF assms(1)] assms(1) in
      \<open>simp_all add: on_gesture_start_def on_gesture_end_def on_pointer_down_def on_pointer_up_def
        vp_flush_def vp_write_def split: option.split\<close>)

lemma viewport_ok_run:
  assumes "viewport_ok r v" "list_all event_ok es" "\<And>x. x \<noteq> NaN \<Longrightarrow> expf x \<noteq> NaN" "r \<or> list_all (\<lambda>e. \<not> rebinds e) es"
  shows "viewport_ok r (fold (vp_step expf) es v)"
  using assms(1,2,4)
  by (induction es arbitrary: v) (auto simp: viewport_ok_step assms(3))

subsection \<open>Mounting\<close>

definition zoom_bounds :: "jsnum \<Rightarrow> jsnum \<Rightarrow> bool" where
  "zoom_bounds mn mx \<longleftrightarrow> is_finite mn \<and> is_finite mx \<and> 0 < val mn \<and> val mn \<le> 1 \<and> 1 \<le> val mx"

lemma viewport_ok_mount: "zoom_bounds mn mx \<Longrightarrow> viewport_ok r (vp_mount mn mx can store)"
  unfolding vp_mount_def
  by (rule viewport_ok_announce)
    (auto simp: vp_restore_def bounds_ok_def scale_ok_def zoom_bounds_def clamp_scale_def js_min_finite
      js_max_finite split: option.split prod.split)

subsection \<open>Properties of the viewport\<close>

text \<open>
  C18. From the saved transform of any earlier session, after any run of wheel, gesture, pointer and
  host events and changes of the bounds whose numbers are not \<open>NaN\<close>, the scale is finite and positive,
  the last scale posted to the host and the styles of the world are those of the transform; and as long
  as the bounds have not changed, the scale is between them and the grabbing cursor is shown exactly
  during a drag.
\<close>

theorem viewport_invariant:
  assumes "zoom_bounds mn mx" "list_all event_ok es" "\<And>x. x \<noteq> NaN \<Longrightarrow> expf x \<noteq> NaN"
    and "v = fold (vp_step expf) es (vp_mount mn mx can store)"
  shows "is_finite (tf_scale (vp_tf v)) \<and> 0 < val (tf_scale (vp_tf v)) \<and>
    readout (vp_posts v) = Some (tf_scale (vp_tf v)) \<and> vp_world v = world_style (vp_tf v) \<and>
    (list_all (\<lambda>e. \<not> rebinds e) es \<longrightarrow>
       val (vp_min v) \<le> val (tf_scale (vp_tf v)) \<and> val (tf_scale (vp_tf v)) \<le> val (vp_max v) \<and>
       (vp_cursor v = ''grabbing'' \<longleftrightarrow> vp_drag v \<noteq> None))"
proof -
  have ok: "viewport_ok r v" if "r \<or> list_all (\<lambda>e. \<not> rebinds e) es" for r
    unfolding assms(4) using that by (intro viewport_ok_run viewport_ok_mount assms(1-3))
  have live: "viewport_ok True v" by (rule ok) simp
  then obtain l where l: "readout (vp_posts v) = Some l" "js_eq l (tf_scale (vp_tf v))"
    by (auto simp: viewport_ok_def posted_def)
  have "l = tf_scale (vp_tf v)"
    using l(2) viewport_okD [OF live] by (cases l; cases "tf_scale (vp_tf v)") (auto simp: js_eq_def)
  with live l(1) ok [of False] show ?thesis by (auto simp: viewport_ok_def scale_ok_def)
qed

text \<open>
  C32. Where the storage can be written, leaving the page stores the transform, and a page mounted from
  the store has the same transform, whatever was still waiting for the debounce.
\<close>

theorem viewport_restored:
  assumes "is_finite (tf_x (vp_tf v))" "is_finite (tf_y (vp_tf v))" "scale_ok v"
    and "w = vp_mount (vp_min v) (vp_max v) can (vp_store (vp_flush v))"
    and "bounds_ok v" "vp_can_store v"
  shows "val (tf_x (vp_tf w)) = val (tf_x (vp_tf v)) \<and> val (tf_y (vp_tf w)) = val (tf_y (vp_tf v)) \<and>
    val (tf_scale (vp_tf w)) = val (tf_scale (vp_tf v))"
proof -
  have j: "\<exists>b. json_num a = Some b \<and> is_finite b \<and> val b = val a" if "is_finite a" for a
    using that by (cases a) auto
  obtain x y s where
    j3: "json_num (tf_x (vp_tf v)) = Some x" "json_num (tf_y (vp_tf v)) = Some y" "json_num (tf_scale (vp_tf v)) = Some s"
    and f: "is_finite x" "is_finite y" "is_finite s"
    and e: "val x = val (tf_x (vp_tf v))" "val y = val (tf_y (vp_tf v))" "val s = val (tf_scale (vp_tf v))"
    using j assms(1-3) unfolding scale_ok_def by metis
  have "val (js_min (vp_max v) (js_max (vp_min v) s)) = val s"
    using assms(3,5) e(3) f(3) by (simp add: js_min_finite js_max_finite bounds_ok_def scale_ok_def)
  then show ?thesis
    by (simp add: assms(4) vp_mount_def announce_def vp_restore_def vp_flush_def vp_write_def j3 f e clamp_scale_def assms(6))
qed

text \<open>
  C33. A zoom message from the host whose scale is \<open>NaN\<close>, which the handler's type test lets through,
  makes the scale \<open>NaN\<close>, and no later event of any kind makes it a number again.
\<close>

theorem nan_zoom_sticks:
  "tf_scale (vp_tf (fold (vp_step expf) es (on_host_msg ly (SetZoom NaN) v))) = NaN"
proof -
  have n: "js_mul NaN a = NaN" "js_mul a NaN = NaN" "js_div NaN a = NaN" "clamp_scale u NaN = NaN" for a u
    by (simp_all add: js_mul_def js_div_def clamp_scale_def js_min_def js_max_def Let_def)
  have 0: "tf_scale (vp_tf (on_host_msg ly (SetZoom NaN) v)) = NaN"
    by (simp add: on_host_msg_def n)
  have step: "tf_scale (vp_tf (vp_step expf e u)) = NaN" if "tf_scale (vp_tf u) = NaN" for e u
    using that
    by (cases e) (auto simp: on_wheel_def on_gesture_start_def on_gesture_change_def on_gesture_end_def
        on_pointer_down_def on_pointer_move_def on_pointer_up_def on_host_msg_def announce_def vp_pan_def
        vp_elapse_def vp_flush_def vp_write_def vp_rebind_def Let_def n split: option.split host_msg.split)
  have "tf_scale (vp_tf (fold (vp_step expf) es u)) = NaN" if "tf_scale (vp_tf u) = NaN" for u
    using that by (induction es arbitrary: u) (simp_all add: step)
  with 0 show ?thesis by blast
qed

text \<open>
  Between the start and the end of a pinch gesture no wheel event changes anything, and a
  pointer other than the one that started a drag neither moves nor ends it.
\<close>

theorem gesture_owns_wheel:
  "on_wheel expf ly e (on_gesture_start v) = on_gesture_start v \<and>
   (vp_drag v = Some d \<and> pid \<noteq> dg_id d \<longrightarrow>
      on_pointer_move pid x y v = v \<and> on_pointer_up pid v = v)"
  by (auto simp: on_wheel_def on_gesture_start_def on_pointer_move_def on_pointer_up_def)

subsection \<open>An instance\<close>

definition demo_layout :: layout where
  "demo_layout = \<lparr>ly_left = Fin 0, ly_top = Fin 0, ly_width = Fin 800, ly_height = Fin 600, ly_marker = None\<rparr>"

definition demo_view :: viewport where
  "demo_view = vp_mount (Fin (1 / 8)) (Fin 8) True None"

lemma demo_view_ok: "vp_can_store demo_view" "bounds_ok demo_view" "scale_ok demo_view" "vp_tf demo_view = \<lparr>tf_x = Fin 0, tf_y = Fin 0, tf_scale = Fin 1\<rparr>"
  by (simp_all add: demo_view_def vp_mount_def vp_restore_def announce_def bounds_ok_def scale_ok_def)

theorem viewport_invariant_witness:
  "val (tf_scale (vp_tf (fold (vp_step (\<lambda>_. Fin 20)) [HostMsg demo_layout (SetZoom Inf), GestureStart, PointerDown 1 1 True (Fin 0) (Fin 0)]
      (vp_mount (Fin (1 / 8)) (Fin 8) True None)))) \<le>
   val (vp_max (fold (vp_step (\<lambda>_. Fin 20)) [HostMsg demo_layout (SetZoom Inf), GestureStart, PointerDown 1 1 True (Fin 0) (Fin 0)]
      (vp_mount (Fin (1 / 8)) (Fin 8) True None)))"
  using viewport_invariant [OF _ _ _ refl, of "Fin (1 / 8)" "Fin 8"
      "[HostMsg demo_layout (SetZoom Inf), GestureStart, PointerDown 1 1 True (Fin 0) (Fin 0)]" "\<lambda>_. Fin 20" True None]
  by (simp add: zoom_bounds_def del: vp_step.simps)

theorem viewport_restored_witness:
  "val (tf_scale (vp_tf (vp_mount (vp_min demo_view) (vp_max demo_view) True (vp_store (vp_flush demo_view))))) = 1"
  using viewport_restored [of demo_view, OF _ _ demo_view_ok(3) refl demo_view_ok(2,1), of True]
  by (simp add: demo_view_ok(4))

theorem gesture_owns_wheel_witness:
  "on_pointer_up 2 (demo_view\<lparr>vp_drag := Some \<lparr>dg_id = 1, dg_lx = Fin 0, dg_ly = Fin 0\<rparr>\<rparr>) =
     demo_view\<lparr>vp_drag := Some \<lparr>dg_id = 1, dg_lx = Fin 0, dg_ly = Fin 0\<rparr>\<rparr>"
  using gesture_owns_wheel [of _ _ _ _ "\<lparr>dg_id = 1, dg_lx = Fin 0, dg_ly = Fin 0\<rparr>" 2] by simp

end
