(* ===== verification/Canvas_Zoom.thy ===== *)
theory Canvas_Zoom
  imports Canvas_Viewport
begin

text \<open>
  What zooming is for: the point of the world under the cursor stays under it, and the marker - the
  artboard or the section that was hit - stays where a pure zoom would put it although the layout moves
  when the scale changes. The arithmetic is binary64, so both hold up to a rounding error, which is
  bounded here for coordinates of up to \<open>2 ^ 24\<close> pixels and bounds whose ratio is at most 256.
\<close>

subsection \<open>Errors of the operations\<close>

lemma fl_error_upto:
  assumes "\<bar>x\<bar> \<le> b" "1 \<le> b"
  shows "\<bar>fl x - x\<bar> \<le> b / 2 ^ 53"
proof (cases "2 powi (-1022) \<le> \<bar>x\<bar>")
  case True
  then have "\<bar>fl x - x\<bar> \<le> \<bar>x\<bar> / 2 ^ 53" by (rule fl_error)
  also have "\<dots> \<le> b / 2 ^ 53" using assms(1) by (simp add: divide_right_mono)
  finally show ?thesis .
next
  case False
  have "(2 powi (-1022) :: rat) \<le> 2 powi (-53)" by (rule power_int_increasing) simp_all
  also have "\<dots> = 1 / 2 ^ 53" by (simp only: power_int_minus power_int_numeral inverse_eq_divide)
  also have "\<dots> \<le> b / 2 ^ 53" using assms(2) by (rule divide_right_mono) simp
  finally have tiny: "(2 powi (-1022) :: rat) \<le> b / 2 ^ 53" .
  have "\<bar>fl x - x\<bar> \<le> \<bar>0 - x\<bar>" by (rule fl_nearest) (rule is_dbl_zero)
  also have "\<dots> = \<bar>x\<bar>" by simp
  also have "\<dots> \<le> 2 powi (-1022)" using False by (simp only: not_le less_imp_le)
  finally show ?thesis using tiny by (rule order_trans)
qed

lemma rounded_size: "\<bar>x\<bar> \<le> b \<Longrightarrow> \<bar>y - x\<bar> \<le> e \<Longrightarrow> e \<le> b \<Longrightarrow> \<bar>y\<bar> \<le> 2 * b" for x y b e :: rat
  by linarith

text \<open>A number of a known size: finite, a value of the language, and not beyond \<open>b\<close>.\<close>

definition sized :: "rat \<Rightarrow> jsnum \<Rightarrow> bool" where
  "sized b a \<longleftrightarrow> is_finite a \<and> wf_num a \<and> \<bar>val a\<bar> \<le> b"

lemma sized_sub:
  assumes "sized a x" "sized b y" "1 \<le> a" "1 \<le> b" "a + b \<le> 2 ^ 100"
  shows "sized (2 * (a + b)) (js_sub x y)" "\<bar>val (js_sub x y) - (val x - val y)\<bar> \<le> (a + b) / 2 ^ 53"
proof -
  have le: "\<bar>val x - val y\<bar> \<le> a + b" using assms(1,2) by (simp add: sized_def abs_le_iff)
  also have "(2 :: rat) ^ 100 \<le> dbl_safe" by (rule le_dbl_safe) simp
  ultimately have safe: "\<bar>val x - val y\<bar> \<le> dbl_safe" using assms(5) by linarith
  note f = js_sub_finite [of x y, OF _ _ _ _ safe]
  have v: "is_finite (js_sub x y)" "val (js_sub x y) = fl (val x - val y)"
    using assms(1,2) by (auto simp: sized_def intro: f)
  have err: "\<bar>fl (val x - val y) - (val x - val y)\<bar> \<le> (a + b) / 2 ^ 53"
    by (rule fl_error_upto [OF le]) (use assms(3,4) in simp)
  then show "\<bar>val (js_sub x y) - (val x - val y)\<bar> \<le> (a + b) / 2 ^ 53" by (simp add: v(2))
  have "(a + b) / 2 ^ 53 \<le> a + b" using assms(3,4) by (simp add: field_simps)
  with le err have "\<bar>fl (val x - val y)\<bar> \<le> 2 * (a + b)" by (rule rounded_size)
  with v assms(1,2) show "sized (2 * (a + b)) (js_sub x y)" by (simp add: sized_def)
qed

lemma sized_mul:
  assumes "sized a x" "sized b y" "1 \<le> a" "1 \<le> b" "a * b \<le> 2 ^ 100"
  shows "sized (2 * (a * b)) (js_mul x y)" "\<bar>val (js_mul x y) - val x * val y\<bar> \<le> a * b / 2 ^ 53"
proof -
  have le: "\<bar>val x * val y\<bar> \<le> a * b"
    using assms(1-4) by (simp add: sized_def abs_mult mult_mono)
  also have "(2 :: rat) ^ 100 \<le> dbl_safe" by (rule le_dbl_safe) simp
  ultimately have safe: "\<bar>val x * val y\<bar> \<le> dbl_safe" using assms(5) by linarith
  have v: "is_finite (js_mul x y)" "val (js_mul x y) = fl (val x * val y)"
    using js_mul_finite [of x y, OF _ _ safe] assms(1,2) by (auto simp: sized_def)
  have pos: "1 \<le> a * b" using mult_mono [of 1 a 1 b] assms(3,4) by simp
  have err: "\<bar>fl (val x * val y) - val x * val y\<bar> \<le> a * b / 2 ^ 53"
    by (rule fl_error_upto [OF le pos])
  then show "\<bar>val (js_mul x y) - val x * val y\<bar> \<le> a * b / 2 ^ 53" by (simp add: v(2))
  have "a * b / 2 ^ 53 \<le> a * b" using pos by (simp add: field_simps)
  with le err have "\<bar>fl (val x * val y)\<bar> \<le> 2 * (a * b)" by (rule rounded_size)
  with v show "sized (2 * (a * b)) (js_mul x y)" by (simp add: sized_def)
qed

lemma sized_neg [simp]: "sized b (js_neg a) = sized b a"
  by (cases a) (auto simp: sized_def is_dbl_zero dest: is_dbl_minus)

lemma js_neg_neg [simp]: "js_neg (js_neg a) = a"
  by (cases a) auto

lemma sized_add:
  assumes "sized a x" "sized b y" "1 \<le> a" "1 \<le> b" "a + b \<le> 2 ^ 100"
  shows "sized (2 * (a + b)) (js_add x y)" "\<bar>val (js_add x y) - (val x + val y)\<bar> \<le> (a + b) / 2 ^ 53"
  using sized_sub [of a x b "js_neg y"] assms by (simp_all add: js_sub_def)

lemma sized_mono: "sized a x \<Longrightarrow> a \<le> b \<Longrightarrow> sized b x"
  by (auto simp: sized_def)

subsection \<open>Zooming about a point\<close>

text \<open>The distance of two coordinates, scaled: \<open>(a - b) * k\<close>, with \<open>k\<close> close to the ratio \<open>q\<close> of the scales.\<close>

lemma scaled_distance:
  assumes "sized (2 ^ 24) a" "sized (2 ^ 24) b" "sized 512 k" "\<bar>val k - q\<bar> \<le> 256 / 2 ^ 53" "0 \<le> q" "q \<le> 256"
  shows "sized (2 ^ 36) (js_mul (js_sub a b) k)"
    and "\<bar>val (js_mul (js_sub a b) k) - (val a - val b) * q\<bar> \<le> 2 ^ 36 / 2 ^ 53"
proof -
  let ?d = "js_sub a b"
  have d: "sized (2 ^ 26) ?d" "\<bar>val ?d - (val a - val b)\<bar> \<le> 2 ^ 25 / 2 ^ 53"
    using sized_sub [OF assms(1,2)] by simp_all
  show "sized (2 ^ 36) (js_mul ?d k)"
    using sized_mul(1) [OF d(1) assms(3)] by simp
  have 1: "\<bar>val (js_mul ?d k) - val ?d * val k\<bar> \<le> 2 ^ 35 / 2 ^ 53"
    using sized_mul(2) [OF d(1) assms(3)] by simp
  have "\<bar>val ?d * (val k - q)\<bar> \<le> 2 ^ 26 * (256 / 2 ^ 53)"
    unfolding abs_mult using d(1) assms(4) by (intro mult_mono) (simp_all add: sized_def)
  moreover have "\<bar>(val ?d - (val a - val b)) * q\<bar> \<le> 2 ^ 25 / 2 ^ 53 * 256"
    unfolding abs_mult using d(2) assms(5,6) by (intro mult_mono) simp_all
  moreover have "val (js_mul ?d k) - (val a - val b) * q =
      (val (js_mul ?d k) - val ?d * val k) + val ?d * (val k - q) + (val ?d - (val a - val b)) * q"
    by (simp add: algebra_simps)
  ultimately have "\<bar>val (js_mul ?d k) - (val a - val b) * q\<bar> \<le> 2 ^ 35 / 2 ^ 53 + 2 ^ 26 * (256 / 2 ^ 53) + 2 ^ 25 / 2 ^ 53 * 256"
    using 1 by linarith
  then show "\<bar>val (js_mul ?d k) - (val a - val b) * q\<bar> \<le> 2 ^ 36 / 2 ^ 53" by simp
qed

lemma zoom_axis:
  assumes "sized (2 ^ 24) p" "sized (2 ^ 24) t" "sized 512 k" "\<bar>val k - q\<bar> \<le> 256 / 2 ^ 53" "0 \<le> q" "q \<le> 256"
    and "x = js_sub p (js_mul (js_sub p t) k)"
  shows "sized (2 ^ 38) x" "\<bar>val x - (val p - (val p - val t) * q)\<bar> \<le> 2 ^ 38 / 2 ^ 53"
proof -
  note m = scaled_distance [OF assms(1,2,3-6)]
  note x = sized_sub [OF assms(1) m(1)]
  show "sized (2 ^ 38) x" unfolding assms(7) by (rule sized_mono [OF x(1)]) simp_all
  have "\<bar>val x - (val p - val (js_mul (js_sub p t) k))\<bar> \<le> (2 ^ 24 + 2 ^ 36) / 2 ^ 53"
    unfolding assms(7) by (rule x(2)) simp_all
  then have "\<bar>val x - (val p - (val p - val t) * q)\<bar> \<le> (2 ^ 24 + 2 ^ 36) / 2 ^ 53 + 2 ^ 36 / 2 ^ 53"
    using m(2) by linarith
  then show "\<bar>val x - (val p - (val p - val t) * q)\<bar> \<le> 2 ^ 38 / 2 ^ 53" by simp
qed

text \<open>The place where a pure zoom about \<open>c\<close> puts what was at \<open>y\<close>, when the scales are \<open>s\<close> and \<open>s'\<close>.\<close>

definition zoomed :: "rat \<Rightarrow> rat \<Rightarrow> rat \<Rightarrow> rat \<Rightarrow> rat" where
  "zoomed c s s' y = c + (y - c) * (s' / s)"

lemma drift_size:
  assumes "sized (2 ^ 24) c" "sized (2 ^ 24) y0" "sized (2 ^ 24) y1" "sized 512 k"
    and "\<bar>val k - s' / s\<bar> \<le> 256 / 2 ^ 53" "0 \<le> s' / s" "s' / s \<le> 256"
    and "d = js_sub y1 (js_add c (js_mul (js_sub y0 c) k))"
  shows "sized (2 ^ 40) d" "\<bar>val d - (val y1 - zoomed (val c) s s' (val y0))\<bar> \<le> 2 ^ 40 / 2 ^ 53"
proof -
  note m = scaled_distance [OF assms(2,1,4-7)]
  note t = sized_add [OF assms(1) m(1)]
  have t1: "sized (2 ^ 38) (js_add c (js_mul (js_sub y0 c) k))" by (rule sized_mono [OF t(1)]) simp_all
  note d = sized_sub [OF assms(3) t1]
  show "sized (2 ^ 40) d" unfolding assms(8) by (rule sized_mono [OF d(1)]) simp_all
  have "\<bar>val (js_add c (js_mul (js_sub y0 c) k)) - (val c + val (js_mul (js_sub y0 c) k))\<bar> \<le> (2 ^ 24 + 2 ^ 36) / 2 ^ 53"
    by (rule t(2)) simp_all
  moreover have "\<bar>val d - (val y1 - val (js_add c (js_mul (js_sub y0 c) k)))\<bar> \<le> (2 ^ 24 + 2 ^ 38) / 2 ^ 53"
    unfolding assms(8) by (rule d(2)) simp_all
  ultimately have "\<bar>val d - (val y1 - zoomed (val c) s s' (val y0))\<bar>
      \<le> (2 ^ 24 + 2 ^ 38) / 2 ^ 53 + (2 ^ 24 + 2 ^ 36) / 2 ^ 53 + 2 ^ 36 / 2 ^ 53"
    using m(2) unfolding zoomed_def by linarith
  then show "\<bar>val d - (val y1 - zoomed (val c) s s' (val y0))\<bar> \<le> 2 ^ 40 / 2 ^ 53" by simp
qed

text \<open>The factor \<open>k\<close> of a zoom.\<close>

lemma zoom_ratio:
  assumes "bounds_ok v" "scale_ok v" "val (vp_max v) \<le> 256 * val (vp_min v)"
    and "is_finite n" "val (vp_min v) \<le> val n" "val n \<le> val (vp_max v)"
    and "k = js_div n (tf_scale (vp_tf v))" "q = val n / val (tf_scale (vp_tf v))"
  shows "sized 512 k" "\<bar>val k - q\<bar> \<le> 256 / 2 ^ 53" "0 \<le> q" "q \<le> 256"
proof -
  let ?s = "tf_scale (vp_tf v)"
  have s: "is_finite ?s" "0 < val ?s" "val (vp_min v) \<le> val ?s" "0 < val (vp_min v)"
    using assms(1,2) by (auto simp: bounds_ok_def scale_ok_def)
  show q0: "0 \<le> q" using s assms(5,8) by simp
  have "val n \<le> 256 * val ?s" using assms(3,6) s(3) by linarith
  then show q1: "q \<le> 256" using s(2) assms(8) by (simp add: pos_divide_le_eq mult.commute)
  have "\<bar>q\<bar> \<le> 256" using q0 q1 by simp
  note e = fl_error_upto [OF this]
  have "(256 :: rat) \<le> dbl_safe" by (rule le_dbl_safe) simp
  then have safe: "\<bar>val n / val ?s\<bar> \<le> dbl_safe" using q0 q1 assms(8) by simp
  have k: "is_finite k" "val k = fl q"
    using js_div_finite [OF assms(4) s(1) _ safe] s(2) assms(7,8) by simp_all
  show "\<bar>val k - q\<bar> \<le> 256 / 2 ^ 53" using e by (simp add: k(2))
  have "\<bar>fl q\<bar> \<le> 2 * 256" by (rule rounded_size [OF _ e]) (use q0 q1 in simp_all)
  then have "\<bar>fl q\<bar> \<le> 512" by simp
  then show "sized 512 k" using k assms(7) by (simp add: sized_def)
qed

subsection \<open>The property\<close>

text \<open>Where on the screen the point of the world is that was at \<open>p\<close> before a zoom: the world starts at \<open>t\<close>.\<close>

definition carried :: "rat \<Rightarrow> rat \<Rightarrow> rat \<Rightarrow> rat \<Rightarrow> rat \<Rightarrow> rat" where
  "carried p t s t' s' = t' + s' * ((p - t) / s)"

definition layout_sized :: "layout \<Rightarrow> bool" where
  "layout_sized ly \<longleftrightarrow> (case ly_marker ly of None \<Rightarrow> True | Some (y0, y1) \<Rightarrow> sized (2 ^ 24) y0 \<and> sized (2 ^ 24) y1)"

lemma fl_tenth: "fl (1 / 10) \<le> 1 / 10 + 1 / 2 ^ 53"
proof -
  have "\<bar>fl (1 / 10) - 1 / 10\<bar> \<le> 1 / 2 ^ 53" by (rule fl_error_upto) simp_all
  then show ?thesis by linarith
qed

lemma zoom_at_parts:
  assumes "n = clamp_scale v (js_mul (tf_scale (vp_tf v)) f)" "k = js_div n (tf_scale (vp_tf v))"
    and "px = js_sub cx (ly_left ly)" "py = js_sub cy (ly_top ly)"
    and "y1 = js_sub py (js_mul (js_sub py (tf_y (vp_tf v))) k)"
    and "v' = zoom_at ly cx cy f v"
  shows "tf_x (vp_tf v') = js_sub px (js_mul (js_sub px (tf_x (vp_tf v))) k)" "tf_scale (vp_tf v') = n"
    and "tf_y (vp_tf v') =
      (case (if js_eq k (Fin 1) then None else ly_marker ly) of
         None \<Rightarrow> y1
       | Some (a, b) \<Rightarrow>
           let d = js_sub b (js_add cy (js_mul (js_sub a cy) k))
           in if js_lt (Fin (fl (1 / 10))) (js_abs d) then js_sub y1 d else y1)"
  using assms by (simp_all add: zoom_at_def Let_def split: option.split prod.split)

text \<open>
  C10. Zooming about a point, by wheel, gesture or host message, leaves the point of the world that
  was under the cursor under it, within a thousandth of a pixel, horizontally always and vertically
  unless an artboard or a section was hit; then that one ends within 101 thousandths of a pixel of
  where a pure zoom would put it, although the layout moved. For coordinates up to \<open>2 ^ 24\<close> pixels.
\<close>

theorem zoom_keeps_cursor:
  assumes "bounds_ok v" "scale_ok v" "val (vp_max v) \<le> 256 * val (vp_min v)" "f \<noteq> NaN"
    and "px = js_sub cx (ly_left ly)" "py = js_sub cy (ly_top ly)" "layout_sized ly"
    and "list_all (sized (2 ^ 24)) [px, py, cy, tf_x (vp_tf v), tf_y (vp_tf v)]"
    and "v' = zoom_at ly cx cy f v" "s = val (tf_scale (vp_tf v))" "s' = val (tf_scale (vp_tf v'))"
    and "w = zoom_at (ly\<lparr>ly_marker := None\<rparr>) cx cy f v"
  shows "\<bar>carried (val px) (val (tf_x (vp_tf v))) s (val (tf_x (vp_tf v'))) s' - val px\<bar> \<le> 1 / 1000 \<and>
    \<bar>carried (val py) (val (tf_y (vp_tf v))) s (val (tf_y (vp_tf w))) s' - val py\<bar> \<le> 1 / 1000 \<and>
    (case ly_marker ly of
       None \<Rightarrow> v' = w
     | Some (y0, y1) \<Rightarrow>
         js_eq (js_div (tf_scale (vp_tf v')) (tf_scale (vp_tf v))) (Fin 1) \<or>
         \<bar>val y1 + (val (tf_y (vp_tf v')) - val (tf_y (vp_tf w))) - zoomed (val cy) s s' (val y0)\<bar> \<le> 101 / 1000)"
proof -
  define n where "n = clamp_scale v (js_mul (tf_scale (vp_tf v)) f)"
  define k where "k = js_div n (tf_scale (vp_tf v))"
  define y where "y = js_sub py (js_mul (js_sub py (tf_y (vp_tf v))) k)"
  have s: "is_finite (tf_scale (vp_tf v))" "0 < s" using scale_ok_pos [OF assms(1,2)] assms(10) by simp_all
  then have "js_mul (tf_scale (vp_tf v)) f \<noteq> NaN" using assms(4,10) by (intro js_mul_not_NaN) simp_all
  note n = clamp_scale_range [OF assms(1) this, folded n_def]
  note k = zoom_ratio [OF assms(1-3) n k_def refl, folded assms(10)]
  note pv = zoom_at_parts [OF n_def k_def assms(5,6) y_def assms(9)]
  have pw: "tf_y (vp_tf w) = y"
    using zoom_at_parts(3) [OF n_def k_def refl refl refl assms(12)] assms(6) by (simp add: y_def)
  have s': "s' = val n" by (simp add: assms(11) pv(2))
  have size: "sized (2 ^ 24) px" "sized (2 ^ 24) py" "sized (2 ^ 24) cy" "sized (2 ^ 24) (tf_x (vp_tf v))"
    "sized (2 ^ 24) (tf_y (vp_tf v))" using assms(8) by simp_all
  have carry: "carried p t s u s' - p = u - (p - (p - t) * (s' / s))" for p t u
    by (simp add: carried_def algebra_simps)
  note ax = zoom_axis [OF size(1,4) k pv(1)] and ay = zoom_axis [OF size(2,5) k y_def]
  have small: "(2 ^ 38 / 2 ^ 53 :: rat) \<le> 1 / 1000" by simp
  have 1: "\<bar>carried (val px) (val (tf_x (vp_tf v))) s (val (tf_x (vp_tf v'))) s' - val px\<bar> \<le> 1 / 1000"
    unfolding carry unfolding s' using ax(2) small by (rule order_trans)
  have 2: "\<bar>carried (val py) (val (tf_y (vp_tf v))) s (val (tf_y (vp_tf w))) s' - val py\<bar> \<le> 1 / 1000"
    unfolding carry unfolding s' pw using ay(2) small by (rule order_trans)
  have 3: "\<bar>val b + (val (tf_y (vp_tf v')) - val y) - zoomed (val cy) s s' (val a)\<bar> \<le> 101 / 1000"
    if m: "ly_marker ly = Some (a, b)" and ne: "\<not> js_eq k (Fin 1)" for a b
  proof -
    define d where "d = js_sub b (js_add cy (js_mul (js_sub a cy) k))"
    have ab: "sized (2 ^ 24) a" "sized (2 ^ 24) b" using assms(7) m by (simp_all add: layout_sized_def)
    note d = drift_size [OF size(3) ab k d_def, folded s']
    have v': "tf_y (vp_tf v') = (if js_lt (Fin (fl (1 / 10))) (js_abs d) then js_sub y d else y)"
      using pv(3) m ne by (simp add: d_def Let_def)
    show ?thesis
    proof (cases "js_lt (Fin (fl (1 / 10))) (js_abs d)")
      case True
      have "\<bar>val (js_sub y d) - (val y - val d)\<bar> \<le> (2 ^ 38 + 2 ^ 40) / 2 ^ 53"
        by (rule sized_sub(2) [OF ay(1) d(1)]) simp_all
      then have "\<bar>val b + (val (js_sub y d) - val y) - zoomed (val cy) s s' (val a)\<bar>
          \<le> 2 ^ 40 / 2 ^ 53 + (2 ^ 38 + 2 ^ 40) / 2 ^ 53"
        using d(2) by linarith
      with True show ?thesis by (simp add: v')
    next
      case False
      then have "\<bar>val d\<bar> \<le> fl (1 / 10)" using d(1) by (cases d) (auto simp: sized_def)
      with fl_tenth have "\<bar>val d\<bar> \<le> 1 / 10 + 1 / 2 ^ 53" by (rule order_trans [rotated])
      then have "\<bar>val b - zoomed (val cy) s s' (val a)\<bar> \<le> 1 / 10 + 1 / 2 ^ 53 + 2 ^ 40 / 2 ^ 53"
        using d(2) by linarith
      with False show ?thesis by (simp add: v')
    qed
  qed
  have 4: "v' = w" if "ly_marker ly = None" using that assms(9,12) by (cases ly) simp
  show ?thesis using 1 2 3 4 pv(2) by (auto simp: k_def pw split: option.split)
qed

subsection \<open>An instance\<close>

text \<open>The host doubles the scale; the section that was hit has moved by eight pixels more than it should.\<close>

definition moved_layout :: layout where
  "moved_layout = demo_layout\<lparr>ly_marker := Some (Fin 100, Fin (- 92))\<rparr>"

lemma sized_whole: "\<bar>n\<bar> \<le> 2 ^ 20 \<Longrightarrow> sized (2 ^ 24) (Fin (of_int n))"
proof -
  assume n: "\<bar>n\<bar> \<le> 2 ^ 20"
  then have "\<bar>of_int n :: rat\<bar> \<le> of_int (2 ^ 20)" by (metis of_int_abs of_int_le_iff)
  then have le: "\<bar>of_int n :: rat\<bar> \<le> 2 ^ 24" by simp
  have "wf_num (num_of_int n)" using n by (intro num_of_int_simps(3)) simp
  with le show ?thesis by (simp add: sized_def num_of_int_def)
qed

theorem zoom_keeps_cursor_witness:
  "\<bar>val (Fin (- 92)) + (val (tf_y (vp_tf (zoom_at moved_layout (Fin 400) (Fin 300) (Fin 2) demo_view))) -
      val (tf_y (vp_tf (zoom_at demo_layout (Fin 400) (Fin 300) (Fin 2) demo_view)))) -
    zoomed 300 1 (val (tf_scale (vp_tf (zoom_at moved_layout (Fin 400) (Fin 300) (Fin 2) demo_view)))) 100\<bar> \<le> 101 / 1000"
proof -
  have sz: "sized (2 ^ 24) (Fin 0)" "sized (2 ^ 24) (Fin 400)" "sized (2 ^ 24) (Fin 300)" "sized (2 ^ 24) (Fin 100)" "sized (2 ^ 24) (Fin (- 92))"
    using sized_whole [of 0] sized_whole [of 400] sized_whole [of 300] sized_whole [of 100] sized_whole [of "- 92"] by simp_all
  have lay: "layout_sized moved_layout" using sz by (simp add: layout_sized_def moved_layout_def)
  have sub: "js_sub (Fin 400) (ly_left moved_layout) = Fin 400" "js_sub (Fin 300) (ly_top moved_layout) = Fin 300"
    by code_simp+
  have ratio: "val (vp_max demo_view) \<le> 256 * val (vp_min demo_view)"
    by (simp add: demo_view_def vp_mount_def vp_restore_def announce_def)
  have "clamp_scale demo_view (js_mul (Fin 1) (Fin 2)) = Fin 2"
    by (simp add: demo_view_def vp_mount_def vp_restore_def announce_def clamp_scale_def) code_simp
  moreover have "\<not> js_eq (js_div (Fin 2) (Fin 1)) (Fin 1)" by code_simp
  ultimately have ne: "\<not> js_eq (js_div (tf_scale (vp_tf (zoom_at moved_layout (Fin 400) (Fin 300) (Fin 2) demo_view))) (tf_scale (vp_tf demo_view))) (Fin 1)"
    by (simp add: demo_view_ok(4))
  have none: "moved_layout\<lparr>ly_marker := None\<rparr> = demo_layout" by (simp add: moved_layout_def demo_layout_def)
  have two: "Fin 2 \<noteq> NaN" by simp
  have mark: "ly_marker moved_layout = Some (Fin 100, Fin (- 92))" by (simp add: moved_layout_def)
  have scale: "val (tf_scale (vp_tf demo_view)) = 1" by (simp add: demo_view_ok(4))
  have sizes: "list_all (sized (2 ^ 24)) [Fin 400, Fin 300, Fin 300, tf_x (vp_tf demo_view), tf_y (vp_tf demo_view)]"
    using sz by (simp add: demo_view_ok(4))
  from zoom_keeps_cursor [OF demo_view_ok(2,3) ratio two sub [symmetric] lay sizes refl refl refl refl,
      THEN conjunct2, THEN conjunct2]
  show ?thesis using ne by (simp only: none mark option.case prod.case scale val.simps) simp
qed

end
