(* ===== verification/React_Kit.thy ===== *)
theory React_Kit
  imports Canvas_Order Ticket
begin

text \<open>
  The React components of the design system (atoms, charts, market) as functions from their
  properties to the element trees they render, and the state of the components that keep one. A
  tree keeps tags, the attributes the code sets (class names, styles, data attributes) and children;
  event handlers are the operations on the state. Optional string properties are options.
\<close>

datatype vnode = Text string | El string "(string \<times> string) list" "vnode list"

subsection \<open>Class names\<close>

text \<open>\<open>xs.filter(Boolean).join(" ")\<close>\<close>

definition cx :: "string option list \<Rightarrow> string" where
  "cx xs = join_with '' '' (concat (map some_text xs))"

definition flag :: "bool \<Rightarrow> string \<Rightarrow> string option" where
  "flag b s = (if b then Some s else None)"

text \<open>\<open>v && `prefix${v}`\<close>\<close>

definition modifier :: "string \<Rightarrow> string option \<Rightarrow> string option" where
  "modifier prefix v = (case some_text v of [] \<Rightarrow> None | s # _ \<Rightarrow> Some (prefix @ s))"

definition cls :: "string \<Rightarrow> string \<times> string" where
  "cls c = (''class'', c)"

subsection \<open>Atoms\<close>

definition mech_name :: "string \<Rightarrow> string option" where
  "mech_name = [''fixed'' \<mapsto> ''FIXED'', ''fixed_odds'' \<mapsto> ''FIXED'', ''clob'' \<mapsto> ''CLOB'',
     ''lmsr'' \<mapsto> ''LMSR'', ''parimutuel'' \<mapsto> ''PARI'', ''pari'' \<mapsto> ''PARI'']"

text \<open>\<open>toUpperCase\<close> on ASCII.\<close>

definition upper_char :: "char \<Rightarrow> char" where
  "upper_char c = (let n = of_char c :: nat in if 97 \<le> n \<and> n \<le> 122 then char_of (n - 32) else c)"

definition react_button ::
  "string option \<Rightarrow> string option \<Rightarrow> bool \<Rightarrow> string option \<Rightarrow> vnode list \<Rightarrow> string option \<Rightarrow> vnode" where
  "react_button variant sz block href children class_name =
     (let c = cx [Some ''ds-btn'', modifier ''ds-btn--'' variant, modifier ''ds-btn--'' sz,
                  flag block ''ds-btn--block'', class_name]
      in case some_text href of
           h # _ \<Rightarrow> El ''a'' [(''href'', h), cls c] children
         | [] \<Rightarrow> El ''button'' [cls c] children)"

definition react_chip ::
  "bool \<Rightarrow> bool \<Rightarrow> bool \<Rightarrow> bool \<Rightarrow> vnode list \<Rightarrow> string option \<Rightarrow> vnode" where
  "react_chip active accent solid mech children class_name =
     El ''span''
       (cls (cx [Some ''ds-chip'', flag active ''is-active'', flag accent ''ds-chip--accent'',
                 flag solid ''ds-chip--solid'', class_name])
        # (if mech then [(''data-mech'', ''true'')] else []))
       children"

definition mech_chip :: "string \<Rightarrow> vnode" where
  "mech_chip mechanism =
     react_chip False True False True
       [Text (case mech_name mechanism of Some t \<Rightarrow> t | None \<Rightarrow> map upper_char mechanism)] None"

definition react_badge :: "string \<Rightarrow> bool \<Rightarrow> vnode list \<Rightarrow> vnode" where
  "react_badge status live children =
     El ''span'' [cls (cx [Some ''ds-badge'', Some (''ds-badge--'' @ status), flag live ''ds-badge--live''])]
       (if live then [Text ''Live''] else if children = [] then [Text status] else children)"

definition react_card :: "bool \<Rightarrow> bool \<Rightarrow> bool \<Rightarrow> string option \<Rightarrow> vnode list \<Rightarrow> vnode" where
  "react_card flush quiet pad_sm class_name children =
     El ''div'' [cls (cx [Some ''ds-card'', flag flush ''ds-card--flush'', flag quiet ''ds-card--quiet'',
       flag pad_sm ''ds-card--pad-sm'', class_name])] children"

definition react_field :: "string option \<Rightarrow> string option \<Rightarrow> string option \<Rightarrow> string option \<Rightarrow> vnode" where
  "react_field label suffix help class_name =
     El ''div'' [cls ''ds-field'']
       (map (\<lambda>l. El ''label'' [cls ''ds-label''] [Text l]) (some_text label)
        @ (case some_text suffix of
             s # _ \<Rightarrow> [El ''div'' [cls ''ds-input-group'']
               [El ''input'' [cls (cx [Some ''ds-input'', Some ''ds-num'', class_name])] [],
                El ''span'' [cls ''ds-input-group__suffix''] [Text s]]]
           | [] \<Rightarrow> [El ''input'' [cls (cx [Some ''ds-input'', class_name])] []])
        @ map (\<lambda>h. El ''div'' [cls ''ds-help''] [Text h]) (some_text help))"

definition react_segment :: "string list \<Rightarrow> string option \<Rightarrow> vnode" where
  "react_segment options v =
     El ''div'' [cls ''ds-segment'']
       (map (\<lambda>o1. El ''button'' [cls (cx [Some ''ds-segment__item'', flag (Some o1 = v) ''is-active''])] [Text o1])
          options)"

definition react_delta :: "jsnum \<Rightarrow> string \<Rightarrow> vnode" where
  "react_delta v unit =
     El ''span'' [cls (cx [Some ''ds-delta'', Some (if js_le (Fin 0) v then ''ds-delta--up'' else ''ds-delta--down'')])]
       [Text (js_to_string (js_abs v)), Text unit]"

definition react_avatar :: "string option \<Rightarrow> vnode" where
  "react_avatar sz = El ''span'' [cls (cx [Some ''ds-avatar'', modifier ''ds-avatar--'' sz])] []"

subsection \<open>Charts\<close>

definition points2path :: "jsnum list \<Rightarrow> jsnum \<Rightarrow> jsnum \<Rightarrow> string" where
  "points2path points w h =
     join_with '' '' (map (\<lambda>(i, v).
         js_to_string (js_mul (js_div (nat_num i) (js_sub (nat_num (length points)) (Fin 1))) w) @ '','' @
         js_to_string (js_sub h (js_mul (js_div (js_max (Fin 0) (js_min (Fin 100) v)) (Fin 100)) h)))
       (enumerate 0 points))"

text \<open>\<open>path.split(" ").pop().split(",")\<close>: the coordinates of the last point, as texts.\<close>

definition path_last :: "string \<Rightarrow> string list" where
  "path_last path = split_on (CHR '','') (last (split_on (CHR '' '') path))"

definition react_grid_line :: "rat \<Rightarrow> vnode" where
  "react_grid_line g =
     (let y = js_to_string (js_sub (Fin 120) (js_mul (js_div (Fin g) (Fin 100)) (Fin 120)))
      in El ''line'' [(''x1'', ''0''), (''x2'', ''300''), (''y1'', y), (''y2'', y),
           (''stroke'', ''var(--ds-chart-grid)''), (''stroke-width'', ''1''), (''stroke-dasharray'', ''3 3'')] [])"

definition react_chart :: "jsnum list \<Rightarrow> string \<Rightarrow> string \<Rightarrow> bool \<Rightarrow> vnode" where
  "react_chart points color height show_axis =
     (if length points < 2 then El ''div'' [cls ''ds-chart'', (''style'', ''height:'' @ height)] []
      else
        let path = points2path points (Fin 300) (Fin 120); l = path_last path
        in El ''div'' [cls ''ds-chart'', (''style'', ''height:'' @ height)]
             (El ''svg'' [(''viewBox'', ''0 0 300 120''), (''preserveAspectRatio'', ''none'')]
                (map react_grid_line [25, 50, 75]
                 @ [El ''polygon'' [(''points'', ''0,120 '' @ path @ '' 300,120''), (''fill'', color), (''opacity'', ''0.12'')] [],
                    El ''polyline'' [(''points'', path), (''fill'', ''none''), (''stroke'', color)] [],
                    El ''circle'' [(''cx'', l ! 0), (''cy'', l ! 1), (''r'', ''3.5''), (''fill'', color)] []])
              # (if show_axis then
                   [El ''span'' [cls ''ds-chart__axis ds-chart__axis--top''] [Text ''100%''],
                    El ''span'' [cls ''ds-chart__axis ds-chart__axis--bottom''] [Text ''0%'']] else [])))"

definition react_spark_path :: "jsnum list \<Rightarrow> jsnum \<Rightarrow> jsnum \<Rightarrow> string" where
  "react_spark_path points width height =
     join_with '' '' (map (\<lambda>(i, v).
         js_to_string (js_mul (js_div (nat_num i) (js_sub (nat_num (length points)) (Fin 1))) width) @ '','' @
         js_to_string (js_sub height (js_mul (js_div v (Fin 100)) height)))
       (enumerate 0 points))"

definition react_sparkline :: "jsnum list \<Rightarrow> string \<Rightarrow> jsnum \<Rightarrow> jsnum \<Rightarrow> vnode list" where
  "react_sparkline points color width height =
     (if length points < 2 then []
      else [El ''svg'' [(''width'', js_to_string width), (''height'', js_to_string height),
              (''viewBox'', ''0 0 '' @ js_to_string width @ '' '' @ js_to_string height)]
            [El ''polyline'' [(''points'', react_spark_path points width height), (''fill'', ''none''),
               (''stroke'', color), (''stroke-width'', ''1.5''), (''stroke-linejoin'', ''round'')] []]])"

subsection \<open>Market components\<close>

record market =
  mk_question :: string
  mk_status :: string
  mk_mechanism :: string
  mk_yes_pct :: jsnum
  mk_volume :: string
  mk_closes :: string
  mk_spark :: "jsnum list option"
  mk_delta :: "jsnum option"
  mk_live :: "bool option"

definition market_card :: "market \<Rightarrow> string \<Rightarrow> vnode" where
  "market_card m suffix =
     react_card False False False (Some ''ds-market'')
       [El ''div'' [cls ''ds-market__top'']
          [react_badge (mk_status m) (case mk_live m of Some b \<Rightarrow> b | None \<Rightarrow> mk_status m = ''open'') [],
           mech_chip (mk_mechanism m)],
        El ''div'' [cls ''ds-market__q''] [Text (mk_question m)],
        El ''div'' [cls ''ds-probar''] [El ''div'' [cls ''ds-probar__fill'',
          (''style'', ''width:'' @ js_to_string (mk_yes_pct m) @ ''%'')] []],
        El ''div'' [cls ''ds-row ds-row--between'']
          (El ''span'' [cls ''ds-market__pct ds-num''] [Text (js_to_string (mk_yes_pct m)), Text suffix]
           # (case mk_spark m of
                Some pts \<Rightarrow> react_sparkline pts ''var(--ds-accent)'' (Fin 72) (Fin 22)
              | None \<Rightarrow> (case mk_delta m of Some d \<Rightarrow> [react_delta d []] | None \<Rightarrow> []))),
        El ''div'' [cls ''ds-market__foot''] [El ''span'' [] [Text (mk_volume m)], El ''span'' [] [Text (mk_closes m)]]]"

definition price_box :: "string option \<Rightarrow> string \<Rightarrow> string \<times> jsnum \<times> string option \<Rightarrow> vnode" where
  "price_box selected suffix b =
     (case b of (side, pct, payout) \<Rightarrow>
        El ''div'' [cls (cx [Some ''ds-pricebox'', Some (''ds-pricebox--'' @ side), flag (selected = Some side) ''is-selected'']),
                    (''data-price'', js_to_string pct)]
          ([El ''div'' [cls ''ds-pricebox__label''] [Text (if side = ''yes'' then ''Yes'' else ''No'')],
            El ''div'' [cls ''ds-pricebox__val ds-num''] [Text (js_to_string pct), Text suffix]]
           @ map (\<lambda>p. El ''div'' [cls ''ds-pricebox__sub''] [Text ''pays '', Text p]) (some_text payout)))"

definition price_boxes :: "jsnum \<Rightarrow> jsnum \<Rightarrow> string option \<Rightarrow> string option \<Rightarrow> string option \<Rightarrow> string \<Rightarrow> vnode" where
  "price_boxes yes_pct no_pct yes_payout no_payout selected suffix =
     El ''div'' [cls ''ds-prices'']
       (map (price_box selected suffix) [(''yes'', yes_pct, yes_payout), (''no'', no_pct, no_payout)])"

text \<open>The state of a bet ticket: the side and the stake.\<close>

record bet_ticket =
  bt_side :: string
  bt_stake :: jsnum

definition bet_ticket_start :: bet_ticket where
  "bet_ticket_start = \<lparr>bt_side = ''yes'', bt_stake = Fin 100\<rparr>"

definition bet_select :: "string \<Rightarrow> bet_ticket \<Rightarrow> bet_ticket" where
  "bet_select side b = b\<lparr>bt_side := side\<rparr>"

text \<open>\<open>setStake(+e.target.value || 0)\<close>\<close>

definition bet_type :: "string \<Rightarrow> bet_ticket \<Rightarrow> bet_ticket" where
  "bet_type v b = b\<lparr>bt_stake := js_or (js_to_number v) (Fin 0)\<rparr>"

definition bet_quick :: "jsnum \<Rightarrow> bet_ticket \<Rightarrow> bet_ticket" where
  "bet_quick q b = b\<lparr>bt_stake := q\<rparr>"

definition bet_price :: "jsnum \<Rightarrow> jsnum \<Rightarrow> bet_ticket \<Rightarrow> jsnum" where
  "bet_price yes_pct no_pct b = (if bt_side b = ''yes'' then yes_pct else no_pct)"

text \<open>What \<open>onSubmit\<close> receives.\<close>

definition bet_submit :: "jsnum \<Rightarrow> jsnum \<Rightarrow> bet_ticket \<Rightarrow> string \<times> jsnum \<times> jsnum" where
  "bet_submit yes_pct no_pct b =
     (bt_side b, bt_stake b, react_payout (bet_price yes_pct no_pct b) (bt_stake b))"

definition pool_yes_width :: "jsnum \<Rightarrow> jsnum \<Rightarrow> jsnum" where
  "pool_yes_width yes no =
     (let total = js_or (js_add yes no) (Fin 1) in js_round (js_mul (js_div yes total) (Fin 100)))"

definition pool_bar :: "jsnum \<Rightarrow> jsnum \<Rightarrow> vnode" where
  "pool_bar yes no =
     (let w = pool_yes_width yes no; nw = js_sub (Fin 100) w; dot = [CHR 0x20, CHR 0xC2, CHR 0xB7, CHR 0x20]
      in El ''div'' [cls ''ds-pool'']
           [El ''div'' [cls ''ds-pool__yes'', (''style'', ''width:'' @ js_to_string w @ ''%'')]
              [Text ''YES '', Text (js_to_string w), Text (''%'' @ dot), Text (js_to_locale yes)],
            El ''div'' [cls ''ds-pool__no'', (''style'', ''width:'' @ js_to_string nw @ ''%'')]
              [Text (js_to_string nw), Text (''%'' @ dot), Text (js_to_locale no)]])"

definition stat_strip :: "(string \<times> string) list \<Rightarrow> vnode" where
  "stat_strip stats =
     El ''div'' [cls ''ds-stats''] (map (\<lambda>(k, v). El ''div'' [cls ''ds-stat'']
       [El ''div'' [cls ''ds-stat__k''] [Text k], El ''div'' [cls ''ds-stat__v ds-num''] [Text v]]) stats)"

definition stage_order :: "string list" where
  "stage_order = [''open'', ''closed'', ''resolving'', ''settled'']"

definition step_labels :: "(string \<times> string) list" where
  "step_labels = [(''Open'', ''trading live''), (''Closes'', ''at deadline''),
     (''Resolves'', ''source checked''), (''Settles'', ''payouts sent'')]"

definition step_class :: "int \<Rightarrow> nat \<Rightarrow> string" where
  "step_class idx i = cx [Some ''ds-step'', flag (int i < idx) ''is-done'', flag (int i = idx) ''is-current'']"

definition settlement_steps :: "string \<Rightarrow> vnode" where
  "settlement_steps stage =
     (let idx = index_of stage stage_order
      in El ''div'' [cls ''ds-steps''] (map (\<lambda>(i, label, sub). El ''div'' [cls (step_class idx i)]
           [El ''div'' [cls ''ds-step__label''] [Text label, El ''br'' [] [], El ''span'' [cls ''ds-muted ds-xs''] [Text sub]]])
         (enumerate 0 step_labels)))"

definition react_callout :: "string option \<Rightarrow> string option \<Rightarrow> string option \<Rightarrow> vnode list \<Rightarrow> vnode" where
  "react_callout variant icon title children =
     El ''div'' [cls (cx [Some ''ds-callout'', modifier ''ds-callout--'' variant])]
       (map (\<lambda>i. El ''span'' [cls ''ds-callout__icon''] [Text i]) (some_text icon)
        @ [El ''div'' [] (map (\<lambda>t. El ''strong'' [] [Text t]) (some_text title)
             @ [El ''div'' [cls ''ds-small ds-muted''] children])])"

subsection \<open>Texts of numbers hold no separator\<close>

definition plain_char :: "char \<Rightarrow> bool" where
  "plain_char c \<longleftrightarrow> c \<noteq> CHR '' '' \<and> c \<noteq> CHR '',''"

lemma plain_digits: "list_all plain_char (nat_str n)"
  using nat_str_digits [of n] by (auto simp: list_all_iff plain_char_def is_digit_def)

lemma plain_take_drop:
  "list_all plain_char s \<Longrightarrow> list_all plain_char (take n s)"
  "list_all plain_char s \<Longrightarrow> list_all plain_char (drop n s)"
  by (auto simp: list_all_iff dest: in_set_takeD in_set_dropD)

lemma plain_zeros: "list_all plain_char (zeros n)"
  by (simp add: zeros_def list_all_iff plain_char_def)

lemma plain_signs: "list_all plain_char ''e+''" "list_all plain_char ''e-''" "plain_char (CHR ''.'')"
  "plain_char (CHR ''0'')" "plain_char (CHR ''-'')"
  by (simp_all add: plain_char_def)

lemma plain_layout: "list_all plain_char ds \<Longrightarrow> list_all plain_char (layout_dec ds n)"
  using plain_signs by (auto simp: layout_dec_def Let_def plain_take_drop plain_zeros plain_digits)

lemma plain_pos: "list_all plain_char (pos_to_string q)"
  by (simp add: pos_to_string_def plain_layout plain_digits split: prod.split)

lemma plain_js_to_string: "list_all plain_char (js_to_string x)"
proof (cases x)
  case (Fin q)
  then show ?thesis using plain_signs by (simp add: plain_pos)
qed (simp_all add: plain_char_def)

lemma no_separator: "CHR '' '' \<notin> set (js_to_string x)" "CHR '','' \<notin> set (js_to_string x)"
  using plain_js_to_string [of x] by (auto simp: list_all_iff plain_char_def)

lemma xy_str_no_space: "CHR '' '' \<notin> set (xy_str p)"
  using no_separator by (simp add: xy_str_def)

lemma path_last_path:
  assumes "xy \<noteq> []"
  shows "path_last (path_str xy) = [js_to_string (fst (last xy)), js_to_string (snd (last xy))]"
proof -
  have "split_on (CHR '' '') (path_str xy) = map xy_str xy"
    unfolding path_str_def using assms xy_str_no_space by (intro split_join) (simp_all add: list_all_iff)
  then have "path_last (path_str xy) = split_on (CHR '','') (xy_str (last xy))"
    using assms by (simp add: path_last_def last_map)
  also have "\<dots> = [js_to_string (fst (last xy)), js_to_string (snd (last xy))]"
    using split_on_append [OF no_separator(2)] split_on_plain [OF no_separator(2)]
    by (simp add: xy_str_def)
  finally show ?thesis .
qed

lemma points2path_eq:
  assumes "1 \<le> length points" "length points \<le> 2 ^ 32"
  shows "points2path points (Fin 300) (Fin 120) = path_str (line_xy points)"
  unfolding points2path_def path_str_def line_xy_def count_minus_one [OF assms] xy_str_def
  by (simp add: x_coord_def y_coord_def js_clamp_def case_prod_unfold comp_def)

lemma react_spark_path_eq:
  assumes "1 \<le> length points" "length points \<le> 2 ^ 32"
  shows "react_spark_path points (Fin 72) (Fin 22) = path_str (spark_xy points)"
  unfolding react_spark_path_def path_str_def spark_xy_def count_minus_one [OF assms] xy_str_def
  by (simp add: x_coord_def y_coord_def case_prod_unfold comp_def)

subsection \<open>Properties of the React components\<close>

text \<open>
  C35. The React chart and sparkline draw the same paths as the vanilla ones, and the point the chart
  finds by splitting the text of its path again is the last point of the line.
\<close>

theorem react_chart_agrees:
  assumes "2 \<le> length points" "length points \<le> 2 ^ 32"
  shows "points2path points (Fin 300) (Fin 120) = path_str (line_xy points) \<and>
    path_last (points2path points (Fin 300) (Fin 120)) =
      [js_to_string (fst (last (line_xy points))), js_to_string (snd (last (line_xy points)))] \<and>
    react_spark_path points (Fin 72) (Fin 22) = path_str (spark_xy points)"
proof -
  have n: "1 \<le> length points" using assms(1) by linarith
  have "length (line_xy points) \<noteq> 0" unfolding line_xy_length using assms(1) by linarith
  then have "line_xy points \<noteq> []" by (simp only: length_0_conv not_False_eq_True)
  then show ?thesis
    by (simp add: points2path_eq [OF n assms(2)] react_spark_path_eq [OF n assms(2)] path_last_path)
qed

text \<open>
  The two parts of a pool bar have whole widths between 0 and 100 percent that add up to exactly 100,
  for any amounts that are not negative, both zero included.
\<close>

theorem pool_widths:
  assumes "0 \<le> y" "y \<le> 2 ^ 52" "0 \<le> n" "n \<le> 2 ^ 52"
  shows "\<exists>w. pool_yes_width (num_of_int y) (num_of_int n) = num_of_int w \<and> 0 \<le> w \<and> w \<le> 100 \<and>
    js_sub (Fin 100) (num_of_int w) = num_of_int (100 - w)"
proof -
  have small: "(of_int k :: rat) \<le> dbl_safe" if "k \<le> 2 ^ 53" for k
  proof -
    have "(of_int k :: rat) \<le> of_int (2 ^ 200)" unfolding of_int_le_iff by (rule order_trans [OF that]) simp
    then show ?thesis by (intro le_dbl_safe) simp
  qed
  define t where "t = (if y + n = 0 then 1 else y + n)"
  have t: "1 \<le> t" "y \<le> t" "t \<le> 2 ^ 53" using assms by (auto simp: t_def)
  have "fl (of_int (y + n)) = (of_int (y + n) :: rat)"
    using assms by (intro b64.rnd_exact is_dbl_of_int) simp
  moreover have "of_exact False (of_int (y + n)) = Fin (fl (of_int (y + n)))"
    using assms by (intro of_exact_Fin small) simp_all
  ultimately have sum: "js_add (num_of_int y) (num_of_int n) = num_of_int (y + n)"
    using assms by (simp add: num_of_int_def)
  have total: "js_or (js_add (num_of_int y) (num_of_int n)) (Fin 1) = num_of_int t"
    unfolding sum by (simp add: js_or_def t_def num_of_int_def)
  have r: "0 \<le> of_int y / (of_int t :: rat)" "of_int y / (of_int t :: rat) \<le> 1"
    using assms t by simp_all
  define a where "a = fl (of_int y / of_int t)"
  have a: "0 \<le> a" "a \<le> 1" unfolding a_def using r is_dbl_of_int [of 1]
    by (auto intro: b64.rnd_nonneg b64.rnd_le)
  have div: "js_div (num_of_int y) (num_of_int t) = Fin a"
    unfolding a_def num_of_int_def
    by (rule js_div_Fin, use assms(1) t(1) in simp, use t(1) in simp, rule le_dbl_safe, rule order_trans [OF r(2)], simp)
  have "a * 100 \<le> dbl_safe" using a by (intro le_dbl_safe) simp
  then have mul: "js_mul (Fin a) (Fin 100) = Fin (fl (a * 100))" using a by (intro js_mul_Fin) simp_all
  have b: "0 \<le> fl (a * 100)" "fl (a * 100) \<le> 100"
    using a by (auto intro!: b64.rnd_nonneg b64.rnd_le)
  define w where "w = \<lfloor>fl (a * 100) + 1 / 2\<rfloor>"
  have w: "0 \<le> w" "w \<le> 100" unfolding w_def using b by (simp_all add: le_floor_iff floor_le_iff)
  have "pool_yes_width (num_of_int y) (num_of_int n) = num_of_int w"
    unfolding pool_yes_width_def Let_def total div mul js_round_Fin [OF b(1)] w_def by (simp only: num_of_int_def)
  moreover have "js_sub (Fin 100) (num_of_int w) = num_of_int (100 - w)"
  proof -
    have "js_sub (Fin 100) (Fin (of_int w)) = Fin (fl (100 - of_int w))"
      using w by (intro js_sub_Fin le_dbl_safe) simp_all
    also have "fl (100 - of_int w) = of_int (100 - w)"
      using b64.rnd_exact [OF is_dbl_of_int [of "100 - w"]] w by simp
    finally show ?thesis by (simp add: num_of_int_def)
  qed
  ultimately show ?thesis using w by blast
qed

text \<open>
  Of the settlement steps the one of the market's stage is current and exactly the earlier ones
  are done; for a stage that is none of the four no step is marked.
\<close>

theorem settlement_current:
  assumes "i < length step_labels"
  shows "(j < length stage_order \<longrightarrow> step_class (index_of (stage_order ! j) stage_order) i =
      (if i < j then ''ds-step is-done'' else if i = j then ''ds-step is-current'' else ''ds-step'')) \<and>
    (stage \<notin> set stage_order \<longrightarrow> step_class (index_of stage stage_order) i = ''ds-step'')"
proof (intro conjI impI)
  assume "j < length stage_order"
  moreover have "distinct stage_order" by (simp add: stage_order_def)
  ultimately have "index_of (stage_order ! j) stage_order = int j" by (intro index_of_nth)
  then show "step_class (index_of (stage_order ! j) stage_order) i =
      (if i < j then ''ds-step is-done'' else if i = j then ''ds-step is-current'' else ''ds-step'')"
    by (simp add: step_class_def cx_def flag_def some_text_def)
next
  assume "stage \<notin> set stage_order"
  then have idx: "index_of stage stage_order = -1" by (simp only: index_of_absent not_False_eq_True)
  show "step_class (index_of stage stage_order) i = ''ds-step''"
    unfolding idx by (simp add: step_class_def cx_def flag_def some_text_def)
qed

theorem react_chart_agrees_witness:
  "path_last (points2path [Fin 10, Fin 90] (Fin 300) (Fin 120)) =
     [js_to_string (fst (last (line_xy [Fin 10, Fin 90]))), js_to_string (snd (last (line_xy [Fin 10, Fin 90])))]"
  by (rule react_chart_agrees [THEN conjunct2, THEN conjunct1]) simp_all

theorem pool_widths_witness:
  "\<exists>w. pool_yes_width (num_of_int 0) (num_of_int 0) = num_of_int w \<and> 0 \<le> w \<and> w \<le> 100"
  using pool_widths [of 0 0] by auto

theorem settlement_current_witness: "step_class (index_of ''resolving'' stage_order) 1 = ''ds-step is-done''"
proof -
  have "stage_order ! 2 = ''resolving''" "2 < length stage_order" "1 < length step_labels"
    by (simp_all add: stage_order_def step_labels_def)
  then show ?thesis using settlement_current [of 1 2] by simp
qed

end
