(* ===== verification/React_Theme.thy ===== *)
theory React_Theme
  imports React_Kit
begin

text \<open>
  The React theme layer (\<open>ThemeProvider\<close>, \<open>ThemeToggle\<close>): the theme as a piece of React state, read
  from the storage when the provider is first rendered, and the effect that applies it to the
  document. Only a missing storage is guarded against: one that is there but refuses the read makes
  the first render fail.
\<close>

record rtheme =
  rt_state :: string
  rt_applied :: "string option"
  rt_dom :: dom
  rt_store :: storage
  rt_frames :: "nat list"

text \<open>The first render; \<open>None\<close> when there is a \<open>localStorage\<close> and its \<open>getItem\<close> throws.\<close>

definition provider_mount :: "string \<Rightarrow> storage \<Rightarrow> dom \<Rightarrow> rtheme option" where
  "provider_mount dflt s d =
     (if \<not> can_read s \<and> \<not> no_storage s then None
      else Some \<lparr>rt_state = (if can_read s then (case saved_theme s of Some (c # cs) \<Rightarrow> c # cs | _ \<Rightarrow> dflt) else dflt),
             rt_applied = None, rt_dom = d, rt_store = s, rt_frames = []\<rparr>)"

definition provider_apply :: "string \<Rightarrow> rtheme \<Rightarrow> rtheme" where
  "provider_apply name r =
     r\<lparr>rt_dom := set_attr ''data-theme'' name root_node (add_class ''ds-theming'' root_node (rt_dom r)),
       rt_store := store_theme name (rt_store r), rt_frames := rt_frames r @ [2]\<rparr>"

text \<open>The effect on \<open>[theme]\<close>.\<close>

definition provider_flush :: "rtheme \<Rightarrow> rtheme" where
  "provider_flush r =
     (if rt_applied r = Some (rt_state r) then r
      else (provider_apply (rt_state r) r)\<lparr>rt_applied := Some (rt_state r)\<rparr>)"

definition provider_set :: "string \<Rightarrow> rtheme \<Rightarrow> rtheme" where
  "provider_set name r = r\<lparr>rt_state := name\<rparr>"

definition provider_toggle :: "rtheme \<Rightarrow> rtheme" where
  "provider_toggle r = r\<lparr>rt_state := (if rt_state r = ''dark'' then ''light'' else ''dark'')\<rparr>"

definition theme_toggle_button :: "string \<Rightarrow> rtheme \<Rightarrow> vnode" where
  "theme_toggle_button class_name r =
     El ''button'' [cls class_name, (''aria-pressed'', bool_str (rt_state r = ''dark'')), (''aria-label'', ''Toggle theme'')]
       [Text [CHR 0xE2, CHR 0x97, CHR 0x91, CHR 0x20], Text (label_of (rt_state r))]"

datatype change = ChangeTo string | Flip

fun vanilla_change :: "(dom \<Rightarrow> nat \<Rightarrow> string \<Rightarrow> string) \<Rightarrow> change \<Rightarrow> page \<Rightarrow> page" where
  "vanilla_change css (ChangeTo name) p = theme_set css name p"
| "vanilla_change css Flip p = theme_toggle css p"

fun provider_change :: "change \<Rightarrow> rtheme \<Rightarrow> rtheme" where
  "provider_change (ChangeTo name) r = provider_flush (provider_set name r)"
| "provider_change Flip r = provider_flush (provider_toggle r)"

fun named :: "change \<Rightarrow> bool" where
  "named (ChangeTo name) = (name \<noteq> [])"
| "named Flip = True"

subsection \<open>The two layers side by side\<close>

definition layers_agree :: "page \<Rightarrow> rtheme \<Rightarrow> bool" where
  "layers_agree p r \<longleftrightarrow> theme_get p = rt_state r \<and> rt_applied r = Some (rt_state r) \<and>
     get_attr (rt_dom r) ''data-theme'' root_node = Some (rt_state r)"

lemma layers_agree_flush:
  assumes "theme_get p = rt_state r"
    and "\<And>t. rt_applied r = Some t \<Longrightarrow> get_attr (rt_dom r) ''data-theme'' root_node = Some t"
  shows "layers_agree p (provider_flush r)"
  using assms by (auto simp: layers_agree_def provider_flush_def provider_apply_def)

lemma layers_agree_change:
  assumes "layers_agree p r" "named c"
  shows "layers_agree (vanilla_change css c p) (provider_change c r)"
proof (cases c)
  case (ChangeTo name)
  then show ?thesis
    using assms by (auto simp: layers_agree_def provider_set_def provider_flush_def provider_apply_def)
next
  case Flip
  then show ?thesis
    using assms
    by (auto simp: layers_agree_def provider_toggle_def theme_toggle_def provider_flush_def provider_apply_def)
qed

lemma layers_agree_run:
  "layers_agree p r \<Longrightarrow> list_all named cs \<Longrightarrow>
     layers_agree (fold (vanilla_change css) cs p) (fold provider_change cs r)"
  by (induction cs arbitrary: p r) (simp_all add: layers_agree_change)

lemma theme_get_boot:
  "theme_get (boot css p) =
     (case read_theme (p_store p) of Some (c # cs) \<Rightarrow> c # cs | _ \<Rightarrow> theme_get p)"
proof -
  have draw: "theme_get (chart_init css q) = theme_get q" for q
    by (simp add: chart_init_def theme_get_def)
  have quiet: "theme_get (p\<lparr>p_listeners := ls, p_dom := sync_theme_color n (sync_theme_controls n (p_dom p))\<rparr>)
      = theme_get p" "theme_get (p\<lparr>p_listeners := ls\<rparr>) = theme_get p" for n ls
    by (simp_all add: theme_get_def)
  have "theme_get (theme_init css p) = (case read_theme (p_store p) of Some (c # cs) \<Rightarrow> c # cs | _ \<Rightarrow> theme_get p)"
    by (simp add: theme_init_def Let_def quiet split: option.split list.split)
  then show ?thesis by (simp add: boot_def draw)
qed

subsection \<open>Properties of the React theme layer\<close>

text \<open>
  C16. On a page with the same storage, whose default is the theme of the document, the React layer
  and the vanilla one have the same theme after any sequence of changes and toggles, and the React
  layer has put it on the document.
\<close>

theorem react_theme_mirrors:
  assumes "provider_mount dflt (p_store p) d = Some r" "dflt = theme_get p" "list_all named cs"
    and "p' = fold (vanilla_change css) cs (boot css p)"
    and "r' = fold provider_change cs (provider_flush r)"
  shows "theme_get p' = rt_state r' \<and> get_attr (rt_dom r') ''data-theme'' root_node = Some (theme_get p')"
proof -
  have r: "rt_applied r = None"
      "rt_state r = (if can_read (p_store p) then (case saved_theme (p_store p) of Some (c # cs) \<Rightarrow> c # cs | _ \<Rightarrow> dflt) else dflt)"
    using assms(1) by (auto simp: provider_mount_def split: if_splits)
  then have "theme_get (boot css p) = rt_state r"
    unfolding theme_get_boot read_theme_def assms(2) by simp
  then have "layers_agree (boot css p) (provider_flush r)"
    using r(1) by (intro layers_agree_flush) simp_all
  from layers_agree_run [OF this assms(3), of css] show ?thesis
    by (simp add: layers_agree_def assms(4,5))
qed

text \<open>
  Where the layers differ: the React layer saves its default as if the user had chosen it, which
  the vanilla one does not do, and it fails to render where the storage refuses to be read, which
  the vanilla one survives.
\<close>

theorem react_theme_differs:
  assumes "saved_theme s = None" "\<not> no_storage s" "can_write s" "can_read s"
  shows "(\<exists>r. provider_mount dflt s d = Some r \<and>
      saved_theme (rt_store (provider_flush r)) = Some dflt) \<and>
    saved_theme (p_store (boot css (p\<lparr>p_store := s\<rparr>))) = None \<and>
    provider_mount dflt (s\<lparr>can_read := False\<rparr>) d = None"
  using assms
  by (simp add: provider_mount_def provider_flush_def provider_apply_def store_theme_def boot_def
      chart_init_def theme_init_def read_theme_def Let_def)

theorem react_theme_mirrors_witness:
  "\<exists>r. provider_mount (theme_get demo_page) (p_store demo_page) demo_dom = Some r \<and>
     theme_get (fold (vanilla_change (\<lambda>_ _ _. [])) [Flip, ChangeTo ''light'', Flip] (boot (\<lambda>_ _ _. []) demo_page)) =
     rt_state (fold provider_change [Flip, ChangeTo ''light'', Flip] (provider_flush r))"
proof -
  obtain r where r: "provider_mount (theme_get demo_page) (p_store demo_page) demo_dom = Some r"
    by (simp add: provider_mount_def demo_page_def)
  from react_theme_mirrors [OF this refl _ refl refl, of "[Flip, ChangeTo ''light'', Flip]" "\<lambda>_ _ _. []"] r
  show ?thesis by auto
qed

theorem react_theme_differs_witness:
  "saved_theme (p_store (boot (\<lambda>_ _ _. []) (demo_page\<lparr>p_store := \<lparr>no_storage = False, can_read = True, can_write = True, saved_theme = None\<rparr>\<rparr>))) = None"
  by (rule react_theme_differs [THEN conjunct2, THEN conjunct1]) simp_all

end
