(* ===== verification/Bet_View.thy ===== *)
theory Bet_View
  imports React_Kit Jsx
begin

text \<open>
  The tree of the React bet ticket with its handlers, and what the events of the user do to it: an
  event runs the handlers of the tree the current state renders, they set the side or the stake or
  call \<open>onSubmit\<close>, and the next tree is rendered from the new state.
\<close>

subsection \<open>Components used in a tree with handlers\<close>

fun of_vnode :: "vnode \<Rightarrow> 'e jsx" where
  "of_vnode (Text s) = Txt s"
| "of_vnode (El t as ks) =
     Elem t (map (\<lambda>(k, v). (if k = ''class'' then ''className'' else k, Str v)) as) [] [] (map of_vnode ks)"

fun on_click :: "'e list \<Rightarrow> 'e jsx \<Rightarrow> 'e jsx" where
  "on_click es (Txt s) = Txt s"
| "on_click es (Elem t ps st hs ks) = Elem t ps st ((''click'', Handler False es) # hs) ks"

fun with_style :: "style \<Rightarrow> 'e jsx \<Rightarrow> 'e jsx" where
  "with_style st (Txt s) = Txt s"
| "with_style st (Elem t ps _ hs ks) = Elem t ps st hs ks"

fun with_kids :: "'e jsx list \<Rightarrow> 'e jsx \<Rightarrow> 'e jsx" where
  "with_kids ks (Txt s) = Txt s"
| "with_kids ks (Elem t ps st hs _) = Elem t ps st hs ks"

subsection \<open>The ticket\<close>

datatype bet_action =
    SetSide string
  | SetTyped
  | SetStake jsnum
  | Submit string jsnum jsnum

text \<open>\<open>PriceBoxes\<close> with \<open>onSelect\<close>: each box selects its side.\<close>

definition bet_boxes :: "jsnum \<Rightarrow> jsnum \<Rightarrow> string \<Rightarrow> bet_action jsx" where
  "bet_boxes yes_pct no_pct side =
     with_kids
       (map (\<lambda>b. on_click [SetSide (fst b)] (of_vnode (price_box (Some side) [CHR 0xC2, CHR 0xA2] b)))
          [(''yes'', yes_pct, None), (''no'', no_pct, None)])
       (of_vnode (price_boxes yes_pct no_pct None None (Some side) [CHR 0xC2, CHR 0xA2]))"

definition bet_chip :: "jsnum \<Rightarrow> string \<Rightarrow> bet_action jsx" where
  "bet_chip q t = Elem ''button'' [(''className'', Str ''ds-chip'')] [] [(''click'', Handler False [SetStake q])] [Txt t]"

definition bet_view :: "jsnum \<Rightarrow> jsnum \<Rightarrow> jsnum option \<Rightarrow> jsnum list \<Rightarrow> bet_ticket \<Rightarrow> bet_action jsx" where
  "bet_view yes_pct no_pct balance quick b =
     (let side = bt_side b; stake = bt_stake b;
          payout = react_payout (bet_price yes_pct no_pct b) stake;
          dot = [CHR 0x20, CHR 0xC2, CHR 0xB7, CHR 0x20]
      in with_kids
           [el ''div'' ''ds-card__head'' []
              (el ''span'' ''ds-h3'' [] [Txt ''Your bet'']
               # (case balance of None \<Rightarrow> []
                  | Some m \<Rightarrow> [el ''span'' ''ds-muted ds-xs'' [] [Txt ''Balance '', Txt (js_to_locale m), Txt '' ADIV'']])),
            bet_boxes yes_pct no_pct side,
            bare ''div'' [(''marginTop'', px 14)]
              [el ''label'' ''ds-label'' [] [Txt ''Stake''],
               el ''div'' ''ds-input-group'' []
                 [Elem ''input'' [(''className'', Str ''ds-input ds-num''), (''type'', Str ''number''), (''value'', Num stake)]
                    [] [(''change'', Handler False [SetTyped])] [],
                  el ''span'' ''ds-input-group__suffix'' [] [Txt ''ADIV'']]],
            el ''div'' ''ds-chipset'' [(''margin'', Str ''12px 0'')]
              (map (\<lambda>q. bet_chip q (js_to_string q)) quick
               @ (case balance of None \<Rightarrow> [] | Some m \<Rightarrow> [bet_chip m ''Max''])),
            el ''div'' ''ds-ticket__summary'' []
              [el ''span'' ''ds-muted'' [] [Txt ''Potential profit''],
               el ''span'' ''ds-num'' [] [Txt ''+'', Txt (js_to_locale (js_sub payout stake))]],
            el ''div'' ''ds-ticket__summary ds-ticket__summary--total'' []
              [bare ''span'' [] [Txt ''Payout if win''],
               el ''span'' ''ds-ticket__payout ds-num'' [] [Txt (js_to_locale payout)]],
            on_click [Submit side stake payout]
              (with_style [(''marginTop'', px 12)]
                (of_vnode (react_button (Some (if side = ''yes'' then ''yes'' else ''no'')) (Some ''lg'') True None
                  [Text ''Buy '', Text (map upper_char side), Text dot, Text (js_to_locale stake), Text '' ADIV''] None)))]
           (of_vnode (react_card False False False (Some ''ds-ticket'') [])))"

text \<open>The handlers; the text of the field comes with the event.\<close>

fun bet_act :: "string \<Rightarrow> bet_action \<Rightarrow> bet_ticket \<Rightarrow> bet_ticket" where
  "bet_act typed (SetSide s) b = bet_select s b"
| "bet_act typed SetTyped b = bet_type typed b"
| "bet_act typed (SetStake q) b = bet_quick q b"
| "bet_act typed (Submit s k p) b = b"

text \<open>A user event: its kind, the path to its target, the text of the field.\<close>

definition bet_event ::
  "jsnum \<Rightarrow> jsnum \<Rightarrow> jsnum option \<Rightarrow> jsnum list \<Rightarrow> string \<times> nat list \<times> string \<Rightarrow> bet_ticket \<Rightarrow> bet_ticket" where
  "bet_event yes_pct no_pct balance quick e b =
     (case e of (kind, path, typed) \<Rightarrow>
        fold (bet_act typed) (dispatch kind path (bet_view yes_pct no_pct balance quick b)) b)"

subsection \<open>Reading the tree\<close>

fun texts_of_class :: "string \<Rightarrow> 'e jsx \<Rightarrow> string list" where
  "texts_of_class c (Txt s) = []"
| "texts_of_class c (Elem a b s d ks) =
     (if map_of b ''className'' = Some (Str c) then [concat (map text_of ks)] else []) @ concat (map (texts_of_class c) ks)"

definition box_class :: "string \<Rightarrow> string" where
  "box_class side = ''ds-pricebox ds-pricebox--'' @ side @ '' is-selected''"

definition selected_boxes :: "'e jsx \<Rightarrow> string list" where
  "selected_boxes t = filter (\<lambda>s. texts_of_class (box_class s) t \<noteq> []) [''yes'', ''no'']"

fun is_submit :: "bet_action \<Rightarrow> bool" where
  "is_submit (Submit _ _ _) = True"
| "is_submit _ = False"


lemma chip_texts: "c \<noteq> ''ds-chip'' \<Longrightarrow> concat (map (\<lambda>q. texts_of_class c (bet_chip q (f q))) qs) = []"
  by (induction qs) (simp_all add: bet_chip_def)

lemma chip_actions: "concat (map (\<lambda>q. actions ev (bet_chip q (f q))) qs) = (if ev = ''click'' then map SetStake qs else [])"
  by (induction qs) (simp_all add: bet_chip_def)

lemma no_submit: "filter is_submit (map SetStake qs) = []"
  by (induction qs) simp_all

lemma bet_boxes_simps [simp]:
  "actions ''click'' (bet_boxes y n side) = [SetSide ''yes'', SetSide ''no'']"
  "ev \<noteq> ''click'' \<Longrightarrow> actions ev (bet_boxes y n side) = []"
  "texts_of_class ''ds-ticket__payout ds-num'' (bet_boxes y n side) = []"
  "texts_of_class ''ds-num'' (bet_boxes y n side) = []"
  by (simp_all add: bet_boxes_def price_boxes_def price_box_def cx_def flag_def some_text_def React_Kit.cls_def)

lemma bet_boxes_selected:
  "side \<in> {''yes'', ''no''} \<Longrightarrow>
     texts_of_class (box_class s) (bet_boxes y n side) \<noteq> [] \<longleftrightarrow> s = side"
  by (auto simp: bet_boxes_def price_boxes_def price_box_def cx_def flag_def some_text_def React_Kit.cls_def box_class_def
      join_with.simps)

lemmas bet_simps =
  bet_view_def react_card_def react_button_def React_Kit.cls_def Jsx.cls_def cx_def flag_def modifier_def some_text_def
  view_defs Let_def

lemma bet_actions:
  "set (actions ev (bet_view y n bal qs b)) \<subseteq>
     {SetSide ''yes'', SetSide ''no'', SetTyped} \<union> range SetStake \<union> {a. is_submit a}"
  by (cases "ev = ''click''"; cases "ev = ''change''"; cases bal)
    (auto simp: bet_simps chip_actions [unfolded bet_chip_def] bet_chip_def)

lemma bet_box_texts:
  "texts_of_class (box_class ''yes'') (bet_view y n bal qs b) = texts_of_class (box_class ''yes'') (bet_boxes y n (bt_side b))"
  "texts_of_class (box_class ''no'') (bet_view y n bal qs b) = texts_of_class (box_class ''no'') (bet_boxes y n (bt_side b))"
  by (cases bal; simp add: bet_simps chip_texts box_class_def bet_chip_def chip_texts [unfolded bet_chip_def])+

lemma bet_selected:
  assumes "bt_side b \<in> {''yes'', ''no''}"
  shows "selected_boxes (bet_view y n bal qs b) = [bt_side b]"
  unfolding selected_boxes_def
  using assms bet_boxes_selected [OF assms, of "''yes''" y n] bet_boxes_selected [OF assms, of "''no''" y n]
  by (cases "bt_side b = ''yes''") (simp_all add: bet_box_texts)

lemma bet_submits:
  "filter is_submit (actions ''click'' (bet_view y n bal qs b)) =
     [Submit (bt_side b) (bt_stake b) (react_payout (bet_price y n b) (bt_stake b))]"
  by (cases bal; cases "bt_side b = ''yes''")
    (simp_all add: bet_simps chip_actions no_submit chip_actions [unfolded bet_chip_def] bet_chip_def)

lemma bet_shows:
  "texts_of_class ''ds-ticket__payout ds-num'' (bet_view y n bal qs b) =
     [js_to_locale (react_payout (bet_price y n b) (bt_stake b))]"
  "texts_of_class ''ds-num'' (bet_view y n bal qs b) = [react_profit_text (bet_price y n b) (bt_stake b)]"
  by (cases bal; simp add: bet_simps chip_texts react_profit_text_def bet_chip_def chip_texts [unfolded bet_chip_def])+

lemma bet_act_side:
  "a \<in> {SetSide ''yes'', SetSide ''no'', SetTyped} \<union> range SetStake \<union> {a. is_submit a} \<Longrightarrow>
     bt_side b \<in> {''yes'', ''no''} \<Longrightarrow> bt_side (bet_act v a b) \<in> {''yes'', ''no''}"
  by (cases a) (auto simp: bet_select_def bet_type_def bet_quick_def)

lemma bet_acts_side:
  "set as \<subseteq> {SetSide ''yes'', SetSide ''no'', SetTyped} \<union> range SetStake \<union> {a. is_submit a} \<Longrightarrow>
     bt_side b \<in> {''yes'', ''no''} \<Longrightarrow> bt_side (fold (bet_act v) as b) \<in> {''yes'', ''no''}"
proof (induction as arbitrary: b)
  case (Cons a as)
  have "bt_side (bet_act v a b) \<in> {''yes'', ''no''}" by (rule bet_act_side) (use Cons.prems in auto)
  then show ?case using Cons by simp
qed simp

lemma bet_event_side: "bt_side b \<in> {''yes'', ''no''} \<Longrightarrow> bt_side (bet_event y n bal qs e b) \<in> {''yes'', ''no''}"
  unfolding bet_event_def
  by (cases e) (use bet_acts_side [OF subset_trans [OF dispatch_actions bet_actions]] in auto)

subsection \<open>The ticket shows what it submits\<close>

text \<open>
  C15. Whatever the user has done to the React ticket, in any order and on any element, the tree
  it renders marks exactly one price box, the one of the selected side; it can submit exactly one
  thing, that side with the current stake and the payout of both; and the payout and the profit it
  shows are those of the submission.
\<close>

theorem bet_ticket_shows_submission:
  "let b = fold (bet_event y n bal qs) es bet_ticket_start; view = bet_view y n bal qs b;
       payout = react_payout (bet_price y n b) (bt_stake b)
   in selected_boxes view = [bt_side b] \<and>
      filter is_submit (actions ''click'' view) = [Submit (bt_side b) (bt_stake b) payout] \<and>
      texts_of_class ''ds-ticket__payout ds-num'' view = [js_to_locale payout] \<and>
      texts_of_class ''ds-num'' view = [react_profit_text (bet_price y n b) (bt_stake b)]"
proof -
  have "bt_side (fold (bet_event y n bal qs) es bet_ticket_start) \<in> {''yes'', ''no''}"
    by (rule fold_invariant [where Q = "\<lambda>_. True" and P = "\<lambda>b. bt_side b \<in> {''yes'', ''no''}"])
      (use bet_event_side in \<open>auto simp: bet_ticket_start_def\<close>)
  then show ?thesis by (simp add: Let_def bet_selected bet_submits bet_shows)
qed

end
