(* ===== verification/Wf_Kit.thy ===== *)
theory Wf_Kit
  imports Jsx Chart
begin

text \<open>
  The wireframe primitives (\<open>window.WF\<close>): boxes, texts and rows with a style that the caller may
  override, the navigation bars of web, phone and backoffice, the probability chart and the
  sparkline, and the style sheet the kit adds to the page. A primitive takes the properties as the
  caller wrote them, the caller's style and the children.
\<close>

definition wf_styles :: "string list" where
  "wf_styles =
     [[],
      ''    :root{'',
      ''      --wf-ink:#2c2c2c; --wf-line:#3a3a3a; --wf-soft:#8d8d8d; --wf-faint:#c7c7c2;'',
      ''      --wf-paper:#ffffff; --wf-fill:#f4f3ef; --wf-accent:#356b8a; --wf-accent-soft:#dce8ee;'',
      ''      --wf-warn:#9a6a1e; --wf-warn-soft:#f1e6d0; --wf-pos:#3c7a52; --wf-neg:#9a4038;'',
      ''    }'',
      ''    .wf{ font-family:'Inter',system-ui,sans-serif; color:var(--wf-ink); box-sizing:border-box; }'',
      ''    .wf *{ box-sizing:border-box; }'',
      ''    .wf-hand{ font-family:'Caveat',cursive; }'',
      ''    .wf-box{ border:1.5px solid var(--wf-line); border-radius:5px; background:var(--wf-paper); }'',
      ''    .wf-dashed{ border-style:dashed; }'',
      ''    .wf-img{'',
      ''      background-color:var(--wf-fill);'',
      ''      background-image:repeating-linear-gradient(45deg, transparent, transparent 6px, rgba(0,0,0,.05) 6px, rgba(0,0,0,.05) 7px);'',
      ''      border:1.5px solid var(--wf-faint); border-radius:5px;'',
      ''      display:flex; align-items:center; justify-content:center;'',
      ''      color:var(--wf-soft); font-family:'Inter',monospace; font-size:11px; letter-spacing:.03em; text-align:center;'',
      ''    }'',
      ''    .wf-line{ height:9px; border-radius:4px; background:var(--wf-faint); }'',
      ''    .wf-btn{ display:inline-flex; align-items:center; justify-content:center; gap:6px;'',
      ''      border:1.5px solid var(--wf-line); border-radius:6px; background:var(--wf-paper);'',
      ''      padding:8px 14px; font-size:13px; font-weight:600; color:var(--wf-ink); white-space:nowrap; }'',
      ''    .wf-btn-primary{ background:var(--wf-accent); border-color:var(--wf-accent); color:#fff; }'',
      ''    .wf-btn-ghost{ border-color:var(--wf-faint); color:var(--wf-soft); font-weight:500; }'',
      ''    .wf-pill{ display:inline-flex; align-items:center; gap:5px; border:1.5px solid var(--wf-faint);'',
      ''      border-radius:999px; padding:5px 12px; font-size:12px; color:var(--wf-soft); white-space:nowrap; }'',
      ''    .wf-pill-active{ background:var(--wf-accent); border-color:var(--wf-accent); color:#fff; font-weight:600; }'',
      ''    .wf-chip{ display:inline-flex; align-items:center; border:1.2px solid var(--wf-faint); border-radius:999px;'',
      ''      padding:2px 9px; font-size:10.5px; font-weight:600; letter-spacing:.04em; text-transform:uppercase; color:var(--wf-soft); }'',
      ''    .wf-card{ border:1.5px solid var(--wf-line); border-radius:9px; background:var(--wf-paper); padding:14px; }'',
      ''    .wf-field{ border:1.5px solid var(--wf-faint); border-radius:6px; background:var(--wf-paper);'',
      ''      height:36px; display:flex; align-items:center; padding:0 11px; font-size:12.5px; color:var(--wf-soft); }'',
      ''    .wf-ann{ font-family:'Caveat',cursive; color:var(--wf-accent); font-size:17px; line-height:1.15; font-weight:600; }'',
      ''    .wf-num{ display:inline-flex; align-items:center; justify-content:center; width:18px; height:18px; flex:0 0 18px;'',
      ''      border-radius:999px; background:var(--wf-accent); color:#fff; font-family:'Inter',sans-serif; font-size:11px; font-weight:700; }'',
      ''    .wf-divider{ height:1.5px; background:var(--wf-faint); border:0; }'',
      ''    .wf-row{ display:flex; align-items:center; }'',
      ''    .wf-col{ display:flex; flex-direction:column; }'',
      ''    '']"

definition wf_accent :: string where "wf_accent = ''#356b8a''"

subsection \<open>Primitives\<close>

definition wf_screen :: "style \<Rightarrow> style \<Rightarrow> 'e jsx list \<Rightarrow> 'e jsx" where
  "wf_screen ps st ks =
     el ''div'' ''wf''
       (spread [(''width'', Str ''100%''), (''height'', Str ''100%''), (''background'', prop_or ps ''bg'' (Str ''#fff'')),
           (''padding'', prop_or ps ''pad'' (px 0)), (''overflow'', Str ''hidden''), (''position'', Str ''relative'')] st) ks"

text \<open>\<open>Box\<close> passes the other properties on to its element, where they may replace the class.\<close>

definition wf_box :: "style \<Rightarrow> style \<Rightarrow> 'e jsx list \<Rightarrow> 'e jsx" where
  "wf_box ps st ks =
     Elem ''div''
       (spread (cls (''wf-box'' @ (if given ps ''dashed'' then '' wf-dashed'' else [])))
          (filter (\<lambda>(k, _). k \<noteq> ''dashed'') ps)) st [] ks"

definition wf_img :: "style \<Rightarrow> style \<Rightarrow> 'e jsx list \<Rightarrow> 'e jsx" where
  "wf_img ps st ks = el ''div'' ''wf-img'' st [Txt (css_text (prop_or ps ''label'' (Str ''image'')))]"

definition wf_line :: "style \<Rightarrow> style \<Rightarrow> 'e jsx list \<Rightarrow> 'e jsx" where
  "wf_line ps st ks = el ''div'' ''wf-line'' (spread [(''width'', prop_or ps ''w'' (Str ''100%''))] st) []"

text \<open>\<open>n\<close> lines, the last one shorter.\<close>

definition wf_lines :: "nat \<Rightarrow> style \<Rightarrow> style \<Rightarrow> 'e jsx list \<Rightarrow> 'e jsx" where
  "wf_lines n ps st ks =
     el ''div'' ''wf-col'' (spread [(''gap'', prop_or ps ''gap'' (px 7))] st)
       (map (\<lambda>i. el ''div'' ''wf-line''
            [(''width'', if Suc i = n then prop_or ps ''last'' (Str ''60%'') else prop_or ps ''w'' (Str ''100%''))] [])
          [0..<n])"

definition wf_btn :: "style \<Rightarrow> style \<Rightarrow> 'e jsx list \<Rightarrow> 'e jsx" where
  "wf_btn ps st ks =
     el ''span'' (''wf-btn'' @ (if given ps ''primary'' then '' wf-btn-primary'' else [])
                  @ (if given ps ''ghost'' then '' wf-btn-ghost'' else [])) st ks"

definition wf_pill :: "style \<Rightarrow> style \<Rightarrow> 'e jsx list \<Rightarrow> 'e jsx" where
  "wf_pill ps st ks = el ''span'' (''wf-pill'' @ (if given ps ''active'' then '' wf-pill-active'' else [])) st ks"

definition wf_chip :: "style \<Rightarrow> style \<Rightarrow> 'e jsx list \<Rightarrow> 'e jsx" where
  "wf_chip ps st ks = el ''span'' ''wf-chip'' st ks"

definition wf_card :: "style \<Rightarrow> style \<Rightarrow> 'e jsx list \<Rightarrow> 'e jsx" where
  "wf_card ps st ks = el ''div'' ''wf-card'' st ks"

definition wf_field :: "style \<Rightarrow> style \<Rightarrow> 'e jsx list \<Rightarrow> 'e jsx" where
  "wf_field ps st ks = el ''div'' ''wf-field'' st [Txt (css_text (prop_or ps ''label'' (Str [])))]"

definition wf_label :: "style \<Rightarrow> style \<Rightarrow> 'e jsx list \<Rightarrow> 'e jsx" where
  "wf_label ps st ks =
     bare ''div''
       (spread [(''fontSize'', px 11), (''fontWeight'', px 600), (''letterSpacing'', Str ''.04em''),
           (''textTransform'', Str ''uppercase''), (''color'', Str ''var(--wf-soft)'')] st) ks"

definition wf_h :: "style \<Rightarrow> style \<Rightarrow> 'e jsx list \<Rightarrow> 'e jsx" where
  "wf_h ps st ks =
     bare ''div''
       (spread [(''fontSize'', prop_or ps ''size'' (px 20)), (''fontWeight'', px 700), (''color'', Str ''var(--wf-ink)''),
           (''lineHeight'', px (6 / 5))] st) ks"

definition wf_text :: "style \<Rightarrow> style \<Rightarrow> 'e jsx list \<Rightarrow> 'e jsx" where
  "wf_text ps st ks =
     bare ''div''
       (spread [(''fontSize'', prop_or ps ''size'' (px (25 / 2))),
           (''color'', Str (if given ps ''soft'' then ''var(--wf-soft)'' else ''var(--wf-ink)'')),
           (''lineHeight'', px (7 / 5))] st) ks"

definition wf_divider :: "style \<Rightarrow> style \<Rightarrow> 'e jsx list \<Rightarrow> 'e jsx" where
  "wf_divider ps st ks = el ''div'' ''wf-divider'' st []"

definition wf_row :: "style \<Rightarrow> style \<Rightarrow> 'e jsx list \<Rightarrow> 'e jsx" where
  "wf_row ps st ks = el ''div'' ''wf-row'' (spread [(''gap'', prop_or ps ''gap'' (px 8))] st) ks"

definition wf_col :: "style \<Rightarrow> style \<Rightarrow> 'e jsx list \<Rightarrow> 'e jsx" where
  "wf_col ps st ks = el ''div'' ''wf-col'' (spread [(''gap'', prop_or ps ''gap'' (px 8))] st) ks"

definition wf_avatar :: "style \<Rightarrow> style \<Rightarrow> 'e jsx list \<Rightarrow> 'e jsx" where
  "wf_avatar ps st ks =
     (let size = prop_or ps ''size'' (px 30)
      in bare ''div''
           (spread [(''width'', size), (''height'', size), (''borderRadius'', Str ''50%''),
               (''border'', Str ''1.5px solid var(--wf-line)''), (''background'', Str ''var(--wf-fill)''),
               (''flex'', Str (''0 0 '' @ css_text size @ ''px''))] st) [])"

text \<open>\<open>n != null\<close>: a number is shown even when it is 0.\<close>

definition wf_ann :: "style \<Rightarrow> style \<Rightarrow> 'e jsx list \<Rightarrow> 'e jsx" where
  "wf_ann ps st ks =
     el ''div'' ''wf-row'' (spread [(''gap'', px 6), (''alignItems'', Str ''flex-start'')] st)
       ((case map_of ps ''n'' of None \<Rightarrow> [] | Some n \<Rightarrow> [el ''span'' ''wf-num'' [(''marginTop'', px 1)] [Txt (css_text n)]])
        @ [el ''span'' ''wf-ann'' [] ks])"

subsection \<open>Navigation\<close>

text \<open>The name of the active entry, with its default.\<close>

definition active_of :: "style \<Rightarrow> string \<Rightarrow> string" where
  "active_of ps d = css_text (prop_or ps ''active'' (Str d))"

text \<open>An entry of a bar: weight, colour and background tell the active one.\<close>

definition nav_item :: "string \<Rightarrow> string \<Rightarrow> string \<Rightarrow> css \<Rightarrow> string \<Rightarrow> 'e jsx" where
  "nav_item active on_color on_back pad t =
     bare ''span''
       [(''fontSize'', px (25 / 2)), (''fontWeight'', px (if t = active then 700 else 500)),
        (''color'', Str (if t = active then on_color else ''var(--wf-soft)'')), (''padding'', pad),
        (''borderRadius'', px 6), (''background'', Str (if t = active then on_back else ''transparent''))]
       [Txt t]"

definition web_entries :: "string list" where
  "web_entries = [''Markets'', ''Leaderboard'', ''Positions'', ''Profile'']"

definition wf_web_bar :: "style \<Rightarrow> style \<Rightarrow> 'e jsx list \<Rightarrow> 'e jsx" where
  "wf_web_bar ps st ks =
     (let active = active_of ps ''Markets''
      in el ''div'' ''wf-row''
           (spread [(''justifyContent'', Str ''space-between''), (''padding'', Str ''0 22px''), (''height'', px 52),
               (''borderBottom'', Str ''1.5px solid var(--wf-faint)''), (''background'', Str ''#fff'')] st)
           [el ''div'' ''wf-row'' [(''gap'', px 8)]
              [bare ''div'' [(''width'', px 16), (''height'', px 16), (''borderRadius'', px 4), (''background'', Str wf_accent)] [],
               bare ''span'' [(''fontWeight'', px 800), (''fontSize'', px 15), (''letterSpacing'', Str ''-.02em'')] [Txt ''Adivento'']],
            el ''div'' ''wf-row'' [(''gap'', px 4)]
              (map (nav_item active wf_accent ''var(--wf-accent-soft)'' (Str ''5px 9px'')) web_entries
               @ [if css_truthy (prop_or ps ''signedIn'' (Flag True))
                  then el ''span'' ''wf-pill''
                         [(''background'', Str ''var(--wf-accent-soft)''), (''borderColor'', Str ''var(--wf-accent-soft)''),
                          (''color'', Str wf_accent), (''fontWeight'', px 700)]
                         [Txt (css_text (prop_or ps ''balance'' (Str ''4,250''))), Txt '' ADIV'']
                  else el ''span'' ''wf-btn wf-btn-primary'' [(''padding'', Str ''5px 12px''), (''fontSize'', px 12)] [Txt ''Sign in'']])])"

definition wf_phone_status :: "style \<Rightarrow> style \<Rightarrow> 'e jsx list \<Rightarrow> 'e jsx" where
  "wf_phone_status ps st ks =
     el ''div'' ''wf-row''
       (spread [(''justifyContent'', Str ''space-between''), (''padding'', Str ''0 18px''), (''height'', px 30),
           (''fontSize'', px 11), (''fontWeight'', px 700), (''color'', Str ''var(--wf-ink)'')] st)
       [bare ''span'' [] [Txt ''9:41''],
        el ''div'' ''wf-row'' [(''gap'', px 4)]
          [bare ''span'' [(''fontSize'', px 10)] [Txt [CHR 0xE2, CHR 0x97, CHR 0x8F, CHR 0xE2, CHR 0x97, CHR 0x8F, CHR 0xE2, CHR 0x97, CHR 0x8F]],
           bare ''span'' [(''fontSize'', px 10)] [Txt [CHR 0xE2, CHR 0x96, CHR 0xAE, CHR 0xE2, CHR 0x96, CHR 0xAE, CHR 0xE2, CHR 0x96, CHR 0xAE]],
           bare ''span'' [(''width'', px 16), (''height'', px 9), (''border'', Str ''1.2px solid var(--wf-ink)''),
             (''borderRadius'', px 2), (''display'', Str ''inline-block'')] []]]"

text \<open>A tab: the colour of the column and the weight of the caption tell the active one.\<close>

definition tab_item :: "string \<Rightarrow> string \<Rightarrow> rat \<Rightarrow> string \<times> string \<Rightarrow> 'e jsx" where
  "tab_item active on_color icon_size tab =
     (case tab of (t, icon) \<Rightarrow>
        el ''div'' ''wf-col''
          [(''alignItems'', Str ''center''), (''gap'', px 3),
           (''color'', Str (if t = active then on_color else ''var(--wf-soft)''))]
          [bare ''span'' [(''fontSize'', px icon_size)] [Txt icon],
           bare ''span'' [(''fontSize'', px (19 / 2)), (''fontWeight'', px (if t = active then 700 else 500))] [Txt t]])"

definition tab_entries :: "(string \<times> string) list" where
  "tab_entries = [(''Markets'', [CHR 0xE2, CHR 0x96, CHR 0xA6]), (''Search'', [CHR 0xE2, CHR 0x8C, CHR 0x95]),
     (''Positions'', [CHR 0xE2, CHR 0x96, CHR 0xA3]), (''Profile'', [CHR 0xE2, CHR 0x97, CHR 0x89])]"

definition wf_tab_bar :: "style \<Rightarrow> style \<Rightarrow> 'e jsx list \<Rightarrow> 'e jsx" where
  "wf_tab_bar ps st ks =
     (let active = active_of ps ''Markets''
      in el ''div'' ''wf-row''
           (spread [(''position'', Str ''absolute''), (''bottom'', px 0), (''left'', px 0), (''right'', px 0), (''height'', px 58),
               (''borderTop'', Str ''1.5px solid var(--wf-faint)''), (''background'', Str ''#fff''),
               (''justifyContent'', Str ''space-around'')] st)
           (map (tab_item active wf_accent 17) tab_entries))"

definition bo_entries :: "string list" where
  "bo_entries = [''Dashboard'', ''Markets'', ''Templates'', ''Faucet Requests'', ''Permissions'', ''Ad-hoc Grants'']"

definition wf_bo_sidebar :: "style \<Rightarrow> style \<Rightarrow> 'e jsx list \<Rightarrow> 'e jsx" where
  "wf_bo_sidebar ps st ks =
     (let active = active_of ps ''Markets''
      in el ''div'' ''wf-col''
           (spread [(''width'', px 168), (''borderRight'', Str ''1.5px solid var(--wf-faint)''), (''padding'', Str ''16px 12px''),
               (''gap'', px 4), (''background'', Str ''#fafaf8''), (''height'', Str ''100%'')] st)
           (el ''div'' ''wf-row'' [(''gap'', px 7), (''padding'', Str ''0 6px 12px'')]
              [bare ''div'' [(''width'', px 14), (''height'', px 14), (''borderRadius'', px 4), (''background'', Str ''var(--wf-warn)'')] [],
               bare ''span'' [(''fontWeight'', px 800), (''fontSize'', px 13)] [Txt ''Backoffice'']]
            # map (nav_item active ''var(--wf-warn)'' ''var(--wf-warn-soft)'' (Str ''7px 8px'')) bo_entries))"

subsection \<open>Charts\<close>

text \<open>The points of a polyline; values are not clamped, and one point divides 0 by 0.\<close>

definition wf_points :: "jsnum list \<Rightarrow> jsnum \<Rightarrow> jsnum \<Rightarrow> string" where
  "wf_points points w h =
     join_with '' '' (map (\<lambda>(i, v).
         js_to_string (js_mul (js_div (nat_num i) (js_sub (nat_num (length points)) (Fin 1))) w) @ '','' @
         js_to_string (js_sub h (js_mul (js_div v (Fin 100)) h)))
       (enumerate 0 points))"

definition wf_y :: "jsnum \<Rightarrow> string" where
  "wf_y v = js_to_string (js_sub (Fin 120) (js_mul (js_div v (Fin 100)) (Fin 120)))"

definition wf_grid_line :: "rat \<Rightarrow> 'e jsx" where
  "wf_grid_line g =
     Elem ''line'' [(''x1'', Str ''0''), (''x2'', px 300), (''y1'', Str (wf_y (Fin g))), (''y2'', Str (wf_y (Fin g))),
       (''stroke'', Str ''#e6e4de''), (''strokeWidth'', Str ''1''), (''strokeDasharray'', Str ''3 3'')] [] [] []"

text \<open>\<open>points[n - 1]\<close> of an empty list is undefined, and so is the centre of the circle not a number.\<close>

definition wf_chart :: "jsnum list option \<Rightarrow> string list option \<Rightarrow> style \<Rightarrow> style \<Rightarrow> 'e jsx list \<Rightarrow> 'e jsx" where
  "wf_chart points_prop frames_prop ps st ks =
     (let points = dflt (map Fin [50, 48, 54, 52, 60, 57, 63, 61, 66, 62]) points_prop;
          frames = dflt [''1H'', ''6H'', ''1D'', ''1W'', ''ALL''] frames_prop;
          color = prop_or ps ''color'' (Str wf_accent);
          pts = wf_points points (Fin 300) (Fin 120)
      in bare ''div'' st
           [bare ''div''
              [(''position'', Str ''relative''), (''width'', Str ''100%''), (''height'', prop_or ps ''h'' (px 150)),
               (''border'', Str ''1.5px solid var(--wf-faint)''), (''borderRadius'', px 6), (''overflow'', Str ''hidden''),
               (''background'', Str ''var(--wf-paper)'')]
              [Elem ''svg'' [(''viewBox'', Str ''0 0 300 120''), (''preserveAspectRatio'', Str ''none'')]
                 [(''width'', Str ''100%''), (''height'', Str ''100%''), (''display'', Str ''block'')] []
                 (map wf_grid_line [25, 50, 75]
                  @ [Elem ''polygon'' [(''points'', Str (''0,120 '' @ pts @ '' 300,120'')), (''fill'', color), (''opacity'', Str ''0.08'')] [] [] [],
                     Elem ''polyline'' [(''points'', Str pts), (''fill'', Str ''none''), (''stroke'', color), (''strokeWidth'', Str ''2''),
                       (''strokeLinejoin'', Str ''round''), (''strokeLinecap'', Str ''round'')] [] [] [],
                     Elem ''circle'' [(''cx'', px 300), (''cy'', Str (wf_y (if points = [] then NaN else last points))),
                       (''r'', Str ''3.5''), (''fill'', color)] [] [] []]),
               bare ''div'' [(''position'', Str ''absolute''), (''top'', px 4), (''right'', px 6), (''fontSize'', px 9),
                 (''color'', Str ''var(--wf-soft)'')] [Txt ''100%''],
               bare ''div'' [(''position'', Str ''absolute''), (''bottom'', px 4), (''right'', px 6), (''fontSize'', px 9),
                 (''color'', Str ''var(--wf-soft)'')] [Txt ''0%'']],
            el ''div'' ''wf-row'' [(''gap'', px 5), (''marginTop'', px 8), (''justifyContent'', Str ''center'')]
              (map (\<lambda>(i, f). el ''span'' (''wf-pill'' @ (if i = 2 then '' wf-pill-active'' else []))
                   [(''padding'', Str ''3px 10px''), (''fontSize'', px 11)] [Txt f])
                 (enumerate 0 frames))])"

definition wf_sparkline :: "jsnum list option \<Rightarrow> jsnum option \<Rightarrow> jsnum option \<Rightarrow> style \<Rightarrow> style \<Rightarrow> 'e jsx list \<Rightarrow> 'e jsx" where
  "wf_sparkline points_prop w_prop h_prop ps st ks =
     (let points = dflt (map Fin [50, 52, 49, 55, 58, 56, 62]) points_prop;
          w = dflt (Fin 70) w_prop; h = dflt (Fin 22) h_prop
      in Elem ''svg'' [(''width'', Num w), (''height'', Num h),
           (''viewBox'', Str (''0 0 '' @ js_to_string w @ '' '' @ js_to_string h))] st []
           [Elem ''polyline'' [(''points'', Str (wf_points points w h)), (''fill'', Str ''none''),
              (''stroke'', prop_or ps ''color'' (Str wf_accent)), (''strokeWidth'', Str ''1.5''), (''strokeLinejoin'', Str ''round'')] [] [] []])"

subsection \<open>The kit\<close>

text \<open>The components exported as \<open>window.WF\<close>, by name; the counts and values of three of them are arguments.\<close>

type_synonym 'e component = "style \<Rightarrow> style \<Rightarrow> 'e jsx list \<Rightarrow> 'e jsx"

definition wf_exports ::
  "nat \<Rightarrow> jsnum list option \<Rightarrow> string list option \<Rightarrow> jsnum option \<Rightarrow> jsnum option \<Rightarrow> (string \<times> 'e component) list" where
  "wf_exports n points frames w h =
     [(''Screen'', wf_screen), (''Box'', wf_box), (''Img'', wf_img), (''Line'', wf_line), (''Lines'', wf_lines n),
      (''Btn'', wf_btn), (''Pill'', wf_pill), (''Chip'', wf_chip), (''Card'', wf_card), (''Field'', wf_field),
      (''Label'', wf_label), (''H'', wf_h), (''Text'', wf_text), (''Divider'', wf_divider), (''Row'', wf_row),
      (''Col'', wf_col), (''Avatar'', wf_avatar), (''Ann'', wf_ann), (''WebBar'', wf_web_bar),
      (''PhoneStatus'', wf_phone_status), (''TabBar'', wf_tab_bar), (''BoSidebar'', wf_bo_sidebar),
      (''Chart'', wf_chart points frames), (''Sparkline'', wf_sparkline points w h)]"

lemmas wf_defs =
  wf_screen_def wf_box_def wf_img_def wf_line_def wf_lines_def wf_btn_def wf_pill_def wf_chip_def wf_card_def
  wf_field_def wf_label_def wf_h_def wf_text_def wf_divider_def wf_row_def wf_col_def wf_avatar_def wf_ann_def
  wf_web_bar_def wf_phone_status_def wf_tab_bar_def wf_bo_sidebar_def wf_chart_def wf_sparkline_def

text \<open>What a bar shows as active: the entries in bold type of the given size.\<close>

fun bold :: "rat \<Rightarrow> 'e jsx \<Rightarrow> string list" where
  "bold sz (Txt s) = []"
| "bold sz (Elem a b c d ks) =
     (if map_of c ''fontSize'' = Some (px sz) \<and> map_of c ''fontWeight'' = Some (px 700)
      then [text_of (Elem a b c d ks)] else []) @ concat (map (bold sz) ks)"

definition bold_entries :: "rat \<Rightarrow> 'e jsx \<Rightarrow> string list" where
  "bold_entries sz bar = concat (map (bold sz) (kids bar))"

lemma bold_nav:
  "concat (map (bold (25 / 2)) (map (nav_item active c b p) ts)) = filter (\<lambda>t. t = active) ts"
  by (induction ts) (simp_all add: nav_item_def bare_def)

lemma bold_tab:
  "z \<noteq> 19 / 2 \<Longrightarrow>
     concat (map (bold (19 / 2)) (map (tab_item active c z) ts)) = filter (\<lambda>t. t = active) (map fst ts)"
  by (induction ts) (auto simp: tab_item_def view_defs)

lemma filter_eq_distinct: "distinct xs \<Longrightarrow> filter (\<lambda>t. t = a) xs = (if a \<in> set xs then [a] else [])"
  by (induction xs) auto

subsection \<open>Properties of the kit\<close>

text \<open>
  Every component of the kit lets its caller override the style and nothing else: the style
  of the element is the component's own one with the caller's entries on top, and tag, properties
  and children do not depend on it.
\<close>

theorem kit_caller_style_wins:
  fixes f :: "'e component"
  assumes "(name, f) \<in> set (wf_exports n points frames w h)" "distinct (map fst st)"
  shows "map_of (sty (f ps st ks)) = map_of (sty (f ps [] ks)) ++ map_of st \<and>
    tag (f ps st ks) = tag (f ps [] ks) \<and> props (f ps st ks) = props (f ps [] ks) \<and> kids (f ps st ks) = kids (f ps [] ks)"
proof -
  have "\<forall>f \<in> snd ` set (wf_exports n points frames w h :: (string \<times> 'e component) list).
      map_of (sty (f ps st ks)) = map_of (sty (f ps [] ks)) ++ map_of st \<and>
      tag (f ps st ks) = tag (f ps [] ks) \<and> props (f ps st ks) = props (f ps [] ks) \<and> kids (f ps st ks) = kids (f ps [] ks)"
    using assms(2) by (simp add: wf_exports_def wf_defs view_defs Let_def map_of_spread)
  then show ?thesis using assms(1) by force
qed

text \<open>
  The bars of the kit show the active entry and no other in bold, and none when the active name
  is not among their entries.
\<close>

theorem kit_one_active_entry:
  fixes ks :: "'e jsx list"
  shows "let active = active_of ps ''Markets'' in
    bold_entries (25 / 2) (wf_web_bar ps st ks) = (if active \<in> set web_entries then [active] else []) \<and>
    bold_entries (19 / 2) (wf_tab_bar ps st ks) = (if active \<in> fst ` set tab_entries then [active] else []) \<and>
    bold_entries (25 / 2) (wf_bo_sidebar ps st ks) = (if active \<in> set bo_entries then [active] else [])"
proof -
  have "distinct web_entries" "distinct (map fst tab_entries)" "distinct bo_entries"
    by (simp_all add: web_entries_def tab_entries_def bo_entries_def)
  from this [THEN filter_eq_distinct, of "active_of ps ''Markets''"] show ?thesis
    by (simp add: wf_web_bar_def wf_tab_bar_def wf_bo_sidebar_def bold_entries_def view_defs Let_def
        bold_nav [unfolded map_map] bold_tab [unfolded map_map])
qed

text \<open>
  For probabilities in range the wireframe chart draws the polyline of the production chart.
\<close>

theorem kit_chart_agrees:
  assumes "1 \<le> length qs" "length qs \<le> 2 ^ 32" "\<forall>q \<in> set qs. 0 \<le> q \<and> q \<le> 100"
  shows "wf_points (map Fin qs) (Fin 300) (Fin 120) = path_str (line_xy (map Fin qs))"
proof -
  have c: "js_clamp (Fin 0) (Fin 100) (Fin q) = Fin q" if "q \<in> set qs" for q
    using assms(3) that by (force simp: js_clamp_def js_max_def js_min_def)
  have n: "js_sub (nat_num (length qs)) (Fin 1) = Fin (of_nat (length qs) - 1)"
    by (rule count_minus_one [OF assms(1,2)])
  have "js_clamp (Fin 0) (Fin 100) (snd x) = snd x" if "x \<in> set (enumerate 0 (map Fin qs))" for x
    using that c [of "qs ! fst x"] by (auto simp: in_set_enumerate_eq)
  then show ?thesis
    by (simp add: wf_points_def path_str_def line_xy_def xy_str_def n x_coord_def y_coord_def
        case_prod_unfold comp_def cong: map_cong)
qed

text \<open>A caption that narrows a line of the kit, and a chart of three values.\<close>

theorem kit_caller_style_wins_witness:
  "map_of (sty (wf_line [] [(''width'', Str ''40%'')] [] :: unit jsx)) ''width'' = Some (Str ''40%'')"
proof -
  have "(''Line'', wf_line :: unit component) \<in> set (wf_exports 3 None None None None)"
    by (simp add: wf_exports_def)
  from kit_caller_style_wins [OF this, of "[(''width'', Str ''40%'')]" "[]" "[]"]
  show ?thesis by simp
qed

theorem kit_chart_agrees_witness:
  "wf_points (map Fin [50, 0, 100]) (Fin 300) (Fin 120) = path_str (line_xy (map Fin [50, 0, 100]))"
  by (rule kit_chart_agrees) simp_all

end
