(* ===== verification/Wf_Dark.thy ===== *)
theory Wf_Dark
  imports Wf_Kit
begin

text \<open>
  The dark scope of the second set of wireframes (\<open>window.WFD\<close>): the style sheet that replaces the
  variables of the kit below \<open>.wf-dark\<close>, the dark screen and its three bars.
\<close>

definition dark_styles :: "string list" where
  "dark_styles =
     [[],
      ''    .wf-dark{'',
      ''      --wf-ink:#eef2f9; --wf-line:#4a566f; --wf-soft:#93a0bd; --wf-faint:#2c3447;'',
      ''      --wf-paper:#1b2130; --wf-fill:#232c3e; --wf-accent:#5b9dd9; --wf-accent-soft:#1f3147;'',
      ''      --wf-warn:#e3aa54; --wf-warn-soft:#3a2f1c; --wf-pos:#5cc491; --wf-neg:#e58178;'',
      ''      color:var(--wf-ink);'',
      ''    }'',
      ''    .wf-dark .wf-img{ background-color:#232c3e;'',
      ''      background-image:repeating-linear-gradient(45deg, transparent, transparent 6px, rgba(255,255,255,.05) 6px, rgba(255,255,255,.05) 7px);'',
      ''      border-color:#384358; color:#93a0bd; }'',
      ''    .wf-dark .wf-line{ background:#384358; }'',
      ''    '']"

definition dark_accent :: string where "dark_accent = ''var(--wf-accent)''"

definition wf_dark :: "'e component" where
  "wf_dark ps st ks =
     el ''div'' ''wf wf-dark''
       (spread [(''width'', Str ''100%''), (''height'', Str ''100%''), (''background'', prop_or ps ''bg'' (Str ''#11161f'')),
           (''overflow'', Str ''hidden''), (''position'', Str ''relative'')] st) ks"

definition wf_alt_bar :: "string list option \<Rightarrow> 'e component" where
  "wf_alt_bar items_prop ps st ks =
     (let active = active_of ps ''Home'';
          items = dflt [''Home'', ''Markets'', ''Communities'', ''Leaderboard''] items_prop
      in el ''div'' ''wf-row''
           (spread [(''justifyContent'', Str ''space-between''), (''padding'', Str ''0 22px''), (''height'', px 50),
               (''borderBottom'', Str ''1.5px solid var(--wf-faint)''), (''background'', Str ''#10141d'')] st)
           [el ''div'' ''wf-row'' [(''gap'', px 9)]
              [bare ''div'' [(''width'', px 15), (''height'', px 15), (''borderRadius'', px 4), (''background'', Str dark_accent)] [],
               bare ''span'' [(''fontWeight'', px 800), (''fontSize'', px 15), (''letterSpacing'', Str ''-.02em''),
                 (''color'', Str ''var(--wf-ink)'')] [Txt ''Adivento'']],
            el ''div'' ''wf-row'' [(''gap'', px 3)]
              (map (nav_item active ''var(--wf-accent)'' ''var(--wf-accent-soft)'' (Str ''5px 10px'')) items
               @ [el ''span'' ''wf-pill''
                    [(''background'', Str ''var(--wf-accent-soft)''), (''borderColor'', Str ''var(--wf-accent-soft)''),
                     (''color'', Str ''var(--wf-accent)''), (''fontWeight'', px 700), (''marginLeft'', px 6)]
                    [Txt ''4,250 ADIV''],
                  bare ''div'' [(''width'', px 28), (''height'', px 28), (''borderRadius'', Str ''50%''),
                    (''border'', Str ''1.5px solid var(--wf-line)''), (''marginLeft'', px 6)] []])])"

definition side_entries :: "(string \<times> string) list" where
  "side_entries =
     [(''Home'', [CHR 0xE2, CHR 0x8C, CHR 0x82]), (''Watchlist'', [CHR 0xE2, CHR 0x98, CHR 0x85]),
      (''Markets'', [CHR 0xE2, CHR 0x96, CHR 0xA6]), (''Portfolio'', [CHR 0xE2, CHR 0x97, CHR 0xAB]),
      (''Communities'', [CHR 0xF0, CHR 0x9F, CHR 0x91, CHR 0xA5]), (''Leaderboard'', [CHR 0xE2, CHR 0x86, CHR 0x9F])]"

definition side_item :: "string \<Rightarrow> string \<times> string \<Rightarrow> 'e jsx" where
  "side_item active entry =
     (case entry of (t, ic) \<Rightarrow>
        el ''span'' ''wf-row''
          [(''gap'', px 9), (''fontSize'', px (25 / 2)), (''fontWeight'', px (if t = active then 700 else 500)),
           (''color'', Str (if t = active then ''var(--wf-accent)'' else ''var(--wf-soft)'')), (''padding'', Str ''8px 9px''),
           (''borderRadius'', px 6), (''background'', Str (if t = active then ''var(--wf-accent-soft)'' else ''transparent''))]
          [bare ''span'' [(''width'', px 15), (''textAlign'', Str ''center'')] [Txt ic], Txt t])"

definition wf_alt_sidebar :: "'e component" where
  "wf_alt_sidebar ps st ks =
     (let active = active_of ps ''Watchlist''
      in el ''div'' ''wf-col''
           (spread [(''width'', px 156), (''borderRight'', Str ''1.5px solid var(--wf-faint)''), (''padding'', Str ''14px 10px''),
               (''gap'', px 3), (''background'', Str ''#10141d''), (''height'', Str ''100%'')] st)
           (el ''div'' ''wf-row'' [(''gap'', px 8), (''padding'', Str ''2px 6px 12px'')]
              [bare ''div'' [(''width'', px 14), (''height'', px 14), (''borderRadius'', px 4), (''background'', Str dark_accent)] [],
               bare ''span'' [(''fontWeight'', px 800), (''fontSize'', px 13), (''color'', Str ''var(--wf-ink)'')] [Txt ''Adivento'']]
            # map (side_item active) side_entries))"

definition alt_tab_entries :: "(string \<times> string) list" where
  "alt_tab_entries =
     [(''Markets'', [CHR 0xE2, CHR 0x96, CHR 0xA6]), (''Watchlist'', [CHR 0xE2, CHR 0x98, CHR 0x85]),
      (''Trade'', [CHR 0xE2, CHR 0x87, CHR 0x84]), (''Portfolio'', [CHR 0xE2, CHR 0x97, CHR 0xAB])]"

definition wf_alt_tab_bar :: "'e component" where
  "wf_alt_tab_bar ps st ks =
     (let active = active_of ps ''Markets''
      in el ''div'' ''wf-row''
           (spread [(''position'', Str ''absolute''), (''bottom'', px 0), (''left'', px 0), (''right'', px 0), (''height'', px 56),
               (''borderTop'', Str ''1.5px solid var(--wf-faint)''), (''background'', Str ''#10141d''),
               (''justifyContent'', Str ''space-around'')] st)
           (map (tab_item active ''var(--wf-accent)'' 16) alt_tab_entries))"

text \<open>The page that loads both kits: each sheet is added once, whatever is loaded again.\<close>

definition load_kits :: "(string \<times> string) list \<Rightarrow> (string \<times> string) list" where
  "load_kits head = inject_style ''wf-dark-styles'' dark_styles (inject_style ''wf-styles'' wf_styles head)"

lemma bold_side:
  "concat (map (bold (25 / 2)) (map (side_item active) ts)) =
     map (\<lambda>(t, ic). ic @ t) (filter (\<lambda>(t, _). t = active) ts)"
  by (induction ts) (auto simp: side_item_def view_defs)

lemma filter_fst_distinct:
  "distinct (map fst ts) \<Longrightarrow> map f (filter (\<lambda>(t, _). t = a) ts) = (case map_of ts a of None \<Rightarrow> [] | Some x \<Rightarrow> [f (a, x)])"
proof (induction ts)
  case (Cons p ts)
  then show ?case by (cases "fst p = a") (auto simp: map_of_eq_None_iff [THEN iffD2] filter_empty_conv split: prod.split)
qed simp

text \<open>
  The dark bars show the active entry and no other in bold: the top bar for whatever list of
  different entries it is given, the side bar with the entry's icon, and none of them when the
  active name is not among the entries.
\<close>

theorem dark_one_active_entry:
  fixes ks :: "'e jsx list"
  assumes "distinct items"
  shows "bold_entries (25 / 2) (wf_alt_bar (Some items) ps st ks) =
      (if active_of ps ''Home'' \<in> set items then [active_of ps ''Home''] else []) \<and>
    bold_entries (25 / 2) (wf_alt_sidebar ps st ks) =
      (case map_of side_entries (active_of ps ''Watchlist'') of None \<Rightarrow> [] | Some ic \<Rightarrow> [ic @ active_of ps ''Watchlist'']) \<and>
    bold_entries (19 / 2) (wf_alt_tab_bar ps st ks) =
      (if active_of ps ''Markets'' \<in> fst ` set alt_tab_entries then [active_of ps ''Markets''] else [])"
proof -
  have "distinct (map fst alt_tab_entries)" "distinct (map fst side_entries)"
    by (simp_all add: alt_tab_entries_def side_entries_def)
  then show ?thesis
    using assms filter_eq_distinct [of "map fst alt_tab_entries" "active_of ps ''Markets''"]
    by (simp add: wf_alt_bar_def wf_alt_sidebar_def wf_alt_tab_bar_def bold_entries_def view_defs Let_def
        bold_nav [unfolded map_map] bold_tab [unfolded map_map] bold_side [unfolded map_map]
        filter_fst_distinct filter_eq_distinct split: option.split)
qed

theorem dark_one_active_entry_witness:
  "bold_entries (25 / 2) (wf_alt_bar (Some [''Home'', ''Live'']) [(''active'', Str ''Live'')] [] [] :: unit jsx) = [''Live'']"
  using dark_one_active_entry [of "[''Home'', ''Live'']" "[(''active'', Str ''Live'')]" "[]" "[] :: unit jsx list"]
  by (simp add: active_of_def prop_or_def)

end
