(* ===== verification/Wf_Screen.thy ===== *)
theory Wf_Screen
  imports Wf_Dark
begin

text \<open>
  What the wireframe screens share. A screen is the tree its function returns; numbers are exact
  rationals (the screens compute with small whole numbers only), a map over an array that uses the
  index is a map over the enumerated list, and \<open>num_text\<close> is a number among the children. Below: no
  component of the kit gives an element the attribute by which the canvas finds the frames of its
  artboards, so the content of a frame is never taken for one.
\<close>

definition num_text :: "rat \<Rightarrow> string" where
  "num_text q = js_to_string (Fin q)"

subsection \<open>Slots in the kit\<close>

abbreviation slots :: "'e jsx \<Rightarrow> css list" where
  "slots t \<equiv> with_prop ''data-dc-slot'' t"

lemma slots_el [simp]:
  "slots (el t c st ks) = concat (map slots ks)" "slots (bare t st ks) = concat (map slots ks)"
  by (simp_all add: view_defs cls_def)

lemma spread_without: "map_of a k = None \<Longrightarrow> map_of b k = None \<Longrightarrow> map_of (spread a b) k = None"
proof (induction b arbitrary: a)
  case (Cons p b)
  then show ?case by (cases p) (auto simp: spread_def update_conv' split: if_splits)
qed (simp add: spread_def)

lemma slots_box [simp]:
  assumes "map_of ps ''data-dc-slot'' = None"
  shows "slots (wf_box ps st ks) = concat (map slots ks)"
proof -
  have "map_of (filter (\<lambda>(k, _). k \<noteq> ''dashed'') ps) ''data-dc-slot'' = None"
    using assms by (auto simp: map_of_eq_None_iff)
  then have "map_of (spread (cls c) (filter (\<lambda>(k, _). k \<noteq> ''dashed'') ps)) ''data-dc-slot'' = None" for c
    by (intro spread_without) (simp_all add: cls_def)
  then show ?thesis by (simp add: wf_box_def)
qed

lemma slots_none: "\<forall>x \<in> set xs. slots (f x) = [] \<Longrightarrow> concat (map (slots \<circ> f) xs) = []"
  by simp

lemma slots_item [simp]:
  "slots (nav_item a c b p t) = []" "slots (tab_item a c z e) = []" "slots (side_item a e) = []"
  by (cases e; simp add: nav_item_def tab_item_def side_item_def)+

lemma slots_bars [simp]:
  "slots (wf_web_bar ps st ks) = []" "slots (wf_phone_status ps st ks) = []" "slots (wf_tab_bar ps st ks) = []"
  "slots (wf_bo_sidebar ps st ks) = []" "slots (wf_alt_bar items ps st ks) = []" "slots (wf_alt_sidebar ps st ks) = []"
  "slots (wf_alt_tab_bar ps st ks) = []"
  by (simp_all add: wf_web_bar_def wf_phone_status_def wf_tab_bar_def wf_bo_sidebar_def wf_alt_bar_def
      wf_alt_sidebar_def wf_alt_tab_bar_def Let_def)

lemma slots_kit [simp]:
  "slots (wf_screen ps st ks) = concat (map slots ks)" "slots (wf_dark ps st ks) = concat (map slots ks)"
  "slots (wf_img ps st ks) = []" "slots (wf_line ps st ks) = []"
  "slots (wf_lines n ps st ks) = []" "slots (wf_btn ps st ks) = concat (map slots ks)"
  "slots (wf_pill ps st ks) = concat (map slots ks)" "slots (wf_chip ps st ks) = concat (map slots ks)"
  "slots (wf_card ps st ks) = concat (map slots ks)" "slots (wf_field ps st ks) = []"
  "slots (wf_label ps st ks) = concat (map slots ks)" "slots (wf_h ps st ks) = concat (map slots ks)"
  "slots (wf_text ps st ks) = concat (map slots ks)" "slots (wf_divider ps st ks) = []"
  "slots (wf_row ps st ks) = concat (map slots ks)" "slots (wf_col ps st ks) = concat (map slots ks)"
  "slots (wf_avatar ps st ks) = []" "slots (wf_ann ps st ks) = concat (map slots ks)"
  by (auto simp: wf_defs wf_dark_def Let_def split: option.split)

lemma slots_charts [simp]:
  "slots (wf_chart points frames ps st ks) = []" "slots (wf_sparkline points w h ps st ks) = []"
  by (simp_all add: wf_chart_def wf_grid_line_def wf_sparkline_def Let_def case_prod_unfold)

end
