(* ===== verification/Screens_Web.thy ===== *)
theory Screens_Web
  imports Wf_Screen
begin

text \<open>
  The desktop screens for customers: browsing, a market, the profile, the leaderboard, signing in.
\<close>

definition web_a :: "string" where
  "web_a = ''#356b8a''"

definition web_cap :: "style" where
  "web_cap =
     [(''fontSize'', px 11), (''fontWeight'', px 600), (''letterSpacing'', Str ''.04em''), (''textTransform'', Str ''uppercase''), (''color'', Str ''var(--wf-soft)'')]"

definition web_market_card :: "string option \<Rightarrow> string option \<Rightarrow> string option \<Rightarrow> 'e jsx" where
  "web_market_card mech_prop yes_prop no_prop =
     (let mech = dflt ''FIXED-ODDS'' mech_prop; yes = dflt ''62%'' yes_prop; no = dflt ''38%'' no_prop
      in wf_card [] [(''padding'', px 13)]
        [wf_row [] [(''gap'', px 5), (''marginBottom'', px 9)]
            [wf_chip [] [] [Txt ''Open''],
             wf_chip [] [] [Txt ''Politics''],
             wf_chip [] [(''color'', Str web_a), (''borderColor'', Str web_a)] [Txt mech]],
         bare ''div'' [(''fontSize'', px (27 / 2)), (''fontWeight'', px 700), (''lineHeight'', px (13 / 10)), (''marginBottom'', px 10), (''height'', px 36), (''overflow'', Str ''hidden'')] [Txt ''Will the proposal pass before the end of Q3 2026?''],
         wf_row [] [(''gap'', px 8), (''marginBottom'', px 11)]
            [wf_box [] [(''flex'', px 1), (''textAlign'', Str ''center''), (''padding'', Str ''8px 0''), (''borderColor'', Str ''var(--wf-faint)'')]
                [bare ''div'' [(''fontSize'', px 10), (''color'', Str ''var(--wf-soft)'')] [Txt ''YES''],
                 bare ''div'' [(''fontSize'', px 19), (''fontWeight'', px 800), (''color'', Str web_a)] [Txt yes]],
             wf_box [] [(''flex'', px 1), (''textAlign'', Str ''center''), (''padding'', Str ''8px 0''), (''borderColor'', Str ''var(--wf-faint)'')]
                [bare ''div'' [(''fontSize'', px 10), (''color'', Str ''var(--wf-soft)'')] [Txt ''NO''],
                 bare ''div'' [(''fontSize'', px 19), (''fontWeight'', px 800), (''color'', Str ''var(--wf-warn)'')] [Txt no]]],
         wf_row [] [(''justifyContent'', Str ''space-between''), (''alignItems'', Str ''center'')]
            [wf_text [(''size'', px (21 / 2)), (''soft'', Flag True)] [] [Txt ''Vol 128k''],
             wf_sparkline (Some (map Fin [(48 :: rat), 50, 47, 52, 55, 53, 58, 62])) None None [] [] [],
             wf_text [(''size'', px (21 / 2)), (''soft'', Flag True)] [] [Txt ''Closes 6d'']]])"

definition web_browse :: "'e jsx" where
  "web_browse =
     wf_screen [] []
        [wf_web_bar [(''active'', Str ''Markets'')] [] [],
         bare ''div'' [(''padding'', Str ''20px 26px'')]
            [wf_row [] [(''justifyContent'', Str ''space-between''), (''marginBottom'', px 4)]
                [wf_h [(''size'', px 24)] [] [Txt ''Markets''],
                 wf_ann [(''n'', px 1)] []
                    [Txt (''SSE '' @ [CHR 0xE2, CHR 0x80, CHR 0x9C] @ ''live'' @ [CHR 0xE2, CHR 0x80, CHR 0x9D] @ '' dot pulses on open markets'')]],
             wf_text [(''soft'', Flag True)] [(''marginBottom'', px 16)] [Txt ''Browse, search and filter prediction markets''],
             wf_row [] [(''gap'', px 10), (''marginBottom'', px 14)]
                [wf_field [(''label'', Str ([CHR 0xE2, CHR 0x8C, CHR 0x95] @ ''  Search markets, tags'' @ [CHR 0xE2, CHR 0x80, CHR 0xA6]))] [(''flex'', px 1), (''maxWidth'', px 380)] [],
                 wf_field [(''label'', Str (''Category '' @ [CHR 0xE2, CHR 0x96, CHR 0xBE]))] [(''width'', px 130)] [],
                 wf_field [(''label'', Str (''Mechanism '' @ [CHR 0xE2, CHR 0x96, CHR 0xBE]))] [(''width'', px 130)] [],
                 wf_field [(''label'', Str (''Status '' @ [CHR 0xE2, CHR 0x96, CHR 0xBE]))] [(''width'', px 110)] [],
                 bare ''div'' [(''flex'', px 1)] [],
                 wf_field [(''label'', Str (''Sort: Volume '' @ [CHR 0xE2, CHR 0x96, CHR 0xBE]))] [(''width'', px 150)] []],
             wf_row [] [(''gap'', px 6), (''marginBottom'', px 18)]
                [wf_pill [(''active'', Flag True)] [] [Txt ''All''],
                 wf_pill [] [] [Txt ''Politics''],
                 wf_pill [] [] [Txt ''Sports''],
                 wf_pill [] [] [Txt ''Crypto''],
                 wf_pill [] [] [Txt ''Macro''],
                 wf_pill [] [] [Txt ''Culture''],
                 wf_ann [] [(''marginLeft'', px 8)] [Txt ''category quick-filter chips'']],
             bare ''div'' [(''display'', Str ''grid''), (''gridTemplateColumns'', Str ''repeat(4, 1fr)''), (''gap'', px 14)]
                [web_market_card (Some ''FIXED-ODDS'') None None,
                 web_market_card (Some ''CLOB'') (Some (''54'' @ [CHR 0xC2, CHR 0xA2])) (Some (''46'' @ [CHR 0xC2, CHR 0xA2])),
                 web_market_card (Some ''LMSR'') (Some ''71%'') (Some ''29%''),
                 web_market_card (Some ''PARIMUTUEL'') (Some ''48%'') (Some ''52%''),
                 web_market_card (Some ''FIXED-ODDS'') (Some ''33%'') (Some ''67%''),
                 web_market_card (Some ''CLOB'') (Some (''60'' @ [CHR 0xC2, CHR 0xA2])) (Some (''40'' @ [CHR 0xC2, CHR 0xA2])),
                 web_market_card (Some ''LMSR'') (Some ''22%'') (Some ''78%''),
                 web_market_card (Some ''PARIMUTUEL'') (Some ''50%'') (Some ''50%'')],
             wf_row [] [(''justifyContent'', Str ''center''), (''gap'', px 8), (''marginTop'', px 18)]
                [wf_btn [(''ghost'', Flag True)] [] [Txt ([CHR 0xE2, CHR 0x80, CHR 0xB9] @ '' Prev'')],
                 wf_pill [(''active'', Flag True)] [] [Txt ''1''],
                 wf_pill [] [] [Txt ''2''],
                 wf_pill [] [] [Txt ''3''],
                 wf_btn [(''ghost'', Flag True)] [] [Txt (''Next '' @ [CHR 0xE2, CHR 0x80, CHR 0xBA])],
                 wf_ann [(''n'', px 2)] [(''marginLeft'', px 10)] [Txt ''12 per page (F-017)'']]]]"

definition web_market_detail :: "'e jsx" where
  "web_market_detail =
     wf_screen [] []
        [wf_web_bar [(''active'', Str ''Markets'')] [] [],
         bare ''div'' [(''padding'', Str ''18px 26px''), (''display'', Str ''grid''), (''gridTemplateColumns'', Str ''1fr 320px''), (''gap'', px 22)]
            [wf_col [(''gap'', px 14)] []
                [wf_text [(''size'', px (23 / 2)), (''soft'', Flag True)] [] [Txt ([CHR 0xE2, CHR 0x80, CHR 0xB9] @ '' All Markets'')],
                 wf_row [] [(''gap'', px 5)]
                    [wf_chip [] [] [Txt ''Open''],
                     wf_chip [] [] [Txt ''Politics''],
                     wf_chip [] [(''color'', Str web_a), (''borderColor'', Str web_a)] [Txt ''FIXED-ODDS'']],
                 wf_h [(''size'', px 22)] [] [Txt ''Will the proposal pass before the end of Q3 2026?''],
                 wf_lines 2 [(''last'', Str ''70%'')] [] [],
                 wf_row [] [(''gap'', px 5)]
                    [wf_chip [] [(''textTransform'', Str ''none''), (''color'', Str ''var(--wf-warn)''), (''borderColor'', Str ''var(--wf-warn-soft)'')] [Txt ''#senate''],
                     wf_chip [] [(''textTransform'', Str ''none''), (''color'', Str ''var(--wf-warn)''), (''borderColor'', Str ''var(--wf-warn-soft)'')] [Txt ''#policy'']],
                 wf_row [] [(''gap'', px 10)]
                    (map (\<lambda>(l, v).
                        wf_box [] [(''flex'', px 1), (''padding'', Str ''9px 11px''), (''borderColor'', Str ''var(--wf-faint)'')]
                          [bare ''div'' web_cap [Txt l],
                           bare ''div'' [(''fontSize'', px 15), (''fontWeight'', px 700), (''marginTop'', px 3)] [Txt v]])
                      [(''Volume'', ''128,400''), (''Open positions'', ''342''), (''Creator'', ''mod_jane''), (''Closes in'', ''6d 4h'')]),
                 wf_card [] []
                    [wf_row [] [(''justifyContent'', Str ''space-between''), (''marginBottom'', px 12)]
                        [wf_row [] [(''gap'', px 10), (''alignItems'', Str ''baseline'')]
                            [bare ''span'' [(''fontSize'', px 30), (''fontWeight'', px 800), (''color'', Str web_a)] [Txt ''62%''],
                             bare ''span'' [(''fontSize'', px 13), (''fontWeight'', px 700), (''color'', Str ''var(--wf-pos)'')] [Txt ([CHR 0xE2, CHR 0x96, CHR 0xB2] @ '' 4 pts today'')],
                             wf_text [(''size'', px 12), (''soft'', Flag True)] [] [Txt ''YES chance'']],
                         wf_pill [] [(''fontSize'', px 10)]
                            [Txt ([CHR 0xE2, CHR 0x97, CHR 0x8F] @ '' live '' @ [CHR 0xC2, CHR 0xB7] @ '' SSE'')]],
                     wf_chart (Some (map Fin [(44 :: rat), 47, 45, 50, 53, 51, 49, 55, 58, 56, 60, 62])) None [(''h'', px 150)] [(''marginBottom'', px 12)] [],
                     wf_row [] [(''gap'', px 10)]
                        [wf_box [] [(''flex'', px 1), (''textAlign'', Str ''center''), (''padding'', Str ''11px 0''), (''borderWidth'', px 2), (''borderColor'', Str web_a)]
                            [bare ''div'' [(''fontSize'', px 11), (''color'', Str ''var(--wf-soft)'')] [Txt ''YES''],
                             bare ''div'' [(''fontSize'', px 26), (''fontWeight'', px 800), (''color'', Str web_a)] [Txt ''62%''],
                             bare ''div'' [(''fontSize'', px 10), (''color'', Str ''var(--wf-soft)'')]
                                [Txt (''62.0'' @ [CHR 0xC2, CHR 0xA2] @ '' '' @ [CHR 0xC2, CHR 0xB7] @ '' pays 1.61'' @ [CHR 0xC3, CHR 0x97])]],
                         wf_box [] [(''flex'', px 1), (''textAlign'', Str ''center''), (''padding'', Str ''11px 0''), (''borderColor'', Str ''var(--wf-faint)'')]
                            [bare ''div'' [(''fontSize'', px 11), (''color'', Str ''var(--wf-soft)'')] [Txt ''NO''],
                             bare ''div'' [(''fontSize'', px 26), (''fontWeight'', px 800), (''color'', Str ''var(--wf-warn)'')] [Txt ''38%''],
                             bare ''div'' [(''fontSize'', px 10), (''color'', Str ''var(--wf-soft)'')]
                                [Txt (''38.0'' @ [CHR 0xC2, CHR 0xA2] @ '' '' @ [CHR 0xC2, CHR 0xB7] @ '' pays 2.63'' @ [CHR 0xC3, CHR 0x97])]]],
                     wf_row [] [(''gap'', px 0), (''marginTop'', px 12), (''borderTop'', Str ''1.5px solid var(--wf-faint)''), (''paddingTop'', px 10)]
                        (map (\<lambda>(i, (l, v)).
                            wf_col [(''gap'', px 2)] [(''flex'', px 1), (''borderLeft'', if i \<noteq> 0 then Str ''1px solid var(--wf-faint)'' else px 0), (''paddingLeft'', if i \<noteq> 0 then px 12 else px 0)]
                              [bare ''div'' (spread web_cap [(''fontSize'', px (19 / 2))]) [Txt l],
                               bare ''div'' [(''fontSize'', px 15), (''fontWeight'', px 700)] [Txt v]])
                          (enumerate 0 [(''24h volume'', ''24,180''), (''Liquidity'', ''88,400''), (''Holders'', ''146''), (''24h trades'', ''512'')])),
                     wf_ann [(''n'', px 2)] [(''marginTop'', px 10)]
                        [Txt ''price-history chart + decision stats (Polymarket/Kalshi benchmark)'']],
                 wf_card [] []
                    ([wf_row [] [(''justifyContent'', Str ''space-between''), (''marginBottom'', px 8)]
                        [wf_label [] [] [Txt ''Activity & top holders''],
                         wf_row [] [(''gap'', px 5)]
                            [wf_pill [(''active'', Flag True)] [] [Txt ''Trades''], wf_pill [] [] [Txt ''Holders'']]]]
                    @ map (\<lambda>(i, (a, d, c)).
                        wf_row [] [(''justifyContent'', Str ''space-between''), (''padding'', Str ''8px 0''), (''borderBottom'', Str ''1px solid var(--wf-faint)''), (''alignItems'', Str ''center'')]
                          [wf_row [] [(''gap'', px 8)]
                              [wf_avatar [(''size'', px 22)] [] [],
                               wf_text [(''size'', px 12)] []
                                  [Txt (''player_'' @ num_text (of_nat i)),
                                   Txt '' '',
                                   bare ''span'' [(''color'', Str ''var(--wf-soft)'')] [Txt a]]],
                           wf_text [(''size'', px 12)] [(''color'', Str c)] [Txt d],
                           wf_text [(''size'', px (21 / 2)), (''soft'', Flag True)] [] [Txt (num_text ((of_nat i + 1))), Txt ''m ago'']])
                      (enumerate 0 [(''bought YES'', (''+120 @ 60'' @ [CHR 0xC2, CHR 0xA2]), ''var(--wf-pos)''), (''sold NO'', ([CHR 0xE2, CHR 0x88, CHR 0x92] @ ''80 @ 41'' @ [CHR 0xC2, CHR 0xA2]), ''var(--wf-neg)''), (''bought YES'', (''+50 @ 61'' @ [CHR 0xC2, CHR 0xA2]), ''var(--wf-pos)'')])),
                 wf_card [] []
                    [wf_label [] [(''marginBottom'', px 8)] [Txt ''Resolution details''],
                     wf_lines 2 [(''last'', Str ''80%'')] [] [],
                     wf_row [] [(''marginTop'', px 8), (''gap'', px 16)]
                        [wf_text [(''size'', px (23 / 2)), (''soft'', Flag True)] []
                            [Txt ''Source: '',
                             bare ''b'' [(''color'', Str ''var(--wf-ink)'')] [Txt ''Official register'']],
                         wf_text [(''size'', px (23 / 2)), (''soft'', Flag True)] []
                            [Txt (''Closes: Sep 30, 2026 '' @ [CHR 0xC2, CHR 0xB7] @ '' 23:59 UTC'')]]],
                 wf_card [] []
                    ([wf_label [] [(''marginBottom'', px 8)] [Txt ''Your bets''],
                     wf_row [] [(''justifyContent'', Str ''space-between''), (''padding'', Str ''6px 0''), (''borderBottom'', Str ''1.5px solid var(--wf-faint)'')]
                        [wf_text [(''size'', px 11), (''soft'', Flag True)] [] [Txt ''OUTCOME''],
                         wf_text [(''size'', px 11), (''soft'', Flag True)] [] [Txt ''STAKE''],
                         wf_text [(''size'', px 11), (''soft'', Flag True)] [] [Txt ''PAYOUT''],
                         wf_text [(''size'', px 11), (''soft'', Flag True)] [] [Txt ''STATUS'']]]
                    @ map (\<lambda>(i, s).
                        wf_row [] [(''justifyContent'', Str ''space-between''), (''padding'', Str ''8px 0''), (''borderBottom'', Str ''1px solid var(--wf-faint)'')]
                          [wf_text [(''size'', px 12)] [] [bare ''b'' [] [Txt s]],
                           wf_text [(''size'', px 12)] [] [Txt ''500''],
                           wf_text [(''size'', px 12)] [] [Txt ''806''],
                           el ''span'' ''wf-chip'' [(''color'', if i \<noteq> 0 then Str ''var(--wf-pos)'' else Str web_a), (''borderColor'', Str ''currentColor'')]
                              [(if i \<noteq> 0 then Txt ''Won''
                                else Txt ''Open'')]])
                      (enumerate 0 [''YES'', ''NO'']))],
             wf_col [(''gap'', px 12)] []
                [wf_card [] [(''position'', Str ''sticky''), (''top'', px 12)]
                    [wf_h [(''size'', px 15)] [(''marginBottom'', px 12)] [Txt ''Place a bet''],
                     wf_row [] [(''gap'', px 8), (''marginBottom'', px 12)]
                        [wf_box [] [(''flex'', px 1), (''textAlign'', Str ''center''), (''padding'', Str ''12px 0''), (''borderWidth'', px 2), (''borderColor'', Str web_a)]
                            [bare ''b'' [(''color'', Str web_a)] [Txt ''YES''],
                             bare ''div'' [(''fontSize'', px 10), (''color'', Str ''var(--wf-soft)'')] [Txt ''62%'']],
                         wf_box [] [(''flex'', px 1), (''textAlign'', Str ''center''), (''padding'', Str ''12px 0''), (''borderColor'', Str ''var(--wf-faint)'')]
                            [bare ''b'' [] [Txt ''NO''],
                             bare ''div'' [(''fontSize'', px 10), (''color'', Str ''var(--wf-soft)'')] [Txt ''38%'']]],
                     wf_label [] [(''marginBottom'', px 5)] [Txt ''Stake (ADIV)''],
                     wf_field [(''label'', Str ''100'')] [(''marginBottom'', px 8)] [],
                     wf_row [] [(''gap'', px 6), (''marginBottom'', px 12)]
                        (map (\<lambda>q.
                            wf_pill [] [] [Txt q])
                          [''+50'', ''+100'', ''+500'', ''Max'']),
                     wf_box [] [(''padding'', px 10), (''borderColor'', Str ''var(--wf-faint)''), (''background'', Str ''var(--wf-fill)''), (''marginBottom'', px 12)]
                        [wf_row [] [(''justifyContent'', Str ''space-between'')]
                            [wf_text [(''size'', px (23 / 2)), (''soft'', Flag True)] [] [Txt ''Potential payout''],
                             wf_text [(''size'', px 13)] [] [bare ''b'' [] [Txt ''161 ADIV'']]],
                         wf_row [] [(''justifyContent'', Str ''space-between'')]
                            [wf_text [(''size'', px (23 / 2)), (''soft'', Flag True)] [] [Txt ''Fee (1%)''],
                             wf_text [(''size'', px (23 / 2)), (''soft'', Flag True)] [] [Txt ''1 ADIV'']]],
                     wf_btn [(''primary'', Flag True)] [(''width'', Str ''100%''), (''justifyContent'', Str ''center'')] [Txt ''Place bet''],
                     wf_ann [(''n'', px 3)] [(''marginTop'', px 10)]
                        [Txt (''Guest '' @ [CHR 0xE2, CHR 0x86, CHR 0x92] @ '' '' @ [CHR 0xE2, CHR 0x80, CHR 0x9C] @ ''Sign in to bet'' @ [CHR 0xE2, CHR 0x80, CHR 0x9D] @ '' here'')]],
                 wf_card [] []
                    [wf_label [] [(''marginBottom'', px 6)] [Txt ''Outcomes''],
                     wf_row [] [(''justifyContent'', Str ''space-between''), (''padding'', Str ''5px 0'')]
                        [wf_text [(''size'', px 12)] [] [bare ''b'' [] [Txt ''YES'']],
                         wf_text [(''size'', px (23 / 2)), (''soft'', Flag True)] [] [Txt ''62% implied'']],
                     wf_row [] [(''justifyContent'', Str ''space-between''), (''padding'', Str ''5px 0'')]
                        [wf_text [(''size'', px 12)] [] [bare ''b'' [] [Txt ''NO'']],
                         wf_text [(''size'', px (23 / 2)), (''soft'', Flag True)] [] [Txt ''38% implied'']]]]]]"

definition web_profile :: "'e jsx" where
  "web_profile =
     wf_screen [] []
        [wf_web_bar [(''active'', Str ''Profile'')] [] [],
         bare ''div'' [(''padding'', Str ''20px 26px'')]
            [wf_row [] [(''gap'', px 14), (''marginBottom'', px 18)]
                [wf_avatar [(''size'', px 52)] [] [],
                 wf_col [(''gap'', px 3)] []
                    [wf_h [(''size'', px 20)] [] [Txt ''player_alex''],
                     wf_text [(''soft'', Flag True)] []
                        [Txt (''Member since Mar 2026 '' @ [CHR 0xC2, CHR 0xB7] @ '' Rank #14'')]],
                 bare ''div'' [(''flex'', px 1)] [],
                 wf_box [] [(''padding'', Str ''12px 18px''), (''textAlign'', Str ''right''), (''borderColor'', Str web_a)]
                    [bare ''div'' web_cap [Txt ''Wallet balance''],
                     bare ''div'' [(''fontSize'', px 26), (''fontWeight'', px 800), (''color'', Str web_a)] [Txt ''4,250 ADIV'']]],
             bare ''div'' [(''display'', Str ''grid''), (''gridTemplateColumns'', Str ''repeat(4,1fr)''), (''gap'', px 12), (''marginBottom'', px 18)]
                (map (\<lambda>(l, v, t).
                    wf_box [] [(''padding'', Str ''12px 14px''), (''borderColor'', Str ''var(--wf-faint)'')]
                      [bare ''div'' web_cap [Txt l],
                       bare ''div'' [(''fontSize'', px 21), (''fontWeight'', px 800), (''marginTop'', px 3), (''color'', if t = ''pos'' then Str ''var(--wf-pos)'' else Str ''var(--wf-ink)'')] [Txt v]])
                  [(''Net P&L'', ''+1,180'', ''pos''), (''Total bets'', ''37'', []), (''Win rate'', ''57%'', []), (''Volume'', ''12,400'', [])]),
             bare ''div'' [(''display'', Str ''grid''), (''gridTemplateColumns'', Str ''1fr 300px''), (''gap'', px 18)]
                [wf_card [] []
                    ([wf_row [] [(''justifyContent'', Str ''space-between''), (''marginBottom'', px 8)]
                        [wf_label [] [] [Txt ''Bet history''],
                         wf_row [] [(''gap'', px 5)]
                            [wf_pill [(''active'', Flag True)] [] [Txt ''All''],
                             wf_pill [] [] [Txt ''Open''],
                             wf_pill [] [] [Txt ''Settled'']]],
                     wf_row [] [(''justifyContent'', Str ''space-between''), (''padding'', Str ''6px 0''), (''borderBottom'', Str ''1.5px solid var(--wf-faint)'')]
                        (map (\<lambda>h.
                            wf_text [(''size'', px (21 / 2)), (''soft'', Flag True)] [] [Txt h])
                          [''MARKET'', ''SIDE'', ''STAKE'', ''P&L'', ''STATUS''])]
                    @ map (\<lambda>i.
                        wf_row [] [(''justifyContent'', Str ''space-between''), (''padding'', Str ''9px 0''), (''borderBottom'', Str ''1px solid var(--wf-faint)''), (''alignItems'', Str ''center'')]
                          [wf_line [(''w'', Str ''34%'')] [] [],
                           wf_text [(''size'', px 11)] [] [Txt ''YES''],
                           wf_text [(''size'', px 11)] [] [Txt ''500''],
                           wf_text [(''size'', px 11)] [(''color'', if (i mod 2) \<noteq> 0 then Str ''var(--wf-pos)'' else Str ''var(--wf-neg)'')]
                              [(if (i mod 2) \<noteq> 0 then Txt ''+306''
                                else Txt ([CHR 0xE2, CHR 0x88, CHR 0x92] @ ''500''))],
                           el ''span'' ''wf-chip'' []
                              [(if (i mod 2) \<noteq> 0 then Txt ''Won''
                                else Txt ''Lost'')]])
                      [0..<6]),
                 wf_col [(''gap'', px 14)] []
                    [wf_card [] [(''borderColor'', Str web_a)]
                        [wf_label [] [(''marginBottom'', px 8)] [Txt ''Request faucet top-up''],
                         wf_text [(''size'', px (23 / 2)), (''soft'', Flag True)] [(''marginBottom'', px 10)] [Txt ''Out of ADIV? Request play-money. A moderator approves it.''],
                         wf_field [(''label'', Str ''Amount: 1,000'')] [(''marginBottom'', px 8)] [],
                         wf_field [(''label'', Str ''Reason (optional)'')] [(''marginBottom'', px 10)] [],
                         wf_btn [(''primary'', Flag True)] [(''width'', Str ''100%''), (''justifyContent'', Str ''center'')] [Txt ''Request top-up''],
                         wf_ann [(''n'', px 1)] [(''marginTop'', px 10)]
                            [Txt (''Pending request '' @ [CHR 0xE2, CHR 0x86, CHR 0x92] @ '' status banner'')]],
                     wf_card [] []
                        ([wf_label [] [(''marginBottom'', px 8)] [Txt ''Open positions'']]
                        @ map (\<lambda>p.
                            wf_row [] [(''justifyContent'', Str ''space-between''), (''padding'', Str ''6px 0'')]
                              [wf_text [(''size'', px 12)] [] [Txt p],
                               wf_text [(''size'', px (23 / 2)), (''soft'', Flag True)] [] [Txt [CHR 0xE2, CHR 0x80, CHR 0xBA]]])
                          [(''Fixed-odds '' @ [CHR 0xC2, CHR 0xB7] @ '' 2''), (''CLOB contracts '' @ [CHR 0xC2, CHR 0xB7] @ '' 40''), (''Pool stakes '' @ [CHR 0xC2, CHR 0xB7] @ '' 1'')])]]]]"

definition web_leaderboard :: "'e jsx" where
  "web_leaderboard =
     wf_screen [] []
        [wf_web_bar [(''active'', Str ''Leaderboard'')] [] [],
         bare ''div'' [(''padding'', Str ''20px 26px'')]
            [wf_h [(''size'', px 24)] [(''marginBottom'', px 4)] [Txt ''Leaderboard''],
             wf_text [(''soft'', Flag True)] [(''marginBottom'', px 18)] [Txt ''Ranked by net P&L across all market mechanisms (F-015)''],
             wf_row [] [(''gap'', px 14), (''marginBottom'', px 20), (''alignItems'', Str ''flex-end'')]
                (map (\<lambda>(i, (rank, h, _)).
                    wf_col [(''gap'', px 6)] [(''alignItems'', Str ''center''), (''flex'', px 1)]
                      [wf_avatar [(''size'', if i = 1 then px 46 else px 38)] [] [],
                       wf_text [(''size'', px 12)] []
                          [bare ''b'' []
                              [Txt ''player_'',
                               Txt (let s = ([[], ''one'', [], ''three''] ! i) in if s = [] then ''two'' else s)]],
                       wf_text [(''size'', px 11)] [(''color'', Str ''var(--wf-pos)'')] [Txt ''+'', Txt (num_text (((4 - of_nat i) * 900))), Txt '' P&L''],
                       wf_box [] [(''width'', Str ''100%''), (''height'', px h), (''background'', Str ''var(--wf-fill)''), (''borderColor'', Str ''var(--wf-faint)''), (''display'', Str ''flex''), (''alignItems'', Str ''flex-start''), (''justifyContent'', Str ''center''), (''paddingTop'', px 8), (''fontWeight'', px 800), (''fontSize'', px 18), (''color'', Str web_a)] [Txt rank]])
                  (enumerate 0 [(''2'', (88 :: rat), ''silver''), (''1'', 108, ''gold''), (''3'', 72, ''bronze'')])
                @ [wf_ann [(''n'', px 1)] [(''flex'', Str ''0 0 130px'')] [Txt ''Top-3 podium feature row'']]),
             wf_card [] [(''padding'', px 0)]
                ([wf_row [] [(''justifyContent'', Str ''space-between''), (''padding'', Str ''11px 16px''), (''borderBottom'', Str ''1.5px solid var(--wf-faint)'')]
                    (map (\<lambda>h.
                        wf_text [(''size'', px (21 / 2)), (''soft'', Flag True)] [] [Txt h])
                      [''#'', ''PLAYER'', ''NET P&L'', ''VOLUME'', ''WIN RATE'', ''BETS''])]
                @ map (\<lambda>i.
                    wf_row [] [(''justifyContent'', Str ''space-between''), (''padding'', Str ''11px 16px''), (''borderBottom'', Str ''1px solid var(--wf-faint)''), (''alignItems'', Str ''center''), (''background'', if i = 3 then Str ''var(--wf-accent-soft)'' else Str ''transparent'')]
                      [wf_text [(''size'', px (25 / 2))] [] [bare ''b'' [] [Txt (num_text ((of_nat i + 4)))]],
                       wf_row [] [(''gap'', px 8), (''width'', px 160)]
                          [wf_avatar [(''size'', px 22)] [] [],
                           wf_text [(''size'', px 12)] []
                              [Txt (''player_'' @ num_text (of_nat i)),
                               (if i = 3 then Txt ''  (you)''
                                else Txt [])]],
                       wf_text [(''size'', px 12)] [(''color'', Str ''var(--wf-pos)'')] [Txt ''+'', Txt (num_text ((1400 - (of_nat i * 130))))],
                       wf_text [(''size'', px 12), (''soft'', Flag True)] [] [Txt (num_text ((12 - of_nat i))), Txt ''k''],
                       wf_text [(''size'', px 12), (''soft'', Flag True)] [] [Txt (num_text ((60 - (of_nat i * 2)))), Txt ''%''],
                       wf_text [(''size'', px 12), (''soft'', Flag True)] [] [Txt (num_text ((40 - (of_nat i * 3))))]])
                  [0..<7])]]"

definition web_auth :: "'e jsx" where
  "web_auth =
     wf_screen [(''bg'', Str ''#faf9f6'')] []
        [wf_web_bar [(''active'', Str []), (''signedIn'', Flag False)] [] [],
         bare ''div'' [(''display'', Str ''flex''), (''justifyContent'', Str ''center''), (''gap'', px 26), (''padding'', Str ''46px 26px'')]
            [wf_card [] [(''width'', px 320), (''padding'', px 22)]
                [wf_h [(''size'', px 19)] [(''marginBottom'', px 4)] [Txt ''Welcome back''],
                 wf_text [(''soft'', Flag True)] [(''marginBottom'', px 18)] [Txt ''Sign in to bet and track positions''],
                 wf_label [] [(''marginBottom'', px 5)] [Txt ''Email''],
                 wf_field [(''label'', Str ''you@email.com'')] [(''marginBottom'', px 12)] [],
                 wf_label [] [(''marginBottom'', px 5)] [Txt ''Password''],
                 wf_field [(''label'', Str [CHR 0xE2, CHR 0x80, CHR 0xA2, CHR 0xE2, CHR 0x80, CHR 0xA2, CHR 0xE2, CHR 0x80, CHR 0xA2, CHR 0xE2, CHR 0x80, CHR 0xA2, CHR 0xE2, CHR 0x80, CHR 0xA2, CHR 0xE2, CHR 0x80, CHR 0xA2, CHR 0xE2, CHR 0x80, CHR 0xA2, CHR 0xE2, CHR 0x80, CHR 0xA2])] [(''marginBottom'', px 16)] [],
                 wf_btn [(''primary'', Flag True)] [(''width'', Str ''100%''), (''justifyContent'', Str ''center''), (''marginBottom'', px 12)] [Txt ''Sign in''],
                 wf_text [(''size'', px (23 / 2)), (''soft'', Flag True)] [(''textAlign'', Str ''center'')]
                    [Txt ''No account? '', bare ''b'' [(''color'', Str web_a)] [Txt ''Register'']]],
             wf_col [(''gap'', px 10)] [(''width'', px 250), (''paddingTop'', px 8)]
                [wf_ann [(''n'', px 1)] [] [Txt ''Session-cookie auth (web + backoffice)''],
                 wf_box [(''dashed'', Flag True)] [(''padding'', px 14), (''borderColor'', Str ''var(--wf-faint)'')]
                    [wf_label [] [(''marginBottom'', px 8)] [Txt ''New here? You get''],
                     wf_lines 3 [(''last'', Str ''50%'')] [] [],
                     wf_row [] [(''gap'', px 6), (''marginTop'', px 10)]
                        [wf_chip [] [(''color'', Str web_a), (''borderColor'', Str web_a)] [Txt ''Faucet ADIV''],
                         wf_chip [] [] [Txt ''No real money'']]],
                 wf_ann [(''n'', px 2)] [] [Txt ''First-run: prompt faucet request after register'']]]]"

end
