(* ===== verification/Screens_Mech.thy ===== *)
theory Screens_Mech
  imports Wf_Screen
begin

text \<open>
  The tickets of the four betting mechanisms.
\<close>

definition mech_a :: "string" where
  "mech_a = ''#356b8a''"

definition mech_w :: "string" where
  "mech_w = ''#9a6a1e''"

definition mech_cap :: "style" where
  "mech_cap =
     [(''fontSize'', px (21 / 2)), (''fontWeight'', px 600), (''letterSpacing'', Str ''.04em''), (''textTransform'', Str ''uppercase''), (''color'', Str ''var(--wf-soft)'')]"

definition mech_head :: "string \<Rightarrow> string \<Rightarrow> 'e jsx" where
  "mech_head label title =
     wf_col [(''gap'', px 4)] [(''marginBottom'', px 12)]
        [wf_chip [] [(''color'', Str mech_a), (''borderColor'', Str mech_a), (''alignSelf'', Str ''flex-start'')] [Txt label],
         wf_h [(''size'', px 15)] [] [Txt title]]"

definition mech_fixed_odds :: "'e jsx" where
  "mech_fixed_odds =
     wf_screen [(''pad'', px 16)] []
        [mech_head ''FIXED-ODDS'' ''Place a bet'',
         wf_text [(''size'', px (23 / 2)), (''soft'', Flag True)] [(''marginBottom'', px 12)]
            [Txt (''House sets the price. Payout = stake '' @ [CHR 0xC3, CHR 0xB7] @ '' implied probability.'')],
         wf_row [] [(''gap'', px 8), (''marginBottom'', px 12)]
            [wf_box [] [(''flex'', px 1), (''textAlign'', Str ''center''), (''padding'', Str ''13px 0''), (''borderWidth'', px 2), (''borderColor'', Str mech_a)]
                [bare ''b'' [(''color'', Str mech_a)] [Txt ''YES''],
                 bare ''div'' [(''fontSize'', px 18), (''fontWeight'', px 800), (''color'', Str mech_a)] [Txt ''62%'']],
             wf_box [] [(''flex'', px 1), (''textAlign'', Str ''center''), (''padding'', Str ''13px 0''), (''borderColor'', Str ''var(--wf-faint)'')]
                [bare ''b'' [] [Txt ''NO''],
                 bare ''div'' [(''fontSize'', px 18), (''fontWeight'', px 800), (''color'', Str mech_w)] [Txt ''38%'']]],
         wf_label [] [(''marginBottom'', px 5)] [Txt ''Stake (ADIV)''],
         wf_field [(''label'', Str ''100'')] [(''marginBottom'', px 8)] [],
         wf_row [] [(''gap'', px 6), (''marginBottom'', px 14)]
            (map (\<lambda>q.
                wf_pill [] [] [Txt q])
              [''+50'', ''+100'', ''+500'', ''Max'']),
         wf_box [] [(''padding'', px 11), (''background'', Str ''var(--wf-fill)''), (''borderColor'', Str ''var(--wf-faint)''), (''marginBottom'', px 14)]
            [wf_row [] [(''justifyContent'', Str ''space-between''), (''marginBottom'', px 4)]
                [wf_text [(''size'', px (23 / 2)), (''soft'', Flag True)] [] [Txt ''Potential payout''],
                 wf_text [(''size'', px 13)] [] [bare ''b'' [] [Txt ''161 ADIV'']]],
             wf_row [] [(''justifyContent'', Str ''space-between'')]
                [wf_text [(''size'', px (23 / 2)), (''soft'', Flag True)] [] [Txt (''Fee 1% '' @ [CHR 0xC2, CHR 0xB7] @ '' House liability ok'')],
                 wf_text [(''size'', px (23 / 2)), (''soft'', Flag True)] [] [Txt ([CHR 0xE2, CHR 0x88, CHR 0x92] @ ''1'')]]],
         wf_btn [(''primary'', Flag True)] [(''width'', Str ''100%''), (''justifyContent'', Str ''center'')] [Txt ''Place bet''],
         wf_ann [(''n'', px 1)] [(''marginTop'', px 12)]
            [Txt (''Simplest '' @ [CHR 0xE2, CHR 0x80, CHR 0x94] @ '' single stake, instant payout preview'')]]"

definition mech_clob :: "'e jsx" where
  "mech_clob =
     wf_screen [(''pad'', px 16)] []
        [mech_head ''CLOB'' ''Order book'',
         wf_row [] [(''gap'', px 8), (''marginBottom'', px 10)]
            [wf_box [] [(''flex'', px 1), (''textAlign'', Str ''center''), (''padding'', Str ''9px 0''), (''borderColor'', Str ''var(--wf-faint)'')]
                [bare ''div'' mech_cap [Txt ''Bid''],
                 bare ''div'' [(''fontSize'', px 16), (''fontWeight'', px 800), (''color'', Str mech_a)] [Txt (''54'' @ [CHR 0xC2, CHR 0xA2])]],
             wf_box [] [(''flex'', px 1), (''textAlign'', Str ''center''), (''padding'', Str ''9px 0''), (''borderColor'', Str ''var(--wf-faint)'')]
                [bare ''div'' mech_cap [Txt ''Ask''],
                 bare ''div'' [(''fontSize'', px 16), (''fontWeight'', px 800), (''color'', Str mech_w)] [Txt (''57'' @ [CHR 0xC2, CHR 0xA2])]],
             wf_box [] [(''flex'', px 1), (''textAlign'', Str ''center''), (''padding'', Str ''9px 0''), (''borderColor'', Str ''var(--wf-faint)'')]
                [bare ''div'' mech_cap [Txt ''Last''],
                 bare ''div'' [(''fontSize'', px 16), (''fontWeight'', px 800)] [Txt (''55'' @ [CHR 0xC2, CHR 0xA2])]]],
         wf_box [] [(''padding'', px 8), (''marginBottom'', px 12), (''borderColor'', Str ''var(--wf-faint)'')]
            ([wf_text [(''size'', px (21 / 2)), (''soft'', Flag True)] [(''marginBottom'', px 5)] [Txt (''DEPTH (price '' @ [CHR 0xC3, CHR 0x97] @ '' qty)'')]]
            @ map (\<lambda>(i, (p, w, c)).
                wf_row [] [(''justifyContent'', Str ''space-between''), (''position'', Str ''relative''), (''padding'', Str ''2px 0'')]
                  [bare ''div'' [(''position'', Str ''absolute''), (''right'', px 0), (''top'', px 0), (''bottom'', px 0), (''width'', Str (num_text w @ ''%'')), (''background'', Str ''var(--wf-warn-soft)''), (''opacity'', px (3 / 5))] [],
                   wf_text [(''size'', px 11)] [(''color'', Str c), (''zIndex'', px 1)] [Txt p, Txt [CHR 0xC2, CHR 0xA2]],
                   wf_text [(''size'', px 11), (''soft'', Flag True)] [(''zIndex'', px 1)] [Txt (num_text ((w * 4)))]])
              (enumerate 0 [(''57'', (30 :: rat), mech_w), (''56'', 55, mech_w), (''55'', 80, mech_w)])
            @ [wf_divider [] [(''margin'', Str ''5px 0'')] []]
            @ map (\<lambda>(i, (p, w, c)).
                wf_row [] [(''justifyContent'', Str ''space-between''), (''position'', Str ''relative''), (''padding'', Str ''2px 0'')]
                  [bare ''div'' [(''position'', Str ''absolute''), (''right'', px 0), (''top'', px 0), (''bottom'', px 0), (''width'', Str (num_text w @ ''%'')), (''background'', Str ''var(--wf-accent-soft)''), (''opacity'', px (7 / 10))] [],
                   wf_text [(''size'', px 11)] [(''color'', Str c), (''zIndex'', px 1)] [Txt p, Txt [CHR 0xC2, CHR 0xA2]],
                   wf_text [(''size'', px 11), (''soft'', Flag True)] [(''zIndex'', px 1)] [Txt (num_text ((w * 4)))]])
              (enumerate 0 [(''54'', (70 :: rat), mech_a), (''53'', 45, mech_a), (''52'', 25, mech_a)])),
         wf_row [] [(''gap'', px 6), (''marginBottom'', px 8)]
            [wf_box [] [(''flex'', px 1), (''textAlign'', Str ''center''), (''padding'', Str ''7px 0''), (''borderWidth'', px 2), (''borderColor'', Str mech_a), (''fontSize'', px 12)] [bare ''b'' [(''color'', Str mech_a)] [Txt ''Buy YES'']],
             wf_box [] [(''flex'', px 1), (''textAlign'', Str ''center''), (''padding'', Str ''7px 0''), (''borderColor'', Str ''var(--wf-faint)''), (''fontSize'', px 12)] [bare ''b'' [] [Txt ''Sell / NO'']]],
         wf_row [] [(''gap'', px 6), (''marginBottom'', px 8)]
            [wf_field [(''label'', Str (''Price 54'' @ [CHR 0xC2, CHR 0xA2]))] [] [],
             wf_field [(''label'', Str ''Qty 10'')] [] []],
         wf_row [] [(''gap'', px 6), (''marginBottom'', px 12)]
            [wf_pill [(''active'', Flag True)] [] [Txt ''GTC''],
             wf_pill [] [] [Txt ''IOC''],
             wf_pill [] [] [Txt ''FOK''],
             wf_ann [] [(''marginLeft'', px 4)] [Txt ''order type'']],
         wf_btn [(''primary'', Flag True)] [(''width'', Str ''100%''), (''justifyContent'', Str ''center''), (''marginBottom'', px 10)] [Txt ''Place limit order''],
         wf_ann [(''n'', px 2)] []
            [Txt ''Open orders list + cancel below (TD-004: cashout = post sell order)'']]"

definition mech_lmsr :: "'e jsx" where
  "mech_lmsr =
     wf_screen [(''pad'', px 16)] []
        [mech_head (''LMSR '' @ [CHR 0xC2, CHR 0xB7] @ '' AMM'') ''Buy shares'',
         wf_text [(''size'', px (23 / 2)), (''soft'', Flag True)] [(''marginBottom'', px 12)]
            [Txt (''Automated maker. Price moves as you buy '' @ [CHR 0xE2, CHR 0x80, CHR 0x94] @ '' bigger buys cost more.'')],
         wf_row [] [(''gap'', px 8), (''marginBottom'', px 12)]
            [wf_box [] [(''flex'', px 1), (''textAlign'', Str ''center''), (''padding'', Str ''11px 0''), (''borderWidth'', px 2), (''borderColor'', Str mech_a)]
                [bare ''b'' [(''color'', Str mech_a)] [Txt ''YES''],
                 bare ''div'' [(''fontSize'', px 18), (''fontWeight'', px 800), (''color'', Str mech_a)] [Txt ''71%'']],
             wf_box [] [(''flex'', px 1), (''textAlign'', Str ''center''), (''padding'', Str ''11px 0''), (''borderColor'', Str ''var(--wf-faint)'')]
                [bare ''b'' [] [Txt ''NO''],
                 bare ''div'' [(''fontSize'', px 18), (''fontWeight'', px 800), (''color'', Str mech_w)] [Txt ''29%'']]],
         wf_label [] [(''marginBottom'', px 6)] [Txt ''Shares to buy''],
         wf_box [] [(''height'', px 30), (''borderColor'', Str ''var(--wf-faint)''), (''marginBottom'', px 4), (''position'', Str ''relative''), (''display'', Str ''flex''), (''alignItems'', Str ''center''), (''padding'', Str ''0 6px'')]
            [bare ''div'' [(''height'', px 4), (''background'', Str ''var(--wf-faint)''), (''flex'', px 1), (''borderRadius'', px 2)] [],
             bare ''div'' [(''position'', Str ''absolute''), (''left'', Str ''40%''), (''width'', px 16), (''height'', px 16), (''borderRadius'', Str ''50%''), (''background'', Str mech_a)] []],
         wf_row [] [(''justifyContent'', Str ''space-between''), (''marginBottom'', px 12)]
            [wf_text [(''size'', px (21 / 2)), (''soft'', Flag True)] [] [Txt ''1''],
             wf_field [(''label'', Str ''50'')] [(''height'', px 28), (''width'', px 70)] [],
             wf_text [(''size'', px (21 / 2)), (''soft'', Flag True)] [] [Txt ''max'']],
         wf_box [] [(''padding'', px 11), (''background'', Str ''var(--wf-fill)''), (''borderColor'', Str ''var(--wf-faint)''), (''marginBottom'', px 14)]
            [wf_row [] [(''justifyContent'', Str ''space-between''), (''marginBottom'', px 4)]
                [wf_text [(''size'', px (23 / 2)), (''soft'', Flag True)] [] [Txt ''Avg cost / share''],
                 wf_text [(''size'', px 12)] [] [bare ''b'' [] [Txt ''0.73 ADIV'']]],
             wf_row [] [(''justifyContent'', Str ''space-between''), (''marginBottom'', px 4)]
                [wf_text [(''size'', px (23 / 2)), (''soft'', Flag True)] [] [Txt ''Total cost''],
                 wf_text [(''size'', px 12)] [] [bare ''b'' [] [Txt ''36.5 ADIV'']]],
             wf_row [] [(''justifyContent'', Str ''space-between'')]
                [wf_text [(''size'', px (23 / 2)), (''soft'', Flag True)] [] [Txt ''New YES price''],
                 wf_text [(''size'', px (23 / 2))] [(''color'', Str mech_a)]
                    [Txt (''71% '' @ [CHR 0xE2, CHR 0x86, CHR 0x92] @ '' 74% '' @ [CHR 0xE2, CHR 0x86, CHR 0x91])]]],
         wf_btn [(''primary'', Flag True)] [(''width'', Str ''100%''), (''justifyContent'', Str ''center'')] [Txt ''Buy YES shares''],
         wf_ann [(''n'', px 3)] [(''marginTop'', px 12)]
            [Txt (''Show subsidy depth + '' @ [CHR 0xE2, CHR 0x80, CHR 0x9C] @ ''price impact'' @ [CHR 0xE2, CHR 0x80, CHR 0x9D] @ '' bar (TD-001 settlement payouts pending)'')]]"

definition mech_parimutuel :: "'e jsx" where
  "mech_parimutuel =
     wf_screen [(''pad'', px 16)] []
        [mech_head ''PARIMUTUEL'' ''Join a pool'',
         wf_text [(''size'', px (23 / 2)), (''soft'', Flag True)] [(''marginBottom'', px 12)]
            [Txt ''All stakes pool together. Final odds set at close. Takeout 15%.''],
         wf_col [(''gap'', px 9)] [(''marginBottom'', px 14)]
            [wf_box [] [(''padding'', px 10), (''borderColor'', Str mech_a)]
                [wf_row [] [(''justifyContent'', Str ''space-between''), (''marginBottom'', px 6)]
                    [bare ''b'' [(''color'', Str mech_a)] [Txt ''YES pool''],
                     wf_text [(''size'', px 12)] []
                        [bare ''b'' [] [Txt ''48%''], Txt ('' '' @ [CHR 0xC2, CHR 0xB7] @ '' 96k'')]],
                 bare ''div'' [(''height'', px 8), (''background'', Str ''var(--wf-fill)''), (''borderRadius'', px 4)]
                    [bare ''div'' [(''width'', Str ''48%''), (''height'', Str ''100%''), (''background'', Str mech_a), (''borderRadius'', px 4)] []]],
             wf_box [] [(''padding'', px 10), (''borderColor'', Str ''var(--wf-faint)'')]
                [wf_row [] [(''justifyContent'', Str ''space-between''), (''marginBottom'', px 6)]
                    [bare ''b'' [] [Txt ''NO pool''],
                     wf_text [(''size'', px 12)] []
                        [bare ''b'' [] [Txt ''52%''], Txt ('' '' @ [CHR 0xC2, CHR 0xB7] @ '' 104k'')]],
                 bare ''div'' [(''height'', px 8), (''background'', Str ''var(--wf-fill)''), (''borderRadius'', px 4)]
                    [bare ''div'' [(''width'', Str ''52%''), (''height'', Str ''100%''), (''background'', Str mech_w), (''borderRadius'', px 4)] []]]],
         wf_label [] [(''marginBottom'', px 5)] [Txt ''Stake (ADIV)''],
         wf_field [(''label'', Str ''100'')] [(''marginBottom'', px 12)] [],
         wf_box [] [(''padding'', px 11), (''background'', Str ''var(--wf-warn-soft)''), (''borderColor'', Str ''var(--wf-faint)''), (''marginBottom'', px 14)]
            [wf_text [(''size'', px 11), (''soft'', Flag True)] []
                [Txt ''Est. payout if YES wins: '',
                 bare ''b'' [(''color'', Str ''var(--wf-ink)'')] [Txt ''~177 ADIV'']],
             wf_text [(''size'', px (21 / 2)), (''soft'', Flag True)] [(''marginTop'', px 3)]
                [Txt ([CHR 0xE2, CHR 0x9A, CHR 0xA0] @ '' Final odds shift as the pool fills '' @ [CHR 0xE2, CHR 0x80, CHR 0x94] @ '' estimate only.'')]],
         wf_btn [(''primary'', Flag True)] [(''width'', Str ''100%''), (''justifyContent'', Str ''center'')] [Txt ''Add to YES pool''],
         wf_ann [(''n'', px 4)] [(''marginTop'', px 12)]
            [Txt (''No fixed odds '' @ [CHR 0xE2, CHR 0x80, CHR 0x94] @ '' emphasise '' @ [CHR 0xE2, CHR 0x80, CHR 0x9C] @ ''estimate'' @ [CHR 0xE2, CHR 0x80, CHR 0x9D] @ '' + live pool movement'')]]"

end
