(* ===== verification/Screens_Mobile.thy ===== *)
theory Screens_Mobile
  imports Wf_Screen
begin

text \<open>
  The screens of the mobile application.
\<close>

definition mob_a :: "string" where
  "mob_a = ''#356b8a''"

definition mob_w :: "string" where
  "mob_w = ''#9a6a1e''"

definition mob_cap :: "style" where
  "mob_cap =
     [(''fontSize'', px 10), (''fontWeight'', px 600), (''letterSpacing'', Str ''.04em''), (''textTransform'', Str ''uppercase''), (''color'', Str ''var(--wf-soft)'')]"

definition mob_notch :: "'e jsx" where
  "mob_notch =
     bare ''div'' [(''display'', Str ''flex''), (''justifyContent'', Str ''center''), (''paddingTop'', px 6)]
        [bare ''div'' [(''width'', px 90), (''height'', px 5), (''borderRadius'', px 3), (''background'', Str ''var(--wf-faint)'')] []]"

definition mob_markets :: "'e jsx" where
  "mob_markets =
     wf_screen [] []
        [wf_phone_status [] [] [],
         bare ''div'' [(''padding'', Str ''6px 16px 0'')]
            [wf_row [] [(''justifyContent'', Str ''space-between''), (''marginBottom'', px 10)]
                [wf_h [(''size'', px 21)] [] [Txt ''Markets''],
                 wf_pill [] [(''background'', Str ''var(--wf-accent-soft)''), (''borderColor'', Str ''var(--wf-accent-soft)''), (''color'', Str mob_a), (''fontWeight'', px 700)] [Txt ''4,250 ADIV'']],
             wf_field [(''label'', Str ([CHR 0xE2, CHR 0x8C, CHR 0x95] @ ''  Search markets'' @ [CHR 0xE2, CHR 0x80, CHR 0xA6]))] [(''marginBottom'', px 10)] [],
             wf_row [] [(''gap'', px 6), (''marginBottom'', px 12), (''overflow'', Str ''hidden'')]
                [wf_pill [(''active'', Flag True)] [] [Txt ''All''],
                 wf_pill [] [] [Txt ''Politics''],
                 wf_pill [] [] [Txt ''Sports''],
                 wf_pill [] [] [Txt ''Crypto'']],
             wf_col [(''gap'', px 11)] []
                (map (\<lambda>(i, (m, y, n)).
                    wf_card [] [(''padding'', px 12)]
                      [wf_row [] [(''gap'', px 4), (''marginBottom'', px 7)]
                          [wf_chip [] [] [Txt ''Open''],
                           wf_chip [] [(''color'', Str mob_a), (''borderColor'', Str mob_a)] [Txt m],
                           bare ''span'' [(''marginLeft'', Str ''auto''), (''fontSize'', px (19 / 2)), (''color'', Str ''var(--wf-soft)'')] [Txt ''6d'']],
                       wf_text [(''size'', px 13)] [(''fontWeight'', px 700), (''lineHeight'', px (13 / 10)), (''marginBottom'', px 9)] [Txt ''Will the proposal pass before Q3 2026?''],
                       wf_row [] [(''gap'', px 7)]
                          [wf_box [] [(''flex'', px 1), (''textAlign'', Str ''center''), (''padding'', Str ''7px 0''), (''borderColor'', Str ''var(--wf-faint)'')]
                              [bare ''div'' [(''fontSize'', px 9), (''color'', Str ''var(--wf-soft)'')] [Txt ''YES''],
                               bare ''div'' [(''fontSize'', px 15), (''fontWeight'', px 800), (''color'', Str mob_a)] [Txt y]],
                           wf_box [] [(''flex'', px 1), (''textAlign'', Str ''center''), (''padding'', Str ''7px 0''), (''borderColor'', Str ''var(--wf-faint)'')]
                              [bare ''div'' [(''fontSize'', px 9), (''color'', Str ''var(--wf-soft)'')] [Txt ''NO''],
                               bare ''div'' [(''fontSize'', px 15), (''fontWeight'', px 800), (''color'', Str mob_w)] [Txt n]]]])
                  (enumerate 0 [(''FIXED-ODDS'', ''62%'', ''38%''), (''CLOB'', (''54'' @ [CHR 0xC2, CHR 0xA2]), (''46'' @ [CHR 0xC2, CHR 0xA2])), (''LMSR'', ''71%'', ''29%'')]))],
         wf_tab_bar [(''active'', Str ''Markets'')] [] [],
         wf_ann [(''n'', px 1)] [(''position'', Str ''absolute''), (''right'', px (- 8)), (''top'', px 120), (''transform'', Str ''rotate(4deg)'')] [Txt (''tap card '' @ [CHR 0xE2, CHR 0x86, CHR 0x92] @ '' detail'')]]"

definition mob_detail :: "'e jsx" where
  "mob_detail =
     wf_screen [] []
        [wf_phone_status [] [] [],
         bare ''div'' [(''padding'', Str ''6px 16px 150px''), (''overflow'', Str ''hidden'')]
            [wf_row [] [(''justifyContent'', Str ''space-between''), (''marginBottom'', px 10)]
                [wf_text [(''size'', px 12), (''soft'', Flag True)] [] [Txt ([CHR 0xE2, CHR 0x80, CHR 0xB9] @ '' Back'')],
                 wf_text [(''size'', px 14)] [] [Txt [CHR 0xE2, CHR 0x8B, CHR 0xAF]]],
             wf_row [] [(''gap'', px 4), (''marginBottom'', px 9)]
                [wf_chip [] [] [Txt ''Open''],
                 wf_chip [] [] [Txt ''Politics''],
                 wf_chip [] [(''color'', Str mob_a), (''borderColor'', Str mob_a)] [Txt ''FIXED-ODDS'']],
             wf_h [(''size'', px 17)] [(''marginBottom'', px 8)] [Txt ''Will the proposal pass before Q3 2026?''],
             wf_lines 2 [(''last'', Str ''65%'')] [(''marginBottom'', px 14)] [],
             wf_row [] [(''gap'', px 9), (''marginBottom'', px 14)]
                [wf_box [] [(''flex'', px 1), (''textAlign'', Str ''center''), (''padding'', Str ''15px 0''), (''borderColor'', Str ''var(--wf-faint)'')]
                    [bare ''div'' [(''fontSize'', px 10), (''color'', Str ''var(--wf-soft)'')] [Txt ''YES''],
                     bare ''div'' [(''fontSize'', px 28), (''fontWeight'', px 800), (''color'', Str mob_a)] [Txt ''62%'']],
                 wf_box [] [(''flex'', px 1), (''textAlign'', Str ''center''), (''padding'', Str ''15px 0''), (''borderColor'', Str ''var(--wf-faint)'')]
                    [bare ''div'' [(''fontSize'', px 10), (''color'', Str ''var(--wf-soft)'')] [Txt ''NO''],
                     bare ''div'' [(''fontSize'', px 28), (''fontWeight'', px 800), (''color'', Str mob_w)] [Txt ''38%'']]],
             wf_row [] [(''gap'', px 8), (''marginBottom'', px 14)]
                (map (\<lambda>(l, v).
                    wf_box [] [(''flex'', px 1), (''padding'', Str ''8px 0''), (''textAlign'', Str ''center''), (''borderColor'', Str ''var(--wf-faint)'')]
                      [bare ''div'' mob_cap [Txt l],
                       bare ''div'' [(''fontSize'', px 13), (''fontWeight'', px 700), (''marginTop'', px 2)] [Txt v]])
                  [(''Vol'', ''128k''), (''Positions'', ''342''), (''Closes'', ''6d'')]),
             wf_box [(''dashed'', Flag True)] [(''height'', px 60), (''borderColor'', Str ''var(--wf-faint)''), (''marginBottom'', px 14)]
                [el ''div'' ''wf-img'' [(''border'', px 0), (''background'', Str ''transparent''), (''height'', Str ''100%'')] [Txt ''price sparkline'']],
             wf_label [] [(''marginBottom'', px 6)] [Txt ''Resolution''],
             wf_lines 2 [(''last'', Str ''70%'')] [] []],
         bare ''div'' [(''position'', Str ''absolute''), (''bottom'', px 58), (''left'', px 0), (''right'', px 0), (''background'', Str ''#fff''), (''borderTop'', Str ''1.5px solid var(--wf-line)''), (''borderRadius'', Str ''14px 14px 0 0''), (''padding'', Str ''12px 16px''), (''boxShadow'', Str ''0 -6px 18px rgba(0,0,0,.06)'')]
            [mob_notch,
             wf_row [] [(''gap'', px 8), (''margin'', Str ''8px 0'')]
                [wf_box [] [(''flex'', px 1), (''textAlign'', Str ''center''), (''padding'', Str ''9px 0''), (''borderWidth'', px 2), (''borderColor'', Str mob_a), (''fontSize'', px 12)] [bare ''b'' [(''color'', Str mob_a)] [Txt ''YES 62%'']],
                 wf_box [] [(''flex'', px 1), (''textAlign'', Str ''center''), (''padding'', Str ''9px 0''), (''borderColor'', Str ''var(--wf-faint)''), (''fontSize'', px 12)] [bare ''b'' [] [Txt ''NO 38%'']]],
             wf_row [] [(''gap'', px 8)]
                [wf_field [(''label'', Str ''Stake 100'')] [(''flex'', px 1)] [],
                 wf_btn [(''primary'', Flag True)] [(''flex'', Str ''0 0 auto'')] [Txt ''Place bet'']]],
         wf_tab_bar [(''active'', Str ''Markets'')] [] [],
         wf_ann [(''n'', px 2)] [(''position'', Str ''absolute''), (''left'', px (- 4)), (''bottom'', px 200), (''transform'', Str ''rotate(-3deg)'')]
            [Txt (''persistent bet sheet '' @ [CHR 0xE2, CHR 0x80, CHR 0x94] @ '' thumb reachable'')]]"

definition mob_profile :: "'e jsx" where
  "mob_profile =
     wf_screen [] []
        [wf_phone_status [] [] [],
         bare ''div'' [(''padding'', Str ''6px 16px 0'')]
            [wf_col [(''gap'', px 4)] [(''alignItems'', Str ''center''), (''marginBottom'', px 14)]
                [wf_avatar [(''size'', px 56)] [] [],
                 wf_h [(''size'', px 17)] [] [Txt ''player_alex''],
                 wf_text [(''size'', px (23 / 2)), (''soft'', Flag True)] [] [Txt (''Rank #14 '' @ [CHR 0xC2, CHR 0xB7] @ '' since Mar 2026'')]],
             wf_box [] [(''padding'', Str ''14px 0''), (''textAlign'', Str ''center''), (''borderColor'', Str mob_a), (''marginBottom'', px 12)]
                [bare ''div'' mob_cap [Txt ''Wallet balance''],
                 bare ''div'' [(''fontSize'', px 28), (''fontWeight'', px 800), (''color'', Str mob_a), (''margin'', Str ''2px 0'')] [Txt ''4,250 ADIV''],
                 wf_btn [(''primary'', Flag True)] [(''marginTop'', px 6)] [Txt ''Request faucet top-up'']],
             wf_row [] [(''gap'', px 8), (''marginBottom'', px 14)]
                (map (\<lambda>(l, v, t).
                    wf_box [] [(''flex'', px 1), (''padding'', Str ''10px 0''), (''textAlign'', Str ''center''), (''borderColor'', Str ''var(--wf-faint)'')]
                      [bare ''div'' mob_cap [Txt l],
                       bare ''div'' [(''fontSize'', px 16), (''fontWeight'', px 800), (''marginTop'', px 2), (''color'', if t \<noteq> [] then Str ''var(--wf-pos)'' else Str ''var(--wf-ink)'')] [Txt v]])
                  [(''P&L'', ''+1,180'', ''pos''), (''Win'', ''57%'', []), (''Bets'', ''37'', [])]),
             wf_row [] [(''gap'', px 5), (''marginBottom'', px 10)]
                [wf_pill [(''active'', Flag True)] [] [Txt ''Open''],
                 wf_pill [] [] [Txt ''Settled''],
                 wf_pill [] [] [Txt ''All'']],
             wf_col [(''gap'', px 9)] []
                (map (\<lambda>i.
                    wf_card [] [(''padding'', px 11)]
                      [wf_row [] [(''justifyContent'', Str ''space-between''), (''marginBottom'', px 6)]
                          [wf_line [(''w'', Str ''55%'')] [] [],
                           el ''span'' ''wf-chip'' [(''color'', if i \<noteq> 0 then Str ''var(--wf-pos)'' else Str mob_a), (''borderColor'', Str ''currentColor'')]
                              [(if i \<noteq> 0 then Txt ''Won''
                                else Txt ''Open'')]],
                       wf_row [] [(''justifyContent'', Str ''space-between'')]
                          [wf_text [(''size'', px 11), (''soft'', Flag True)] [] [Txt (''YES '' @ [CHR 0xC2, CHR 0xB7] @ '' 500 ADIV'')],
                           wf_text [(''size'', px (23 / 2))] [(''color'', if i \<noteq> 0 then Str ''var(--wf-pos)'' else Str ''var(--wf-soft)'')]
                              [(if i \<noteq> 0 then Txt ''+306''
                                else Txt ([CHR 0xE2, CHR 0x86, CHR 0x92] @ '' 806''))]]])
                  [(0 :: rat), 1, 2])],
         wf_tab_bar [(''active'', Str ''Profile'')] [] []]"

definition mob_leaderboard :: "'e jsx" where
  "mob_leaderboard =
     wf_screen [] []
        [wf_phone_status [] [] [],
         bare ''div'' [(''padding'', Str ''6px 16px 0'')]
            [wf_h [(''size'', px 21)] [(''marginBottom'', px 12)] [Txt ''Leaderboard''],
             wf_row [] [(''gap'', px 8), (''marginBottom'', px 16), (''alignItems'', Str ''flex-end'')]
                (map (\<lambda>(i, (r, h)).
                    wf_col [(''gap'', px 4)] [(''alignItems'', Str ''center''), (''flex'', px 1)]
                      [wf_avatar [(''size'', if i = 1 then px 40 else px 32)] [] [],
                       wf_text [(''size'', px (21 / 2))] []
                          [bare ''b'' []
                              [Txt ''p_'',
                               Txt (let s = ([[], ''one'', [], ''three''] ! i) in if s = [] then ''two'' else s)]],
                       wf_text [(''size'', px (19 / 2))] [(''color'', Str ''var(--wf-pos)'')] [Txt ''+'', Txt (num_text (((4 - of_nat i) * 900)))],
                       wf_box [] [(''width'', Str ''100%''), (''height'', px h), (''background'', Str ''var(--wf-fill)''), (''borderColor'', Str ''var(--wf-faint)''), (''textAlign'', Str ''center''), (''paddingTop'', px 7), (''fontWeight'', px 800), (''color'', Str mob_a)] [Txt r]])
                  (enumerate 0 [(''2'', (60 :: rat)), (''1'', 78), (''3'', 48)])),
             wf_col [(''gap'', px 0)] []
                ([wf_row [] [(''justifyContent'', Str ''space-between''), (''padding'', Str ''7px 4px''), (''borderBottom'', Str ''1.5px solid var(--wf-faint)'')]
                    [wf_text [(''size'', px 10), (''soft'', Flag True)] [] [Txt ''#''],
                     wf_text [(''size'', px 10), (''soft'', Flag True)] [] [Txt ''PLAYER''],
                     wf_text [(''size'', px 10), (''soft'', Flag True)] [] [Txt ''NET P&L'']]]
                @ map (\<lambda>i.
                    wf_row [] [(''justifyContent'', Str ''space-between''), (''padding'', Str ''9px 4px''), (''borderBottom'', Str ''1px solid var(--wf-faint)''), (''alignItems'', Str ''center''), (''background'', if i = 2 then Str ''var(--wf-accent-soft)'' else Str ''transparent'')]
                      [wf_text [(''size'', px (23 / 2))] [] [bare ''b'' [] [Txt (num_text ((of_nat i + 4)))]],
                       wf_row [] [(''gap'', px 7), (''width'', px 110)]
                          [wf_avatar [(''size'', px 20)] [] [],
                           wf_text [(''size'', px 11)] []
                              [Txt (''player_'' @ num_text (of_nat i)),
                               (if i = 2 then Txt '' (you)''
                                else Txt [])]],
                       wf_text [(''size'', px (23 / 2))] [(''color'', Str ''var(--wf-pos)'')] [Txt ''+'', Txt (num_text ((1400 - (of_nat i * 130))))]])
                  [0..<6])],
         wf_tab_bar [(''active'', Str ''Positions'')] [] []]"

end
