(* ===== verification/Screens_Bo.thy ===== *)
theory Screens_Bo
  imports Wf_Screen
begin

text \<open>
  The operator console.
\<close>

definition bo_a :: "string" where
  "bo_a = ''#356b8a''"

definition bo_g :: "string" where
  "bo_g = ''#9a6a1e''"

definition bo_cap :: "style" where
  "bo_cap =
     [(''fontSize'', px (21 / 2)), (''fontWeight'', px 600), (''letterSpacing'', Str ''.04em''), (''textTransform'', Str ''uppercase''), (''color'', Str ''var(--wf-soft)'')]"

definition bo_frame :: "string \<Rightarrow> 'e jsx list \<Rightarrow> 'e jsx" where
  "bo_frame active ks =
     wf_screen [] []
        [bare ''div'' [(''display'', Str ''flex''), (''height'', Str ''100%'')]
            [wf_bo_sidebar [(''active'', Str active)] [] [],
             bare ''div'' [(''flex'', px 1), (''padding'', Str ''18px 22px''), (''overflow'', Str ''hidden'')]
                (ks)]]"

definition bo_dashboard :: "'e jsx" where
  "bo_dashboard =
     bo_frame ''Dashboard'' 
        [wf_h [(''size'', px 20)] [(''marginBottom'', px 4)] [Txt ''Operations dashboard''],
         wf_text [(''soft'', Flag True)] [(''marginBottom'', px 16)] [Txt ''House exposure, open markets & pending actions''],
         bare ''div'' [(''display'', Str ''grid''), (''gridTemplateColumns'', Str ''repeat(4,1fr)''), (''gap'', px 12), (''marginBottom'', px 16)]
            (map (\<lambda>(i, (l, v)).
                wf_box [] [(''padding'', Str ''12px 14px''), (''borderColor'', if i = 2 then Str bo_g else Str ''var(--wf-faint)'')]
                  [bare ''div'' bo_cap [Txt l],
                   bare ''div'' [(''fontSize'', px 22), (''fontWeight'', px 800), (''marginTop'', px 3), (''color'', if i = 2 then Str bo_g else Str ''var(--wf-ink)'')] [Txt v]])
              (enumerate 0 [(''Open markets'', ''17''), (''House liability'', ''54,200''), (''Pending faucets'', ''5''), (''24h volume'', ''312k'')])),
         bare ''div'' [(''display'', Str ''grid''), (''gridTemplateColumns'', Str ''1.4fr 1fr''), (''gap'', px 16)]
            [wf_card [] []
                ([wf_row [] [(''justifyContent'', Str ''space-between''), (''marginBottom'', px 10)]
                    [wf_label [] [] [Txt ''Markets needing attention''],
                     wf_btn [(''primary'', Flag True)] [(''background'', Str bo_g), (''borderColor'', Str bo_g)] [Txt ''+ New market'']],
                 wf_row [] [(''justifyContent'', Str ''space-between''), (''padding'', Str ''7px 0''), (''borderBottom'', Str ''1.5px solid var(--wf-faint)'')]
                    (map (\<lambda>h.
                        wf_text [(''size'', px (21 / 2)), (''soft'', Flag True)] [] [Txt h])
                      [''MARKET'', ''MECH'', ''STATUS'', ''LIABILITY'', []])]
                @ map (\<lambda>(i, (_, st, c)).
                    wf_row [] [(''justifyContent'', Str ''space-between''), (''padding'', Str ''9px 0''), (''borderBottom'', Str ''1px solid var(--wf-faint)''), (''alignItems'', Str ''center'')]
                      [wf_line [(''w'', Str ''30%'')] [] [],
                       wf_text [(''size'', px 11), (''soft'', Flag True)] [] [Txt ''CLOB''],
                       el ''span'' ''wf-chip'' [(''color'', Str c), (''borderColor'', Str ''currentColor'')] [Txt st],
                       wf_text [(''size'', px 11), (''soft'', Flag True)] [] [Txt ''8,200''],
                       wf_text [(''size'', px 11)] [(''color'', Str bo_g)]
                          [(if i = 0 then Txt (''Settle '' @ [CHR 0xE2, CHR 0x80, CHR 0xBA])
                            else Txt (''View '' @ [CHR 0xE2, CHR 0x80, CHR 0xBA]))]])
                  (enumerate 0 [((''Closed '' @ [CHR 0xE2, CHR 0x80, CHR 0x94] @ '' settle now''), ''closed'', bo_g), (''Open'', ''open'', bo_a), (''Open'', ''open'', bo_a), ((''Draft '' @ [CHR 0xE2, CHR 0x80, CHR 0x94] @ '' needs legs''), ''draft'', ''var(--wf-soft)'')])),
             wf_col [(''gap'', px 14)] []
                [wf_card [] [(''borderColor'', Str bo_g)]
                    ([wf_label [] [(''marginBottom'', px 8)] [Txt (''Pending faucet requests '' @ [CHR 0xC2, CHR 0xB7] @ '' 5'')]]
                    @ map (\<lambda>i.
                        wf_row [] [(''justifyContent'', Str ''space-between''), (''padding'', Str ''7px 0''), (''borderBottom'', Str ''1px solid var(--wf-faint)''), (''alignItems'', Str ''center'')]
                          [wf_col [(''gap'', px 2)] []
                              [wf_text [(''size'', px (23 / 2))] [] [bare ''b'' [] [Txt (''player_'' @ num_text i)]],
                               wf_text [(''size'', px 10), (''soft'', Flag True)] [] [Txt (''1,000 ADIV '' @ [CHR 0xC2, CHR 0xB7] @ '' 2h ago'')]],
                           wf_row [] [(''gap'', px 5)]
                              [wf_pill [] [(''color'', Str ''var(--wf-pos)''), (''borderColor'', Str ''var(--wf-pos)'')] [Txt ''Approve''],
                               wf_pill [] [] [Txt ''Reject'']]])
                      [(0 :: rat), 1]
                    @ [wf_text [(''size'', px 11)] [(''color'', Str bo_g), (''marginTop'', px 8)] [Txt (''Review all '' @ [CHR 0xE2, CHR 0x80, CHR 0xBA])]]),
                 wf_card [] []
                    [wf_label [] [(''marginBottom'', px 8)] [Txt ''Recent audit events''],
                     wf_lines 4 [(''last'', Str ''50%'')] [] []]]],
         wf_ann [(''n'', px 1)] [(''marginTop'', px 12)]
            [Txt (''Dark + gold theme in hi-fi '' @ [CHR 0xC2, CHR 0xB7] @ '' this is the operator'' @ [CHR 0xE2, CHR 0x80, CHR 0x99] @ ''s '' @ [CHR 0xE2, CHR 0x80, CHR 0x9C] @ ''mission control'' @ [CHR 0xE2, CHR 0x80, CHR 0x9D])]]"

definition bo_create :: "'e jsx" where
  "bo_create =
     bo_frame ''Markets'' 
        [wf_row [] [(''justifyContent'', Str ''space-between''), (''marginBottom'', px 14)]
            [wf_h [(''size'', px 20)] [] [Txt ''New market''],
             wf_row [] [(''gap'', px 6)]
                [wf_field [(''label'', Str (''Template: Binary YES/NO '' @ [CHR 0xE2, CHR 0x96, CHR 0xBE]))] [(''width'', px 200)] []]],
         bare ''div'' [(''display'', Str ''grid''), (''gridTemplateColumns'', Str ''1fr 300px''), (''gap'', px 18)]
            [wf_col [(''gap'', px 14)] []
                [wf_card [] []
                    [wf_label [] [(''marginBottom'', px 10)] [Txt ''Question & details''],
                     wf_field [(''label'', Str ''Market question'')] [(''marginBottom'', px 8)] [],
                     wf_box [(''className'', Str ''wf-field'')] [(''height'', px 56), (''alignItems'', Str ''flex-start''), (''paddingTop'', px 8)]
                        [wf_text [(''size'', px 12), (''soft'', Flag True)] [] [Txt (''Description'' @ [CHR 0xE2, CHR 0x80, CHR 0xA6])]],
                     wf_row [] [(''gap'', px 8), (''marginTop'', px 8)]
                        [wf_field [(''label'', Str (''Category: Politics '' @ [CHR 0xE2, CHR 0x96, CHR 0xBE]))] [] [],
                         wf_field [(''label'', Str ''Tags: #senate #policy'')] [] []]],
                 wf_card [] []
                    [wf_label [] [(''marginBottom'', px 10)] [Txt ''Mechanism''],
                     wf_row [] [(''gap'', px 7), (''marginBottom'', px 12)]
                        [wf_box [] [(''flex'', px 1), (''textAlign'', Str ''center''), (''padding'', Str ''9px 0''), (''borderWidth'', px 2), (''borderColor'', Str bo_g), (''fontSize'', px (23 / 2))] [bare ''b'' [(''color'', Str bo_g)] [Txt ''Fixed-odds'']],
                         wf_box [] [(''flex'', px 1), (''textAlign'', Str ''center''), (''padding'', Str ''9px 0''), (''borderColor'', Str ''var(--wf-faint)''), (''fontSize'', px (23 / 2))] [Txt ''CLOB''],
                         wf_box [] [(''flex'', px 1), (''textAlign'', Str ''center''), (''padding'', Str ''9px 0''), (''borderColor'', Str ''var(--wf-faint)''), (''fontSize'', px (23 / 2))] [Txt ''LMSR''],
                         wf_box [] [(''flex'', px 1), (''textAlign'', Str ''center''), (''padding'', Str ''9px 0''), (''borderColor'', Str ''var(--wf-faint)''), (''fontSize'', px (23 / 2))] [Txt ''Parimutuel'']],
                     wf_box [(''dashed'', Flag True)] [(''padding'', px 12), (''borderColor'', Str bo_g), (''background'', Str ''var(--wf-warn-soft)'')]
                        [wf_text [(''size'', px 11), (''soft'', Flag True)] [(''marginBottom'', px 8)]
                            [Txt (''Conditional fields '' @ [CHR 0xE2, CHR 0x80, CHR 0x94] @ '' fixed-odds (F-006):'')],
                         wf_row [] [(''gap'', px 8)]
                            [wf_field [(''label'', Str ''Liability cap: 50,000'')] [] [],
                             wf_field [(''label'', Str ''Fee bps: 100'')] [] []],
                         wf_ann [] [(''marginTop'', px 8)] [Txt ''fields swap per mechanism (taker_fee / subsidy / takeout)'']]],
                 wf_card [] []
                    [wf_label [] [(''marginBottom'', px 10)]
                        [Txt (''Outcomes (exactly 2 '' @ [CHR 0xE2, CHR 0x80, CHR 0x94] @ '' DB enforced)'')],
                     wf_row [] [(''gap'', px 8)]
                        [wf_field [(''label'', Str ''Leg A label: YES'')] [] [],
                         wf_field [(''label'', Str ''Opening odds: 50%'')] [] []],
                     wf_row [] [(''gap'', px 8), (''marginTop'', px 8)]
                        [wf_field [(''label'', Str ''Leg B label: NO'')] [] [],
                         wf_field [(''label'', Str ''Opening odds: 50%'')] [] []]],
                 wf_card [] []
                    [wf_label [] [(''marginBottom'', px 10)] [Txt ''Resolution''],
                     wf_row [] [(''gap'', px 8)]
                        [wf_field [(''label'', Str ''Closes at: date/time'')] [] [],
                         wf_field [(''label'', Str ''Source: Official register'')] [] []],
                     wf_box [(''className'', Str ''wf-field'')] [(''height'', px 44), (''marginTop'', px 8), (''alignItems'', Str ''flex-start''), (''paddingTop'', px 8)]
                        [wf_text [(''size'', px 12), (''soft'', Flag True)] [] [Txt (''Resolution criteria'' @ [CHR 0xE2, CHR 0x80, CHR 0xA6])]]]],
             wf_col [(''gap'', px 12)] []
                [wf_card [] [(''position'', Str ''sticky''), (''top'', px 8)]
                    [wf_label [] [(''marginBottom'', px 8)] [Txt ''Live preview''],
                     wf_box [] [(''padding'', px 11), (''borderColor'', Str ''var(--wf-faint)'')]
                        [wf_row [] [(''gap'', px 4), (''marginBottom'', px 7)]
                            [wf_chip [] [] [Txt ''Draft''],
                             wf_chip [] [(''color'', Str bo_a), (''borderColor'', Str bo_a)] [Txt ''FIXED-ODDS'']],
                         wf_lines 2 [(''last'', Str ''60%'')] [] [],
                         wf_row [] [(''gap'', px 6), (''marginTop'', px 9)]
                            [wf_box [] [(''flex'', px 1), (''textAlign'', Str ''center''), (''padding'', Str ''6px 0''), (''borderColor'', Str ''var(--wf-faint)''), (''fontSize'', px 12)] [bare ''b'' [(''color'', Str bo_a)] [Txt ''50%'']],
                             wf_box [] [(''flex'', px 1), (''textAlign'', Str ''center''), (''padding'', Str ''6px 0''), (''borderColor'', Str ''var(--wf-faint)''), (''fontSize'', px 12)] [bare ''b'' [(''color'', Str bo_g)] [Txt ''50%'']]]],
                     wf_btn [(''primary'', Flag True)] [(''width'', Str ''100%''), (''justifyContent'', Str ''center''), (''marginTop'', px 12), (''background'', Str bo_g), (''borderColor'', Str bo_g)] [Txt ''Save draft''],
                     wf_btn [(''ghost'', Flag True)] [(''width'', Str ''100%''), (''justifyContent'', Str ''center''), (''marginTop'', px 8)] [Txt ''Save & open''],
                     wf_ann [(''n'', px 2)] [(''marginTop'', px 10)] [Txt ''preview updates as form changes (F-006)'']]]]]"

definition bo_settle :: "'e jsx" where
  "bo_settle =
     bo_frame ''Markets'' 
        [wf_text [(''size'', px (23 / 2)), (''soft'', Flag True)] [(''marginBottom'', px 8)] [Txt ([CHR 0xE2, CHR 0x80, CHR 0xB9] @ '' Markets'')],
         wf_row [] [(''gap'', px 5), (''marginBottom'', px 8)]
            [wf_chip [] [(''color'', Str bo_g), (''borderColor'', Str bo_g)] [Txt ''Closed''],
             wf_chip [] [(''color'', Str bo_a), (''borderColor'', Str bo_a)] [Txt ''FIXED-ODDS'']],
         wf_h [(''size'', px 19)] [(''marginBottom'', px 12)] [Txt ''Will the proposal pass before Q3 2026?''],
         bare ''div'' [(''display'', Str ''grid''), (''gridTemplateColumns'', Str ''1fr 320px''), (''gap'', px 18)]
            [wf_col [(''gap'', px 14)] []
                [bare ''div'' [(''display'', Str ''grid''), (''gridTemplateColumns'', Str ''repeat(4,1fr)''), (''gap'', px 10)]
                    (map (\<lambda>(l, v).
                        wf_box [] [(''padding'', Str ''9px 11px''), (''borderColor'', Str ''var(--wf-faint)'')]
                          [bare ''div'' bo_cap [Txt l],
                           bare ''div'' [(''fontSize'', px 15), (''fontWeight'', px 700), (''marginTop'', px 3)] [Txt v]])
                      [(''Volume'', ''128k''), (''Bets'', ''342''), (''YES exposure'', ''40k''), (''NO exposure'', ''14k'')]),
                 wf_card [] []
                    ([wf_label [] [(''marginBottom'', px 8)] [Txt ''Bets ledger (read-only)''],
                     wf_row [] [(''justifyContent'', Str ''space-between''), (''padding'', Str ''6px 0''), (''borderBottom'', Str ''1.5px solid var(--wf-faint)'')]
                        (map (\<lambda>h.
                            wf_text [(''size'', px (21 / 2)), (''soft'', Flag True)] [] [Txt h])
                          [''PLAYER'', ''SIDE'', ''STAKE'', ''STATUS''])]
                    @ map (\<lambda>i.
                        wf_row [] [(''justifyContent'', Str ''space-between''), (''padding'', Str ''8px 0''), (''borderBottom'', Str ''1px solid var(--wf-faint)'')]
                          [wf_line [(''w'', Str ''30%'')] [] [],
                           wf_text [(''size'', px 11)] []
                              [(if (i mod 2) \<noteq> 0 then Txt ''NO''
                                else Txt ''YES'')],
                           wf_text [(''size'', px 11)] [] [Txt ''500''],
                           el ''span'' ''wf-chip'' [] [Txt ''open'']])
                      [0..<5]),
                 wf_card [] []
                    [wf_label [] [(''marginBottom'', px 8)]
                        [Txt (''Edit details (metadata only once open '' @ [CHR 0xE2, CHR 0x80, CHR 0x94] @ '' DD-007)'')],
                     wf_row [] [(''gap'', px 8)]
                        [wf_field [(''label'', Str ''Close at'')] [] [],
                         wf_field [(''label'', Str ''Source'')] [] []]]],
             wf_col [(''gap'', px 12)] []
                [wf_card [] [(''borderColor'', Str bo_g)]
                    [wf_label [] [(''marginBottom'', px 10)] [Txt ''Settle market''],
                     wf_text [(''size'', px (23 / 2)), (''soft'', Flag True)] [(''marginBottom'', px 10)]
                        [Txt ''Declare the winning outcome. Payouts credit automatically. Irreversible.''],
                     wf_row [] [(''gap'', px 8), (''marginBottom'', px 12)]
                        [wf_box [] [(''flex'', px 1), (''textAlign'', Str ''center''), (''padding'', Str ''12px 0''), (''borderWidth'', px 2), (''borderColor'', Str bo_a)] [bare ''b'' [(''color'', Str bo_a)] [Txt ''YES wins'']],
                         wf_box [] [(''flex'', px 1), (''textAlign'', Str ''center''), (''padding'', Str ''12px 0''), (''borderColor'', Str ''var(--wf-faint)'')] [bare ''b'' [] [Txt ''NO wins'']]],
                     wf_box [] [(''padding'', px 10), (''background'', Str ''var(--wf-warn-soft)''), (''borderColor'', Str ''var(--wf-faint)''), (''marginBottom'', px 12)]
                        [wf_text [(''size'', px 11), (''soft'', Flag True)] []
                            [Txt ''Will pay '',
                             bare ''b'' [(''color'', Str ''var(--wf-ink)'')] [Txt ''211 winning bets''],
                             Txt ('' '' @ [CHR 0xC2, CHR 0xB7] @ '' credit ''),
                             bare ''b'' [(''color'', Str ''var(--wf-ink)'')] [Txt ''64,400 ADIV'']]],
                     wf_btn [(''primary'', Flag True)] [(''width'', Str ''100%''), (''justifyContent'', Str ''center''), (''background'', Str bo_g), (''borderColor'', Str bo_g)] [Txt ''Confirm settlement''],
                     wf_ann [(''n'', px 3)] [(''marginTop'', px 10)]
                        [Txt (''two-step confirm '' @ [CHR 0xE2, CHR 0x80, CHR 0x94] @ '' destructive action guard'')]],
                 wf_card [] []
                    [wf_label [] [(''marginBottom'', px 6)] [Txt ''Lifecycle''],
                     wf_row [] [(''gap'', px 4), (''alignItems'', Str ''center''), (''fontSize'', px 11)]
                        [el ''span'' ''wf-chip'' [] [Txt ''draft''],
                         Txt [CHR 0xE2, CHR 0x80, CHR 0xBA],
                         el ''span'' ''wf-chip'' [] [Txt ''open''],
                         Txt [CHR 0xE2, CHR 0x80, CHR 0xBA],
                         el ''span'' ''wf-chip'' [(''color'', Str bo_g), (''borderColor'', Str bo_g)] [Txt ''closed''],
                         Txt [CHR 0xE2, CHR 0x80, CHR 0xBA],
                         el ''span'' ''wf-chip'' [] [Txt ''settled'']]]]]]"

definition bo_faucet :: "'e jsx" where
  "bo_faucet =
     bo_frame ''Faucet Requests'' 
        [wf_h [(''size'', px 20)] [(''marginBottom'', px 4)] [Txt ''Faucet requests''],
         wf_text [(''soft'', Flag True)] [(''marginBottom'', px 14)] [Txt ''Approve or reject play-money top-ups''],
         wf_row [] [(''gap'', px 6), (''marginBottom'', px 14)]
            [wf_pill [(''active'', Flag True)] [] [Txt (''Pending '' @ [CHR 0xC2, CHR 0xB7] @ '' 5'')],
             wf_pill [] [] [Txt ''Approved''],
             wf_pill [] [] [Txt ''Rejected'']],
         wf_card [] [(''padding'', px 0)]
            ([wf_row [] [(''justifyContent'', Str ''space-between''), (''padding'', Str ''11px 16px''), (''borderBottom'', Str ''1.5px solid var(--wf-faint)'')]
                (map (\<lambda>h.
                    wf_text [(''size'', px (21 / 2)), (''soft'', Flag True)] [] [Txt h])
                  [''PLAYER'', ''AMOUNT'', ''CURRENT BAL'', ''REASON'', ''REQUESTED'', ''ACTION''])]
            @ map (\<lambda>i.
                wf_row [] [(''justifyContent'', Str ''space-between''), (''padding'', Str ''12px 16px''), (''borderBottom'', Str ''1px solid var(--wf-faint)''), (''alignItems'', Str ''center'')]
                  [wf_row [] [(''gap'', px 8), (''width'', px 130)]
                      [bare ''div'' [(''width'', px 22), (''height'', px 22), (''borderRadius'', Str ''50%''), (''border'', Str ''1.5px solid var(--wf-line)''), (''background'', Str ''var(--wf-fill)'')] [],
                       wf_text [(''size'', px 12)] [] [Txt (''player_'' @ num_text (of_nat i))]],
                   wf_text [(''size'', px 12)] [] [bare ''b'' [] [Txt ''1,000'']],
                   wf_text [(''size'', px 12), (''soft'', Flag True)] [] [Txt (num_text ((of_nat i * 250)))],
                   bare ''div'' [(''width'', px 130)] [wf_line [(''w'', Str ''80%'')] [] []],
                   wf_text [(''size'', px 11), (''soft'', Flag True)] [] [Txt (num_text ((of_nat i + 1))), Txt ''h ago''],
                   wf_row [] [(''gap'', px 6)]
                      [wf_btn [(''primary'', Flag True)] [(''background'', Str ''var(--wf-pos)''), (''borderColor'', Str ''var(--wf-pos)''), (''padding'', Str ''5px 12px''), (''fontSize'', px 12)] [Txt ''Approve''],
                       wf_btn [(''ghost'', Flag True)] [(''padding'', Str ''5px 12px''), (''fontSize'', px 12)] [Txt ''Reject'']]])
              [0..<5]),
         wf_ann [(''n'', px 4)] [(''marginTop'', px 12)]
            [Txt (''Approve '' @ [CHR 0xE2, CHR 0x86, CHR 0x92] @ '' ledger credit + audit event. Bulk approve optional.'')]]"

end
