(* ===== verification/Screens_Extra.thy ===== *)
theory Screens_Extra
  imports Wf_Screen
begin

text \<open>
  Settlement, visibility and communities.
\<close>

definition extra_a :: "string" where
  "extra_a = ''#356b8a''"

definition extra_w :: "string" where
  "extra_w = ''#9a6a1e''"

definition extra_pos :: "string" where
  "extra_pos = ''#3c7a52''"

definition extra_cap :: "style" where
  "extra_cap =
     [(''fontSize'', px (21 / 2)), (''fontWeight'', px 600), (''letterSpacing'', Str ''.04em''), (''textTransform'', Str ''uppercase''), (''color'', Str ''var(--wf-soft)'')]"

definition extra_settlement :: "'e jsx" where
  "extra_settlement =
     (let steps = [(''Open'', (''Accepting bets '' @ [CHR 0xC2, CHR 0xB7] @ '' prices live''), extra_a), (''Closes'', (''close_at passes '' @ [CHR 0xE2, CHR 0x86, CHR 0x92] @ '' no new bets''), extra_w), (''Resolution'', ''Moderator declares outcome + evidence'', extra_a), (''Dispute'', ''Optional window to contest'', extra_w), (''Settled'', (''Payouts credited '' @ [CHR 0xC2, CHR 0xB7] @ '' ledger entries''), extra_pos)];
          mechs = [(''Fixed-odds'', (''Winning bets paid stake '' @ [CHR 0xC3, CHR 0xB7] @ '' implied probability. House covered the other side.'')), (''CLOB'', ''Each winning contract redeems for 1 ADIV; losing contracts expire at 0. Open orders cancelled & released.''), (''LMSR'', (''Outcome marked; winning shares pay out from the maker. (v1: settlement payout in progress '' @ [CHR 0xE2, CHR 0x80, CHR 0x94] @ '' TD-001.)'')), (''Parimutuel'', (''Winning pool splits the total pool minus takeout, pro-rata to stake. Zero winners '' @ [CHR 0xE2, CHR 0x86, CHR 0x92] @ '' refund.''))]
      in wf_screen [] []
        [wf_web_bar [(''active'', Str [])] [] [],
         bare ''div'' [(''padding'', Str ''22px 26px''), (''maxWidth'', px 980), (''margin'', Str ''0 auto'')]
            [wf_h [(''size'', px 24)] [(''marginBottom'', px 4)] [Txt ''How markets settle''],
             wf_text [(''soft'', Flag True)] [(''marginBottom'', px 20)]
                [Txt (''Every payout is recorded as an append-only ledger entry '' @ [CHR 0xE2, CHR 0x80, CHR 0x94] @ '' settlement is idempotent and fully audited.'')],
             wf_label [] [(''marginBottom'', px 12)] [Txt ''Market lifecycle''],
             wf_row [] [(''gap'', px 0), (''marginBottom'', px 24), (''alignItems'', Str ''stretch'')]
                (concat (map (\<lambda>(i, (t, d, c)).
                    ([wf_col [(''gap'', px 6)] [(''flex'', px 1)]
                        [wf_row [] [(''gap'', px 7)]
                            [bare ''span'' [(''width'', px 22), (''height'', px 22), (''borderRadius'', px 999), (''background'', Str c), (''color'', Str ''#fff''), (''fontSize'', px 11), (''fontWeight'', px 700), (''display'', Str ''flex''), (''alignItems'', Str ''center''), (''justifyContent'', Str ''center'')] [Txt (num_text ((of_nat i + 1)))],
                             wf_text [(''size'', px 13)] [] [bare ''b'' [] [Txt t]]],
                         wf_text [(''size'', px (21 / 2)), (''soft'', Flag True)] [(''paddingRight'', px 10)] [Txt d]]]
                    @ only_if ((of_nat i :: rat) < (of_nat (length steps) - 1)) [bare ''div'' [(''alignSelf'', Str ''center''), (''color'', Str ''var(--wf-faint)''), (''fontSize'', px 18), (''padding'', Str ''0 2px'')] [Txt [CHR 0xE2, CHR 0x86, CHR 0x92]]])) (enumerate 0 steps))),
             wf_label [] [(''marginBottom'', px 12)] [Txt ''Payout by mechanism''],
             bare ''div'' [(''display'', Str ''grid''), (''gridTemplateColumns'', Str ''1fr 1fr''), (''gap'', px 12), (''marginBottom'', px 24)]
                (map (\<lambda>(m, d).
                    wf_card [] []
                      [wf_chip [] [(''color'', Str extra_a), (''borderColor'', Str extra_a), (''marginBottom'', px 8)] [Txt m],
                       wf_text [(''size'', px (25 / 2))] [(''lineHeight'', px (3 / 2))] [Txt d]])
                  mechs),
             bare ''div'' [(''display'', Str ''grid''), (''gridTemplateColumns'', Str ''1fr 1fr''), (''gap'', px 12)]
                [wf_card [] [(''borderColor'', Str extra_w)]
                    [wf_label [] [(''marginBottom'', px 8)] [Txt ''Disputes''],
                     wf_text [(''size'', px (25 / 2))] [(''lineHeight'', px (3 / 2)), (''marginBottom'', px 8)]
                        [Txt ''During the dispute window any participant can contest the result with a reason. A resolver reviews evidence and finalizes or reverses.''],
                     wf_row [] [(''gap'', px 5)]
                        [wf_chip [] [] [Txt ''Open''],
                         wf_chip [] [] [Txt ''Accepted''],
                         wf_chip [] [] [Txt ''Rejected''],
                         wf_chip [] [] [Txt ''Reversed'']]],
                 wf_card [] []
                    ([wf_label [] [(''marginBottom'', px 8)] [Txt ''Why you can trust it'']]
                    @ map (\<lambda>t.
                        wf_row [] [(''gap'', px 7), (''padding'', Str ''4px 0''), (''alignItems'', Str ''flex-start'')]
                          [bare ''span'' [(''color'', Str extra_pos), (''fontWeight'', px 800)] [Txt [CHR 0xE2, CHR 0x9C, CHR 0x93]],
                           wf_text [(''size'', px 12)] [] [Txt t]])
                      [(''Append-only ledger '' @ [CHR 0xE2, CHR 0x80, CHR 0x94] @ '' no silent balance edits''), ''Settlement runs once (idempotent)'', (''Resolver '' @ [CHR 0xE2, CHR 0x89, CHR 0xA0] @ '' market creator (configurable)''), ''Every step writes an audit event''])],
             wf_ann [(''n'', px 1)] [(''marginTop'', px 14)]
                [Txt (''Link this from every market'' @ [CHR 0xE2, CHR 0x80, CHR 0x99] @ ''s '' @ [CHR 0xE2, CHR 0x80, CHR 0x9C] @ ''Resolution details'' @ [CHR 0xE2, CHR 0x80, CHR 0x9D] @ '' + settled banner'')]]])"

definition extra_scope :: "'e jsx" where
  "extra_scope =
     wf_screen [] []
        [wf_web_bar [(''active'', Str ''Markets'')] [] [],
         bare ''div'' [(''padding'', Str ''20px 26px'')]
            [wf_row [] [(''justifyContent'', Str ''space-between''), (''marginBottom'', px 14)]
                [wf_h [(''size'', px 24)] [] [Txt ''Markets''],
                 wf_btn [(''primary'', Flag True)] [] [Txt ''+ Create market'']],
             wf_row [] [(''gap'', px 8), (''marginBottom'', px 16)]
                [wf_pill [(''active'', Flag True)] [] [Txt ''All''],
                 wf_pill [] [] [Txt ([CHR 0xF0, CHR 0x9F, CHR 0x8C, CHR 0x90] @ '' Public'')],
                 wf_pill [] []
                    [Txt ([CHR 0xF0, CHR 0x9F, CHR 0x91, CHR 0xA5] @ '' My communities'')],
                 bare ''div'' [(''flex'', px 1)] [],
                 wf_field [(''label'', Str (''Community: Office League '' @ [CHR 0xE2, CHR 0x96, CHR 0xBE]))] [(''width'', px 200)] [],
                 wf_ann [] [(''marginLeft'', px 6)] [Txt ''scope = visibility filter'']],
             bare ''div'' [(''display'', Str ''grid''), (''gridTemplateColumns'', Str ''repeat(3,1fr)''), (''gap'', px 14)]
                (map (\<lambda>(i, (scope, c, locked)).
                    wf_card [] [(''padding'', px 13), (''opacity'', if locked then px (24 / 25) else px 1)]
                      [wf_row [] [(''gap'', px 5), (''marginBottom'', px 9)]
                          [wf_chip [] [(''color'', Str c), (''borderColor'', Str c), (''textTransform'', Str ''none'')] [Txt scope],
                           wf_chip [] [] [Txt ''Open'']],
                       wf_text [(''size'', px 13)] [(''fontWeight'', px 700), (''lineHeight'', px (13 / 10)), (''marginBottom'', px 10)]
                          [(if locked then Txt (''Members-only market '' @ [CHR 0xE2, CHR 0x80, CHR 0x94] @ '' join to view details'')
                            else Txt ''Will the proposal pass before Q3 2026?'')],
                       (if locked then wf_box [(''dashed'', Flag True)] [(''padding'', Str ''14px 0''), (''textAlign'', Str ''center''), (''borderColor'', Str ''var(--wf-faint)'')]
                          [wf_text [(''size'', px 11), (''soft'', Flag True)] [] [Txt ([CHR 0xF0, CHR 0x9F, CHR 0x94, CHR 0x92] @ '' Restricted'')],
                           bare ''div'' [(''marginTop'', px 6)] [wf_pill [] [] [Txt ''Request invite'']]]
                        else wf_row [] [(''gap'', px 8)]
                          [wf_box [] [(''flex'', px 1), (''textAlign'', Str ''center''), (''padding'', Str ''7px 0''), (''borderColor'', Str ''var(--wf-faint)'')]
                              [bare ''div'' [(''fontSize'', px 9), (''color'', Str ''var(--wf-soft)'')] [Txt ''YES''],
                               bare ''div'' [(''fontSize'', px 16), (''fontWeight'', px 800), (''color'', Str extra_a)] [Txt ''62%'']],
                           wf_box [] [(''flex'', px 1), (''textAlign'', Str ''center''), (''padding'', Str ''7px 0''), (''borderColor'', Str ''var(--wf-faint)'')]
                              [bare ''div'' [(''fontSize'', px 9), (''color'', Str ''var(--wf-soft)'')] [Txt ''NO''],
                               bare ''div'' [(''fontSize'', px 16), (''fontWeight'', px 800), (''color'', Str extra_w)] [Txt ''38%'']]])])
                  (enumerate 0 [(([CHR 0xF0, CHR 0x9F, CHR 0x8C, CHR 0x90] @ '' Public''), extra_a, False), (([CHR 0xF0, CHR 0x9F, CHR 0x91, CHR 0xA5] @ '' Office League''), extra_w, False), (([CHR 0xF0, CHR 0x9F, CHR 0x91, CHR 0xA5] @ '' Family Pool''), extra_w, True), (([CHR 0xF0, CHR 0x9F, CHR 0x8C, CHR 0x90] @ '' Public''), extra_a, False), (([CHR 0xF0, CHR 0x9F, CHR 0x91, CHR 0xA5] @ '' Crypto Club''), extra_w, False), (([CHR 0xF0, CHR 0x9F, CHR 0x94, CHR 0x92] @ '' Invite-only''), ''var(--wf-soft)'', True)])),
             wf_ann [(''n'', px 2)] [(''marginTop'', px 14)]
                [Txt (''Public = anyone '' @ [CHR 0xC2, CHR 0xB7] @ '' Community = group members only (groups/memberships)'')]]]"

definition extra_community :: "'e jsx" where
  "extra_community =
     wf_screen [] []
        [wf_web_bar [(''active'', Str ''Markets'')] [] [],
         bare ''div'' [(''padding'', Str ''20px 26px'')]
            [wf_row [] [(''gap'', px 14), (''marginBottom'', px 8)]
                [bare ''div'' [(''width'', px 52), (''height'', px 52), (''borderRadius'', px 12), (''background'', Str ''var(--wf-fill)''), (''border'', Str ''1.5px solid var(--wf-line)'')] [],
                 wf_col [(''gap'', px 3)] []
                    [wf_row [] [(''gap'', px 8)]
                        [wf_h [(''size'', px 21)] [] [Txt ''Office League''],
                         wf_chip [] [(''color'', Str extra_w), (''borderColor'', Str extra_w), (''textTransform'', Str ''none'')]
                            [Txt ([CHR 0xF0, CHR 0x9F, CHR 0x91, CHR 0xA5] @ '' Private community'')]],
                     wf_text [(''size'', px 12), (''soft'', Flag True)] []
                        [Txt (''32 members '' @ [CHR 0xC2, CHR 0xB7] @ '' 14 open markets '' @ [CHR 0xC2, CHR 0xB7] @ '' you are an Admin'')]],
                 bare ''div'' [(''flex'', px 1)] [],
                 wf_btn [(''ghost'', Flag True)] [] [Txt ''Invite members''],
                 wf_btn [(''primary'', Flag True)] [] [Txt ''+ Create market'']],
             wf_divider [] [(''margin'', Str ''14px 0'')] [],
             bare ''div'' [(''display'', Str ''grid''), (''gridTemplateColumns'', Str ''1fr 280px''), (''gap'', px 20)]
                [wf_col [(''gap'', px 12)] []
                    ([wf_row [] [(''gap'', px 6)]
                        [wf_pill [(''active'', Flag True)] [] [Txt ''Open''],
                         wf_pill [] [] [Txt ''Closed''],
                         wf_pill [] [] [Txt ''Settled''],
                         wf_pill [] [] [Txt ''Mine'']]]
                    @ map (\<lambda>i.
                        wf_card [] [(''padding'', px 13)]
                          [wf_row [] [(''gap'', px 5), (''marginBottom'', px 8)]
                              [wf_chip [] [] [Txt ''Open''],
                               wf_chip [] [(''color'', Str extra_a), (''borderColor'', Str extra_a)] [Txt ''CLOB''],
                               bare ''span'' [(''marginLeft'', Str ''auto''), (''fontSize'', px 10), (''color'', Str ''var(--wf-soft)'')] [Txt ''by mod_jane'']],
                           wf_row [] [(''justifyContent'', Str ''space-between''), (''alignItems'', Str ''center'')]
                              [wf_text [(''size'', px 13)] [(''fontWeight'', px 700), (''width'', Str ''60%'')] [Txt ''Will we hit the Q3 target?''],
                               wf_row [] [(''gap'', px 8)]
                                  [wf_box [] [(''textAlign'', Str ''center''), (''padding'', Str ''6px 14px''), (''borderColor'', Str ''var(--wf-faint)'')]
                                      [bare ''div'' [(''fontSize'', px 9), (''color'', Str ''var(--wf-soft)'')] [Txt ''YES''],
                                       bare ''div'' [(''fontSize'', px 15), (''fontWeight'', px 800), (''color'', Str extra_a)] [Txt ''5'', Txt (num_text i), Txt [CHR 0xC2, CHR 0xA2]]]]]])
                      [(0 :: rat), 1, 2]),
                 wf_col [(''gap'', px 14)] []
                    [wf_card [] []
                        ([wf_label [] [(''marginBottom'', px 8)] [Txt (''Members '' @ [CHR 0xC2, CHR 0xB7] @ '' 32'')]]
                        @ map (\<lambda>(i, m).
                            wf_row [] [(''gap'', px 8), (''padding'', Str ''5px 0''), (''alignItems'', Str ''center'')]
                              [wf_avatar [(''size'', px 24)] [] [], wf_text [(''size'', px 12)] [] [Txt m]])
                          (enumerate 0 [(''mod_jane '' @ [CHR 0xC2, CHR 0xB7] @ '' Owner''), (''player_alex '' @ [CHR 0xC2, CHR 0xB7] @ '' Admin''), (''player_sam '' @ [CHR 0xC2, CHR 0xB7] @ '' Member''), (''player_lee '' @ [CHR 0xC2, CHR 0xB7] @ '' Member'')])
                        @ [wf_text [(''size'', px (23 / 2))] [(''color'', Str extra_a), (''marginTop'', px 6)] [Txt (''View all '' @ [CHR 0xE2, CHR 0x80, CHR 0xBA])]]),
                     wf_card [] [(''borderColor'', Str extra_w)]
                        [wf_label [] [(''marginBottom'', px 8)] [Txt (''Pending invites '' @ [CHR 0xC2, CHR 0xB7] @ '' 3'')],
                         wf_lines 2 [(''last'', Str ''60%'')] [] [],
                         wf_btn [(''ghost'', Flag True)] [(''width'', Str ''100%''), (''justifyContent'', Str ''center''), (''marginTop'', px 10)] [Txt ''Manage invites'']],
                     wf_card [] []
                        [wf_label [] [(''marginBottom'', px 6)] [Txt ''Community leaderboard''],
                         wf_lines 3 [(''last'', Str ''50%'')] [] []]]],
             wf_ann [(''n'', px 3)] [(''marginTop'', px 12)]
                [Txt (''Roles: Owner '' @ [CHR 0xC2, CHR 0xB7] @ '' Admin '' @ [CHR 0xC2, CHR 0xB7] @ '' Resolver '' @ [CHR 0xC2, CHR 0xB7] @ '' Member '' @ [CHR 0xC2, CHR 0xB7] @ '' Read-only (per group)'')]]]"

definition extra_visibility :: "'e jsx" where
  "extra_visibility =
     wf_screen [(''pad'', px 18)] []
        [wf_h [(''size'', px 16)] [(''marginBottom'', px 4)] [Txt ''Visibility & access''],
         wf_text [(''size'', px (23 / 2)), (''soft'', Flag True)] [(''marginBottom'', px 14)] [Txt ''Who can see and bet on this market?''],
         wf_col [(''gap'', px 10)] []
            [wf_box [] [(''padding'', px 12), (''borderWidth'', px 2), (''borderColor'', Str extra_a)]
                [wf_row [] [(''gap'', px 8), (''alignItems'', Str ''flex-start'')]
                    [bare ''span'' [(''marginTop'', px 1)] [Txt [CHR 0xF0, CHR 0x9F, CHR 0x8C, CHR 0x90]],
                     wf_col [(''gap'', px 3)] []
                        [wf_text [(''size'', px 13)] [] [bare ''b'' [(''color'', Str extra_a)] [Txt ''Public'']],
                         wf_text [(''size'', px 11), (''soft'', Flag True)] []
                            [Txt ''Anyone on Adivento can view and bet. Appears in the global market list.'']]]],
             wf_box [] [(''padding'', px 12), (''borderColor'', Str ''var(--wf-faint)'')]
                [wf_row [] [(''gap'', px 8), (''alignItems'', Str ''flex-start'')]
                    [bare ''span'' [(''marginTop'', px 1)] [Txt [CHR 0xF0, CHR 0x9F, CHR 0x91, CHR 0xA5]],
                     wf_col [(''gap'', px 3)] []
                        [wf_text [(''size'', px 13)] [] [bare ''b'' [] [Txt ''Community'']],
                         wf_text [(''size'', px 11), (''soft'', Flag True)] [] [Txt ''Only members of a chosen community can participate.''],
                         wf_field [(''label'', Str (''Choose community: Office League '' @ [CHR 0xE2, CHR 0x96, CHR 0xBE]))] [(''marginTop'', px 6)] []]]],
             wf_box [] [(''padding'', px 12), (''borderColor'', Str ''var(--wf-faint)'')]
                [wf_row [] [(''gap'', px 8), (''alignItems'', Str ''flex-start'')]
                    [bare ''span'' [(''marginTop'', px 1)] [Txt [CHR 0xF0, CHR 0x9F, CHR 0x94, CHR 0x92]],
                     wf_col [(''gap'', px 3)] []
                        [wf_text [(''size'', px 13)] [] [bare ''b'' [] [Txt ''Invite-only'']],
                         wf_text [(''size'', px 11), (''soft'', Flag True)] []
                            [Txt ''Hidden. Only people you invite by link/email can join this single market.'']]]]],
         wf_box [] [(''padding'', px 10), (''background'', Str ''var(--wf-warn-soft)''), (''borderColor'', Str ''var(--wf-faint)''), (''marginTop'', px 14)]
            [wf_text [(''size'', px (21 / 2)), (''soft'', Flag True)] []
                [Txt ([CHR 0xE2, CHR 0x9A, CHR 0xA0] @ '' Visibility is locked once the market opens. Community markets enforce membership at bet time.'')]],
         wf_ann [(''n'', px 4)] [(''marginTop'', px 12)]
            [Txt ''Maps to markets.group_id + RBAC (PRIVATE_PREDICTION_MARKETS.md)'']]"

end
