(* ===== verification/Screens_Alt.thy ===== *)
theory Screens_Alt
  imports Wf_Screen
begin

text \<open>
  The dark alternatives: navigation, detail and betting, portfolio.
\<close>

definition alt_ac :: "string" where
  "alt_ac = ''#5b9dd9''"

definition alt_wc :: "string" where
  "alt_wc = ''#e3aa54''"

definition alt_pos :: "string" where
  "alt_pos = ''#5cc491''"

definition alt_neg :: "string" where
  "alt_neg = ''#e58178''"

definition alt_cap :: "style" where
  "alt_cap =
     [(''fontSize'', px 10), (''fontWeight'', px 600), (''letterSpacing'', Str ''.05em''), (''textTransform'', Str ''uppercase''), (''color'', Str ''var(--wf-soft)'')]"

definition alt_chg :: "rat \<Rightarrow> 'e jsx" where
  "alt_chg v =
     bare ''span'' [(''color'', if (v :: rat) \<ge> 0 then Str alt_pos else Str alt_neg), (''fontWeight'', px 700), (''fontSize'', px (23 / 2))]
        [(if (v :: rat) \<ge> 0 then Txt [CHR 0xE2, CHR 0x96, CHR 0xB2]
          else Txt [CHR 0xE2, CHR 0x96, CHR 0xBC]),
         Txt '' '',
         Txt (num_text (\<bar>v\<bar>))]"

definition alt_intro :: "'e jsx" where
  "alt_intro =
     wf_dark [(''bg'', Str ''#11161f'')] [(''padding'', Str ''30px 34px'')]
        [bare ''div'' [(''fontFamily'', Str ([CHR 0x27] @ ''Caveat'' @ [CHR 0x27] @ '',cursive'')), (''fontSize'', px 30), (''fontWeight'', px 700), (''color'', Str alt_ac), (''marginBottom'', px 2)]
            [Txt (''Alternative direction '' @ [CHR 0xE2, CHR 0x80, CHR 0x94] @ '' Dark '' @ [CHR 0xE2, CHR 0x80, CHR 0x9C] @ ''Terminal'' @ [CHR 0xE2, CHR 0x80, CHR 0x9D])],
         wf_text [(''soft'', Flag True)] [(''marginBottom'', px 20), (''fontSize'', px 13)]
            [Txt (''PR2 '' @ [CHR 0xC2, CHR 0xB7] @ '' diverges on all three axes vs PR1'' @ [CHR 0xE2, CHR 0x80, CHR 0x99] @ ''s light card-stack. High-contrast slate, data-forward, power-user leaning.'')],
         bare ''div'' [(''display'', Str ''grid''), (''gridTemplateColumns'', Str ''repeat(3,1fr)''), (''gap'', px 24)]
            (map (\<lambda>(t, d).
                wf_col [(''gap'', px 8)] []
                  [bare ''div'' [(''fontSize'', px 11), (''fontWeight'', px 700), (''letterSpacing'', Str ''.05em''), (''textTransform'', Str ''uppercase''), (''color'', Str alt_ac)] [Txt t],
                   wf_text [] [(''fontSize'', px (25 / 2)), (''lineHeight'', px (3 / 2))] [Txt d]])
              [((''A '' @ [CHR 0xC2, CHR 0xB7] @ '' Navigation / IA''), (''Three home models: a live activity feed, a category hub, and a watchlist terminal dashboard '' @ [CHR 0xE2, CHR 0x80, CHR 0x94] @ '' instead of one filter-grid.'')), ((''B '' @ [CHR 0xC2, CHR 0xB7] @ '' Detail & betting''), ''A trading-terminal layout (chart + order book + ticket rail), a chart-dominant compact view, and a mobile bottom-sheet terminal.''), ((''C '' @ [CHR 0xC2, CHR 0xB7] @ '' Visual structure''), ''Dark high-contrast (not black), dense tabular data, big tickers, sparklines everywhere, mono-ish numerals.'')]),
         wf_box [] [(''marginTop'', px 20), (''padding'', px 14), (''borderColor'', Str ''var(--wf-faint)''), (''background'', Str ''var(--wf-fill)'')]
            [wf_text [] [(''fontSize'', px (25 / 2))]
                [Txt ''Pick-and-mix: any single direction here can be combined with PR1. In PR3 both become a theme toggle with shared component classes.'']]]"

definition alt_feed :: "'e jsx" where
  "alt_feed =
     wf_dark [] []
        [wf_alt_bar None [(''active'', Str ''Home'')] [] [],
         bare ''div'' [(''padding'', Str ''18px 24px''), (''display'', Str ''grid''), (''gridTemplateColumns'', Str ''1fr 300px''), (''gap'', px 20)]
            [wf_col [(''gap'', px 14)] []
                ([wf_label [] [] [Txt ([CHR 0xF0, CHR 0x9F, CHR 0x94, CHR 0xA5] @ '' Trending now'')],
                 wf_row [] [(''gap'', px 12)]
                    (map (\<lambda>(i, (v, d)).
                        wf_card [] [(''flex'', px 1), (''padding'', px 12)]
                          [wf_text [(''size'', px (23 / 2))] [(''fontWeight'', px 600), (''marginBottom'', px 8), (''height'', px 32), (''overflow'', Str ''hidden'')] [Txt ''Will the proposal pass before Q3?''],
                           wf_row [] [(''justifyContent'', Str ''space-between''), (''alignItems'', Str ''flex-end'')]
                              [bare ''span'' [(''fontSize'', px 22), (''fontWeight'', px 800), (''color'', Str alt_ac)] [Txt v],
                               alt_chg d],
                           wf_sparkline (Some (map Fin [(48 :: rat), 50, 47, 53, 55, 58, 62])) (Some (Fin 250)) (Some (Fin 26)) [(''color'', Str alt_ac)] [(''marginTop'', px 6), (''width'', Str ''100%'')] []])
                      (enumerate 0 [(''62%'', (4 :: rat)), ((''54'' @ [CHR 0xC2, CHR 0xA2]), (- 2)), (''71%'', 9)])),
                 wf_label [] [(''marginTop'', px 6)] [Txt ''Activity feed'']]
                @ map (\<lambda>(i, (a, b, c, t)).
                    wf_card [] [(''padding'', px 12)]
                      [wf_row [] [(''gap'', px 10), (''alignItems'', Str ''center'')]
                          [wf_avatar [(''size'', px 28)] [] [],
                           wf_col [(''gap'', px 2)] [(''flex'', px 1)]
                              [wf_text [(''size'', px (25 / 2))] []
                                  [bare ''b'' [] [Txt a],
                                   Txt '' '',
                                   bare ''span'' [(''color'', Str ''var(--wf-soft)'')] [Txt b]],
                               wf_text [(''size'', px 11), (''soft'', Flag True)] []
                                  [Txt c,
                                   Txt ('' '' @ [CHR 0xC2, CHR 0xB7] @ '' ''),
                                   Txt (num_text ((of_nat i + 1))),
                                   Txt ''m ago'']],
                           wf_chip [] [(''color'', if t = ''resolve'' then Str alt_pos else Str alt_ac), (''borderColor'', Str ''currentColor'')] [Txt t]]])
                  (enumerate 0 [(''player_alex'', ''bought YES'', (''+120 @ 60'' @ [CHR 0xC2, CHR 0xA2]), ''trade''), (''Market resolved'', (''YES '' @ [CHR 0xE2, CHR 0x80, CHR 0x94] @ '' '' @ [CHR 0xE2, CHR 0x80, CHR 0x9C] @ ''Rate cut in June'' @ [CHR 0xE2, CHR 0x80, CHR 0x9D]), ''paid 1,240 ADIV'', ''resolve''), (''player_sam'', ''opened a community market'', ''Office League'', ''market''), (''player_lee'', ''bought NO'', ([CHR 0xE2, CHR 0x88, CHR 0x92] @ ''80 @ 41'' @ [CHR 0xC2, CHR 0xA2]), ''trade'')])
                @ [wf_ann [(''n'', px 1)] []
                    [Txt ''IA: home = a live feed; discover via trending + who you follow'']]),
             wf_col [(''gap'', px 14)] []
                [wf_card [] []
                    [wf_label [] [(''marginBottom'', px 8)] [Txt ''Your portfolio''],
                     wf_row [] [(''justifyContent'', Str ''space-between'')]
                        [wf_text [(''size'', px (23 / 2)), (''soft'', Flag True)] [] [Txt ''Value''],
                         wf_text [(''size'', px 13)] [] [bare ''b'' [] [Txt ''5,430'']]],
                     wf_row [] [(''justifyContent'', Str ''space-between'')]
                        [wf_text [(''size'', px (23 / 2)), (''soft'', Flag True)] [] [Txt ''Today''],
                         alt_chg 180],
                     wf_sparkline (Some (map Fin [(40 :: rat), 45, 43, 50, 55, 52, 60])) (Some (Fin 250)) (Some (Fin 28)) [(''color'', Str alt_pos)] [(''marginTop'', px 8), (''width'', Str ''100%'')] []],
                 wf_card [] []
                    ([wf_label [] [(''marginBottom'', px 8)] [Txt ''Watchlist'']]
                    @ map (\<lambda>(i, (m, v, d)).
                        wf_row [] [(''justifyContent'', Str ''space-between''), (''padding'', Str ''6px 0''), (''borderBottom'', if i < 2 then Str ''1px solid var(--wf-faint)'' else px 0)]
                          [wf_text [(''size'', px (23 / 2))] [] [Txt m],
                           wf_row [] [(''gap'', px 8)] [wf_text [(''size'', px 12)] [] [bare ''b'' [] [Txt v]], alt_chg d]])
                      (enumerate 0 [(''Senate vote'', ''62%'', (4 :: rat)), (''BTC > 100k'', (''54'' @ [CHR 0xC2, CHR 0xA2]), (- 2)), (''Cup final'', ''48%'', 1)]))]]]"

definition alt_hub :: "'e jsx" where
  "alt_hub =
     wf_dark [] []
        [wf_alt_bar None [(''active'', Str ''Markets'')] [] [],
         bare ''div'' [(''display'', Str ''flex''), (''height'', Str ''calc(100% - 50px)'')]
            [el ''div'' ''wf-col'' [(''width'', px 150), (''borderRight'', Str ''1.5px solid var(--wf-faint)''), (''padding'', Str ''16px 10px''), (''gap'', px 3), (''background'', Str ''#10141d'')]
                ([wf_text [(''size'', px 10), (''soft'', Flag True)] [(''padding'', Str ''0 8px 6px''), (''textTransform'', Str ''uppercase''), (''letterSpacing'', Str ''.05em'')] [Txt ''Categories'']]
                @ map (\<lambda>(i, t).
                    bare ''span'' [(''fontSize'', px (25 / 2)), (''fontWeight'', if i = 1 then px 700 else px 500), (''color'', if i = 1 then Str alt_ac else Str ''var(--wf-soft)''), (''padding'', Str ''8px 9px''), (''borderRadius'', px 6), (''background'', if i = 1 then Str ''var(--wf-accent-soft)'' else Str ''transparent'')] [Txt t])
                  (enumerate 0 [''All markets'', ''Politics'', ''Sports'', ''Crypto'', ''Macro'', ''Culture''])
                @ [wf_divider [] [(''margin'', Str ''10px 4px'')] [],
                 wf_text [(''size'', px 10), (''soft'', Flag True)] [(''padding'', Str ''0 8px 6px''), (''textTransform'', Str ''uppercase''), (''letterSpacing'', Str ''.05em'')] [Txt ''Communities'']]
                @ map (\<lambda>t.
                    bare ''span'' [(''fontSize'', px (25 / 2)), (''color'', Str ''var(--wf-soft)''), (''padding'', Str ''7px 9px'')] [Txt ([CHR 0xF0, CHR 0x9F, CHR 0x91, CHR 0xA5] @ '' ''), Txt t])
                  [''Office League'', ''Crypto Club'']),
             bare ''div'' [(''flex'', px 1), (''padding'', Str ''18px 22px''), (''overflow'', Str ''hidden'')]
                ([wf_row [] [(''justifyContent'', Str ''space-between''), (''marginBottom'', px 6)]
                    [wf_h [(''size'', px 20)] [(''color'', Str ''var(--wf-ink)'')] [Txt ''Politics''],
                     wf_field [(''label'', Str (''Sort: Volume '' @ [CHR 0xE2, CHR 0x96, CHR 0xBE]))] [(''width'', px 150)] []],
                 wf_text [(''soft'', Flag True)] [(''marginBottom'', px 16), (''fontSize'', px 12)] [Txt ''34 open markets'']]
                @ map (\<lambda>(sec, _).
                    bare ''div'' [(''marginBottom'', px 18)]
                      [wf_label [] [(''marginBottom'', px 10)] [Txt sec],
                       bare ''div'' [(''display'', Str ''grid''), (''gridTemplateColumns'', Str ''repeat(3,1fr)''), (''gap'', px 12)]
                          (map (\<lambda>i.
                              wf_card [] [(''padding'', px 12)]
                                [wf_row [] [(''gap'', px 4), (''marginBottom'', px 7)]
                                    [wf_chip [] [] [Txt ''Open''],
                                     wf_chip [] [(''color'', Str alt_ac), (''borderColor'', Str alt_ac)] [Txt ([''FIXED'', ''CLOB'', ''LMSR''] ! i)]],
                                 wf_text [(''size'', px 12)] [(''fontWeight'', px 600), (''marginBottom'', px 9), (''height'', px 30), (''overflow'', Str ''hidden'')] [Txt ''Will the bill pass committee?''],
                                 wf_row [] [(''justifyContent'', Str ''space-between''), (''alignItems'', Str ''center'')]
                                    [bare ''span'' [(''fontSize'', px 18), (''fontWeight'', px 800), (''color'', Str alt_ac)] [Txt ''6'', Txt (num_text (of_nat i)), Txt ''%''],
                                     wf_sparkline (Some (map Fin [(50 :: rat), 52, 49, 55, 58, 62])) None None [(''color'', Str alt_ac)] [] []]])
                            [0..<3])])
                  [(''Featured'', (2 :: rat)), (''Closing soon'', 2)]
                @ [wf_ann [(''n'', px 2)] []
                    [Txt ''IA: browse-by-topic; categories + communities as first-class nav'']])]]"

definition alt_terminal :: "'e jsx" where
  "alt_terminal =
     wf_dark [] []
        [bare ''div'' [(''display'', Str ''flex''), (''height'', Str ''100%'')]
            [wf_alt_sidebar [(''active'', Str ''Markets'')] [] [],
             bare ''div'' [(''flex'', px 1), (''padding'', Str ''16px 20px''), (''overflow'', Str ''hidden'')]
                [wf_row [] [(''gap'', px 12), (''marginBottom'', px 14)]
                    (map (\<lambda>(l, v, d).
                        wf_box [] [(''flex'', px 1), (''padding'', Str ''10px 13px''), (''borderColor'', Str ''var(--wf-faint)'')]
                          [bare ''div'' alt_cap [Txt l],
                           wf_row [] [(''justifyContent'', Str ''space-between''), (''alignItems'', Str ''baseline''), (''marginTop'', px 3)]
                              ([bare ''span'' [(''fontSize'', px 18), (''fontWeight'', px 800)] [Txt v]]
                              @ only_if (d \<noteq> 0) [alt_chg d])])
                      [(''Portfolio'', ''5,430'', (180 :: rat)), (''Available'', ''4,250'', 0), (''Open positions'', ''12'', 0), (''Today P&L'', ''+180'', 180)]),
                 wf_card [] [(''padding'', px 0)]
                    ([wf_row [] [(''justifyContent'', Str ''space-between''), (''padding'', Str ''10px 14px''), (''borderBottom'', Str ''1.5px solid var(--wf-faint)'')]
                        (map (\<lambda>h.
                            wf_text [(''size'', px 10), (''soft'', Flag True)] [(''flex'', if h = ''MARKET'' then px 2 else px 1)] [Txt h])
                          [''MARKET'', ''MECH'', ''CHANCE'', ''24H'', ''VOLUME'', ''CLOSES'', []])]
                    @ map (\<lambda>(i, (v, d)).
                        wf_row [] [(''padding'', Str ''11px 14px''), (''borderBottom'', Str ''1px solid var(--wf-faint)''), (''alignItems'', Str ''center'')]
                          [wf_text [(''size'', px 12)] [(''flex'', px 2)]
                              [Txt ''Will the proposal pass before Q'', Txt (num_text (of_nat i)), Txt ''?''],
                           bare ''div'' [(''flex'', px 1)]
                              [wf_chip [] [(''color'', Str alt_ac), (''borderColor'', Str alt_ac)] [Txt ([''FIXED'', ''CLOB'', ''LMSR'', ''PARI''] ! (i mod 4))]],
                           bare ''div'' [(''flex'', px 1)]
                              [bare ''span'' [(''fontSize'', px 14), (''fontWeight'', px 800), (''color'', Str alt_ac)] [Txt (num_text v), Txt ''%'']],
                           bare ''div'' [(''flex'', px 1)] [alt_chg d],
                           wf_text [(''size'', px (23 / 2)), (''soft'', Flag True)] [(''flex'', px 1)] [Txt (num_text ((120 - (of_nat i * 8)))), Txt ''k''],
                           wf_text [(''size'', px (23 / 2)), (''soft'', Flag True)] [(''flex'', px 1)] [Txt (num_text ((of_nat i + 2))), Txt ''d''],
                           bare ''div'' [(''flex'', px 1)]
                              [wf_pill [] [(''color'', Str alt_ac), (''borderColor'', Str alt_ac)] [Txt ''Trade'']]])
                      (enumerate 0 [((62 :: rat), (4 :: rat)), (54, (- 2)), (71, 9), (48, 1), (33, (- 5)), (60, 3)])),
                 wf_ann [(''n'', px 3)] [(''marginTop'', px 12)]
                    [Txt (''IA: power-user dashboard '' @ [CHR 0xE2, CHR 0x80, CHR 0x94] @ '' watchlist + sortable table + portfolio strip'')]]]]"

definition alt_trade_terminal :: "'e jsx" where
  "alt_trade_terminal =
     wf_dark [] []
        [wf_alt_bar None [(''active'', Str ''Markets'')] [] [],
         bare ''div'' [(''padding'', Str ''14px 20px'')]
            [wf_row [] [(''gap'', px 6), (''marginBottom'', px 8)]
                [wf_chip [] [] [Txt ''Open''],
                 wf_chip [] [(''color'', Str alt_ac), (''borderColor'', Str alt_ac)] [Txt ''CLOB''],
                 wf_text [(''size'', px 11), (''soft'', Flag True)] []
                    [Txt ([CHR 0xC2, CHR 0xB7] @ '' Politics '' @ [CHR 0xC2, CHR 0xB7] @ '' closes 6d'')]],
             wf_row [] [(''justifyContent'', Str ''space-between''), (''marginBottom'', px 12)]
                [wf_h [(''size'', px 18)] [(''color'', Str ''var(--wf-ink)'')] [Txt ''Will the proposal pass before Q3 2026?''],
                 wf_row [] [(''gap'', px 10), (''alignItems'', Str ''baseline'')]
                    [bare ''span'' [(''fontSize'', px 26), (''fontWeight'', px 800), (''color'', Str alt_ac)] [Txt (''54'' @ [CHR 0xC2, CHR 0xA2])],
                     alt_chg 2]],
             bare ''div'' [(''display'', Str ''grid''), (''gridTemplateColumns'', Str ''1.6fr 0.8fr 0.9fr''), (''gap'', px 14)]
                [wf_col [(''gap'', px 10)] []
                    [wf_chart (Some (map Fin [(40 :: rat), 44, 42, 48, 46, 52, 50, 55, 53, 58, 56, 54])) None [(''color'', Str alt_ac), (''h'', px 210)] [] [],
                     wf_row [] [(''gap'', px 0)]
                        (map (\<lambda>(i, (l, v)).
                            wf_col [(''gap'', px 2)] [(''flex'', px 1), (''borderLeft'', if i \<noteq> 0 then Str ''1px solid var(--wf-faint)'' else px 0), (''paddingLeft'', if i \<noteq> 0 then px 12 else px 0)]
                              [bare ''div'' alt_cap [Txt l], wf_text [(''size'', px 14)] [] [bare ''b'' [] [Txt v]]])
                          (enumerate 0 [(''24h vol'', ''24k''), (''Liquidity'', ''88k''), (''Holders'', ''146''), (''Spread'', (''3'' @ [CHR 0xC2, CHR 0xA2]))]))],
                 wf_card [] [(''padding'', px 12)]
                    ([wf_label [] [(''marginBottom'', px 8)] [Txt ''Order book'']]
                    @ map (\<lambda>(i, (p, w)).
                        wf_row [] [(''justifyContent'', Str ''space-between''), (''position'', Str ''relative''), (''padding'', Str ''3px 0'')]
                          [bare ''div'' [(''position'', Str ''absolute''), (''right'', px 0), (''top'', px 0), (''bottom'', px 0), (''width'', Str (num_text w @ ''%'')), (''background'', Str ''var(--wf-warn-soft)'')] [],
                           wf_text [(''size'', px (23 / 2))] [(''color'', Str alt_wc), (''zIndex'', px 1)] [Txt p, Txt [CHR 0xC2, CHR 0xA2]],
                           wf_text [(''size'', px (23 / 2)), (''soft'', Flag True)] [(''zIndex'', px 1)] [Txt (num_text ((w * 4)))]])
                      (enumerate 0 [(''57'', (30 :: rat)), (''56'', 55), (''55'', 80)])
                    @ [wf_row [] [(''justifyContent'', Str ''center''), (''padding'', Str ''5px 0'')]
                        [wf_text [(''size'', px 11), (''soft'', Flag True)] []
                            [Txt (''spread 3'' @ [CHR 0xC2, CHR 0xA2] @ '' '' @ [CHR 0xC2, CHR 0xB7] @ '' last 55'' @ [CHR 0xC2, CHR 0xA2])]]]
                    @ map (\<lambda>(i, (p, w)).
                        wf_row [] [(''justifyContent'', Str ''space-between''), (''position'', Str ''relative''), (''padding'', Str ''3px 0'')]
                          [bare ''div'' [(''position'', Str ''absolute''), (''right'', px 0), (''top'', px 0), (''bottom'', px 0), (''width'', Str (num_text w @ ''%'')), (''background'', Str ''var(--wf-accent-soft)'')] [],
                           wf_text [(''size'', px (23 / 2))] [(''color'', Str alt_ac), (''zIndex'', px 1)] [Txt p, Txt [CHR 0xC2, CHR 0xA2]],
                           wf_text [(''size'', px (23 / 2)), (''soft'', Flag True)] [(''zIndex'', px 1)] [Txt (num_text ((w * 4)))]])
                      (enumerate 0 [(''54'', (70 :: rat)), (''53'', 45), (''52'', 25)])),
                 wf_card [] [(''padding'', px 12)]
                    [wf_row [] [(''gap'', px 6), (''marginBottom'', px 10)]
                        [wf_box [] [(''flex'', px 1), (''textAlign'', Str ''center''), (''padding'', Str ''7px 0''), (''borderWidth'', px 2), (''borderColor'', Str alt_pos), (''fontSize'', px 12)] [bare ''b'' [(''color'', Str alt_pos)] [Txt ''Buy'']],
                         wf_box [] [(''flex'', px 1), (''textAlign'', Str ''center''), (''padding'', Str ''7px 0''), (''borderColor'', Str ''var(--wf-faint)''), (''fontSize'', px 12)] [bare ''b'' [(''color'', Str ''var(--wf-soft)'')] [Txt ''Sell'']]],
                     wf_label [] [(''marginBottom'', px 5)] [Txt (''Price '' @ [CHR 0xC2, CHR 0xA2])],
                     wf_field [(''label'', Str ''54'')] [(''marginBottom'', px 8)] [],
                     wf_label [] [(''marginBottom'', px 5)] [Txt ''Quantity''],
                     wf_field [(''label'', Str ''10'')] [(''marginBottom'', px 8)] [],
                     wf_row [] [(''gap'', px 5), (''marginBottom'', px 10)]
                        [wf_pill [(''active'', Flag True)] [] [Txt ''GTC''],
                         wf_pill [] [] [Txt ''IOC''],
                         wf_pill [] [] [Txt ''FOK'']],
                     wf_box [] [(''padding'', px 9), (''background'', Str ''var(--wf-fill)''), (''borderColor'', Str ''var(--wf-faint)''), (''marginBottom'', px 10)]
                        [wf_row [] [(''justifyContent'', Str ''space-between'')]
                            [wf_text [(''size'', px 11), (''soft'', Flag True)] [] [Txt ''Cost''],
                             wf_text [(''size'', px 12)] [] [bare ''b'' [] [Txt ''540'']]],
                         wf_row [] [(''justifyContent'', Str ''space-between'')]
                            [wf_text [(''size'', px 11), (''soft'', Flag True)] [] [Txt ''Max payout''],
                             wf_text [(''size'', px 12)] [] [bare ''b'' [] [Txt ''1,000'']]]],
                     wf_btn [(''primary'', Flag True)] [(''width'', Str ''100%''), (''justifyContent'', Str ''center''), (''background'', Str alt_pos), (''borderColor'', Str alt_pos), (''color'', Str ''#06140d'')] [Txt (''Buy 10 @ 54'' @ [CHR 0xC2, CHR 0xA2])]]],
             wf_ann [(''n'', px 1)] [(''marginTop'', px 10)]
                [Txt (''B1: full trading terminal '' @ [CHR 0xE2, CHR 0x80, CHR 0x94] @ '' chart '' @ [CHR 0xC2, CHR 0xB7] @ '' order book '' @ [CHR 0xC2, CHR 0xB7] @ '' ticket (best for CLOB)'')]]]"

definition alt_chart_compact :: "'e jsx" where
  "alt_chart_compact =
     wf_dark [] [(''padding'', px 0)]
        [wf_alt_bar None [(''active'', Str ''Markets'')] [] [],
         bare ''div'' [(''padding'', Str ''20px 26px''), (''maxWidth'', px 760), (''margin'', Str ''0 auto'')]
            [wf_row [] [(''gap'', px 6), (''marginBottom'', px 8)]
                [wf_chip [] [] [Txt ''Open''],
                 wf_chip [] [(''color'', Str alt_ac), (''borderColor'', Str alt_ac)] [Txt ''FIXED-ODDS'']],
             wf_h [(''size'', px 20)] [(''color'', Str ''var(--wf-ink)''), (''marginBottom'', px 14)] [Txt ''Will the proposal pass before Q3 2026?''],
             wf_row [] [(''gap'', px 12), (''alignItems'', Str ''baseline''), (''marginBottom'', px 12)]
                [bare ''span'' [(''fontSize'', px 40), (''fontWeight'', px 800), (''color'', Str alt_ac)] [Txt ''62%''],
                 alt_chg 4,
                 wf_text [(''size'', px 12), (''soft'', Flag True)] [] [Txt (''YES chance '' @ [CHR 0xC2, CHR 0xB7] @ '' live'')]],
             wf_chart (Some (map Fin [(44 :: rat), 47, 45, 50, 53, 51, 49, 55, 58, 56, 60, 62])) None [(''color'', Str alt_ac), (''h'', px 200)] [(''marginBottom'', px 16)] [],
             wf_row [] [(''gap'', px 10), (''marginBottom'', px 16)]
                (map (\<lambda>(l, v).
                    wf_box [] [(''flex'', px 1), (''padding'', Str ''10px 12px''), (''borderColor'', Str ''var(--wf-faint)'')]
                      [bare ''div'' alt_cap [Txt l], wf_text [(''size'', px 15)] [] [bare ''b'' [] [Txt v]]])
                  [(''24h vol'', ''24k''), (''Liquidity'', ''88k''), (''Holders'', ''146'')]),
             wf_card [] []
                [wf_row [] [(''gap'', px 10)]
                    [wf_box [] [(''flex'', px 1), (''textAlign'', Str ''center''), (''padding'', Str ''12px 0''), (''borderWidth'', px 2), (''borderColor'', Str alt_ac)]
                        [bare ''b'' [(''color'', Str alt_ac)] [Txt ''YES 62%''],
                         bare ''div'' [(''fontSize'', px 10), (''color'', Str ''var(--wf-soft)'')] [Txt (''pays 1.61'' @ [CHR 0xC3, CHR 0x97])]],
                     wf_box [] [(''flex'', px 1), (''textAlign'', Str ''center''), (''padding'', Str ''12px 0''), (''borderColor'', Str ''var(--wf-faint)'')]
                        [bare ''b'' [(''color'', Str alt_wc)] [Txt ''NO 38%''],
                         bare ''div'' [(''fontSize'', px 10), (''color'', Str ''var(--wf-soft)'')] [Txt (''pays 2.63'' @ [CHR 0xC3, CHR 0x97])]]],
                 wf_row [] [(''gap'', px 10), (''marginTop'', px 12), (''alignItems'', Str ''center'')]
                    [wf_field [(''label'', Str ''Stake 100'')] [(''flex'', px 1)] [],
                     wf_btn [(''primary'', Flag True)] [(''background'', Str alt_ac), (''borderColor'', Str alt_ac), (''color'', Str ''#06121d'')] [Txt (''Place bet '' @ [CHR 0xC2, CHR 0xB7] @ '' win 161'')]]],
             wf_row [] [(''gap'', px 8), (''marginTop'', px 12)]
                [wf_pill [] [] [Txt (''Details '' @ [CHR 0xE2, CHR 0x96, CHR 0xBE])],
                 wf_pill [] [] [Txt (''Resolution '' @ [CHR 0xE2, CHR 0x96, CHR 0xBE])],
                 wf_pill [] [] [Txt (''Activity '' @ [CHR 0xE2, CHR 0x96, CHR 0xBE])]],
             wf_ann [(''n'', px 2)] [(''marginTop'', px 12)]
                [Txt ''B2: chart-dominant, calm; details collapse (best for fixed-odds/casual)'']]]"

definition alt_mobile_trade :: "'e jsx" where
  "alt_mobile_trade =
     wf_dark [] []
        [el ''div'' ''wf-row'' [(''justifyContent'', Str ''space-between''), (''padding'', Str ''10px 16px''), (''height'', px 30), (''fontSize'', px 11), (''fontWeight'', px 700)]
            [bare ''span'' [] [Txt ''9:41''],
             bare ''span'' [(''fontSize'', px 10)]
                [Txt ([CHR 0xE2, CHR 0x96, CHR 0xAE, CHR 0xE2, CHR 0x96, CHR 0xAE, CHR 0xE2, CHR 0x96, CHR 0xAE] @ '' '' @ [CHR 0xE2, CHR 0x97, CHR 0x97])]],
         bare ''div'' [(''padding'', Str ''4px 16px 150px'')]
            [wf_row [] [(''justifyContent'', Str ''space-between''), (''marginBottom'', px 8)]
                [wf_text [(''size'', px 12), (''soft'', Flag True)] [] [Txt ([CHR 0xE2, CHR 0x80, CHR 0xB9] @ '' Back'')],
                 wf_text [(''size'', px 13)] []
                    [Txt ([CHR 0xE2, CHR 0x98, CHR 0x85] @ '' '' @ [CHR 0xE2, CHR 0x8B, CHR 0xAF])]],
             wf_row [] [(''gap'', px 5), (''marginBottom'', px 8)]
                [wf_chip [] [] [Txt ''Open''],
                 wf_chip [] [(''color'', Str alt_ac), (''borderColor'', Str alt_ac)] [Txt ''CLOB'']],
             wf_text [(''size'', px 15)] [(''fontWeight'', px 700), (''marginBottom'', px 10), (''color'', Str ''var(--wf-ink)'')] [Txt ''Will the proposal pass before Q3?''],
             wf_row [] [(''gap'', px 10), (''alignItems'', Str ''baseline''), (''marginBottom'', px 10)]
                [bare ''span'' [(''fontSize'', px 30), (''fontWeight'', px 800), (''color'', Str alt_ac)] [Txt (''54'' @ [CHR 0xC2, CHR 0xA2])],
                 alt_chg 2],
             wf_chart (Some (map Fin [(42 :: rat), 46, 44, 50, 48, 53, 51, 55, 54])) (Some [''1H'', ''1D'', ''1W'', ''ALL'']) [(''color'', Str alt_ac), (''h'', px 150)] [(''marginBottom'', px 12)] [],
             wf_row [] [(''gap'', px 8)]
                (map (\<lambda>(l, v).
                    wf_box [] [(''flex'', px 1), (''padding'', Str ''8px 0''), (''textAlign'', Str ''center''), (''borderColor'', Str ''var(--wf-faint)'')]
                      [bare ''div'' (spread alt_cap [(''fontSize'', px 9)]) [Txt l],
                       wf_text [(''size'', px 12)] [] [bare ''b'' [] [Txt v]]])
                  [(''Vol'', ''24k''), (''Spread'', (''3'' @ [CHR 0xC2, CHR 0xA2])), (''Holders'', ''146'')])],
         bare ''div'' [(''position'', Str ''absolute''), (''bottom'', px 56), (''left'', px 0), (''right'', px 0), (''background'', Str ''#161c28''), (''borderTop'', Str ''1.5px solid var(--wf-line)''), (''borderRadius'', Str ''14px 14px 0 0''), (''padding'', Str ''12px 16px'')]
            [bare ''div'' [(''display'', Str ''flex''), (''justifyContent'', Str ''center''), (''paddingBottom'', px 8)]
                [bare ''div'' [(''width'', px 90), (''height'', px 5), (''borderRadius'', px 3), (''background'', Str ''var(--wf-faint)'')] []],
             wf_row [] [(''gap'', px 8), (''marginBottom'', px 8)]
                [wf_box [] [(''flex'', px 1), (''textAlign'', Str ''center''), (''padding'', Str ''8px 0''), (''borderWidth'', px 2), (''borderColor'', Str alt_pos), (''fontSize'', px 12)] [bare ''b'' [(''color'', Str alt_pos)] [Txt ''Buy YES'']],
                 wf_box [] [(''flex'', px 1), (''textAlign'', Str ''center''), (''padding'', Str ''8px 0''), (''borderColor'', Str ''var(--wf-faint)''), (''fontSize'', px 12)] [bare ''b'' [(''color'', Str ''var(--wf-soft)'')] [Txt ''Buy NO'']]],
             wf_row [] [(''gap'', px 8)]
                [wf_field [(''label'', Str (''54'' @ [CHR 0xC2, CHR 0xA2]))] [(''width'', px 70)] [],
                 wf_field [(''label'', Str ''Qty 10'')] [(''flex'', px 1)] [],
                 wf_btn [(''primary'', Flag True)] [(''background'', Str alt_pos), (''borderColor'', Str alt_pos), (''color'', Str ''#06140d'')] [Txt ''Buy'']]],
         wf_alt_tab_bar [(''active'', Str ''Trade'')] [] [],
         wf_ann [(''n'', px 3)] [(''position'', Str ''absolute''), (''left'', px (- 2)), (''bottom'', px 210), (''transform'', Str ''rotate(-3deg)'')]
            [Txt (''B3: mobile terminal '' @ [CHR 0xE2, CHR 0x80, CHR 0x94] @ '' chart + sheet'')]]"

definition alt_portfolio :: "'e jsx" where
  "alt_portfolio =
     wf_dark [] []
        [wf_alt_bar (Some [''Home'', ''Markets'', ''Portfolio'', ''Leaderboard'']) [(''active'', Str ''Home'')] [] [],
         bare ''div'' [(''padding'', Str ''20px 26px'')]
            [wf_row [] [(''justifyContent'', Str ''space-between''), (''marginBottom'', px 14), (''alignItems'', Str ''flex-end'')]
                [wf_col [(''gap'', px 4)] []
                    [wf_text [(''soft'', Flag True), (''size'', px 12)] [] [Txt ''Portfolio value''],
                     wf_row [] [(''gap'', px 12), (''alignItems'', Str ''baseline'')]
                        [bare ''span'' [(''fontSize'', px 34), (''fontWeight'', px 800), (''color'', Str ''var(--wf-ink)'')] [Txt ''5,430''],
                         alt_chg 180,
                         wf_text [(''size'', px 12), (''soft'', Flag True)] [] [Txt ''today'']]],
                 wf_btn [(''primary'', Flag True)] [(''background'', Str alt_ac), (''borderColor'', Str alt_ac), (''color'', Str ''#06121d'')] [Txt ''Request faucet'']],
             wf_chart (Some (map Fin [(30 :: rat), 35, 33, 40, 44, 42, 48, 52, 50, 56, 54, 60])) None [(''color'', Str alt_pos), (''h'', px 160)] [(''marginBottom'', px 18)] [],
             wf_label [] [(''marginBottom'', px 10)] [Txt ''Open positions''],
             wf_card [] [(''padding'', px 0)]
                ([wf_row [] [(''padding'', Str ''10px 14px''), (''borderBottom'', Str ''1.5px solid var(--wf-faint)'')]
                    (map (\<lambda>h.
                        wf_text [(''size'', px 10), (''soft'', Flag True)] [(''flex'', if h = ''MARKET'' then px 2 else px 1)] [Txt h])
                      [''MARKET'', ''SIDE'', ''QTY'', ''AVG'', ''NOW'', ''P&L''])]
                @ map (\<lambda>(i, (q, d)).
                    wf_row [] [(''padding'', Str ''11px 14px''), (''borderBottom'', Str ''1px solid var(--wf-faint)''), (''alignItems'', Str ''center'')]
                      [wf_text [(''size'', px 12)] [(''flex'', px 2)]
                          [Txt ''Will the proposal pass before Q'', Txt (num_text (of_nat i)), Txt ''?''],
                       wf_text [(''size'', px (23 / 2))] [(''flex'', px 1), (''color'', if (i mod 2) \<noteq> 0 then Str alt_wc else Str alt_ac)]
                          [(if (i mod 2) \<noteq> 0 then Txt ''NO''
                            else Txt ''YES'')],
                       wf_text [(''size'', px (23 / 2)), (''soft'', Flag True)] [(''flex'', px 1)] [Txt (num_text ((q * 10)))],
                       wf_text [(''size'', px (23 / 2)), (''soft'', Flag True)] [(''flex'', px 1)] [Txt ''5'', Txt (num_text (of_nat i)), Txt [CHR 0xC2, CHR 0xA2]],
                       wf_text [(''size'', px (23 / 2)), (''soft'', Flag True)] [(''flex'', px 1)] [Txt ''6'', Txt (num_text (of_nat i)), Txt [CHR 0xC2, CHR 0xA2]],
                       bare ''div'' [(''flex'', px 1)] [alt_chg (d * 90)]])
                  (enumerate 0 [((10 :: rat), ((- 1) :: rat)), (40, 2), (25, (- 1))])),
             wf_ann [(''n'', px 1)] [(''marginTop'', px 12)]
                [Txt (''C: same dark system '' @ [CHR 0xE2, CHR 0x86, CHR 0x92] @ '' portfolio with equity curve'')]]]"

definition alt_leaderboard :: "'e jsx" where
  "alt_leaderboard =
     wf_dark [] []
        [wf_alt_bar (Some [''Home'', ''Markets'', ''Portfolio'', ''Leaderboard'']) [(''active'', Str ''Leaderboard'')] [] [],
         bare ''div'' [(''padding'', Str ''20px 26px'')]
            [wf_h [(''size'', px 22)] [(''color'', Str ''var(--wf-ink)''), (''marginBottom'', px 4)] [Txt ''Leaderboard''],
             wf_text [(''soft'', Flag True)] [(''marginBottom'', px 16), (''fontSize'', px 12)]
                [Txt (''Net P&L across all mechanisms '' @ [CHR 0xC2, CHR 0xB7] @ '' this week'')],
             wf_row [] [(''gap'', px 6), (''marginBottom'', px 14)]
                [wf_pill [(''active'', Flag True)] [] [Txt ''All time''],
                 wf_pill [] [] [Txt ''This week''],
                 wf_pill [] [] [Txt ''By community'']],
             wf_card [] [(''padding'', px 0)]
                ([wf_row [] [(''padding'', Str ''10px 16px''), (''borderBottom'', Str ''1.5px solid var(--wf-faint)'')]
                    (map (\<lambda>h.
                        wf_text [(''size'', px 10), (''soft'', Flag True)] [(''flex'', if h = ''PLAYER'' then px 2 else px 1)] [Txt h])
                      [''#'', ''PLAYER'', ''NET P&L'', ''VOLUME'', ''WIN'', ''TREND''])]
                @ map (\<lambda>i.
                    wf_row [] [(''padding'', Str ''11px 16px''), (''borderBottom'', Str ''1px solid var(--wf-faint)''), (''alignItems'', Str ''center''), (''background'', if i = 3 then Str ''var(--wf-accent-soft)'' else Str ''transparent'')]
                      [wf_text [(''size'', px (25 / 2))] [(''flex'', px 1), (''fontWeight'', px 700), (''color'', if i < 3 then Str alt_wc else Str ''var(--wf-ink)'')] [Txt (num_text ((of_nat i + 1)))],
                       wf_row [] [(''flex'', px 2), (''gap'', px 8)]
                          [wf_avatar [(''size'', px 22)] [] [],
                           wf_text [(''size'', px 12)] []
                              [Txt ''player_'',
                               Txt (num_text (of_nat i)),
                               (if i = 3 then Txt '' (you)''
                                else Txt [])]],
                       wf_text [(''size'', px 12)] [(''flex'', px 1), (''color'', Str alt_pos)] [Txt ''+'', Txt (num_text ((2200 - (of_nat i * 180))))],
                       wf_text [(''size'', px (23 / 2)), (''soft'', Flag True)] [(''flex'', px 1)] [Txt (num_text ((20 - of_nat i))), Txt ''k''],
                       wf_text [(''size'', px (23 / 2)), (''soft'', Flag True)] [(''flex'', px 1)] [Txt (num_text ((64 - (of_nat i * 2)))), Txt ''%''],
                       bare ''div'' [(''flex'', px 1)]
                          [wf_sparkline (Some (map (\<lambda>x. Fin (x + of_nat i)) [(40 :: rat), 44, 42, 50, 48, 55])) (Some (Fin 56)) (Some (Fin 18)) [(''color'', Str alt_pos)] [] []]])
                  [0..<8])]]"

end
