(* ===== verification/Screens.thy ===== *)
theory Screens
  imports Screens_Web Screens_Mech Screens_Mobile Screens_Bo Screens_Extra Screens_Alt
begin

text \<open>
  All wireframe screens: none of them has an element with the attribute of the frames of the canvas.
  One lemma for each file, collected in \<open>screen_slots\<close>.
\<close>

named_theorems screen_slots \<open>the screens have no slots of the canvas\<close>

lemmas screen_parts = web_market_card_def mech_head_def mob_notch_def bo_frame_def alt_chg_def case_prod_unfold comp_def Let_def

lemma web_slots [screen_slots]:
  "slots web_browse = []" "slots web_market_detail = []" "slots web_profile = []"
  "slots web_leaderboard = []" "slots web_auth = []"
  by (simp_all add: screen_parts web_browse_def web_market_detail_def web_profile_def web_leaderboard_def web_auth_def)

lemma mech_slots [screen_slots]:
  "slots mech_fixed_odds = []" "slots mech_clob = []" "slots mech_lmsr = []" "slots mech_parimutuel = []"
  by (simp_all add: screen_parts mech_fixed_odds_def mech_clob_def mech_lmsr_def mech_parimutuel_def)

lemma mob_slots [screen_slots]:
  "slots mob_markets = []" "slots mob_detail = []" "slots mob_profile = []" "slots mob_leaderboard = []"
  by (simp_all add: screen_parts mob_markets_def mob_detail_def mob_profile_def mob_leaderboard_def)

lemma bo_slots [screen_slots]:
  "slots bo_dashboard = []" "slots bo_create = []" "slots bo_settle = []" "slots bo_faucet = []"
  by (simp_all add: screen_parts bo_dashboard_def bo_create_def bo_settle_def bo_faucet_def)

lemma extra_slots [screen_slots]:
  "slots extra_settlement = []" "slots extra_scope = []" "slots extra_community = []"
  "slots extra_visibility = []"
  by (simp_all add: screen_parts extra_settlement_def extra_scope_def extra_community_def extra_visibility_def)

lemma alt_slots [screen_slots]:
  "slots alt_intro = []" "slots alt_feed = []" "slots alt_hub = []" "slots alt_terminal = []"
  "slots alt_trade_terminal = []" "slots alt_chart_compact = []" "slots alt_mobile_trade = []"
  "slots alt_portfolio = []" "slots alt_leaderboard = []"
  by (simp_all add: screen_parts alt_intro_def alt_feed_def alt_hub_def alt_terminal_def alt_trade_terminal_def alt_chart_compact_def
    alt_mobile_trade_def alt_portfolio_def alt_leaderboard_def)

end
