(* ===== verification/Pages.thy ===== *)
theory Pages
  imports Canvas_Board Screens
begin

text \<open>
  The two pages that put the wireframe screens on the design canvas, \<open>Wireframes.html\<close> and
  \<open>Alternatives.html\<close>: their sections with the artboards and the screen in each, and what the canvas
  does with them.
\<close>

subsection \<open>The brief\<close>

definition page_accent :: string where
  "page_accent = ''#356b8a''"

definition brief_li :: style where
  "brief_li =
     [(''fontSize'', px 13), (''lineHeight'', px (3 / 2)), (''color'', Str ''#3a3a3a''), (''marginBottom'', px 7)]"

definition brief_tag :: "string \<Rightarrow> string \<Rightarrow> 'e jsx" where
  "brief_tag t c =
     bare ''span''
       [(''display'', Str ''inline-block''), (''border'', Str (''1.5px solid '' @ c)), (''color'', Str c), (''borderRadius'', px 999),
        (''padding'', Str ''2px 10px''), (''fontSize'', px 11), (''fontWeight'', px 700), (''marginRight'', px 6),
        (''marginBottom'', px 6)] [Txt t]"

definition brief :: "'e jsx" where
  "brief =
     el ''div'' ''wf'' [(''width'', Str ''100%''), (''height'', Str ''100%''), (''padding'', Str ''30px 34px''), (''background'', Str ''#fff''), (''overflow'', Str ''hidden'')]
        [bare ''div'' [(''fontFamily'', Str ([CHR 0x27] @ ''Caveat'' @ [CHR 0x27] @ '',cursive'')), (''fontSize'', px 30), (''fontWeight'', px 700), (''color'', Str page_accent), (''marginBottom'', px 2)]
            [Txt (''Adivento '' @ [CHR 0xE2, CHR 0x80, CHR 0x94] @ '' Design System Wireframes'')],
         bare ''div'' [(''fontSize'', px 13), (''color'', Str ''#8d8d8d''), (''marginBottom'', px 18)]
            [Txt (''Phase 1 of 2 '' @ [CHR 0xC2, CHR 0xB7] @ '' low-fi structure & flow '' @ [CHR 0xC2, CHR 0xB7] @ '' iterated from the existing /web + /backoffice surfaces'')],
         bare ''div'' [(''display'', Str ''grid''), (''gridTemplateColumns'', Str ''1.1fr 1fr 1fr''), (''gap'', px 26)]
            [bare ''div'' []
                [bare ''div'' [(''fontSize'', px 11), (''fontWeight'', px 700), (''letterSpacing'', Str ''.05em''), (''textTransform'', Str ''uppercase''), (''color'', Str page_accent), (''marginBottom'', px 9)] [Txt ''What this is''],
                 bare ''div'' brief_li
                    [Txt ''Structural wireframes for '',
                     bare ''b'' [] [Txt ''all four surfaces''],
                     Txt ('' '' @ [CHR 0xE2, CHR 0x80, CHR 0x94] @ '' customer web, the four betting mechanisms, the native mobile app, and the operator backoffice.'')],
                 bare ''div'' brief_li
                    [Txt ''Grayscale on purpose: we lock '',
                     bare ''b'' [] [Txt ''layout, hierarchy & flow''],
                     Txt '' first, then apply a theme in Phase 2.''],
                 bare ''div'' brief_li
                    [Txt (''Pan/zoom this canvas. Click any frame'' @ [CHR 0xE2, CHR 0x80, CHR 0x99] @ ''s '' @ [CHR 0xE2, CHR 0xA4, CHR 0xA2] @ '' to focus; use '' @ [CHR 0xE2, CHR 0x86, CHR 0x90] @ ''/'' @ [CHR 0xE2, CHR 0x86, CHR 0x92] @ '' to flip through a section.'')]],
             bare ''div'' []
                [bare ''div'' [(''fontSize'', px 11), (''fontWeight'', px 700), (''letterSpacing'', Str ''.05em''), (''textTransform'', Str ''uppercase''), (''color'', Str page_accent), (''marginBottom'', px 9)] [Txt ''Assumptions''],
                 bare ''div'' brief_li
                    [Txt ([CHR 0xE2, CHR 0x80, CHR 0xA2] @ '' Binary markets only (exactly 2 legs, DB-enforced).'')],
                 bare ''div'' brief_li
                    [Txt ([CHR 0xE2, CHR 0x80, CHR 0xA2] @ '' ADIV play-money; faucet top-ups gated by moderators.'')],
                 bare ''div'' brief_li
                    [Txt ([CHR 0xE2, CHR 0x80, CHR 0xA2] @ '' Guests browse; players bet; moderators operate.'')],
                 bare ''div'' brief_li
                    [Txt ([CHR 0xE2, CHR 0x80, CHR 0xA2] @ '' Real-time prices via SSE '' @ [CHR 0xE2, CHR 0x86, CHR 0x92] @ '' a '' @ [CHR 0xE2, CHR 0x80, CHR 0x9C] @ ''live'' @ [CHR 0xE2, CHR 0x80, CHR 0x9D] @ '' indicator on open markets.'')],
                 bare ''div'' brief_li
                    [Txt ([CHR 0xE2, CHR 0x80, CHR 0xA2] @ '' Maps to existing routes: ''),
                     bare ''code'' [] [Txt ''/web''],
                     Txt '', '',
                     bare ''code'' [] [Txt ''/backoffice''],
                     Txt ''.'']],
             bare ''div'' []
                [bare ''div'' [(''fontSize'', px 11), (''fontWeight'', px 700), (''letterSpacing'', Str ''.05em''), (''textTransform'', Str ''uppercase''), (''color'', Str page_accent), (''marginBottom'', px 9)]
                    [Txt (''Phase 2 '' @ [CHR 0xE2, CHR 0x80, CHR 0x94] @ '' two themes to pick'')],
                 bare ''div'' [(''marginBottom'', px 10)]
                    [brief_tag ''Playful Fantasy'' ''#356b8a'', brief_tag ''Serious Terminal'' ''#9a6a1e''],
                 bare ''div'' brief_li
                    [Txt (''Both descend from your current cream+teal (customer) and dark+gold (operator) DNA. You'' @ [CHR 0xE2, CHR 0x80, CHR 0x99] @ ''ll be able to toggle and mix-and-match.'')],
                 bare ''div'' (spread brief_li [(''color'', Str ''#9a6a1e'')])
                    [Txt ''Next: confirm flows below, then I build the hi-fi, theme-switchable prototype + the '',
                     bare ''code'' [] [Txt ''docs/design/''],
                     Txt '' guide.'']]],
         bare ''div'' [(''marginTop'', px 18), (''paddingTop'', px 14), (''borderTop'', Str ''1.5px solid #e6e4de''), (''display'', Str ''flex''), (''gap'', px 26), (''alignItems'', Str ''center'')]
            [bare ''span'' [(''fontFamily'', Str ([CHR 0x27] @ ''Caveat'' @ [CHR 0x27] @ '',cursive'')), (''fontSize'', px 18), (''color'', Str page_accent), (''fontWeight'', px 700)] [Txt ''Legend:''],
             bare ''span'' [(''display'', Str ''inline-flex''), (''alignItems'', Str ''center''), (''gap'', px 7), (''fontSize'', px (25 / 2)), (''color'', Str ''#3a3a3a'')]
                [bare ''span'' [(''width'', px 18), (''height'', px 18), (''borderRadius'', px 999), (''background'', Str page_accent), (''color'', Str ''#fff''), (''display'', Str ''inline-flex''), (''alignItems'', Str ''center''), (''justifyContent'', Str ''center''), (''fontSize'', px 11), (''fontWeight'', px 700)] [Txt ''1''],
                 Txt '' numbered design note (see guide)''],
             bare ''span'' [(''fontFamily'', Str ([CHR 0x27] @ ''Caveat'' @ [CHR 0x27] @ '',cursive'')), (''fontSize'', px 17), (''color'', Str page_accent), (''fontWeight'', px 600)]
                [Txt ([CHR 0xE2, CHR 0x86, CHR 0x91] @ '' handwritten = annotation'')],
             bare ''span'' [(''display'', Str ''inline-flex''), (''alignItems'', Str ''center''), (''gap'', px 7), (''fontSize'', px (25 / 2)), (''color'', Str ''#3a3a3a'')]
                [bare ''span'' [(''width'', px 26), (''height'', px 16), (''borderRadius'', px 3), (''backgroundColor'', Str ''#f4f3ef''), (''backgroundImage'', Str ''repeating-linear-gradient(45deg, transparent, transparent 4px, rgba(0,0,0,.06) 4px, rgba(0,0,0,.06) 5px)''), (''border'', Str ''1.5px solid #c7c7c2'')] [],
                 Txt '' = image placeholder'']]]"

subsection \<open>The pages\<close>

definition page_artboard :: "string \<Rightarrow> string \<Rightarrow> rat \<Rightarrow> rat \<Rightarrow> nat jsx \<Rightarrow> artboard" where
  "page_artboard i label w h screen =
     \<lparr>ab_id = Some i, ab_label = Some label, ab_width = Some (Fin w), ab_height = Some (Fin h), ab_style = [], ab_kids = [screen]\<rparr>"

definition page_section :: "string \<Rightarrow> string \<Rightarrow> string \<Rightarrow> artboard list \<Rightarrow> dsection" where
  "page_section i title subtitle arts =
     \<lparr>ds_id = Some i, ds_title = Some title, ds_subtitle = Some subtitle, ds_gap = None, ds_arts = arts, ds_rest = []\<rparr>"

definition wireframes_start :: dsection where
  "wireframes_start =
     page_section ''start'' ''Start here''
       ''Brief, assumptions & how to read this canvas''
       [page_artboard ''brief'' ''Design brief'' 1180 400 brief]"

definition wireframes_web :: dsection where
  "wireframes_web =
     page_section ''web'' (''1 '' @ [CHR 0xC2, CHR 0xB7] @ '' Customer Web (desktop)'')
       (''Discovery '' @ [CHR 0xE2, CHR 0x86, CHR 0x92] @ '' market detail '' @ [CHR 0xE2, CHR 0x86, CHR 0x92] @ '' profile/wallet '' @ [CHR 0xE2, CHR 0x86, CHR 0x92] @ '' leaderboard '' @ [CHR 0xE2, CHR 0x86, CHR 0x92] @ '' auth'')
       [page_artboard ''browse'' ''Discovery / Browse'' 1180 650 web_browse,
        page_artboard ''detail'' ''Market detail + bet'' 1180 1240 web_market_detail,
        page_artboard ''profile'' ''Profile / Wallet / Faucet'' 1180 640 web_profile,
        page_artboard ''leaderboard'' ''Leaderboard'' 1180 640 web_leaderboard,
        page_artboard ''auth'' ''Auth / Onboarding'' 1180 430 web_auth]"

definition wireframes_mech :: dsection where
  "wireframes_mech =
     page_section ''mech'' (''2 '' @ [CHR 0xC2, CHR 0xB7] @ '' Betting mechanisms'')
       (''The four mechanisms diverge most in the bet panel '' @ [CHR 0xE2, CHR 0x80, CHR 0x94] @ '' one frame each'')
       [page_artboard ''fo'' ''Fixed-odds'' 360 560 mech_fixed_odds,
        page_artboard ''clob'' (''CLOB '' @ [CHR 0xC2, CHR 0xB7] @ '' order book'') 360 640 mech_clob,
        page_artboard ''lmsr'' (''LMSR '' @ [CHR 0xC2, CHR 0xB7] @ '' AMM'') 360 600 mech_lmsr,
        page_artboard ''pari'' (''Parimutuel '' @ [CHR 0xC2, CHR 0xB7] @ '' pool'') 360 600 mech_parimutuel]"

definition wireframes_mobile :: dsection where
  "wireframes_mobile =
     page_section ''mobile'' (''3 '' @ [CHR 0xC2, CHR 0xB7] @ '' Native mobile app'')
       (''iOS/Android feel '' @ [CHR 0xE2, CHR 0x80, CHR 0x94] @ '' bottom tabs, thumb-reachable bet sheet'')
       [page_artboard ''m-markets'' ''Markets'' 320 680 mob_markets,
        page_artboard ''m-detail'' ''Market detail + bet sheet'' 320 680 mob_detail,
        page_artboard ''m-profile'' ''Profile / Wallet'' 320 680 mob_profile,
        page_artboard ''m-leaderboard'' ''Leaderboard'' 320 680 mob_leaderboard]"

definition wireframes_backoffice :: dsection where
  "wireframes_backoffice =
     page_section ''backoffice'' (''4 '' @ [CHR 0xC2, CHR 0xB7] @ '' Backoffice / operator console'')
       (''Dashboard '' @ [CHR 0xE2, CHR 0x86, CHR 0x92] @ '' create+config '' @ [CHR 0xE2, CHR 0x86, CHR 0x92] @ '' settle '' @ [CHR 0xE2, CHR 0x86, CHR 0x92] @ '' faucet review (dark+gold in hi-fi)'')
       [page_artboard ''bo-dash'' ''Dashboard'' 1180 620 bo_dashboard,
        page_artboard ''bo-create'' ''Create + mechanism config'' 1180 760 bo_create,
        page_artboard ''bo-settle'' ''Settle market'' 1180 620 bo_settle,
        page_artboard ''bo-faucet'' ''Faucet review'' 1180 520 bo_faucet]"

definition wireframes_extra :: dsection where
  "wireframes_extra =
     page_section ''extra'' (''5 '' @ [CHR 0xC2, CHR 0xB7] @ '' Stats, settlement & community markets'')
       (''Added per review '' @ [CHR 0xE2, CHR 0x80, CHR 0x94] @ '' price history, how settlement works, public vs community-restricted bets'')
       [page_artboard ''x-settle'' ''How settlement works'' 1180 720 extra_settlement,
        page_artboard ''x-scope'' (''Browse '' @ [CHR 0xC2, CHR 0xB7] @ '' public vs community'') 1180 620 extra_scope,
        page_artboard ''x-community'' ''Community hub (group page)'' 1180 620 extra_community,
        page_artboard ''x-visibility'' (''Create '' @ [CHR 0xC2, CHR 0xB7] @ '' visibility & access'') 380 560 extra_visibility]"

definition wireframes_page :: "dsection list" where
  "wireframes_page =
     [wireframes_start, wireframes_web, wireframes_mech, wireframes_mobile, wireframes_backoffice, wireframes_extra]"

definition alternatives_start :: dsection where
  "alternatives_start =
     page_section ''start'' (''Alternative direction '' @ [CHR 0xE2, CHR 0x80, CHR 0x94] @ '' Dark '' @ [CHR 0xE2, CHR 0x80, CHR 0x9C] @ ''Terminal'' @ [CHR 0xE2, CHR 0x80, CHR 0x9D])
       (''PR2 '' @ [CHR 0xC2, CHR 0xB7] @ '' diverges on navigation, detail layout & visual structure'')
       [page_artboard ''intro'' ''Read me'' 1100 360 alt_intro]"

definition alternatives_ia :: dsection where
  "alternatives_ia =
     page_section ''ia'' (''A '' @ [CHR 0xC2, CHR 0xB7] @ '' Navigation / IA directions'')
       (''Three home models '' @ [CHR 0xE2, CHR 0x80, CHR 0x94] @ '' pick one, or mix with PR1'')
       [page_artboard ''feed'' (''A1 '' @ [CHR 0xC2, CHR 0xB7] @ '' Feed-first home'') 1180 740 alt_feed,
        page_artboard ''hub'' (''A2 '' @ [CHR 0xC2, CHR 0xB7] @ '' Category hub'') 1180 660 alt_hub,
        page_artboard ''terminal'' (''A3 '' @ [CHR 0xC2, CHR 0xB7] @ '' Terminal dashboard'') 1180 620 alt_terminal]"

definition alternatives_detail :: dsection where
  "alternatives_detail =
     page_section ''detail'' (''B '' @ [CHR 0xC2, CHR 0xB7] @ '' Market detail & betting layouts'')
       ''Same market, three structures''
       [page_artboard ''b-terminal'' (''B1 '' @ [CHR 0xC2, CHR 0xB7] @ '' Trading terminal'') 1180 680 alt_trade_terminal,
        page_artboard ''b-compact'' (''B2 '' @ [CHR 0xC2, CHR 0xB7] @ '' Chart-dominant compact'') 1180 820 alt_chart_compact,
        page_artboard ''b-mobile'' (''B3 '' @ [CHR 0xC2, CHR 0xB7] @ '' Mobile terminal'') 320 700 alt_mobile_trade]"

definition alternatives_structure :: dsection where
  "alternatives_structure =
     page_section ''structure'' (''C '' @ [CHR 0xC2, CHR 0xB7] @ '' Bolder visual structure (system holds)'')
       ''Portfolio & leaderboard in the dark terminal language''
       [page_artboard ''portfolio'' ''Portfolio + equity curve'' 1180 640 alt_portfolio,
        page_artboard ''leaderboard'' ''Leaderboard'' 1180 620 alt_leaderboard]"

definition alternatives_page :: "dsection list" where
  "alternatives_page =
     [alternatives_start, alternatives_ia, alternatives_detail, alternatives_structure]"

lemmas page_defs =
  wireframes_page_def wireframes_start_def wireframes_web_def wireframes_mech_def wireframes_mobile_def
  wireframes_backoffice_def wireframes_extra_def
  alternatives_page_def alternatives_start_def alternatives_ia_def alternatives_detail_def alternatives_structure_def

subsection \<open>The frames in a tree\<close>

text \<open>The children of the cards below a node, and the slots with the cards below each.\<close>

fun card_kids :: "'e jsx \<Rightarrow> 'e jsx list list" where
  "card_kids (Txt s) = []"
| "card_kids (Elem t ps st hs ks) =
     (if map_of ps ''className'' = Some (Str ''dc-card'') then [ks] else concat (map card_kids ks))"

fun slot_cards :: "'e jsx \<Rightarrow> (css \<times> 'e jsx list list) list" where
  "slot_cards (Txt s) = []"
| "slot_cards (Elem t ps st hs ks) =
     (case map_of ps ''data-dc-slot'' of
        Some v \<Rightarrow> [(v, concat (map card_kids ks))]
      | None \<Rightarrow> concat (map slot_cards ks))"

text \<open>The content of the artboard that an identifier of a section names.\<close>

definition content_of :: "artboard list \<Rightarrow> string \<Rightarrow> nat jsx list" where
  "content_of arts k = (case by_id arts k of None \<Rightarrow> [] | Some ab \<Rightarrow> ab_kids ab)"

lemma card_kids_el [simp]:
  "card_kids (el t c st ks) = (if c = ''dc-card'' then [ks] else concat (map card_kids ks))"
  "card_kids (bare t st ks) = concat (map card_kids ks)"
  by (simp_all add: el_def bare_def cls_def)

lemma slot_cards_el [simp]:
  "slot_cards (el t c st ks) = concat (map slot_cards ks)" "slot_cards (bare t st ks) = concat (map slot_cards ks)"
  by (simp_all add: el_def bare_def cls_def)

lemma card_kids_map: "card_kids (map_jsx f t) = map (map (map_jsx f)) (card_kids t)"
proof (induction t)
  case (Elem t ps st hs ks)
  then have "concat (map (card_kids \<circ> map_jsx f) ks) = map (map (map_jsx f)) (concat (map card_kids ks))"
    by (induction ks) simp_all
  then show ?case by simp
qed simp

lemma card_kids_header: "card_kids (frame_header l m) = []"
  by (cases l) (simp_all add: frame_header_def frame_menu_def menu_button_def cls_def dc_editable_def grip_icon_def
      kebab_icon_def expand_icon_def dot_def only_if_def)

lemma slot_cards_frame:
  assumes "ab_kids ab \<noteq> []" "nullish (ab_id ab) (ab_label ab) = Some k"
  shows "slot_cards (map_jsx f (frame_view l m ab)) = [(Str k, [map (map_jsx (f \<circ> Inner)) (ab_kids ab)])]"
proof -
  have "concat (map card_kids [map_jsx f (frame_header l m), map_jsx f (frame_card k ab)]) = [map (map_jsx (f \<circ> Inner)) (ab_kids ab)]"
    using assms(1) by (simp add: card_kids_map card_kids_header frame_card_def jsx.map_comp)
  then show ?thesis using assms(2) by (simp add: frame_view_def opt_style_def Let_def)
qed

lemma slot_cards_section:
  assumes "\<forall>ab \<in> set arts. ab_kids ab \<noteq> []" "some_text (nullish i title) = [sid]"
  shows "slot_cards (section_view ss i title subtitle gap arts [] menus) =
    map (\<lambda>k. (Str k, [map (map_jsx (OnFrame k \<circ> Inner)) (content_of arts k)]))
      (section_order (saved_of ss sid) (section_children arts))"
proof -
  let ?sec = "saved_of ss sid"
  have frame: "concat (map slot_cards (section_frame ?sec arts menus k)) =
      [(Str k, [map (map_jsx (OnFrame k \<circ> Inner)) (content_of arts k)])]"
    if k: "k \<in> set (section_order ?sec (section_children arts))" for k
  proof -
    obtain ab where ab: "by_id arts k = Some ab" using by_id_order [OF k] by blast
    then have "ab \<in> set arts" unfolding by_id_def by (auto dest!: map_of_SomeD)
    then show ?thesis
      using ab assms(1) by (simp add: section_frame_def content_of_def slot_cards_frame [OF _ by_id_Some [OF ab]])
  qed
  have frames: "concat (map slot_cards (concat (map (section_frame ?sec arts menus) ks))) =
      map (\<lambda>k. (Str k, [map (map_jsx (OnFrame k \<circ> Inner)) (content_of arts k)])) ks"
    if "set ks \<subseteq> set (section_order ?sec (section_children arts))" for ks
    using that by (induction ks) (simp_all add: frame)
  have head: "slot_cards (dc_editable ''div'' v oc bl None st) = []" for v and oc :: "section_act list" and bl st
    by (cases v) (simp_all add: dc_editable_def)
  have sub: "concat (map (slot_cards \<circ> (\<lambda>t. bare ''div'' st [Txt t])) ts) = []" for st ts
    by simp
  show ?thesis
    using assms(2) frames [OF subset_refl] head sub
    by (simp add: section_view_def opt_style_def Let_def comp_def del: concat_eq_Nil_conv split: option.split)
qed

subsection \<open>The pages on the canvas\<close>

lemma slots_brief: "slots brief = []"
  by (simp add: brief_def brief_tag_def)

lemma page_section_simps [simp]:
  "ds_id (page_section i t u as) = Some i" "ds_title (page_section i t u as) = Some t" "ds_arts (page_section i t u as) = as"
  "ds_rest (page_section i t u as) = []" "section_key (page_section i t u as) = i"
  by (simp_all add: page_section_def section_key_def nullish_def)

lemma page_artboard_simps [simp]:
  "ab_id (page_artboard i l w h k) = Some i" "ab_label (page_artboard i l w h k) = Some l" "ab_kids (page_artboard i l w h k) = [k]"
  by (simp_all add: page_artboard_def)

lemma page_ids [simp]:
  "canvas_ids (section_children (page_artboard i l w h k # as)) = some_text (Some i) @ canvas_ids (section_children as)"
  "canvas_ids (section_children []) = []"
  by (simp_all add: canvas_ids_eq section_children_def nullish_def)

lemma pages_ok:
  assumes "page = wireframes_page \<or> page = alternatives_page"
  shows "secs_ok page" and "\<forall>s \<in> set page. ds_rest s = [] \<and> (\<forall>ab \<in> set (ds_arts s). \<exists>i t. ab_id ab = Some i \<and> ab_kids ab = [t] \<and> slots t = [])"
proof -
  show "secs_ok page"
    using assms by (auto simp: secs_ok_def page_defs some_text_def nullish_def)
  show "\<forall>s \<in> set page. ds_rest s = [] \<and> (\<forall>ab \<in> set (ds_arts s). \<exists>i t. ab_id ab = Some i \<and> ab_kids ab = [t] \<and> slots t = [])"
    using assms by (auto simp: page_defs screen_slots slots_brief)
qed

text \<open>An artboard of a page is found under its identifier.\<close>

lemma by_id_own:
  assumes "distinct (concat (map (\<lambda>ab. some_text (nullish (ab_id ab) (ab_label ab))) arts))" "ab \<in> set arts"
    and "some_text (nullish (ab_id ab) (ab_label ab)) = [k]"
  shows "by_id arts k = Some ab"
proof -
  let ?ps = "concat (map (\<lambda>ab. map (\<lambda>i. (i, ab)) (some_text (nullish (ab_id ab) (ab_label ab)))) arts)"
  have "map fst ?ps = concat (map (\<lambda>ab. some_text (nullish (ab_id ab) (ab_label ab))) arts)"
    by (simp add: map_concat comp_def)
  then have "distinct (map fst (rev ?ps))" using assms(1) by (simp add: rev_map [symmetric])
  moreover have "(k, ab) \<in> set (rev ?ps)" using assms(2,3) by (auto intro!: bexI [of _ ab])
  ultimately show ?thesis unfolding by_id_def by (rule map_of_is_SomeI)
qed

lemma page_content:
  assumes "page = wireframes_page \<or> page = alternatives_page" "s \<in> set page" "ab \<in> set (ds_arts s)"
  shows "content_of (ds_arts s) (the (ab_id ab)) = ab_kids ab"
proof -
  have d: "distinct (canvas_ids (section_children (ds_arts s)))"
    using pages_ok(1) [OF assms(1)] assms(2) by (auto simp: secs_ok_def list_all_iff)
  have "some_text (nullish (ab_id ab) (ab_label ab)) = [the (ab_id ab)]"
    using assms by (auto simp: page_defs nullish_def some_text_def)
  then show ?thesis
    using by_id_own [OF _ assms(3)] d by (simp add: content_of_def section_canvas_ids [symmetric] section_ids_children)
qed

text \<open>
  C39. On both pages, after any events on the canvas and with any saved sections whose orders have no
  repetitions, each section's tree holds exactly one frame for each of its artboards that is not
  deleted, in the arranged order, with the screen of that artboard, and nothing else, on its card; the
  query by which a drag finds the frames finds exactly these, whatever the screens contain; and the
  overlay, if it is open, shows the screen of an artboard that its section shows.
\<close>

theorem pages_show_screens:
  assumes "page = wireframes_page \<or> page = alternatives_page" "list_all read_ok es"
    and "b = fold (board_step page) es (board_mount saved_file)" "c = bd_canvas b"
    and "i < length page" "s = page ! i" "arts = ds_arts s" "ks = shown_slots (cv_sections c) s"
    and "tree = section_view (cv_sections c) (ds_id s) (ds_title s) (ds_subtitle s) (ds_gap s) arts (ds_rest s) (bd_menus b i)"
  shows "mset ks = mset (canvas_src (section_saved (cv_sections c) s) (section_children arts)) \<and>
    slot_cards tree = map (\<lambda>k. (Str k, [map (map_jsx (OnFrame k \<circ> Inner)) (content_of arts k)])) ks \<and>
    (\<forall>ab \<in> set arts. content_of arts (the (ab_id ab)) = ab_kids ab) \<and>
    with_prop ''data-dc-slot'' tree = map Str ks \<and>
    (\<forall>en. focused (board_regs page c) c = Some en \<longrightarrow>
       (\<exists>s' \<in> set page. section_key s' = en_section en \<and> en_artboard en \<in> set (shown_slots (cv_sections c) s') \<and>
          map_option ab_kids (entry_artboard page en) = Some (content_of (ds_arts s') (en_artboard en))))"
proof (intro conjI allI impI)
  note ok = pages_ok [OF assms(1)]
  have s: "s \<in> set page" using assms(5,6) by simp
  have rest: "ds_rest s = []" "\<forall>ab \<in> set arts. \<exists>t. ab_kids ab = [t] \<and> slots t = []"
    using ok(2) s by (auto simp: assms(7))
  have key: "some_text (nullish (ds_id s) (ds_title s)) = [section_key s]"
    using ok(1) s by (simp add: secs_ok_def list_all_iff)
  have board: "orders_ok (cv_sections c)"
    using board_ok_run [OF ok(1) assms(2) board_ok_mount] by (simp add: assms(3,4) board_ok_def)
  show "mset ks = mset (canvas_src (section_saved (cv_sections c) s) (section_children arts))"
    unfolding assms(7,8) by (rule shown_arranged [OF board ok(1) s])
  have order: "section_order (saved_of (cv_sections c) (section_key s)) (section_children arts) = ks"
    using shown_slots_eq [OF key] by (simp add: assms(7,8) section_order_eq)
  show "slot_cards tree = map (\<lambda>k. (Str k, [map (map_jsx (OnFrame k \<circ> Inner)) (content_of arts k)])) ks"
    unfolding assms(9) rest(1) by (subst slot_cards_section [OF _ key]) (use rest(2) order in auto)
  show "\<forall>ab \<in> set arts. content_of arts (the (ab_id ab)) = ab_kids ab"
    using page_content [OF assms(1) s] by (simp add: assms(7))
  have "with_prop ''data-dc-slot'' tree = map Str (canvas_slots (saved_of (cv_sections c) (section_key s)) (section_children arts))"
    unfolding assms(9) by (rule section_slots [OF _ _ key, THEN conjunct1]) (use rest in auto)
  then show "with_prop ''data-dc-slot'' tree = map Str ks" using order by (simp add: section_order_eq)
  fix en assume "focused (board_regs page c) c = Some en"
  note en = overlay_valid [OF ok(1) this]
  have "en_section en \<in> set (map section_key page)"
    using en(1) slots_of_order [OF board_regs_own(1) [OF ok(1)]] board_regs_own(3) [OF ok(1)] by (metis valid_entry_def)
  then obtain j where j: "j < length page" "en_section en = section_key (page ! j)"
    by (auto simp: in_set_conv_nth)
  then have shown: "en_artboard en \<in> set (shown_slots (cv_sections c) (page ! j))"
    using en(1) board_regs_own(2) [OF ok(1) nth_mem [OF j(1)]] by (simp add: valid_entry_def)
  have "map_option ab_kids (entry_artboard page en) = Some (content_of (ds_arts (page ! j)) (en_artboard en))"
    using en(2) secs_ok_nth(3) [OF ok(1) j(1)] by (auto simp: entry_artboard_def content_of_def j(2))
  then show "\<exists>s' \<in> set page. section_key s' = en_section en \<and> en_artboard en \<in> set (shown_slots (cv_sections c) s') \<and>
      map_option ab_kids (entry_artboard page en) = Some (content_of (ds_arts s') (en_artboard en))"
    using shown j by (intro bexI [of _ "page ! j"]) auto
qed

text \<open>After a deletion and a drag on the page of the alternatives.\<close>

definition page_events :: "board_event list" where
  "page_events =
     [SettleRead (Some Map.empty), FlushEffects, SectionClick 1 [1, 1, 0, 1, 0, 0], SectionClick 1 [1, 1, 0, 1, 0, 1, 3],
      SectionClick 1 [1, 1, 0, 1, 0, 1, 3], SectionClick 2 [1, 0, 0, 1, 1]]"

theorem pages_show_screens_witness:
  "let b = fold (board_step alternatives_page) page_events (board_mount None); c = bd_canvas b; s = alternatives_page ! 1
   in map fst (slot_cards (section_view (cv_sections c) (ds_id s) (ds_title s) (ds_subtitle s) (ds_gap s) (ds_arts s) (ds_rest s)
        (bd_menus b 1))) = map Str (shown_slots (cv_sections c) s)"
proof -
  have "list_all read_ok page_events"
    by (simp add: page_events_def orders_ok_def saved_of_def no_saved_def)
  moreover have "1 < length alternatives_page" by (simp add: alternatives_page_def)
  ultimately show ?thesis
    using pages_show_screens [OF disjI2 [OF refl] _ refl refl _ refl refl refl refl, of page_events 1 None]
    by (simp add: Let_def comp_def)
qed

end
