(* ===== verification/Spec2Isabelle.thy ===== *)
theory Spec2Isabelle
  imports App Old_Build Canvas_Catalogue Canvas_Memo Canvas_Inline Canvas_Focus Canvas_Zoom React_Theme Bet_View Pages
begin

text \<open>
  Adivento is a prediction market for play money: a Rails application and, in JavaScript, the script of
  its pages, a React edition of its design system, and the canvas and wireframes the design is shown
  with. This development models the JavaScript and proves what makes it correct.

  \<^bold>\<open>Parts of the program and how they interact.\<close>
  \<^item> \<open>app/assets/javascripts/adivento.js\<close> enhances the markup of a page. \<open>Adivento.init\<close> starts the theme, the
    delegated click handlers of tabs and sheets, the charts and the tickets; order books and live prices
    are started by the page. The components share nothing but the document: each finds its elements by
    their attributes, and events bubble through the listeners of several components.
  \<^item> \<open>docs/design/system/react\<close> holds the same components for React: functions from properties to element
    trees, a ticket with its own state, and a theme provider.
  \<^item> \<open>docs/design/wireframes/v1/design-canvas.jsx\<close> is the canvas: sections of artboards that can be
    renamed, reordered, deleted, focused and exported, saved to a sidecar file through a host, on a
    viewport that pans and zooms.
  \<^item> \<open>wireframe-kit.jsx\<close>, \<open>wireframe-dark.jsx\<close> and \<open>wireframes-*.jsx\<close> are primitives and the screens drawn with
    them; \<open>Wireframes.html\<close> and \<open>v2/Alternatives.html\<close> put the screens on the canvas.

  \<^bold>\<open>Values.\<close> \<open>Js_Number\<close> has JavaScript's numbers over the rounding of \<open>Binary64\<close> (exact rationals,
  infinities, both zeros, not-a-number), \<open>Js_String\<close> parsing and printing of numbers, \<open>Js_Uri\<close> percent
  encoding. Strings are lists of the bytes of their UTF-8 encoding; white space is that of the language, inside ASCII and outside.
  \<open>Dom\<close> is the document (elements in document order with parents), \<open>Dom_Frame\<close> which cells an operation
  writes and an observation reads, \<open>Jsx\<close> element trees with styles, handlers and bubbling.

  \<^bold>\<open>Components and theories.\<close>
  \<^item> \<open>Theme\<close>, \<open>Chart\<close>, \<open>Segments\<close>, \<open>Sheet\<close>, \<open>Orderbook\<close>, \<open>Ticket\<close>, \<open>Live\<close>: one member of \<open>Adivento\<close> each. State is
    passed explicitly: \<open>page\<close> (document, storage, animation frames, listeners), \<open>sheets\<close> (document, scrims,
    timers), \<open>live_state\<close>; every handler is one definition with the branches of the code.
  \<^item> \<open>App\<close> puts them on one page: \<open>app_init\<close> is \<open>Adivento.init\<close>, \<open>app_step\<close> any event after it.
  \<^item> \<open>Old_Build\<close>: \<open>system/dist/adivento.js\<close>, an older build with another theme; \<open>old_app_step\<close> is a page that uses it.
  \<^item> \<open>React_Kit\<close>, \<open>React_Theme\<close>, \<open>Bet_View\<close>: \<open>atoms.jsx\<close>, \<open>charts.jsx\<close>, \<open>market.jsx\<close>, \<open>theme.jsx\<close>.
  \<^item> \<open>Canvas_Order\<close> (identifiers, orders, patches), \<open>Canvas_State\<close> (\<open>DesignCanvas\<close> and the sidecar),
    \<open>Canvas_Viewport\<close> (\<open>DCViewport\<close>), \<open>Canvas_Zoom\<close> (what its zoom keeps in place), \<open>Canvas_Frame\<close> (dragging and menu), \<open>Canvas_Focus\<close> (registries and keys),
    \<open>Canvas_Memo\<close> (how a section keeps its order between renders, \<open>useMemo\<close>), \<open>Canvas_View\<close> (trees of \<open>DCSection\<close>, \<open>DCArtboardFrame\<close>, \<open>DCEditable\<close>), \<open>Canvas_Overlay\<close> (tree of \<open>DCFocusOverlay\<close>
    and of the viewport), \<open>Canvas_Export\<close> (\<open>dcExport\<close>: fonts, clone, documents), \<open>Canvas_Inline\<close> (its images and
    how it ends).
  \<^item> \<open>Canvas_Board\<close> puts the canvas together: \<open>board\<close> is all its state but the viewport's, \<open>board_step\<close> any event of a
    user, a timer, the network or React, with what React unmounts after it. \<open>Canvas_Catalogue\<close> is the abstract
    specification: shelves of labelled cards, changed by intents.
  \<^item> \<open>Wf_Kit\<close>, \<open>Wf_Dark\<close>: \<open>window.WF\<close> and \<open>window.WFD\<close>; \<open>Screens_Web\<close>, \<open>Screens_Mech\<close>, \<open>Screens_Mobile\<close>, \<open>Screens_Bo\<close>,
    \<open>Screens_Extra\<close>, \<open>Screens_Alt\<close>: one definition per screen, collected in \<open>Screens\<close>. \<open>Pages\<close> has the two
    pages: their sections, artboards and the brief, as arguments of the canvas of \<open>Canvas_Board\<close>.

  \<^bold>\<open>Interfaces.\<close> The locale \<open>rounding\<close> of \<open>Binary64\<close> states the laws of rounding to nearest and carries the
  bounds of all arithmetic; it is interpreted on the code's rounding (\<open>b64\<close>). The locales \<open>observer\<close> and
  \<open>stable_observer\<close> of \<open>Dom_Frame\<close> state when what is read from the document survives an operation that
  writes elsewhere; \<open>App\<close> interprets them on what the theme controls and the tickets show. The locales
  \<open>edit_law\<close> and \<open>canvas_law\<close> of \<open>Canvas_Board\<close> state when a fact about the canvas survives its operations; they
  are interpreted on what is saved, on the clock, on the saved orders, on what is shown and, for the runs
  in which React has not flushed its effects (\<open>flushed\<close> is false), on what waits for the first flush.

  \<^bold>\<open>What the lemmas show.\<close>
  \<^item> Pages: controls, scrims, tabs, tickets and live values keep their invariants over all events
    (\<open>theme_controls_agree\<close>, \<open>sheet_scrim_agree\<close>, \<open>live_values\<close>, \<open>app_parts_agree\<close> below for all of them at once);
    payouts are within 5/8 of the exact value; charts stay in their boxes; the vanilla and the React
    editions agree (\<open>ticket_agrees_with_react\<close>, \<open>react_chart_agrees\<close>, \<open>react_theme_mirrors\<close>), and
    so do the builds (\<open>old_build_agrees\<close>).
  \<^item> Canvas: the board refines the catalogue (\<open>board_refines\<close>); once the read has settled a reload shows what any events left (\<open>board_reload\<close>), only an armed delete row removes
    an artboard (\<open>board_delete_only\<close>), sections, overlay, drags and menus stay consistent (\<open>board_consistent\<close>);
    the two computations of an order agree through the memo of the one (\<open>canvas_orders_agree\<close>, \<open>memo_goes_stale\<close>), the scale keeps its bounds, zooming keeps the point under the cursor in
    place up to a bounded rounding error, dragging commits what it shows,
    collecting fonts ends and is complete, inlining images does not depend on the order of arrival.
  \<^item> Kit and screens: the style of a caller wins, bars mark one entry; on both pages the canvas shows
    the screen of each artboard that is left, once and in its frame (\<open>pages_show_screens\<close>).
  \<^item> Theorems about what the code does but should not: listeners that double, scrims that leak or get
    lost, a zoom that stays not-a-number, a sparkline of one point, an order of artboards that are gone.

  \<^bold>\<open>Parameters.\<close> Computed styles (\<open>css\<close>), selectors written in the page (\<open>qs\<close>, which may report a malformed
  one), random draws (\<open>rnd\<close>), \<open>Math.exp\<close> (\<open>expf\<close>), the layout of the browser, the network of the export
  (\<open>fetch\<close>, \<open>resolve\<close>, \<open>to_data\<close>), its style objects (\<open>get_bg\<close>, \<open>set_bg\<close>, \<open>others\<close> and the values a browser
  takes for valid, \<open>valid\<close>, under the laws \<open>style_laws\<close>; \<open>flush_style\<close>), whether it can load and draw a
  picture (\<open>loads\<close>, \<open>draw\<close>), and the children of artboards.

  \<^bold>\<open>Bounds.\<close> Coordinates: up to \<open>2 ^ 32\<close> points, beyond the length of an array. Payouts: whole stakes up to
  \<open>2 ^ 40\<close> and prices of 1 to 100 cents. Pools: up to \<open>2 ^ 52\<close>. Zooming: coordinates up to \<open>2 ^ 24\<close> pixels and bounds with a ratio
  of at most 256 (the defaults have 80). No fuel is used except \<open>dec_exp_from\<close> and
  \<open>shortest_dec\<close> in \<open>Js_String\<close>, whose counts cover the exponents and the 17 digits of a binary64 number.

  \<^bold>\<open>Not modelled.\<close> The React entry point (re-exports). Of the export: serialisation and rasterisation, which
  are the browser's. React itself, beyond the moments at which it
  runs effects; keys and refs; cancelling of default actions; colours set while the pointer hovers. The
  removal of child elements when \<open>textContent\<close> or \<open>innerHTML\<close> is assigned (the document keeps the
  text apart from the elements). The members of the older builds other than the theme repeat the application file line by line and share its
  definitions; the copies of the canvas and the kit under \<open>v2\<close> repeat the files under \<open>v1\<close>. The end-to-end tests. The Ruby code, which is not JavaScript.
\<close>

subsection \<open>The page as a whole\<close>

text \<open>
  C1. The widgets of a page do not disturb each other. On any page whose labels, price texts and ticket
  fields are different elements and whose tickets are not nested, after start-up and any sequence of
  clicks anywhere, edits of fields, clicks on scrims, calls of the theme, sheet and live interfaces,
  live ticks with any random draws and passing time, the theme controls show the theme in force and
  every ticket shows the payout and the profit of its own selection and stake.
\<close>

theorem app_parts_agree:
  assumes "parts_apart (p_dom p)"
  shows "let a = fold (app_step css qs) es (app_init css body p)
    in shows_theme (theme_get (ap_page a)) (app_dom a) \<and>
       list_all (\<lambda>tk. ticket_shows (app_dom a) tk (ticket_input (app_dom a) tk))
         (query_all (app_dom a) (has_attr (app_dom a) ''data-ds-ticket''))"
  using app_ok_run [OF app_ok_init [OF assms]]
  by (fastforce simp: Let_def app_ok_but_def ticket_roots_def list_all_iff)

text \<open>The page of the ticket instance with a theme button and its label.\<close>

definition shop_dom :: dom where
  "shop_dom = ticket_dom\<lparr>d_size := 9, d_el := (d_el ticket_dom)
     (7 := blank_elem\<lparr>e_attrs := [''data-ds-theme-toggle'' \<mapsto> []]\<rparr>,
      8 := blank_elem\<lparr>e_attrs := [''data-ds-theme-label'' \<mapsto> []]\<rparr>)\<rparr>"

definition shop_page :: page where
  "shop_page = demo_page\<lparr>p_dom := shop_dom\<rparr>"

lemma shop_apart: "parts_apart shop_dom"
proof -
  have "query_all shop_dom (has_attr shop_dom ''data-ds-ticket'') = [1]"
    "ticket_field shop_dom 1 ''data-ticket-payout'' = Some 5"
    "ticket_field shop_dom 1 ''data-ticket-profit'' = Some 6" "\<not> below shop_dom 1 1" by code_simp+
  then show ?thesis
    by (simp add: parts_apart_def ticket_fields_apart_def)
      (simp add: shop_dom_def ticket_dom_def has_attr_def get_attr_def blank_elem_def)
qed

theorem app_parts_agree_witness:
  "let a = fold (app_step (\<lambda>_ _ _. []) no_selector) [app_event.Click 3, app_event.Edit 4 ''25'', app_event.Click 7]
         (app_init (\<lambda>_ _ _. []) 0 shop_page)
   in shows_theme (theme_get (ap_page a)) (app_dom a) \<and>
      list_all (\<lambda>tk. ticket_shows (app_dom a) tk (ticket_input (app_dom a) tk))
        (query_all (app_dom a) (has_attr (app_dom a) ''data-ds-ticket''))"
  by (rule app_parts_agree) (simp add: shop_page_def shop_apart)

end
